(* ===== verification/Prelude.thy ===== *)
theory Prelude
  imports Complex_Main "HOL-Library.Char_ord" "HOL-Library.List_Lexorder"
    "HOL-Library.Product_Lexorder" "HOL-Library.Sublist" "HOL-Library.Log_Nat"
begin

text \<open>
  The vocabulary every component of the development shares: Python exceptions and the
  effect of a Python statement sequence on a state (a value or an exception, and in both
  cases the state reached so far), decimal arithmetic as Python's \<open>decimal\<close> module
  and PostgreSQL's \<open>NUMERIC\<close> do it, the strings the services build, and the lemmas on
  lists, sums and sequencing that the component proofs run on.
\<close>

section \<open>Proof collections\<close>

named_theorems op_simps "symbolic execution of operations"
named_theorems op_Inr "what a successful operation did"
named_theorems wp_simps "weakest preconditions"
named_theorems keeps_intros "an operation keeps a state predicate"

section \<open>Exceptions and messages\<close>

type_synonym uuid = nat
type_synonym time = int

text \<open>
  An f-string is kept as its fragments: literal text, decimals and numbers. The rendering
  of a decimal never contains a letter other than an exponent's \<open>E\<close>, so whether a
  message contains a word is decided by its literal fragments.
\<close>

datatype frag = Txt string | Dec rat | Num int

type_synonym fstr = "frag list"

datatype exn =
    HTTPException int fstr
  | ValueError fstr
  | TypeError string
  | KeyError string
  | InvalidOperation
  | DivisionByZero
  | IntegrityError string
  | DataError string
  | StatementError string

fun frag_has :: "string \<Rightarrow> frag \<Rightarrow> bool" where
  "frag_has w (Txt t) = sublist w t"
| "frag_has w (Dec d) = False"
| "frag_has w (Num n) = False"

definition fstr_has :: "string \<Rightarrow> fstr \<Rightarrow> bool" where
  "fstr_has w m = list_ex (frag_has w) m"

section \<open>Operations on a state\<close>

text \<open>
  A Python call on a state is a function to the value or exception and the state reached.
  An exception does not undo what was done before it: undoing is the session's business.
\<close>

type_synonym ('s, 'a) op = "'s \<Rightarrow> (exn + 'a) \<times> 's"

definition op_return :: "'a \<Rightarrow> ('s, 'a) op" where
  "op_return x = (\<lambda>s. (Inr x, s))"

definition op_raise :: "exn \<Rightarrow> ('s, 'a) op" where
  "op_raise e = (\<lambda>s. (Inl e, s))"

definition op_bind :: "('s, 'a) op \<Rightarrow> ('a \<Rightarrow> ('s, 'b) op) \<Rightarrow> ('s, 'b) op" where
  "op_bind m f = (\<lambda>s. case m s of (Inl e, s') \<Rightarrow> (Inl e, s') | (Inr x, s') \<Rightarrow> f x s')"

definition op_get :: "('s \<Rightarrow> 'a) \<Rightarrow> ('s, 'a) op" where
  "op_get f = (\<lambda>s. (Inr (f s), s))"

definition op_modify :: "('s \<Rightarrow> 's) \<Rightarrow> ('s, unit) op" where
  "op_modify f = (\<lambda>s. (Inr (), f s))"

definition op_lift :: "exn + 'a \<Rightarrow> ('s, 'a) op" where
  "op_lift r = (\<lambda>s. (r, s))"

definition op_assert :: "bool \<Rightarrow> exn \<Rightarrow> ('s, unit) op" where
  "op_assert b e = (if b then op_return () else op_raise e)"

fun op_seq :: "('s, unit) op list \<Rightarrow> ('s, unit) op" where
  "op_seq [] = op_return ()"
| "op_seq (m # ms) = op_bind m (\<lambda>_. op_seq ms)"

fun op_for :: "'a list \<Rightarrow> ('a \<Rightarrow> ('s, 'b) op) \<Rightarrow> ('s, unit) op" where
  "op_for [] f = op_return ()"
| "op_for (x # xs) f = op_bind (f x) (\<lambda>_. op_for xs f)"

text \<open>\<open>except ValueError as exc\<close>: the state changes made before the raise stay.\<close>

definition op_catch_ValueError ::
  "('s, 'a) op \<Rightarrow> (fstr \<Rightarrow> ('s, 'a) op) \<Rightarrow> ('s, 'a) op" where
  "op_catch_ValueError m h =
     (\<lambda>s. case m s of (Inl (ValueError msg), s') \<Rightarrow> h msg s' | r \<Rightarrow> r)"

lemmas op_defs = op_return_def op_raise_def op_get_def op_modify_def op_lift_def

lemma op_bind_app [op_simps]:
  "op_bind m f s = (case m s of (Inl e, s') \<Rightarrow> (Inl e, s') | (Inr x, s') \<Rightarrow> f x s')"
  by (simp add: op_bind_def)

lemma op_return_app [op_simps]: "op_return x s = (Inr x, s)"
  by (simp add: op_return_def)

lemma op_raise_app [op_simps]: "op_raise e s = (Inl e, s)"
  by (simp add: op_raise_def)

lemma op_get_app [op_simps]: "op_get f s = (Inr (f s), s)"
  by (simp add: op_get_def)

lemma op_modify_app [op_simps]: "op_modify f s = (Inr (), f s)"
  by (simp add: op_modify_def)

lemma op_lift_app [op_simps]: "op_lift r s = (r, s)"
  by (simp add: op_lift_def)

lemma op_assert_app [op_simps]:
  "op_assert b e s = (if b then Inr () else Inl e, s)"
  by (simp add: op_assert_def op_defs)

lemma op_bind_return [simp]: "op_bind (op_return x) f = f x"
  by (simp add: op_bind_def op_return_def)

lemma op_bind_assoc: "op_bind (op_bind m f) g = op_bind m (\<lambda>x. op_bind (f x) g)"
  by (rule ext) (simp add: op_bind_def split: prod.splits sum.splits)

lemma op_bind_Inr [op_Inr]:
  "op_bind m f s = (Inr y, s') \<longleftrightarrow> (\<exists>x t. m s = (Inr x, t) \<and> f x t = (Inr y, s'))"
  by (auto simp: op_bind_def split: prod.splits sum.splits)

lemma op_return_Inr [op_Inr]: "op_return x s = (Inr y, s') \<longleftrightarrow> y = x \<and> s' = s"
  by (auto simp: op_simps)

lemma op_raise_Inr [op_Inr]: "op_raise e s = (Inr y, s') \<longleftrightarrow> False"
  by (simp add: op_simps)

lemma op_get_Inr [op_Inr]: "op_get f s = (Inr y, s') \<longleftrightarrow> y = f s \<and> s' = s"
  by (auto simp: op_simps)

lemma op_modify_Inr [op_Inr]: "op_modify f s = (Inr y, s') \<longleftrightarrow> s' = f s"
  by (auto simp: op_simps)

lemma op_lift_Inr [op_Inr]: "op_lift r s = (Inr y, s') \<longleftrightarrow> r = Inr y \<and> s' = s"
  by (auto simp: op_simps)

lemma op_assert_Inr [op_Inr]: "op_assert b e s = (Inr y, s') \<longleftrightarrow> b \<and> s' = s"
  by (auto simp: op_simps)

lemma op_seq_Inr [op_Inr]:
  "op_seq [] s = (Inr u, s') \<longleftrightarrow> s' = s"
  "op_seq (m # ms) s = (Inr u, s') \<longleftrightarrow> (\<exists>v t. m s = (Inr v, t) \<and> op_seq ms t = (Inr u, s'))"
  by (auto simp: op_return_Inr op_bind_Inr)

lemma op_bind_Inl:
  "op_bind m f s = (Inl e, s') \<longleftrightarrow>
     m s = (Inl e, s') \<or> (\<exists>x t. m s = (Inr x, t) \<and> f x t = (Inl e, s'))"
  by (auto simp: op_bind_def split: prod.splits sum.splits)

lemma op_bindE:
  assumes "op_bind m f s = (r, s')"
  obtains (err) e where "m s = (Inl e, s')" "r = Inl e"
  | (ok) x t where "m s = (Inr x, t)" "f x t = (r, s')"
  using assms by (auto simp: op_bind_def split: prod.splits sum.splits)

section \<open>Weakest preconditions\<close>

text \<open>
  \<open>wp m s Q E\<close>: run from \<open>s\<close>, the operation either returns and \<open>Q\<close> holds of
  the value and the state reached, or raises and \<open>E\<close> holds of the exception and the
  state. With \<open>E\<close> false it is total correctness, with \<open>E\<close> true partial correctness.
  The rules are equations, so that \<open>simp\<close> computes the precondition of a whole handler.
\<close>

definition wp ::
  "('s, 'a) op \<Rightarrow> 's \<Rightarrow> ('a \<Rightarrow> 's \<Rightarrow> bool) \<Rightarrow> (exn \<Rightarrow> 's \<Rightarrow> bool) \<Rightarrow> bool" where
  "wp m s Q E \<longleftrightarrow> (case m s of (Inl e, s') \<Rightarrow> E e s' | (Inr x, s') \<Rightarrow> Q x s')"

abbreviation partial :: "exn \<Rightarrow> 's \<Rightarrow> bool" where "partial \<equiv> \<lambda>_ _. True"
abbreviation total :: "exn \<Rightarrow> 's \<Rightarrow> bool" where "total \<equiv> \<lambda>_ _. False"

lemma wp_Inr: "wp m s Q E \<Longrightarrow> m s = (Inr x, s') \<Longrightarrow> Q x s'"
  by (simp add: wp_def)

lemma wp_Inl: "wp m s Q E \<Longrightarrow> m s = (Inl e, s') \<Longrightarrow> E e s'"
  by (simp add: wp_def)

lemma wp_total: "wp m s Q total \<longleftrightarrow> (\<exists>x s'. m s = (Inr x, s') \<and> Q x s')"
  by (auto simp: wp_def split: prod.splits sum.splits)

lemma wp_raises: "wp m s (\<lambda>_ _. False) E \<longleftrightarrow> (\<exists>e s'. m s = (Inl e, s') \<and> E e s')"
  by (auto simp: wp_def split: prod.splits sum.splits)

lemma wpI:
  "(\<And>x s'. m s = (Inr x, s') \<Longrightarrow> Q x s') \<Longrightarrow> (\<And>e s'. m s = (Inl e, s') \<Longrightarrow> E e s') \<Longrightarrow> wp m s Q E"
  by (auto simp: wp_def split: prod.splits sum.splits)

lemma wp_True [simp]: "wp m s (\<lambda>_ _. True) (\<lambda>_ _. True)"
  by (simp add: wp_def split: prod.splits sum.splits)

lemma wp_app: "m s = (Inr x, t) \<Longrightarrow> wp m s Q E \<longleftrightarrow> Q x t"
  by (simp add: wp_def)

lemma wp_mono:
  "wp m s Q E \<Longrightarrow> (\<And>x t. Q x t \<Longrightarrow> Q' x t) \<Longrightarrow> (\<And>e t. E e t \<Longrightarrow> E' e t) \<Longrightarrow> wp m s Q' E'"
  by (auto simp: wp_def split: prod.splits sum.splits)

lemma wp_bind [wp_simps]: "wp (op_bind m f) s Q E \<longleftrightarrow> wp m s (\<lambda>x t. wp (f x) t Q E) E"
  by (simp add: wp_def op_bind_def split: prod.splits sum.splits)

lemma wp_return [wp_simps]: "wp (op_return x) s Q E \<longleftrightarrow> Q x s"
  by (simp add: wp_def op_simps)

lemma wp_raise [wp_simps]: "wp (op_raise e) s Q E \<longleftrightarrow> E e s"
  by (simp add: wp_def op_simps)

lemma wp_get [wp_simps]: "wp (op_get f) s Q E \<longleftrightarrow> Q (f s) s"
  by (simp add: wp_def op_simps)

lemma wp_modify [wp_simps]: "wp (op_modify f) s Q E \<longleftrightarrow> Q () (f s)"
  by (simp add: wp_def op_simps)

lemma wp_lift [wp_simps]: "wp (op_lift r) s Q E \<longleftrightarrow> (case r of Inl e \<Rightarrow> E e s | Inr x \<Rightarrow> Q x s)"
  by (simp add: wp_def op_simps split: sum.splits)

lemma wp_assert [wp_simps]: "wp (op_assert b e) s Q E \<longleftrightarrow> (if b then Q () s else E e s)"
  by (simp add: wp_def op_simps)

lemma wp_if [wp_simps]:
  "wp (if b then m else n) s Q E \<longleftrightarrow> (if b then wp m s Q E else wp n s Q E)"
  by simp

lemma wp_case_option [wp_simps]:
  "wp (case x of None \<Rightarrow> m | Some y \<Rightarrow> f y) s Q E \<longleftrightarrow>
     (case x of None \<Rightarrow> wp m s Q E | Some y \<Rightarrow> wp (f y) s Q E)"
  by (cases x) simp_all

lemma wp_case_sum [wp_simps]:
  "wp (case x of Inl a \<Rightarrow> f a | Inr b \<Rightarrow> g b) s Q E \<longleftrightarrow>
     (case x of Inl a \<Rightarrow> wp (f a) s Q E | Inr b \<Rightarrow> wp (g b) s Q E)"
  by (cases x) simp_all

lemma wp_case_prod [wp_simps]:
  "wp (case p of (a, b) \<Rightarrow> f a b) s Q E \<longleftrightarrow> (case p of (a, b) \<Rightarrow> wp (f a b) s Q E)"
  by (cases p) simp

lemma wp_seq_Nil [wp_simps]: "wp (op_seq []) s Q E \<longleftrightarrow> Q () s"
  by (simp add: wp_return)

lemma wp_seq_Cons [wp_simps]:
  "wp (op_seq (m # ms)) s Q E \<longleftrightarrow> wp m s (\<lambda>_ t. wp (op_seq ms) t Q E) E"
  by (simp add: wp_bind)

lemma wp_for_Nil [wp_simps]: "wp (op_for [] f) s Q E \<longleftrightarrow> Q () s"
  by (simp add: wp_return)

lemma wp_for_Cons [wp_simps]:
  "wp (op_for (x # xs) f) s Q E \<longleftrightarrow> wp (f x) s (\<lambda>_ t. wp (op_for xs f) t Q E) E"
  by (simp add: wp_bind)

lemma wp_catch [wp_simps]:
  "wp (op_catch_ValueError m h) s Q E \<longleftrightarrow>
     wp m s Q (\<lambda>e t. case e of ValueError msg \<Rightarrow> wp (h msg) t Q E | _ \<Rightarrow> E e t)"
  by (simp add: wp_def op_catch_ValueError_def split: prod.splits sum.splits exn.splits)

text \<open>Inside a handler of \<open>ValueError\<close>, an operation that raises none is as outside.\<close>

definition no_ValueError :: "('s, 'a) op \<Rightarrow> bool" where
  "no_ValueError m \<longleftrightarrow> (\<forall>s msg. fst (m s) \<noteq> Inl (ValueError msg))"

lemma wp_no_ValueError [wp_simps]:
  "no_ValueError m \<Longrightarrow>
     wp m s Q (\<lambda>e t. case e of ValueError msg \<Rightarrow> H msg t | _ \<Rightarrow> True) \<longleftrightarrow> wp m s Q partial"
  by (cases "m s") (auto simp: no_ValueError_def wp_def split: sum.splits exn.splits,
      metis fst_conv)

lemma no_ValueError_bind:
  "no_ValueError m \<Longrightarrow> (\<And>x. no_ValueError (f x)) \<Longrightarrow> no_ValueError (op_bind m f)"
proof (unfold no_ValueError_def, intro allI)
  fix s msg assume m: "\<forall>s msg. fst (m s) \<noteq> Inl (ValueError msg)"
    and f: "\<And>x. \<forall>s msg. fst (f x s) \<noteq> Inl (ValueError msg)"
  obtain r t where "m s = (r, t)" by fastforce
  moreover from this m have "r \<noteq> Inl (ValueError msg)" by (metis fst_conv)
  ultimately show "fst (op_bind m f s) \<noteq> Inl (ValueError msg)"
    using f by (cases r) (simp_all add: op_bind_app)
qed

section \<open>Keeping a state predicate\<close>

text \<open>
  An operation keeps a predicate when the state it leaves satisfies it again, whether the
  operation returned or raised.
\<close>

definition keeps :: "('s \<Rightarrow> bool) \<Rightarrow> ('s, 'a) op \<Rightarrow> bool" where
  "keeps I m \<longleftrightarrow> (\<forall>s. I s \<longrightarrow> I (snd (m s)))"

lemma keepsD: "keeps I m \<Longrightarrow> I s \<Longrightarrow> m s = (r, s') \<Longrightarrow> I s'"
  by (metis keeps_def snd_conv)

lemma keepsI: "(\<And>s r s'. I s \<Longrightarrow> m s = (r, s') \<Longrightarrow> I s') \<Longrightarrow> keeps I m"
  unfolding keeps_def by (metis prod.collapse)

lemma keeps_return [keeps_intros]: "keeps I (op_return x)"
  by (simp add: keeps_def op_simps)

lemma keeps_raise [keeps_intros]: "keeps I (op_raise e)"
  by (simp add: keeps_def op_simps)

lemma keeps_get [keeps_intros]: "keeps I (op_get f)"
  by (simp add: keeps_def op_simps)

lemma keeps_lift [keeps_intros]: "keeps I (op_lift r)"
  by (simp add: keeps_def op_simps)

lemma keeps_assert [keeps_intros]: "keeps I (op_assert b e)"
  by (simp add: keeps_def op_simps)

lemma keeps_bind [keeps_intros]:
  assumes "keeps I m" and "\<And>x. keeps I (f x)"
  shows "keeps I (op_bind m f)"
  using assms by (force simp: keeps_def op_bind_def split: prod.splits sum.splits)

lemma keeps_if [keeps_intros]:
  "(b \<Longrightarrow> keeps I m) \<Longrightarrow> (\<not> b \<Longrightarrow> keeps I n) \<Longrightarrow> keeps I (if b then m else n)"
  by simp

lemma keeps_case_option [keeps_intros]:
  "(x = None \<Longrightarrow> keeps I m) \<Longrightarrow> (\<And>y. x = Some y \<Longrightarrow> keeps I (f y)) \<Longrightarrow>
     keeps I (case x of None \<Rightarrow> m | Some y \<Rightarrow> f y)"
  by (cases x) auto

lemma keeps_case_prod [keeps_intros]:
  "(\<And>a b. p = (a, b) \<Longrightarrow> keeps I (f a b)) \<Longrightarrow> keeps I (case p of (a, b) \<Rightarrow> f a b)"
  by (cases p) auto

lemma keeps_case_sum [keeps_intros]:
  "(\<And>a. x = Inl a \<Longrightarrow> keeps I (f a)) \<Longrightarrow> (\<And>b. x = Inr b \<Longrightarrow> keeps I (g b)) \<Longrightarrow>
     keeps I (case x of Inl a \<Rightarrow> f a | Inr b \<Rightarrow> g b)"
  by (cases x) auto

lemma keeps_let [keeps_intros]: "keeps I (f x) \<Longrightarrow> keeps I (let y = x in f y)"
  by simp

lemma keeps_seq_Nil [keeps_intros]: "keeps I (op_seq [])"
  by (simp add: keeps_return)

lemma keeps_seq_Cons [keeps_intros]:
  "keeps I m \<Longrightarrow> keeps I (op_seq ms) \<Longrightarrow> keeps I (op_seq (m # ms))"
  by (simp add: keeps_bind)

lemma keeps_for [keeps_intros]:
  "(\<And>x. x \<in> set xs \<Longrightarrow> keeps I (f x)) \<Longrightarrow> keeps I (op_for xs f)"
  by (induction xs) (auto intro!: keeps_intros)

lemma keeps_catch [keeps_intros]:
  assumes "keeps I m" and "\<And>msg. keeps I (h msg)"
  shows "keeps I (op_catch_ValueError m h)"
proof -
  have "I (snd (op_catch_ValueError m h s))" if "I s" for s
  proof -
    obtain r s' where ms: "m s = (r, s')" by fastforce
    with assms(1) that have "I s'" by (rule keepsD)
    with assms(2) ms show ?thesis
      by (auto simp: op_catch_ValueError_def keeps_def split: sum.splits exn.splits)
  qed
  then show ?thesis by (simp add: keeps_def)
qed

lemma keeps_modify: "(\<And>s. I s \<Longrightarrow> I (f s)) \<Longrightarrow> keeps I (op_modify f)"
  by (simp add: keeps_def op_simps)


section \<open>Decimal arithmetic\<close>

text \<open>
  A \<open>Decimal\<close> and a \<open>NUMERIC\<close> column value are rationals. What makes them differ
  from rationals is rounding: to a number of places with a rounding mode (\<open>quantize\<close>,
  which raises \<open>InvalidOperation\<close> when the coefficient needs more than the 28 digits of
  Python's default context), to 28 significant digits after an arithmetic operation
  (\<open>ctx_round\<close>), and half away from zero when PostgreSQL stores a value in a
  \<open>NUMERIC(p, s)\<close> column, which overflows at \<open>10 ^ (p - s)\<close>.
\<close>

definition round_half_even :: "rat \<Rightarrow> int" where
  "round_half_even x =
     (let f = \<lfloor>x\<rfloor>; r = x - of_int f
      in if r < 1 / 2 then f else if 1 / 2 < r then f + 1 else if even f then f else f + 1)"

definition round_down :: "rat \<Rightarrow> int" where
  "round_down x = (if 0 \<le> x then \<lfloor>x\<rfloor> else \<lceil>x\<rceil>)"

definition round_half_up :: "rat \<Rightarrow> int" where
  "round_half_up x = (if 0 \<le> x then \<lfloor>x + 1 / 2\<rfloor> else \<lceil>x - 1 / 2\<rceil>)"

definition decimal_prec :: nat where
  "decimal_prec = 28"

definition quantize :: "(rat \<Rightarrow> int) \<Rightarrow> nat \<Rightarrow> rat \<Rightarrow> exn + rat" where
  "quantize rnd p x =
     (let n = rnd (x * 10 ^ p)
      in if 10 ^ decimal_prec \<le> \<bar>n\<bar> then Inl InvalidOperation else Inr (of_int n / 10 ^ p))"

definition numeric :: "nat \<Rightarrow> nat \<Rightarrow> rat \<Rightarrow> exn + rat" where
  "numeric p s x =
     (let n = round_half_up (x * 10 ^ s)
      in if 10 ^ p \<le> \<bar>n\<bar> then Inl (DataError ''numeric field overflow'')
         else Inr (of_int n / 10 ^ s))"

definition adj_exp :: "rat \<Rightarrow> int" where
  "adj_exp x =
     (let (n, d) = quotient_of x;
          e = int (floorlog 10 (nat \<bar>n\<bar>)) - int (floorlog 10 (nat d))
      in if 10 powi e \<le> \<bar>x\<bar> then e else e - 1)"

definition ctx_round :: "rat \<Rightarrow> rat" where
  "ctx_round x =
     (if x = 0 then 0
      else let k = int decimal_prec - 1 - adj_exp x
           in of_int (round_half_even (x * 10 powi k)) / 10 powi k)"

definition dec_add :: "rat \<Rightarrow> rat \<Rightarrow> rat" where "dec_add a b = ctx_round (a + b)"
definition dec_sub :: "rat \<Rightarrow> rat \<Rightarrow> rat" where "dec_sub a b = ctx_round (a - b)"
definition dec_mul :: "rat \<Rightarrow> rat \<Rightarrow> rat" where "dec_mul a b = ctx_round (a * b)"
definition dec_div :: "rat \<Rightarrow> rat \<Rightarrow> exn + rat" where
  "dec_div a b = (if b = 0 then Inl DivisionByZero else Inr (ctx_round (a / b)))"

text \<open>A value with at most \<open>p\<close> decimal places.\<close>

definition on_grid :: "nat \<Rightarrow> rat \<Rightarrow> bool" where
  "on_grid p x \<longleftrightarrow> of_int \<lfloor>x * 10 ^ p\<rfloor> = x * 10 ^ p"

lemma on_gridI: "x = of_int n / 10 ^ p \<Longrightarrow> on_grid p x"
  by (simp add: on_grid_def)

lemma on_gridE:
  assumes "on_grid p x" obtains n where "x = of_int n / 10 ^ p"
proof
  show "x = of_int \<lfloor>x * 10 ^ p\<rfloor> / 10 ^ p"
    using assms by (auto simp: on_grid_def eq_divide_eq)
qed

lemma on_grid_zero [simp]: "on_grid p 0"
  by (simp add: on_grid_def)

lemma on_grid_add: "on_grid p x \<Longrightarrow> on_grid p y \<Longrightarrow> on_grid p (x + y)"
  by (elim on_gridE) (metis add_divide_distrib of_int_add on_gridI)

lemma on_grid_diff: "on_grid p x \<Longrightarrow> on_grid p y \<Longrightarrow> on_grid p (x - y)"
  by (elim on_gridE) (metis diff_divide_distrib of_int_diff on_gridI)

lemma on_grid_minus: "on_grid p x \<Longrightarrow> on_grid p (- x)"
  using on_grid_diff [of p 0 x] by simp

lemma on_grid_sum_list: "\<forall>x \<in> set xs. on_grid p (f x) \<Longrightarrow> on_grid p (\<Sum>x\<leftarrow>xs. f x)"
  by (induction xs) (auto intro: on_grid_add)

lemma on_grid_mult: "on_grid p x \<Longrightarrow> on_grid q y \<Longrightarrow> on_grid (p + q) (x * y)"
proof -
  assume "on_grid p x" "on_grid q y"
  then obtain m n where "x = of_int m / 10 ^ p" "y = of_int n / 10 ^ q" by (meson on_gridE)
  then have "x * y = of_int (m * n) / 10 ^ (p + q)" by (simp add: power_add)
  then show ?thesis by (rule on_gridI)
qed

lemma on_grid_mono: "on_grid p x \<Longrightarrow> p \<le> q \<Longrightarrow> on_grid q x"
proof -
  assume "on_grid p x" "p \<le> q"
  then obtain n where "x = of_int n / 10 ^ p" by (auto elim: on_gridE)
  moreover have "(10::rat) ^ q = 10 ^ p * 10 ^ (q - p)" using \<open>p \<le> q\<close> by (simp flip: power_add)
  ultimately show ?thesis by (intro on_gridI [of _ "n * 10 ^ (q - p)"]) (simp add: field_simps)
qed

lemma round_half_even_int [simp]: "round_half_even (of_int n) = n"
  by (simp add: round_half_even_def)

lemma round_half_up_int [simp]: "round_half_up (of_int n) = n"
proof -
  have "\<lfloor>of_int n + 1 / 2 :: rat\<rfloor> = n" by (simp add: floor_eq_iff)
  moreover have "\<lceil>of_int n - 1 / 2 :: rat\<rceil> = n" by (simp add: ceiling_eq_iff)
  ultimately show ?thesis by (simp add: round_half_up_def)
qed

lemma round_down_int [simp]: "round_down (of_int n) = n"
  by (simp add: round_down_def)

lemma round_half_even_near: "\<bar>of_int (round_half_even x) - x\<bar> \<le> 1 / 2"
proof -
  have "of_int \<lfloor>x\<rfloor> \<le> x" and "x < of_int \<lfloor>x\<rfloor> + 1" by linarith+
  then show ?thesis by (auto simp: round_half_even_def Let_def abs_le_iff)
qed

lemma round_half_even_nonneg: "0 \<le> x \<Longrightarrow> 0 \<le> round_half_even x"
  by (auto simp: round_half_even_def Let_def)

lemma round_half_even_mono: "x \<le> y \<Longrightarrow> round_half_even x \<le> round_half_even y"
proof (rule ccontr)
  assume le: "x \<le> y" and "\<not> round_half_even x \<le> round_half_even y"
  then have gt: "round_half_even y + 1 \<le> round_half_even x" by simp
  have "of_int (round_half_even x) \<le> x + 1 / 2" and "y - 1 / 2 \<le> of_int (round_half_even y)"
    using round_half_even_near [of x] round_half_even_near [of y] by linarith+
  moreover from gt have "(of_int (round_half_even y) :: rat) + 1 \<le> of_int (round_half_even x)"
    by (metis of_int_add of_int_le_iff of_int_1)
  ultimately have "x = y" using le by linarith
  with gt show False by simp
qed

lemma quantize_Inr:
  "quantize rnd p x = Inr y \<longleftrightarrow>
     \<bar>rnd (x * 10 ^ p)\<bar> < 10 ^ decimal_prec \<and> y = of_int (rnd (x * 10 ^ p)) / 10 ^ p"
  by (auto simp: quantize_def Let_def)

lemma quantize_Inl:
  "quantize rnd p x = Inl e \<longleftrightarrow>
     10 ^ decimal_prec \<le> \<bar>rnd (x * 10 ^ p)\<bar> \<and> e = InvalidOperation"
  by (auto simp: quantize_def Let_def)

lemma quantize_on_grid: "quantize rnd p x = Inr y \<Longrightarrow> on_grid p y"
  by (auto simp: quantize_Inr intro: on_gridI)

lemma quantize_half_even_near:
  assumes "quantize round_half_even p x = Inr y"
  shows "\<bar>y - x\<bar> \<le> 1 / (2 * 10 ^ p)"
proof -
  let ?n = "of_int (round_half_even (x * 10 ^ p)) :: rat"
  have "y - x = (?n - x * 10 ^ p) / 10 ^ p"
    using assms by (simp add: quantize_Inr field_simps)
  then have "\<bar>y - x\<bar> = \<bar>?n - x * 10 ^ p\<bar> / 10 ^ p" by simp
  also have "\<dots> \<le> (1 / 2) / 10 ^ p"
    by (intro divide_right_mono round_half_even_near) simp
  finally show ?thesis by simp
qed

lemma quantize_half_even_exact:
  assumes "on_grid p x" and "\<bar>x\<bar> < 10 ^ decimal_prec / 10 ^ p"
  shows "quantize round_half_even p x = Inr x"
proof -
  obtain n where x: "x = of_int n / 10 ^ p" using assms(1) by (rule on_gridE)
  with assms(2) have "\<bar>of_int n :: rat\<bar> < 10 ^ decimal_prec" by (simp add: field_simps)
  then have "\<bar>n\<bar> < 10 ^ decimal_prec"
    by (metis of_int_abs of_int_less_iff of_int_numeral of_int_power)
  with x show ?thesis by (simp add: quantize_Inr)
qed

lemma quantize_nonneg: "quantize round_half_even p x = Inr y \<Longrightarrow> 0 \<le> x \<Longrightarrow> 0 \<le> y"
  by (auto simp: quantize_Inr intro!: divide_nonneg_nonneg round_half_even_nonneg)

lemma quantize_down_bounds:
  assumes "quantize round_down p x = Inr y" and "0 \<le> x"
  shows "0 \<le> y" and "y \<le> x" and "x < y + 1 / 10 ^ p"
proof -
  have y: "y = of_int \<lfloor>x * 10 ^ p\<rfloor> / 10 ^ p"
    using assms by (simp add: quantize_Inr round_down_def)
  then show "0 \<le> y" using assms(2) by simp
  have "of_int \<lfloor>x * 10 ^ p\<rfloor> \<le> x * 10 ^ p" by (rule of_int_floor_le)
  with y show "y \<le> x" by (simp add: divide_le_eq)
  have "x * 10 ^ p < of_int \<lfloor>x * 10 ^ p\<rfloor> + 1" by linarith
  with y show "x < y + 1 / 10 ^ p" by (simp add: field_simps)
qed

lemma numeric_Inr:
  "numeric p s x = Inr y \<longleftrightarrow>
     \<bar>round_half_up (x * 10 ^ s)\<bar> < 10 ^ p \<and> y = of_int (round_half_up (x * 10 ^ s)) / 10 ^ s"
  by (auto simp: numeric_def Let_def)

lemma numeric_exact: "on_grid s x \<Longrightarrow> numeric p s x = Inr y \<Longrightarrow> y = x"
  by (erule on_gridE) (simp add: numeric_Inr)

lemma numeric_on_grid: "numeric p s x = Inr y \<Longrightarrow> on_grid s y"
  by (auto simp: numeric_Inr intro: on_gridI)

lemma numeric_stored:
  assumes "numeric 28 8 x = Inr a"
  shows "numeric 28 8 a = Inr a" and "numeric 38 18 a = Inr a"
proof -
  obtain n where a: "a = of_int n / 10 ^ 8" and n: "\<bar>n\<bar> < 10 ^ 28"
    using assms by (auto simp: numeric_Inr)
  then show "numeric 28 8 a = Inr a" by (simp add: numeric_Inr)
  have "a * 10 ^ 18 = of_int (n * 10 ^ 10)" using a by simp
  then have "round_half_up (a * 10 ^ 18) = n * 10 ^ 10" by (metis round_half_up_int)
  with a n show "numeric 38 18 a = Inr a" by (simp add: numeric_Inr)
qed

lemma quantize_numeric8: "quantize round_half_even 8 x = Inr a \<Longrightarrow> numeric 28 8 a = Inr a"
proof -
  assume "quantize round_half_even 8 x = Inr a"
  then obtain n where "a = of_int n / 10 ^ 8" "\<bar>n\<bar> < 10 ^ 28"
    by (auto simp: quantize_Inr decimal_prec_def)
  then show ?thesis by (simp add: numeric_Inr)
qed

lemma quantize_numeric18: "quantize round_half_even 8 x = Inr a \<Longrightarrow> numeric 38 18 a = Inr a"
  by (rule numeric_stored(2) [OF quantize_numeric8])

lemma numeric_int: "\<bar>n\<bar> < 10 ^ 20 \<Longrightarrow> numeric 28 8 (of_int n) = Inr (of_int n)"
proof -
  assume n: "\<bar>n\<bar> < 10 ^ 20"
  have "round_half_up (of_int n * 10 ^ 8 :: rat) = n * 10 ^ 8"
    using round_half_up_int [of "n * 10 ^ 8"] by simp
  with n show ?thesis by (simp add: numeric_Inr)
qed

lemma adj_exp_lower:
  assumes "x \<noteq> 0" shows "10 powi adj_exp x \<le> \<bar>x\<bar>"
proof (cases "quotient_of x")
  case (Pair n d)
  define a where "a = floorlog 10 (nat \<bar>n\<bar>)"
  define b where "b = floorlog 10 (nat d)"
  have d: "0 < d" using Pair by (rule quotient_of_denom_pos)
  have x: "x = of_int n / of_int d" using Pair by (rule quotient_of_div)
  with assms have n: "0 < nat \<bar>n\<bar>" by auto
  have "(10::nat) ^ (a - 1) \<le> nat \<bar>n\<bar>" and a: "0 < a"
    unfolding a_def using floorlog_bounds [of "nat \<bar>n\<bar>" 10] n floorlog_eq_zero_iff [of 10 "nat \<bar>n\<bar>"]
    by auto
  then have lo: "(10::rat) ^ (a - 1) \<le> \<bar>of_int n\<bar>"
    by (metis (mono_tags) abs_ge_zero int_nat_eq of_int_abs of_int_le_iff of_int_numeral
        of_int_power of_nat_le_iff of_nat_numeral of_nat_power)
  have "nat d < (10::nat) ^ b"
    unfolding b_def using floorlog_bounds [of "nat d" 10] d by auto
  then have hi: "of_int d < (10::rat) ^ b"
    by (metis d int_nat_eq less_le_not_le of_int_less_iff of_int_numeral of_int_power
        of_nat_less_iff of_nat_numeral of_nat_power)
  have "10 powi (int a - int b - 1) = (10::rat) ^ (a - 1) / 10 ^ b"
    using a by (cases a) (simp_all add: power_int_diff power_int_add)
  also have "\<dots> \<le> \<bar>of_int n\<bar> / of_int d"
    using lo hi d by (intro frac_le) auto
  also have "\<dots> = \<bar>x\<bar>" using x d by (simp add: abs_divide)
  finally have "10 powi (int a - int b - 1) \<le> \<bar>x\<bar>" .
  then show ?thesis by (simp add: adj_exp_def Pair Let_def a_def b_def)
qed

text \<open>Rounding never jumps over a value it could have returned.\<close>

lemma ctx_grid:
  assumes "x \<noteq> 0" "\<bar>x\<bar> < 10 ^ decimal_prec / 10 ^ p" "on_grid p g"
  obtains m where "g * 10 powi (int decimal_prec - 1 - adj_exp x) = of_int m"
proof -
  obtain n where g: "g = of_int n / 10 ^ p" using assms(3) by (rule on_gridE)
  have "(10::rat) powi adj_exp x < 10 powi (int decimal_prec - int p)"
    using adj_exp_lower [OF assms(1)] assms(2) by (simp add: power_int_diff)
  then have "adj_exp x < int decimal_prec - int p"
    by (metis less_le_not_le linorder_not_le one_le_numeral power_int_increasing)
  then have "int p \<le> int decimal_prec - 1 - adj_exp x" by simp
  then obtain j where k: "int decimal_prec - 1 - adj_exp x = int p + int j"
    using zle_iff_zadd by auto
  have "g * 10 powi (int decimal_prec - 1 - adj_exp x) = of_int (n * 10 ^ j)"
    by (simp add: g k power_int_add)
  then show ?thesis by (rule that)
qed

lemma ctx_round_ge:
  assumes "on_grid p g" "g \<le> x" "\<bar>x\<bar> < 10 ^ decimal_prec / 10 ^ p"
  shows "g \<le> ctx_round x"
proof (cases "x = 0")
  case False
  let ?K = "10 powi (int decimal_prec - 1 - adj_exp x) :: rat"
  obtain m where m: "g * ?K = of_int m" using False assms(3,1) by (rule ctx_grid)
  have "g * ?K \<le> x * ?K" using assms(2) by (simp add: mult_right_mono)
  then have "round_half_even (of_int m) \<le> round_half_even (x * ?K)"
    unfolding m by (rule round_half_even_mono)
  then have "g * ?K \<le> of_int (round_half_even (x * ?K))" using m by simp
  then show ?thesis using False by (simp add: ctx_round_def Let_def pos_le_divide_eq)
qed (use assms in \<open>simp add: ctx_round_def\<close>)

lemma ctx_round_le:
  assumes "on_grid p g" "x \<le> g" "\<bar>x\<bar> < 10 ^ decimal_prec / 10 ^ p"
  shows "ctx_round x \<le> g"
proof (cases "x = 0")
  case False
  let ?K = "10 powi (int decimal_prec - 1 - adj_exp x) :: rat"
  obtain m where m: "g * ?K = of_int m" using False assms(3,1) by (rule ctx_grid)
  have "x * ?K \<le> g * ?K" using assms(2) by (simp add: mult_right_mono)
  then have "round_half_even (x * ?K) \<le> round_half_even (of_int m)"
    unfolding m by (rule round_half_even_mono)
  then have "of_int (round_half_even (x * ?K)) \<le> g * ?K" using m by simp
  then show ?thesis using False by (simp add: ctx_round_def Let_def pos_divide_le_eq)
qed (use assms in \<open>simp add: ctx_round_def\<close>)

lemma ctx_round_nonneg: "0 \<le> x \<Longrightarrow> 0 \<le> ctx_round x"
  by (auto simp: ctx_round_def Let_def intro!: divide_nonneg_nonneg round_half_even_nonneg)

lemma quantize_ge:
  assumes "on_grid p g" "g \<le> x" "quantize round_half_even p x = Inr y"
  shows "g \<le> y"
proof -
  obtain n where g: "g = of_int n / 10 ^ p" using assms(1) by (rule on_gridE)
  have "of_int n \<le> x * 10 ^ p" using assms(2) g by (simp add: divide_le_eq)
  then have "n \<le> round_half_even (x * 10 ^ p)" using round_half_even_mono by fastforce
  then show ?thesis using assms(3) g by (auto simp: quantize_Inr divide_right_mono)
qed

lemma quantize_le:
  assumes "on_grid p g" "x \<le> g" "quantize round_half_even p x = Inr y"
  shows "y \<le> g"
proof -
  obtain n where g: "g = of_int n / 10 ^ p" using assms(1) by (rule on_gridE)
  have "x * 10 ^ p \<le> of_int n" using assms(2) g by (simp add: pos_le_divide_eq)
  then have "round_half_even (x * 10 ^ p) \<le> n" using round_half_even_mono by fastforce
  then show ?thesis using assms(3) g by (auto simp: quantize_Inr divide_right_mono)
qed

text \<open>The context does not round a result whose coefficient fits in 28 digits.\<close>

lemma ctx_round_exact:
  "on_grid p x \<Longrightarrow> \<bar>x\<bar> < 10 ^ decimal_prec / 10 ^ p \<Longrightarrow> ctx_round x = x"
  by (intro antisym ctx_round_ge ctx_round_le) auto

section \<open>Strings\<close>

definition hex_char :: "nat \<Rightarrow> char" where
  "hex_char d = (if d < 10 then char_of (48 + d) else char_of (87 + d))"

fun hex_digits :: "nat \<Rightarrow> nat \<Rightarrow> string" where
  "hex_digits 0 n = []"
| "hex_digits (Suc k) n = hex_digits k (n div 16) @ [hex_char (n mod 16)]"

text \<open>\<open>uuid.UUID.hex\<close>, \<open>str(uuid.UUID)\<close> and \<open>str.upper\<close> on ASCII text.\<close>

definition uuid_hex :: "uuid \<Rightarrow> string" where
  "uuid_hex u = hex_digits 32 u"

definition uuid_str :: "uuid \<Rightarrow> string" where
  "uuid_str u =
     (let h = uuid_hex u
      in take 8 h @ ''-'' @ take 4 (drop 8 h) @ ''-'' @ take 4 (drop 12 h) @ ''-''
           @ take 4 (drop 16 h) @ ''-'' @ drop 20 h)"

definition upper_char :: "char \<Rightarrow> char" where
  "upper_char c = (let n = of_char c :: nat in if 97 \<le> n \<and> n \<le> 122 then char_of (n - 32) else c)"

definition lower_char :: "char \<Rightarrow> char" where
  "lower_char c = (let n = of_char c :: nat in if 65 \<le> n \<and> n \<le> 90 then char_of (n + 32) else c)"

definition upper :: "string \<Rightarrow> string" where "upper = map upper_char"
definition lower :: "string \<Rightarrow> string" where "lower = map lower_char"

definition hex16_upper :: "uuid \<Rightarrow> string" where
  "hex16_upper u = upper (take 16 (uuid_hex u))"

text \<open>Python truth of an optional string: neither \<open>None\<close> nor empty.\<close>

definition truthy :: "string option \<Rightarrow> bool" where
  "truthy k \<longleftrightarrow> (case k of None \<Rightarrow> False | Some t \<Rightarrow> t \<noteq> [])"

definition str_or :: "string option \<Rightarrow> string \<Rightarrow> string" where
  "str_or k d = (if truthy k then the k else d)"

lemma length_hex_digits [simp]: "length (hex_digits k n) = k"
  by (induction k arbitrary: n) auto

lemma take_hex_digits: "take k (hex_digits (k + j) n) = hex_digits k (n div 16 ^ j)"
proof (induction j arbitrary: n)
  case (Suc j)
  then show ?case by (simp add: div_mult2_eq)
qed simp

lemma hex16_upper_shift:
  "hex16_upper (n * 2 ^ 64) = upper (hex_digits 15 (n div 16)) @ [upper_char (hex_char (n mod 16))]"
  using take_hex_digits [of 16 16 "n * 2 ^ 64"] hex_digits.simps(2) [of 15 n]
  by (simp add: hex16_upper_def uuid_hex_def upper_def)

lemma str_or_Some [simp]: "k \<noteq> [] \<Longrightarrow> str_or (Some k) d = k"
  by (simp add: str_or_def truthy_def)

lemma str_or_None [simp]: "str_or None d = d"
  by (simp add: str_or_def truthy_def)

section \<open>JSON values\<close>

text \<open>
  Event payloads, condition parameters and metadata are JSON. A decimal is rendered as a
  string by the event models and read back with \<open>Decimal(str(v))\<close>; \<open>JDec\<close> keeps
  its value.
\<close>

datatype json =
    JNull
  | JBool bool
  | JInt int
  | JDec rat
  | JStr string
  | JTime time
  | JArr "json list"
  | JObj "(string \<times> json) list"

type_synonym dict = "(string \<times> json) list"

definition dict_get :: "dict \<Rightarrow> string \<Rightarrow> json \<Rightarrow> json" where
  "dict_get d k def = (case map_of d k of None \<Rightarrow> def | Some v \<Rightarrow> v)"

definition dict_set :: "dict \<Rightarrow> string \<Rightarrow> json \<Rightarrow> dict" where
  "dict_set d k v =
     (if k \<in> fst ` set d then map (\<lambda>(k', v'). if k' = k then (k, v) else (k', v')) d
      else d @ [(k, v)])"

text \<open>Python truth of a JSON value.\<close>

fun json_truthy :: "json \<Rightarrow> bool" where
  "json_truthy JNull = False"
| "json_truthy (JBool b) = b"
| "json_truthy (JInt n) = (n \<noteq> 0)"
| "json_truthy (JStr t) = (t \<noteq> [])"
| "json_truthy (JArr xs) = (xs \<noteq> [])"
| "json_truthy (JObj d) = (d \<noteq> [])"
| "json_truthy _ = True"

text \<open>\<open>Decimal(str(v))\<close>\<close>

definition decimal_of :: "json \<Rightarrow> exn + rat" where
  "decimal_of v = (case v of JDec x \<Rightarrow> Inr x | JInt n \<Rightarrow> Inr (of_int n) | _ \<Rightarrow> Inl InvalidOperation)"

lemma map_of_replace:
  "map_of (map (\<lambda>(k', v'). if k' = k then (k, v) else (k', v')) d) x =
     (if x = k \<and> k \<in> fst ` set d then Some v else map_of d x)"
proof (induction d)
  case (Cons p d)
  then show ?case by (cases p) force
qed simp

lemma map_of_dict_set: "map_of (dict_set d k v) x = (if x = k then Some v else map_of d x)"
proof (cases "k \<in> fst ` set d")
  case True
  then show ?thesis by (simp add: dict_set_def map_of_replace)
next
  case False
  then have "map_of d k = None" by (simp only: map_of_eq_None_iff not_False_eq_True)
  with False show ?thesis by (simp add: dict_set_def map_add_Some_iff map_add_def split: option.split)
qed

section \<open>Numbers as text\<close>

fun nat_str :: "nat \<Rightarrow> string" where
  "nat_str n = (if n < 10 then [char_of (48 + n)] else nat_str (n div 10) @ [char_of (48 + n mod 10)])"

declare nat_str.simps [simp del]

definition int_str :: "int \<Rightarrow> string" where
  "int_str n = (if n < 0 then ''-'' @ nat_str (nat (- n)) else nat_str (nat n))"

section \<open>Lists\<close>

lemma find_Some_iff:
  "List.find P xs = Some x \<Longrightarrow> x \<in> set xs \<and> P x"
  by (induction xs) (auto split: if_splits)

lemma find_None_filter: "List.find P xs = None \<longleftrightarrow> filter P xs = []"
  by (induction xs) auto

lemma find_append_new:
  "List.find P xs = None \<Longrightarrow> P y \<Longrightarrow> List.find P (xs @ [y]) = Some y"
  by (induction xs) (auto split: if_splits)

lemma sum_list_map_filter_append [simp]:
  "(\<Sum>x\<leftarrow>filter P (xs @ ys). f x) = (\<Sum>x\<leftarrow>filter P xs. f x) + (\<Sum>x\<leftarrow>filter P ys. f x)"
  by simp

text \<open>Rewriting the rows of a table that satisfy a condition.\<close>

definition map_where :: "('r \<Rightarrow> bool) \<Rightarrow> ('r \<Rightarrow> 'r) \<Rightarrow> 'r list \<Rightarrow> 'r list" where
  "map_where P f = map (\<lambda>r. if P r then f r else r)"

definition changed_where :: "('r \<Rightarrow> bool) \<Rightarrow> ('r \<Rightarrow> 'r \<Rightarrow> bool) \<Rightarrow> 'r list \<Rightarrow> 'r list \<Rightarrow> bool" where
  "changed_where P R rows rows' \<longleftrightarrow>
     list_all2 (\<lambda>q q'. if P q then R q q' else q' = q) rows rows'"

lemma map_where_Nil [simp]: "map_where P f [] = []"
  by (simp add: map_where_def)

lemma map_where_append [simp]: "map_where P f (xs @ ys) = map_where P f xs @ map_where P f ys"
  by (simp add: map_where_def)

lemma map_where_single [simp]: "map_where P f [x] = [if P x then f x else x]"
  by (simp add: map_where_def)

lemma length_map_where [simp]: "length (map_where P f xs) = length xs"
  by (simp add: map_where_def)

lemma map_where_eq_Nil [simp]: "map_where P f xs = [] \<longleftrightarrow> xs = []"
  by (simp add: map_where_def)

lemma in_map_where: "y \<in> set (map_where P f xs) \<longleftrightarrow> (\<exists>x \<in> set xs. y = (if P x then f x else x))"
  by (auto simp: map_where_def)

lemma map_where_none: "\<forall>x \<in> set xs. \<not> P x \<Longrightarrow> map_where P f xs = xs"
  by (simp add: map_where_def map_idI)

lemma map_map_where: "(\<And>x. P x \<Longrightarrow> g (f x) = g x) \<Longrightarrow> map g (map_where P f xs) = map g xs"
  by (simp add: map_where_def)

lemma filter_map_where:
  "(\<And>x. P x \<Longrightarrow> \<not> Q (f x)) \<Longrightarrow> filter Q (map_where P f xs) = filter (\<lambda>x. \<not> P x \<and> Q x) xs"
  by (induction xs) (auto simp: map_where_def)

lemma map_where_twice:
  "(\<And>x. P x \<Longrightarrow> P (f x)) \<Longrightarrow> map_where P g (map_where P f xs) = map_where P (\<lambda>x. g (f x)) xs"
  by (simp add: map_where_def)

lemma changed_map_where:
  "(\<And>q. q \<in> set rows \<Longrightarrow> P q \<Longrightarrow> R q (f q)) \<Longrightarrow> changed_where P R rows (map_where P f rows)"
  unfolding changed_where_def map_where_def list.rel_map by (rule list.rel_refl_strong) simp

lemma changed_where_in:
  assumes "changed_where P R rows rows'" "q' \<in> set rows'"
  obtains q where "q \<in> set rows" "if P q then R q q' else q' = q"
proof -
  obtain i where i: "i < length rows'" "rows' ! i = q'"
    using assms(2) by (auto simp: in_set_conv_nth)
  moreover have "length rows = length rows'"
    by (rule list_all2_lengthD [OF assms(1) [unfolded changed_where_def]])
  ultimately have "i < length rows" "if P (rows ! i) then R (rows ! i) q' else q' = rows ! i"
    using list_all2_nthD [OF assms(1) [unfolded changed_where_def], of i]
    by (auto split: if_splits)
  then show thesis by (intro that [of "rows ! i"] nth_mem)
qed

lemma changed_where_map:
  "changed_where P R rows rows' \<Longrightarrow> (\<And>q q'. R q q' \<Longrightarrow> g q' = g q) \<Longrightarrow> map g rows' = map g rows"
proof (unfold changed_where_def, induction rows rows' rule: list_all2_induct)
  case (Cons q rows q' rows')
  then show ?case by (cases "P q") simp_all
qed simp

lemma changed_where_keeps:
  assumes "changed_where P R rows rows'" "q \<in> set rows" "\<not> P q"
  shows "q \<in> set rows'"
proof -
  obtain i where i: "i < length rows" "rows ! i = q" using assms(2) by (auto simp: in_set_conv_nth)
  have "list_all2 (\<lambda>q q'. if P q then R q q' else q' = q) rows rows'"
    using assms(1) by (simp only: changed_where_def)
  then have "rows' ! i = q" "i < length rows'"
    using i assms(3) list_all2_nthD [of _ rows rows' i] list_all2_lengthD [of _ rows rows'] by force+
  then show ?thesis by auto
qed

lemma changed_where_all:
  assumes ch: "changed_where (\<lambda>q. k q = k r) R rows rows'" and r: "r \<in> set rows"
    and key: "\<And>q q'. R q q' \<Longrightarrow> k q' = k q" and new: "\<And>q'. R r q' \<Longrightarrow> P' q'"
    and dist: "distinct (map k rows)" and old: "\<And>q. q \<in> set rows \<Longrightarrow> P' q"
  shows "distinct (map k rows') \<and> (\<forall>q' \<in> set rows'. P' q')"
proof -
  have "map k rows' = map k rows" using ch key by (rule changed_where_map)
  moreover have "P' q'" if q': "q' \<in> set rows'" for q'
  proof -
    obtain q where q: "q \<in> set rows" "if k q = k r then R q q' else q' = q"
      by (rule changed_where_in [OF ch q'])
    show ?thesis
    proof (cases "k q = k r")
      case True
      with q(1) r dist have "q = r" by (auto simp: distinct_map dest: inj_onD)
      with q(2) new show ?thesis by simp
    next
      case False
      with q old show ?thesis by simp
    qed
  qed
  ultimately show ?thesis using dist by simp
qed

lemma changed_where_Cons:
  "changed_where P R (q # rows) (q' # rows') \<longleftrightarrow>
     (if P q then R q q' else q' = q) \<and> changed_where P R rows rows'"
  by (simp add: changed_where_def)

lemma changed_where_none:
  "changed_where P R rows rows' \<Longrightarrow> \<forall>q \<in> set rows. \<not> P q \<Longrightarrow> rows' = rows"
proof (induction rows arbitrary: rows')
  case (Cons q rows)
  then show ?case by (cases rows') (auto simp: changed_where_Cons, simp add: changed_where_def)
qed (simp add: changed_where_def)

lemma changed_where_sum:
  fixes g :: "'r \<Rightarrow> rat"
  assumes "changed_where (\<lambda>q. k q = k r) R rows rows'" "distinct (map k rows)" "r \<in> set rows"
    and "\<And>q'. R r q' \<Longrightarrow> g q' = g r - d"
  shows "(\<Sum>q\<leftarrow>rows'. g q) = (\<Sum>q\<leftarrow>rows. g q) - d"
  using assms(1-3)
proof (induction rows arbitrary: rows')
  case (Cons q rows)
  from Cons.prems(1) obtain q' qs where rows': "rows' = q' # qs"
    by (auto simp: changed_where_def list_all2_Cons1)
  show ?case
  proof (cases "k q = k r")
    case True
    with Cons.prems(2,3) have q: "q = r" by (metis image_eqI list.set_map list.simps(9) distinct.simps(2) set_ConsD)
    moreover have "\<forall>x \<in> set rows. k x \<noteq> k r" using Cons.prems(2) True by (metis distinct.simps(2) imageI list.set_map list.simps(9))
    then have "qs = rows" using Cons.prems(1) rows' changed_where_none by (auto simp: changed_where_Cons)
    ultimately show ?thesis using Cons.prems(1) rows' assms(4) by (simp add: changed_where_Cons)
  next
    case False
    then have "q' = q" "changed_where (\<lambda>q. k q = k r) R rows qs" "r \<in> set rows"
      using Cons.prems(1,3) rows' by (auto simp: changed_where_Cons)
    with Cons.IH Cons.prems(2) rows' show ?thesis by simp
  qed
qed simp

text \<open>The rows a worker reads: the first few of a table that are ready, in some order.\<close>

lemma take_ready:
  assumes "distinct (map k xs)"
  shows "distinct (map k (take n (sort_key f (filter P xs)))) \<and>
    (\<forall>r \<in> set (take n (sort_key f (filter P xs))). r \<in> set xs \<and> P r)"
proof -
  let ?ys = "sort_key f (filter P xs)"
  have sub: "set (take n ?ys) \<subseteq> {r \<in> set xs. P r}" using set_take_subset [of n ?ys] by auto
  have "distinct xs" and inj: "inj_on k (set xs)" using assms by (simp_all add: distinct_map)
  then have "distinct (take n ?ys)" by simp
  moreover have "inj_on k (set (take n ?ys))" using sub inj by (auto intro: inj_on_subset)
  ultimately show ?thesis using sub by (auto simp: distinct_map)
qed

lemma drop_by_keys:
  "distinct (map f ys) \<Longrightarrow> filter (\<lambda>r. f r \<notin> f ` set (take n ys)) ys = drop n ys"
proof (induction ys arbitrary: n)
  case (Cons y ys)
  show ?case
  proof (cases n)
    case 0
    then show ?thesis by simp
  next
    case (Suc k)
    have "filter (\<lambda>r. f r \<notin> f ` set (y # take k ys)) ys = filter (\<lambda>r. f r \<notin> f ` set (take k ys)) ys"
      using Cons.prems by (intro filter_cong) (auto simp: image_iff)
    then show ?thesis using Suc Cons by simp
  qed
qed simp

end
