(* ===== verification/Models.thy ===== *)
theory Models
  imports Prelude
begin

text \<open>
  The relational state of the platform: the enumerations and rows of
  \<open>src/shared/models.py\<close>, the tables as lists in insertion order, the constraints
  the deployed schema puts on them (\<open>src/init/postgres/01_schema.sql\<close> and
  \<open>02_migrations.sql\<close>: unique references, positive amounts, foreign keys to accounts
  and to the chart of accounts), and the primitive reads, inserts and updates the
  services are written with. The environment a service reads besides its tables is part of
  the state: the random source behind \<open>uuid.uuid4()\<close>, the clock behind
  \<open>datetime.now()\<close> and the start time of the current database transaction, which is
  what the column default \<open>now()\<close> stores; the advisory locks the transaction holds
  are part of it too.
\<close>

section \<open>Enumerations\<close>

datatype AccountType = INSTITUTIONAL | BANK | CORRESPONDENT | CENTRAL_BANK
datatype TxnStatus = T_PENDING | T_PROCESSING | T_COMPLETED | T_FAILED | T_REVERSED
datatype SettlementStatus =
    S_PENDING | S_APPROVED | S_SIGNED | S_QUEUED | S_PROCESSING
  | S_BROADCASTED | S_CONFIRMED | S_SETTLED | S_FAILED | S_CANCELLED
datatype EscrowStatus = E_PENDING | E_ACTIVE | E_RELEASED | E_REFUNDED | E_EXPIRED
datatype CurrencyCode = USD | EUR | GBP | JPY | SGD | CHF | HKD
datatype SettlementRails = R_BLOCKCHAIN | R_SWIFT | R_INTERNAL | R_FEDWIRE | R_TARGET2
datatype ConditionType =
  TIME_LOCK | ORACLE_TRIGGER | MULTI_SIG | DELIVERY_CONFIRMATION | KYC_VERIFIED
datatype HoldType = RESERVE | RELEASE
datatype UserRole = ADMIN | APPROVER | SIGNER | TRADER | AUDITOR

text \<open>The currencies as a finite enumeration, so that sums and quantifiers over them compute.\<close>

instantiation CurrencyCode :: enum
begin

definition enum_CurrencyCode :: "CurrencyCode list" where
  "enum_CurrencyCode = [USD, EUR, GBP, JPY, SGD, CHF, HKD]"

definition enum_all_CurrencyCode :: "(CurrencyCode \<Rightarrow> bool) \<Rightarrow> bool" where
  "enum_all_CurrencyCode P \<longleftrightarrow> P USD \<and> P EUR \<and> P GBP \<and> P JPY \<and> P SGD \<and> P CHF \<and> P HKD"

definition enum_ex_CurrencyCode :: "(CurrencyCode \<Rightarrow> bool) \<Rightarrow> bool" where
  "enum_ex_CurrencyCode P \<longleftrightarrow> P USD \<or> P EUR \<or> P GBP \<or> P JPY \<or> P SGD \<or> P CHF \<or> P HKD"

instance
proof
  show "(UNIV :: CurrencyCode set) = set enum_class.enum"
    by (auto simp: enum_CurrencyCode_def intro: CurrencyCode.exhaust)
  show "distinct (enum_class.enum :: CurrencyCode list)" by (simp add: enum_CurrencyCode_def)
  show "enum_class.enum_all P = Ball UNIV P" for P :: "CurrencyCode \<Rightarrow> bool"
    unfolding enum_all_CurrencyCode_def by (metis CurrencyCode.exhaust UNIV_I)
  show "enum_class.enum_ex P = Bex UNIV P" for P :: "CurrencyCode \<Rightarrow> bool"
    unfolding enum_ex_CurrencyCode_def by (metis CurrencyCode.exhaust UNIV_I)
qed

end

fun AccountType_value :: "AccountType \<Rightarrow> string" where
  "AccountType_value INSTITUTIONAL = ''institutional''"
| "AccountType_value BANK = ''bank''"
| "AccountType_value CORRESPONDENT = ''correspondent''"
| "AccountType_value CENTRAL_BANK = ''central_bank''"

fun TxnStatus_value :: "TxnStatus \<Rightarrow> string" where
  "TxnStatus_value T_PENDING = ''pending''"
| "TxnStatus_value T_PROCESSING = ''processing''"
| "TxnStatus_value T_COMPLETED = ''completed''"
| "TxnStatus_value T_FAILED = ''failed''"
| "TxnStatus_value T_REVERSED = ''reversed''"

fun SettlementStatus_value :: "SettlementStatus \<Rightarrow> string" where
  "SettlementStatus_value S_PENDING = ''pending''"
| "SettlementStatus_value S_APPROVED = ''approved''"
| "SettlementStatus_value S_SIGNED = ''signed''"
| "SettlementStatus_value S_QUEUED = ''queued''"
| "SettlementStatus_value S_PROCESSING = ''processing''"
| "SettlementStatus_value S_BROADCASTED = ''broadcasted''"
| "SettlementStatus_value S_CONFIRMED = ''confirmed''"
| "SettlementStatus_value S_SETTLED = ''settled''"
| "SettlementStatus_value S_FAILED = ''failed''"
| "SettlementStatus_value S_CANCELLED = ''cancelled''"

fun EscrowStatus_value :: "EscrowStatus \<Rightarrow> string" where
  "EscrowStatus_value E_PENDING = ''pending''"
| "EscrowStatus_value E_ACTIVE = ''active''"
| "EscrowStatus_value E_RELEASED = ''released''"
| "EscrowStatus_value E_REFUNDED = ''refunded''"
| "EscrowStatus_value E_EXPIRED = ''expired''"

fun CurrencyCode_value :: "CurrencyCode \<Rightarrow> string" where
  "CurrencyCode_value USD = ''USD''"
| "CurrencyCode_value EUR = ''EUR''"
| "CurrencyCode_value GBP = ''GBP''"
| "CurrencyCode_value JPY = ''JPY''"
| "CurrencyCode_value SGD = ''SGD''"
| "CurrencyCode_value CHF = ''CHF''"
| "CurrencyCode_value HKD = ''HKD''"

fun SettlementRails_value :: "SettlementRails \<Rightarrow> string" where
  "SettlementRails_value R_BLOCKCHAIN = ''blockchain''"
| "SettlementRails_value R_SWIFT = ''swift''"
| "SettlementRails_value R_INTERNAL = ''internal''"
| "SettlementRails_value R_FEDWIRE = ''fedwire''"
| "SettlementRails_value R_TARGET2 = ''target2''"

fun ConditionType_value :: "ConditionType \<Rightarrow> string" where
  "ConditionType_value TIME_LOCK = ''time_lock''"
| "ConditionType_value ORACLE_TRIGGER = ''oracle_trigger''"
| "ConditionType_value MULTI_SIG = ''multi_sig''"
| "ConditionType_value DELIVERY_CONFIRMATION = ''delivery_confirmation''"
| "ConditionType_value KYC_VERIFIED = ''kyc_verified''"

fun UserRole_value :: "UserRole \<Rightarrow> string" where
  "UserRole_value ADMIN = ''admin''"
| "UserRole_value APPROVER = ''approver''"
| "UserRole_value SIGNER = ''signer''"
| "UserRole_value TRADER = ''trader''"
| "UserRole_value AUDITOR = ''auditor''"

section \<open>Rows\<close>

record Account =
  acc_id :: uuid
  acc_entity_name :: string
  acc_account_type :: AccountType
  acc_bic_code :: "string option"
  acc_lei :: "string option"
  acc_is_active :: bool
  acc_kyc_verified :: bool
  acc_aml_cleared :: bool
  acc_risk_tier :: int

record ApiKey =
  ak_id :: uuid
  ak_key_hash :: string
  ak_actor_id :: uuid
  ak_actor_name :: string
  ak_role :: UserRole
  ak_is_active :: bool
  ak_expires_at :: "time option"

record ProcessedEvent =
  pe_event_id :: string
  pe_topic :: string

record TokenBalance =
  tb_account_id :: uuid
  tb_currency :: CurrencyCode
  tb_balance :: rat
  tb_reserved :: rat
  tb_version :: int

record JournalEntry =
  je_id :: uuid
  je_journal_id :: uuid
  je_account_id :: uuid
  je_coa_code :: string
  je_currency :: CurrencyCode
  je_debit :: rat
  je_credit :: rat
  je_entry_type :: string
  je_reference_id :: "uuid option"
  je_narrative :: string
  je_created_at :: time

record OutboxEvent =
  oe_id :: uuid
  oe_aggregate_id :: string
  oe_event_type :: string
  oe_payload :: dict
  oe_created_at :: time
  oe_published_at :: "time option"

record EscrowHold =
  eh_id :: uuid
  eh_hold_ref :: string
  eh_account_id :: uuid
  eh_currency :: CurrencyCode
  eh_amount :: rat
  eh_hold_type :: HoldType
  eh_related_entity_type :: string
  eh_related_entity_id :: "uuid option"
  eh_created_at :: time

text \<open>The six append-only status history tables, told apart by a tag.\<close>

datatype history_table =
    TransactionStatusHistory | RTGSSettlementStatusHistory | FXSettlementStatusHistory
  | EscrowStatusHistory | ConditionalPaymentStatusHistory | TokenIssuanceStatusHistory

record StatusHistory =
  sh_table :: history_table
  sh_id :: uuid
  sh_entity_id :: uuid
  sh_status :: string
  sh_detail :: "dict option"
  sh_tx_hash :: "string option"
  sh_block_number :: "int option"
  sh_request_id :: "uuid option"
  sh_actor_id :: "uuid option"
  sh_actor_service :: "string option"
  sh_created_at :: time

record TokenIssuance =
  ti_id :: uuid
  ti_issuance_ref :: string
  ti_account_id :: uuid
  ti_currency :: CurrencyCode
  ti_amount :: rat
  ti_backing_ref :: "string option"
  ti_custodian :: "string option"
  ti_issuance_type :: string
  ti_status :: TxnStatus
  ti_issued_at :: "time option"
  ti_redeemed_at :: "time option"
  ti_created_at :: time

record Transaction =
  tx_id :: uuid
  tx_ref :: string
  tx_debit_account_id :: uuid
  tx_credit_account_id :: uuid
  tx_currency :: CurrencyCode
  tx_amount :: rat
  tx_type :: string
  tx_status :: TxnStatus
  tx_idempotency_key :: "string option"
  tx_metadata :: dict
  tx_created_at :: time
  tx_settled_at :: "time option"

record RTGSSettlement =
  rs_id :: uuid
  rs_settlement_ref :: string
  rs_sending_account_id :: uuid
  rs_receiving_account_id :: uuid
  rs_currency :: CurrencyCode
  rs_amount :: rat
  rs_priority :: string
  rs_status :: SettlementStatus
  rs_transaction_id :: "uuid option"
  rs_scheduled_at :: "time option"
  rs_queued_at :: time
  rs_processing_started :: "time option"
  rs_settled_at :: "time option"
  rs_failure_reason :: "fstr option"
  rs_retry_count :: int
  rs_approved_by :: "uuid option"
  rs_approved_at :: "time option"
  rs_signed_by :: "uuid option"
  rs_signed_at :: "time option"
  rs_metadata :: dict

record EscrowContract =
  ec_id :: uuid
  ec_contract_ref :: string
  ec_depositor_account_id :: uuid
  ec_beneficiary_account_id :: uuid
  ec_currency :: CurrencyCode
  ec_amount :: rat
  ec_conditions :: dict
  ec_status :: EscrowStatus
  ec_release_txn_id :: "uuid option"
  ec_arbiter_account_id :: "uuid option"
  ec_expires_at :: time
  ec_released_at :: "time option"
  ec_release_triggered_by :: "string option"
  ec_created_at :: time

record ConditionalPayment =
  cp_id :: uuid
  cp_payment_ref :: string
  cp_payer_account_id :: uuid
  cp_payee_account_id :: uuid
  cp_currency :: CurrencyCode
  cp_amount :: rat
  cp_condition_type :: ConditionType
  cp_condition_params :: dict
  cp_status :: TxnStatus
  cp_trigger_data :: "dict option"
  cp_transaction_id :: "uuid option"
  cp_created_at :: time
  cp_executed_at :: "time option"
  cp_expires_at :: "time option"

record FXRate =
  fr_id :: uuid
  fr_base_currency :: CurrencyCode
  fr_quote_currency :: CurrencyCode
  fr_mid_rate :: rat
  fr_bid_rate :: "rat option"
  fr_ask_rate :: "rat option"
  fr_spread_bps :: "rat option"
  fr_source :: string
  fr_is_active :: bool
  fr_valid_from :: time

record ComplianceEvent =
  ce_id :: uuid
  ce_entity_type :: string
  ce_entity_id :: uuid
  ce_event_type :: string
  ce_result :: string
  ce_score :: rat
  ce_details :: dict
  ce_checked_at :: time

record FXSettlement =
  fs_id :: uuid
  fs_settlement_ref :: string
  fs_sending_account_id :: uuid
  fs_receiving_account_id :: uuid
  fs_sell_currency :: CurrencyCode
  fs_sell_amount :: rat
  fs_buy_currency :: CurrencyCode
  fs_buy_amount :: rat
  fs_applied_rate :: rat
  fs_fx_rate_id :: "uuid option"
  fs_rails :: SettlementRails
  fs_status :: SettlementStatus
  fs_sell_txn_id :: "uuid option"
  fs_buy_txn_id :: "uuid option"
  fs_blockchain_tx_hash :: "string option"
  fs_value_date :: int
  fs_created_at :: time
  fs_settled_at :: "time option"
  fs_metadata :: dict

section \<open>The state\<close>

text \<open>
  \<open>block_counter\<close> is the module-level counter of \<open>shared/blockchain_sim.py\<close>,
  one per service process; like \<open>ticks\<close>, which counts the draws from the random
  source and the clock, it is process state that no database rollback restores.
\<close>

datatype service = TokenIssuanceSvc | RtgsSvc | PaymentEngineSvc | FxSettlementSvc | ComplianceSvc

fun service_name :: "service \<Rightarrow> string" where
  "service_name TokenIssuanceSvc = ''token-issuance''"
| "service_name RtgsSvc = ''rtgs''"
| "service_name PaymentEngineSvc = ''payment-engine''"
| "service_name FxSettlementSvc = ''fx-settlement''"
| "service_name ComplianceSvc = ''compliance-monitor''"

record world =
  accounts :: "Account list"
  api_keys :: "ApiKey list"
  processed_events :: "ProcessedEvent list"
  token_balances :: "TokenBalance list"
  journal_entries :: "JournalEntry list"
  outbox_events :: "OutboxEvent list"
  escrow_holds :: "EscrowHold list"
  status_history :: "StatusHistory list"
  token_issuances :: "TokenIssuance list"
  transactions :: "Transaction list"
  rtgs_settlements :: "RTGSSettlement list"
  escrow_contracts :: "EscrowContract list"
  conditional_payments :: "ConditionalPayment list"
  fx_rates :: "FXRate list"
  compliance_events :: "ComplianceEvent list"
  fx_settlements :: "FXSettlement list"
  advisory_locks :: "nat list"
  txn_now :: time
  ticks :: nat
  block_counter :: "service \<Rightarrow> nat"
  rng :: "nat \<Rightarrow> uuid"
  clock :: "nat \<Rightarrow> time"
  sha256_hex :: "string \<Rightarrow> string"
  md5_hex :: "string \<Rightarrow> string"

type_synonym 'a db_op = "(world, 'a) op"

definition uuid4 :: "uuid db_op" where
  "uuid4 = (\<lambda>s. (Inr (rng s (ticks s)), s\<lparr>ticks := Suc (ticks s)\<rparr>))"

definition utcnow :: "time db_op" where
  "utcnow = (\<lambda>s. (Inr (clock s (ticks s)), s\<lparr>ticks := Suc (ticks s)\<rparr>))"

section \<open>Chart of accounts and constraints\<close>

definition chart_of_accounts :: "string list" where
  "chart_of_accounts =
     [''OMNIBUS_RESERVE'', ''INSTITUTION_LIABILITY'', ''FX_NOSTRO_USD'', ''FX_NOSTRO_EUR'',
      ''FX_NOSTRO_GBP'', ''ESCROW_HOLDING'', ''SETTLEMENT_PENDING'', ''FEE_REVENUE'']"

definition get_account :: "world \<Rightarrow> uuid \<Rightarrow> Account option" where
  "get_account s a = List.find (\<lambda>r. acc_id r = a) (accounts s)"

definition account_exists :: "world \<Rightarrow> uuid \<Rightarrow> bool" where
  "account_exists s a \<longleftrightarrow> get_account s a \<noteq> None"

definition account_active :: "world \<Rightarrow> uuid \<Rightarrow> bool" where
  "account_active s a \<longleftrightarrow> (case get_account s a of None \<Rightarrow> False | Some r \<Rightarrow> acc_is_active r)"

text \<open>The first constraint an inserted row violates, if any.\<close>

fun first_violation :: "(bool \<times> string) list \<Rightarrow> exn option" where
  "first_violation [] = None"
| "first_violation ((ok, name) # cs) = (if ok then first_violation cs else Some (IntegrityError name))"

definition insert_row ::
  "(world \<Rightarrow> 'r \<Rightarrow> (bool \<times> string) list) \<Rightarrow> (('r list \<Rightarrow> 'r list) \<Rightarrow> world \<Rightarrow> world)
     \<Rightarrow> 'r \<Rightarrow> unit db_op" where
  "insert_row constraints upd r =
     (\<lambda>s. case first_violation (constraints s r) of
            Some e \<Rightarrow> (Inl e, s)
          | None \<Rightarrow> (Inr (), upd (\<lambda>rs. rs @ [r]) s))"

definition update_rows ::
  "(('r list \<Rightarrow> 'r list) \<Rightarrow> world \<Rightarrow> world) \<Rightarrow> ('r \<Rightarrow> bool) \<Rightarrow> ('r \<Rightarrow> 'r) \<Rightarrow> unit db_op" where
  "update_rows upd P f = op_modify (upd (map_where P f))"

definition journal_constraints :: "world \<Rightarrow> JournalEntry \<Rightarrow> (bool \<times> string) list" where
  "journal_constraints s e =
     [(account_exists s (je_account_id e), ''journal_entries_account_id_fkey''),
      (je_coa_code e \<in> set chart_of_accounts, ''journal_entries_coa_code_fkey'')]"

definition transaction_constraints :: "world \<Rightarrow> Transaction \<Rightarrow> (bool \<times> string) list" where
  "transaction_constraints s t =
     [(\<forall>q \<in> set (transactions s). tx_id q \<noteq> tx_id t, ''transactions_pkey''),
      (0 < tx_amount t, ''transactions_amount_check''),
      (tx_debit_account_id t \<noteq> tx_credit_account_id t, ''transactions_check''),
      (\<forall>r \<in> set (transactions s). tx_ref r \<noteq> tx_ref t, ''transactions_txn_ref_key''),
      (tx_idempotency_key t = None \<or>
         (\<forall>r \<in> set (transactions s). tx_idempotency_key r \<noteq> tx_idempotency_key t),
       ''transactions_idempotency_key_key''),
      (account_exists s (tx_debit_account_id t), ''transactions_debit_account_id_fkey''),
      (account_exists s (tx_credit_account_id t), ''transactions_credit_account_id_fkey'')]"

definition issuance_constraints :: "world \<Rightarrow> TokenIssuance \<Rightarrow> (bool \<times> string) list" where
  "issuance_constraints s r =
     [(\<forall>q \<in> set (token_issuances s). ti_id q \<noteq> ti_id r, ''token_issuances_pkey''),
      (0 < ti_amount r, ''token_issuances_amount_check''),
      (\<forall>q \<in> set (token_issuances s). ti_issuance_ref q \<noteq> ti_issuance_ref r,
       ''token_issuances_issuance_ref_key''),
      (account_exists s (ti_account_id r), ''token_issuances_account_id_fkey'')]"

definition rtgs_constraints :: "world \<Rightarrow> RTGSSettlement \<Rightarrow> (bool \<times> string) list" where
  "rtgs_constraints s r =
     [(\<forall>q \<in> set (rtgs_settlements s). rs_id q \<noteq> rs_id r, ''rtgs_settlements_pkey''),
      (0 < rs_amount r, ''rtgs_settlements_amount_check''),
      (rs_priority r \<in> {''urgent'', ''high'', ''normal'', ''low''}, ''rtgs_settlements_priority_check''),
      (\<forall>q \<in> set (rtgs_settlements s). rs_settlement_ref q \<noteq> rs_settlement_ref r,
       ''rtgs_settlements_settlement_ref_key''),
      (account_exists s (rs_sending_account_id r), ''rtgs_settlements_sending_account_id_fkey''),
      (account_exists s (rs_receiving_account_id r), ''rtgs_settlements_receiving_account_id_fkey'')]"

definition escrow_constraints :: "world \<Rightarrow> EscrowContract \<Rightarrow> (bool \<times> string) list" where
  "escrow_constraints s r =
     [(\<forall>q \<in> set (escrow_contracts s). ec_id q \<noteq> ec_id r, ''escrow_contracts_pkey''),
      (0 < ec_amount r, ''escrow_contracts_amount_check''),
      (\<forall>q \<in> set (escrow_contracts s). ec_contract_ref q \<noteq> ec_contract_ref r,
       ''escrow_contracts_contract_ref_key''),
      (account_exists s (ec_depositor_account_id r), ''escrow_contracts_depositor_account_id_fkey''),
      (account_exists s (ec_beneficiary_account_id r),
       ''escrow_contracts_beneficiary_account_id_fkey''),
      (case ec_arbiter_account_id r of None \<Rightarrow> True | Some a \<Rightarrow> account_exists s a,
       ''escrow_contracts_arbiter_account_id_fkey'')]"

definition condpay_constraints :: "world \<Rightarrow> ConditionalPayment \<Rightarrow> (bool \<times> string) list" where
  "condpay_constraints s r =
     [(\<forall>q \<in> set (conditional_payments s). cp_id q \<noteq> cp_id r, ''conditional_payments_pkey''),
      (0 < cp_amount r, ''conditional_payments_amount_check''),
      (\<forall>q \<in> set (conditional_payments s). cp_payment_ref q \<noteq> cp_payment_ref r,
       ''conditional_payments_payment_ref_key''),
      (account_exists s (cp_payer_account_id r), ''conditional_payments_payer_account_id_fkey''),
      (account_exists s (cp_payee_account_id r), ''conditional_payments_payee_account_id_fkey'')]"

definition fx_constraints :: "world \<Rightarrow> FXSettlement \<Rightarrow> (bool \<times> string) list" where
  "fx_constraints s r =
     [(\<forall>q \<in> set (fx_settlements s). fs_id q \<noteq> fs_id r, ''fx_settlements_pkey''),
      (0 < fs_sell_amount r, ''fx_settlements_sell_amount_check''),
      (0 < fs_buy_amount r, ''fx_settlements_buy_amount_check''),
      (fs_sell_currency r \<noteq> fs_buy_currency r, ''fx_settlements_check''),
      (\<forall>q \<in> set (fx_settlements s). fs_settlement_ref q \<noteq> fs_settlement_ref r,
       ''fx_settlements_settlement_ref_key''),
      (account_exists s (fs_sending_account_id r), ''fx_settlements_sending_account_id_fkey''),
      (account_exists s (fs_receiving_account_id r), ''fx_settlements_receiving_account_id_fkey'')]"

definition account_constraints :: "world \<Rightarrow> Account \<Rightarrow> (bool \<times> string) list" where
  "account_constraints s r =
     [(\<forall>q \<in> set (accounts s). acc_id q \<noteq> acc_id r, ''accounts_pkey''),
      (1 \<le> acc_risk_tier r \<and> acc_risk_tier r \<le> 5, ''accounts_risk_tier_check''),
      (acc_lei r = None \<or> (\<forall>q \<in> set (accounts s). acc_lei q \<noteq> acc_lei r),
       ''accounts_legal_entity_identifier_key'')]"

definition hold_constraints :: "world \<Rightarrow> EscrowHold \<Rightarrow> (bool \<times> string) list" where
  "hold_constraints s h =
     [(account_exists s (eh_account_id h), ''escrow_holds_account_id_fkey'')]"

section \<open>Symbolic execution and frame facts\<close>

lemma account_exists_iff [simp]: "account_exists s a \<longleftrightarrow> a \<in> acc_id ` set (accounts s)"
  by (auto simp: account_exists_def get_account_def find_None_iff)

lemma get_account_exists: "get_account s a = Some r \<Longrightarrow> account_exists s a"
  by (simp add: account_exists_def del: account_exists_iff)

lemma uuid4_app [op_simps]: "uuid4 s = (Inr (rng s (ticks s)), s\<lparr>ticks := Suc (ticks s)\<rparr>)"
  by (simp add: uuid4_def)

lemma utcnow_app [op_simps]: "utcnow s = (Inr (clock s (ticks s)), s\<lparr>ticks := Suc (ticks s)\<rparr>)"
  by (simp add: utcnow_def)

lemma insert_row_app [op_simps]:
  "insert_row cs upd r s =
     (case first_violation (cs s r) of
        Some e \<Rightarrow> (Inl e, s) | None \<Rightarrow> (Inr (), upd (\<lambda>rs. rs @ [r]) s))"
  by (simp add: insert_row_def)

lemma update_rows_app [op_simps]:
  "update_rows upd P f s = (Inr (), upd (map_where P f) s)"
  by (simp add: update_rows_def op_simps)

lemma first_violation_None: "first_violation xs = None \<longleftrightarrow> (\<forall>c \<in> set xs. fst c)"
  by (induction xs rule: first_violation.induct) auto

lemma uuid4_Inr [op_Inr]:
  "uuid4 s = (Inr u, s') \<longleftrightarrow> u = rng s (ticks s) \<and> s' = s\<lparr>ticks := Suc (ticks s)\<rparr>"
  by (auto simp: op_simps)

lemma utcnow_Inr [op_Inr]:
  "utcnow s = (Inr u, s') \<longleftrightarrow> u = clock s (ticks s) \<and> s' = s\<lparr>ticks := Suc (ticks s)\<rparr>"
  by (auto simp: op_simps)

lemma update_rows_Inr [op_Inr]:
  "update_rows upd P f s = (Inr u, s') \<longleftrightarrow> s' = upd (map_where P f) s"
  by (auto simp: op_simps)

lemma insert_row_Inr [op_Inr]:
  "insert_row cs upd r s = (Inr u, s') \<longleftrightarrow>
     (\<forall>c \<in> set (cs s r). fst c) \<and> s' = upd (\<lambda>rs. rs @ [r]) s"
  using first_violation_None [of "cs s r"]
  by (cases "first_violation (cs s r)") (auto simp: insert_row_app)

text \<open>Appending and rewriting a table, in the normal form of record updates.\<close>

lemma table_update_simps [simp]:
  "accounts_update (\<lambda>rs. rs @ xs0) s = s\<lparr>accounts := accounts s @ xs0\<rparr>"
  "accounts_update (map_where pf0 f0) s = s\<lparr>accounts := map_where pf0 f0 (accounts s)\<rparr>"
  "token_issuances_update (\<lambda>rs. rs @ xs1) s = s\<lparr>token_issuances := token_issuances s @ xs1\<rparr>"
  "token_issuances_update (map_where pf1 f1) s = s\<lparr>token_issuances := map_where pf1 f1 (token_issuances s)\<rparr>"
  "transactions_update (\<lambda>rs. rs @ xs2) s = s\<lparr>transactions := transactions s @ xs2\<rparr>"
  "transactions_update (map_where pf2 f2) s = s\<lparr>transactions := map_where pf2 f2 (transactions s)\<rparr>"
  "rtgs_settlements_update (\<lambda>rs. rs @ xs3) s = s\<lparr>rtgs_settlements := rtgs_settlements s @ xs3\<rparr>"
  "rtgs_settlements_update (map_where pf3 f3) s = s\<lparr>rtgs_settlements := map_where pf3 f3 (rtgs_settlements s)\<rparr>"
  "escrow_contracts_update (\<lambda>rs. rs @ xs4) s = s\<lparr>escrow_contracts := escrow_contracts s @ xs4\<rparr>"
  "escrow_contracts_update (map_where pf4 f4) s = s\<lparr>escrow_contracts := map_where pf4 f4 (escrow_contracts s)\<rparr>"
  "conditional_payments_update (\<lambda>rs. rs @ xs5) s = s\<lparr>conditional_payments := conditional_payments s @ xs5\<rparr>"
  "conditional_payments_update (map_where pf5 f5) s = s\<lparr>conditional_payments := map_where pf5 f5 (conditional_payments s)\<rparr>"
  "fx_rates_update (\<lambda>rs. rs @ xs6) s = s\<lparr>fx_rates := fx_rates s @ xs6\<rparr>"
  "fx_rates_update (map_where pf6 f6) s = s\<lparr>fx_rates := map_where pf6 f6 (fx_rates s)\<rparr>"
  "fx_settlements_update (\<lambda>rs. rs @ xs7) s = s\<lparr>fx_settlements := fx_settlements s @ xs7\<rparr>"
  "fx_settlements_update (map_where pf7 f7) s = s\<lparr>fx_settlements := map_where pf7 f7 (fx_settlements s)\<rparr>"
  "compliance_events_update (\<lambda>rs. rs @ xs8) s = s\<lparr>compliance_events := compliance_events s @ xs8\<rparr>"
  "compliance_events_update (map_where pf8 f8) s = s\<lparr>compliance_events := map_where pf8 f8 (compliance_events s)\<rparr>"
  "escrow_holds_update (\<lambda>rs. rs @ xs9) s = s\<lparr>escrow_holds := escrow_holds s @ xs9\<rparr>"
  "escrow_holds_update (map_where pf9 f9) s = s\<lparr>escrow_holds := map_where pf9 f9 (escrow_holds s)\<rparr>"
  "status_history_update (\<lambda>rs. rs @ xs10) s = s\<lparr>status_history := status_history s @ xs10\<rparr>"
  "status_history_update (map_where pf10 f10) s = s\<lparr>status_history := map_where pf10 f10 (status_history s)\<rparr>"
  "outbox_events_update (\<lambda>rs. rs @ xs11) s = s\<lparr>outbox_events := outbox_events s @ xs11\<rparr>"
  "outbox_events_update (map_where pf11 f11) s = s\<lparr>outbox_events := map_where pf11 f11 (outbox_events s)\<rparr>"
  "processed_events_update (\<lambda>rs. rs @ xs12) s = s\<lparr>processed_events := processed_events s @ xs12\<rparr>"
  "processed_events_update (map_where pf12 f12) s = s\<lparr>processed_events := map_where pf12 f12 (processed_events s)\<rparr>"
  "token_balances_update (\<lambda>rs. rs @ xs13) s = s\<lparr>token_balances := token_balances s @ xs13\<rparr>"
  "token_balances_update (map_where pf13 f13) s = s\<lparr>token_balances := map_where pf13 f13 (token_balances s)\<rparr>"
  by simp_all

definition valid_row :: "(world \<Rightarrow> 'r \<Rightarrow> (bool \<times> string) list) \<Rightarrow> world \<Rightarrow> 'r \<Rightarrow> bool" where
  "valid_row cs s r \<longleftrightarrow> list_all fst (cs s r)"

lemma wp_uuid4 [wp_simps]: "wp uuid4 s Q E \<longleftrightarrow> Q (rng s (ticks s)) (s\<lparr>ticks := Suc (ticks s)\<rparr>)"
  by (simp add: wp_def op_simps)

lemma wp_utcnow [wp_simps]: "wp utcnow s Q E \<longleftrightarrow> Q (clock s (ticks s)) (s\<lparr>ticks := Suc (ticks s)\<rparr>)"
  by (simp add: wp_def op_simps)

lemma wp_update_rows [wp_simps]:
  "wp (update_rows upd P f) s Q E \<longleftrightarrow> Q () (upd (map_where P f) s)"
  by (simp add: wp_def op_simps)

lemma wp_insert_row [wp_simps]:
  "wp (insert_row cs upd r) s Q E \<longleftrightarrow>
     (if valid_row cs s r then Q () (upd (\<lambda>rs. rs @ [r]) s)
      else E (the (first_violation (cs s r))) s)"
  using first_violation_None [of "cs s r"]
  by (auto simp: wp_def insert_row_app valid_row_def list_all_iff split: option.splits)

lemma insert_row_Inl: "insert_row cs upd r s = (Inl e, s') \<Longrightarrow> s' = s"
  by (auto simp: insert_row_app split: option.splits)

lemma keeps_insert_row:
  "(\<And>s. I s \<Longrightarrow> \<forall>c \<in> set (cs s r). fst c \<Longrightarrow> I (upd (\<lambda>rs. rs @ [r]) s)) \<Longrightarrow>
     keeps I (insert_row cs upd r)"
  using first_violation_None [of "cs _ r"]
  by (fastforce simp: keeps_def insert_row_app split: option.splits)

lemma keeps_update_rows:
  "(\<And>s. I s \<Longrightarrow> I (upd (map_where P f) s)) \<Longrightarrow>
     keeps I (update_rows upd P f)"
  by (simp add: keeps_def op_simps)

lemma keeps_uuid4: "(\<And>s n. I s \<Longrightarrow> I (s\<lparr>ticks := n\<rparr>)) \<Longrightarrow> keeps I uuid4"
  by (simp add: keeps_def op_simps)

lemma keeps_utcnow: "(\<And>s n. I s \<Longrightarrow> I (s\<lparr>ticks := n\<rparr>)) \<Longrightarrow> keeps I utcnow"
  by (simp add: keeps_def op_simps)

end
