(* ===== verification/Journal.thy ===== *)
theory Journal
  imports Models
begin

text \<open>
  The double-entry journal of \<open>src/shared/journal.py\<close>: posting a balanced pair,
  deriving a balance from the entries, the balance net of escrow holds, and the advisory
  lock on an account and currency. The interface the services rely on is the locale
  \<open>ledger\<close>: a posting moves the two named positions by the amount and no other.
\<close>

section \<open>The operations\<close>

definition journal_entry ::
  "uuid \<Rightarrow> uuid \<Rightarrow> string \<Rightarrow> CurrencyCode \<Rightarrow> rat \<Rightarrow> rat \<Rightarrow> string \<Rightarrow> uuid \<Rightarrow> string
     \<Rightarrow> JournalEntry db_op" where
  "journal_entry jid account_id coa_code currency debit credit entry_type ref narrative =
     op_bind uuid4 (\<lambda>i.
     op_bind (op_lift (numeric 38 18 debit)) (\<lambda>d.
     op_bind (op_lift (numeric 38 18 credit)) (\<lambda>c.
     op_bind (op_get txn_now) (\<lambda>t.
     op_return \<lparr>je_id = i, je_journal_id = jid, je_account_id = account_id,
       je_coa_code = coa_code, je_currency = currency, je_debit = d, je_credit = c,
       je_entry_type = entry_type, je_reference_id = Some ref, je_narrative = narrative,
       je_created_at = t\<rparr>))))"

definition flush_journal :: "JournalEntry list \<Rightarrow> unit db_op" where
  "flush_journal rows =
     (\<lambda>s. case first_violation (concat (map (journal_constraints s) rows)) of
            Some e \<Rightarrow> (Inl e, s)
          | None \<Rightarrow> (Inr (), s\<lparr>journal_entries := journal_entries s @ rows\<rparr>))"

definition record_journal_pair ::
  "uuid \<Rightarrow> string \<Rightarrow> CurrencyCode \<Rightarrow> rat \<Rightarrow> string \<Rightarrow> uuid \<Rightarrow> uuid \<Rightarrow> string \<Rightarrow> string
     \<Rightarrow> uuid db_op" where
  "record_journal_pair account_id coa_code currency amount entry_type reference_id
       counter_account_id counter_coa_code narrative =
     op_bind uuid4 (\<lambda>journal_id.
     op_bind (journal_entry journal_id account_id coa_code currency amount 0
                entry_type reference_id narrative) (\<lambda>debit_entry.
     op_bind (journal_entry journal_id counter_account_id counter_coa_code currency 0 amount
                entry_type reference_id narrative) (\<lambda>credit_entry.
     op_bind (flush_journal [debit_entry, credit_entry]) (\<lambda>_.
     op_return journal_id))))"

definition asset_codes :: "string list" where
  "asset_codes = [''OMNIBUS_RESERVE'', ''FX_NOSTRO_USD'', ''FX_NOSTRO_EUR'', ''FX_NOSTRO_GBP'']"

definition on_position :: "uuid \<Rightarrow> CurrencyCode \<Rightarrow> string \<Rightarrow> JournalEntry \<Rightarrow> bool" where
  "on_position a c coa e \<longleftrightarrow>
     je_account_id e = a \<and> je_currency e = c \<and> je_coa_code e = coa"

definition get_balance :: "world \<Rightarrow> uuid \<Rightarrow> CurrencyCode \<Rightarrow> string \<Rightarrow> rat" where
  "get_balance s account_id currency coa_code =
     (let rows = filter (on_position account_id currency coa_code) (journal_entries s);
          debit = (\<Sum>e\<leftarrow>rows. je_debit e); credit = (\<Sum>e\<leftarrow>rows. je_credit e)
      in if coa_code \<in> set asset_codes then debit - credit else credit - debit)"

abbreviation liability :: "world \<Rightarrow> uuid \<Rightarrow> CurrencyCode \<Rightarrow> rat" where
  "liability s a c \<equiv> get_balance s a c ''INSTITUTION_LIABILITY''"

definition holds_of :: "world \<Rightarrow> uuid \<Rightarrow> CurrencyCode \<Rightarrow> HoldType \<Rightarrow> rat" where
  "holds_of s account_id currency ht =
     (\<Sum>h\<leftarrow>filter (\<lambda>h. eh_account_id h = account_id \<and> eh_currency h = currency
                        \<and> eh_hold_type h = ht) (escrow_holds s). eh_amount h)"

definition get_available_balance :: "world \<Rightarrow> uuid \<Rightarrow> CurrencyCode \<Rightarrow> rat" where
  "get_available_balance s account_id currency =
     (let balance = liability s account_id currency;
          held = holds_of s account_id currency RESERVE;
          released = holds_of s account_id currency RELEASE;
          active_holds = dec_sub held released
      in dec_sub balance active_holds)"

fun hex_val :: "string \<Rightarrow> nat" where
  "hex_val [] = 0"
| "hex_val (c # cs) =
     (let n = of_char c :: nat; d = (if n < 58 then n - 48 else n - 87)
      in d * 16 ^ length cs + hex_val cs)"

definition lock_key :: "(string \<Rightarrow> string) \<Rightarrow> uuid \<Rightarrow> CurrencyCode \<Rightarrow> nat" where
  "lock_key sha account_id currency =
     hex_val (take 15 (sha (uuid_str account_id @ '':'' @ CurrencyCode_value currency)))"

definition acquire_balance_lock :: "uuid \<Rightarrow> CurrencyCode \<Rightarrow> unit db_op" where
  "acquire_balance_lock account_id currency =
     op_modify (\<lambda>s. s\<lparr>advisory_locks := lock_key (sha256_hex s) account_id currency # advisory_locks s\<rparr>)"

section \<open>What a posting does\<close>

definition pair_rows ::
  "uuid \<Rightarrow> uuid \<Rightarrow> uuid \<Rightarrow> time \<Rightarrow> uuid \<Rightarrow> string \<Rightarrow> CurrencyCode \<Rightarrow> rat \<Rightarrow> string \<Rightarrow> uuid
     \<Rightarrow> uuid \<Rightarrow> string \<Rightarrow> string \<Rightarrow> JournalEntry list" where
  "pair_rows jid i1 i2 t a coa c v et ref ca ccoa narr =
     [\<lparr>je_id = i1, je_journal_id = jid, je_account_id = a, je_coa_code = coa, je_currency = c,
       je_debit = v, je_credit = 0, je_entry_type = et, je_reference_id = Some ref,
       je_narrative = narr, je_created_at = t\<rparr>,
      \<lparr>je_id = i2, je_journal_id = jid, je_account_id = ca, je_coa_code = ccoa, je_currency = c,
       je_debit = 0, je_credit = v, je_entry_type = et, je_reference_id = Some ref,
       je_narrative = narr, je_created_at = t\<rparr>]"

lemma numeric_zero [simp]: "numeric p s 0 = Inr 0"
  using round_half_up_int [of 0] by (simp add: numeric_Inr)

lemma journal_entry_app [op_simps]:
  "journal_entry jid a coa c d cr et ref narr s =
     (let s' = s\<lparr>ticks := Suc (ticks s)\<rparr>
      in case numeric 38 18 d of Inl e \<Rightarrow> (Inl e, s')
       | Inr dv \<Rightarrow> (case numeric 38 18 cr of Inl e \<Rightarrow> (Inl e, s')
           | Inr cv \<Rightarrow> (Inr \<lparr>je_id = rng s (ticks s), je_journal_id = jid, je_account_id = a,
                je_coa_code = coa, je_currency = c, je_debit = dv, je_credit = cv,
                je_entry_type = et, je_reference_id = Some ref, je_narrative = narr,
                je_created_at = txn_now s\<rparr>, s')))"
  by (simp add: journal_entry_def op_simps Let_def split: sum.splits)

text \<open>Success needs a storable amount, both accounts and both chart codes.\<close>

definition can_post :: "Account list \<Rightarrow> uuid \<Rightarrow> string \<Rightarrow> uuid \<Rightarrow> string \<Rightarrow> bool" where
  "can_post accs a coa ca ccoa \<longleftrightarrow>
     a \<in> acc_id ` set accs \<and> coa \<in> set chart_of_accounts \<and>
     ca \<in> acc_id ` set accs \<and> ccoa \<in> set chart_of_accounts"

lemma acquire_balance_lock_Inr [op_Inr]:
  "acquire_balance_lock a c s = (Inr u, s') \<longleftrightarrow>
     s' = s\<lparr>advisory_locks := lock_key (sha256_hex s) a c # advisory_locks s\<rparr>"
  by (simp add: acquire_balance_lock_def op_Inr)

lemma record_journal_pair_Inr [op_Inr]:
  "record_journal_pair a coa c amt et ref ca ccoa narr s = (Inr jid, s') \<longleftrightarrow>
     (\<exists>v. numeric 38 18 amt = Inr v \<and> can_post (accounts s) a coa ca ccoa \<and> jid = rng s (ticks s) \<and>
        s' = s\<lparr>ticks := ticks s + 3,
               journal_entries := journal_entries s @
                 pair_rows jid (rng s (ticks s + 1)) (rng s (ticks s + 2)) (txn_now s)
                   a coa c v et ref ca ccoa narr\<rparr>)"
  by (auto simp: record_journal_pair_def op_bind_Inr op_simps flush_journal_def can_post_def
      journal_constraints_def pair_rows_def Let_def numeral_3_eq_3 split: sum.splits if_splits)

lemma wp_lock [wp_simps]:
  "wp (acquire_balance_lock a c) s Q E \<longleftrightarrow>
     Q () (s\<lparr>advisory_locks := lock_key (sha256_hex s) a c # advisory_locks s\<rparr>)"
  by (simp add: acquire_balance_lock_def wp_simps)

lemma wp_journal_pair [wp_simps]:
  "wp (record_journal_pair a coa c amt et ref ca ccoa narr) s Q partial \<longleftrightarrow>
     (\<forall>v. numeric 38 18 amt = Inr v \<longrightarrow> can_post (accounts s) a coa ca ccoa \<longrightarrow>
        Q (rng s (ticks s)) (s\<lparr>ticks := ticks s + 3,
           journal_entries := journal_entries s @
             pair_rows (rng s (ticks s)) (rng s (ticks s + 1)) (rng s (ticks s + 2)) (txn_now s)
               a coa c v et ref ca ccoa narr\<rparr>))"
  by (auto intro!: wpI simp: record_journal_pair_Inr dest: wp_Inr)

lemma wp_journal_pair_total:
  assumes "numeric 38 18 amt = Inr v" "can_post (accounts s) a coa ca ccoa"
  shows "wp (record_journal_pair a coa c amt et ref ca ccoa narr) s Q E \<longleftrightarrow>
        Q (rng s (ticks s)) (s\<lparr>ticks := ticks s + 3,
           journal_entries := journal_entries s @
             pair_rows (rng s (ticks s)) (rng s (ticks s + 1)) (rng s (ticks s + 2)) (txn_now s)
               a coa c v et ref ca ccoa narr\<rparr>)"
    (is "_ \<longleftrightarrow> Q ?j ?t")
proof -
  have "record_journal_pair a coa c amt et ref ca ccoa narr s = (Inr ?j, ?t)"
    using assms by (simp add: record_journal_pair_Inr)
  then show ?thesis by (simp add: wp_def)
qed

lemma no_ValueError_journal [simp]:
  "no_ValueError (record_journal_pair a coa c amt et ref ca ccoa narr)"
proof -
  have "e \<noteq> ValueError msg" if "first_violation xs = Some e" for xs e msg
    using that by (induction xs rule: first_violation.induct) (auto split: if_splits)
  then show ?thesis
    by (auto simp: no_ValueError_def record_journal_pair_def op_simps flush_journal_def
        numeric_def Let_def split: sum.splits option.splits prod.splits if_splits)
qed

lemma record_journal_pair_Inl:
  "record_journal_pair a coa c amt et ref ca ccoa narr s = (Inl e, s') \<Longrightarrow>
     \<exists>n. s' = s\<lparr>ticks := n\<rparr>"
  by (auto simp: record_journal_pair_def op_bind_Inl op_simps flush_journal_def Let_def
      split: sum.splits option.splits if_splits)


section \<open>Balances and journal groups\<close>

text \<open>Balances and group totals are read off the list of entries alone.\<close>

definition coa_sign :: "string \<Rightarrow> rat" where
  "coa_sign coa = (if coa \<in> set asset_codes then 1 else -1)"

definition balance_of :: "JournalEntry list \<Rightarrow> uuid \<Rightarrow> CurrencyCode \<Rightarrow> string \<Rightarrow> rat" where
  "balance_of js a c coa =
     coa_sign coa * (\<Sum>e\<leftarrow>filter (on_position a c coa) js. je_debit e - je_credit e)"

definition imbalance :: "JournalEntry list \<Rightarrow> uuid \<Rightarrow> CurrencyCode \<Rightarrow> rat" where
  "imbalance js j c =
     (\<Sum>e\<leftarrow>filter (\<lambda>e. je_journal_id e = j \<and> je_currency e = c) js. je_debit e - je_credit e)"

lemma get_balance_eq [simp]: "get_balance s a c coa = balance_of (journal_entries s) a c coa"
  by (simp add: get_balance_def balance_of_def coa_sign_def Let_def sum_list_subtractf)

lemma coa_sign_values [simp]:
  "coa_sign ''OMNIBUS_RESERVE'' = 1" "coa_sign ''INSTITUTION_LIABILITY'' = -1"
  by (simp_all add: coa_sign_def asset_codes_def)

lemma coa_sign_square [simp]: "coa_sign coa * coa_sign coa = 1"
  by (simp add: coa_sign_def)

lemma balance_of_append:
  "balance_of (js @ ks) a c coa = balance_of js a c coa + balance_of ks a c coa"
  by (simp add: balance_of_def distrib_left)

lemma imbalance_append: "imbalance (js @ ks) j c = imbalance js j c + imbalance ks j c"
  by (simp add: imbalance_def)

lemma balance_of_pair:
  "balance_of (pair_rows jid i1 i2 t a coa c v et ref ca ccoa narr) b cur code =
     (if b = a \<and> cur = c \<and> code = coa then coa_sign coa * v else 0) -
     (if b = ca \<and> cur = c \<and> code = ccoa then coa_sign ccoa * v else 0)"
  by (auto simp: balance_of_def pair_rows_def on_position_def)

lemma imbalance_pair [simp]:
  "imbalance (pair_rows jid i1 i2 t a coa c v et ref ca ccoa narr) j cur = 0"
  by (simp add: imbalance_def pair_rows_def)

section \<open>The ledger interface\<close>

locale ledger =
  fixes bal :: "'s \<Rightarrow> 'k \<Rightarrow> rat"
    and side :: "'k \<Rightarrow> rat"
    and post :: "'k \<Rightarrow> 'k \<Rightarrow> rat \<Rightarrow> 's \<Rightarrow> 's"
  assumes bal_post:
      "bal (post d c v s) k =
         bal s k + (if k = d then side d * v else 0) - (if k = c then side c * v else 0)"
    and side_unit: "side k * side k = 1"
begin

lemma bal_post_other: "k \<noteq> d \<Longrightarrow> k \<noteq> c \<Longrightarrow> bal (post d c v s) k = bal s k"
  by (simp add: bal_post)

lemma bal_post_debit: "d \<noteq> c \<Longrightarrow> bal (post d c v s) d = bal s d + side d * v"
  by (simp add: bal_post)

lemma bal_post_credit: "d \<noteq> c \<Longrightarrow> bal (post d c v s) c = bal s c - side c * v"
  by (simp add: bal_post)

lemma bal_post_self: "bal (post d d v s) k = bal s k"
  by (simp add: bal_post)

lemma bal_post_reverse: "bal (post c d v (post d c v s)) k = bal s k"
  by (simp add: bal_post)

lemma bal_post_commute:
  "bal (post d c v (post d' c' v' s)) k = bal (post d' c' v' (post d c v s)) k"
  by (simp add: bal_post)

text \<open>The difference between the debit-side and the credit-side positions never moves.\<close>

lemma signed_total_post:
  assumes "finite K" "d \<in> K" "c \<in> K"
  shows "(\<Sum>k\<in>K. side k * bal (post d c v s) k) = (\<Sum>k\<in>K. side k * bal s k)"
proof -
  have "side k * bal (post d c v s) k =
      side k * bal s k + ((if k = d then v else 0) - (if k = c then v else 0))" for k
    using side_unit [of k] by (auto simp: bal_post algebra_simps)
  then have "(\<Sum>k\<in>K. side k * bal (post d c v s) k) =
      (\<Sum>k\<in>K. side k * bal s k) +
      ((\<Sum>k\<in>K. if k = d then v else 0) - (\<Sum>k\<in>K. if k = c then v else 0))"
    by (simp add: sum.distrib sum_subtractf)
  also have "\<dots> = (\<Sum>k\<in>K. side k * bal s k)" using assms by simp
  finally show ?thesis .
qed

text \<open>A posting between two positions of the same side moves money and creates none.\<close>

lemma total_post_same_side:
  assumes "finite K" "d \<in> K" "c \<in> K" "side d = side c"
  shows "(\<Sum>k\<in>K. bal (post d c v s) k) = (\<Sum>k\<in>K. bal s k)"
proof -
  have "(\<Sum>k\<in>K. bal (post d c v s) k) = (\<Sum>k\<in>K. bal s k) +
      ((\<Sum>k\<in>K. if k = d then side d * v else 0) - (\<Sum>k\<in>K. if k = c then side c * v else 0))"
    by (simp add: bal_post sum.distrib sum_subtractf algebra_simps)
  also have "\<dots> = (\<Sum>k\<in>K. bal s k)" using assms by simp
  finally show ?thesis .
qed

end

interpretation jl: ledger
  "\<lambda>js (a, coa). balance_of js a cur coa"
  "\<lambda>(a, coa). coa_sign coa"
  "\<lambda>(a, coa) (ca, ccoa) v js. js @ pair_rows jid i1 i2 t a coa cur v et ref ca ccoa narr"
  for cur jid i1 i2 t et ref narr
  by unfold_locales (auto simp: balance_of_append balance_of_pair split: if_splits)

text \<open>
  What a service promises of its posting: exactly one balanced pair was appended, on the
  two named positions.
\<close>

definition posted ::
  "CurrencyCode \<Rightarrow> rat \<Rightarrow> uuid \<times> string \<Rightarrow> uuid \<times> string \<Rightarrow> JournalEntry list \<Rightarrow> JournalEntry list
     \<Rightarrow> bool" where
  "posted c v d k js js' \<longleftrightarrow>
     (\<exists>jid i1 i2 t et ref narr.
        js' = js @ pair_rows jid i1 i2 t (fst d) (snd d) c v et ref (fst k) (snd k) narr)"

lemma posted_pair [simp]:
  "posted c v (a, coa) (ca, ccoa) js (js @ pair_rows jid i1 i2 t a coa c v et ref ca ccoa narr)"
  unfolding posted_def fst_conv snd_conv by blast

lemma posted_balance:
  assumes "posted c v (a, coa) (ca, ccoa) js js'"
  shows "balance_of js' b cur code = balance_of js b cur code +
     (if b = a \<and> cur = c \<and> code = coa then coa_sign coa * v else 0) -
     (if b = ca \<and> cur = c \<and> code = ccoa then coa_sign ccoa * v else 0)"
  using assms by (auto simp: posted_def balance_of_append balance_of_pair)

lemma posted_reverse:
  assumes "posted c v d k js js'" "posted c v k d js' js''"
  shows "balance_of js'' b cur code = balance_of js b cur code"
proof -
  obtain a coa ca ccoa where "d = (a, coa)" "k = (ca, ccoa)" by fastforce
  with assms show ?thesis by (auto simp: posted_balance)
qed

lemma posted_signed_total:
  assumes "posted c v d k js js'" "finite K" "d \<in> K" "k \<in> K"
  shows "(\<Sum>(a, coa)\<in>K. coa_sign coa * balance_of js' a c coa) =
    (\<Sum>(a, coa)\<in>K. coa_sign coa * balance_of js a c coa)"
proof -
  obtain jid i1 i2 t et ref narr where
    "js' = js @ pair_rows jid i1 i2 t (fst d) (snd d) c v et ref (fst k) (snd k) narr"
    using assms(1) by (auto simp: posted_def)
  with jl.signed_total_post [OF assms(2-4), where v = v and s = js and cur = c and jid = jid
      and ?i1.0 = i1 and ?i2.0 = i2 and t = t and et = et and ref = ref and narr = narr]
  show ?thesis by (simp add: case_prod_beta)
qed

text \<open>The money participants hold, and that no participant is overdrawn.\<close>

definition total_liability :: "Account list \<Rightarrow> JournalEntry list \<Rightarrow> CurrencyCode \<Rightarrow> rat" where
  "total_liability accs js c =
     (\<Sum>a \<in> acc_id ` set accs. balance_of js a c ''INSTITUTION_LIABILITY'')"

definition solvent :: "JournalEntry list \<Rightarrow> bool" where
  "solvent js \<longleftrightarrow> (\<forall>a c. 0 \<le> balance_of js a c ''INSTITUTION_LIABILITY'')"

lemma posted_total_liability:
  assumes "posted c v (a, ''INSTITUTION_LIABILITY'') (b, ''INSTITUTION_LIABILITY'') js js'"
    and "{a, b} \<subseteq> acc_id ` set accs"
  shows "total_liability accs js' cur = total_liability accs js cur"
proof -
  let ?A = "acc_id ` set accs"
  have "balance_of js' x cur ''INSTITUTION_LIABILITY'' = balance_of js x cur ''INSTITUTION_LIABILITY'' +
      ((if x = b then (if cur = c then v else 0) else 0) -
       (if x = a then (if cur = c then v else 0) else 0))" for x
    using posted_balance [OF assms(1)] by simp
  then have "total_liability accs js' cur = total_liability accs js cur +
      ((\<Sum>x\<in>?A. if x = b then (if cur = c then v else 0) else 0) -
       (\<Sum>x\<in>?A. if x = a then (if cur = c then v else 0) else 0))"
    by (simp add: total_liability_def sum.distrib sum_subtractf)
  also have "\<dots> = total_liability accs js cur" using assms(2) by simp
  finally show ?thesis .
qed

lemma posted_solvent:
  assumes "posted c v (a, ''INSTITUTION_LIABILITY'') (b, ''INSTITUTION_LIABILITY'') js js'"
    and "v \<le> balance_of js a c ''INSTITUTION_LIABILITY''" "0 \<le> v" "solvent js"
  shows "solvent js'"
proof -
  have "0 \<le> balance_of js x cur ''INSTITUTION_LIABILITY''" for x cur
    using assms(4) by (simp add: solvent_def)
  moreover from this have "- v \<le> balance_of js x cur ''INSTITUTION_LIABILITY''" for x cur
    using assms(3) by (meson neg_le_0_iff_le order_trans)
  ultimately show ?thesis using assms(2,3) posted_balance [OF assms(1)]
    by (simp add: solvent_def)
qed

section \<open>Append-only tables\<close>

text \<open>
  What no operation may do to the audit tables: shorten or rewrite the journal, the holds,
  the status history or the outbox, unbalance a journal group, or store an amount with more
  places than its column has.
\<close>

definition places_ok :: "JournalEntry list \<Rightarrow> EscrowHold list \<Rightarrow> bool" where
  "places_ok js hs \<longleftrightarrow>
     list_all (\<lambda>e. on_grid 18 (je_debit e) \<and> on_grid 18 (je_credit e)) js \<and>
     list_all (\<lambda>h. on_grid 18 (eh_amount h)) hs"

abbreviation columns_ok :: "world \<Rightarrow> bool" where
  "columns_ok s \<equiv> places_ok (journal_entries s) (escrow_holds s)"

lemma places_ok_journal:
  "places_ok (js @ js') hs \<longleftrightarrow> places_ok js hs \<and> places_ok js' []"
  by (auto simp: places_ok_def)

lemma places_ok_holds:
  "places_ok js (hs @ hs') \<longleftrightarrow> places_ok js hs \<and> places_ok [] hs'"
  by (auto simp: places_ok_def)

lemma places_ok_pair [simp]:
  "places_ok (pair_rows jid i1 i2 t a coa c v et ref ca ccoa narr) [] \<longleftrightarrow> on_grid 18 v"
  by (auto simp: places_ok_def pair_rows_def)

definition audit_safe :: "world \<Rightarrow> world \<Rightarrow> bool" where
  "audit_safe s0 s \<longleftrightarrow>
     prefix (journal_entries s0) (journal_entries s) \<and>
     prefix (escrow_holds s0) (escrow_holds s) \<and>
     prefix (status_history s0) (status_history s) \<and>
     prefix (outbox_events s0) (outbox_events s) \<and>
     (\<forall>j c. imbalance (journal_entries s) j c = imbalance (journal_entries s0) j c) \<and>
     (columns_ok s0 \<longrightarrow> columns_ok s)"

lemma audit_safe_refl [simp]: "audit_safe s s"
  by (simp add: audit_safe_def)

lemma audit_safe_trans: "audit_safe s0 s1 \<Longrightarrow> audit_safe s1 s2 \<Longrightarrow> audit_safe s0 s2"
  by (auto simp: audit_safe_def intro: prefix_order.trans)

text \<open>While the amounts stay below ten billion, the 28-digit arithmetic is exact.\<close>

lemma on_grid_balance:
  "columns_ok s \<Longrightarrow> on_grid 18 (balance_of (journal_entries s) a c coa)"
proof -
  assume ok: "columns_ok s"
  have "on_grid 18 (\<Sum>e\<leftarrow>filter (on_position a c coa) (journal_entries s). je_debit e - je_credit e)"
    using ok by (intro on_grid_sum_list) (auto simp: places_ok_def list_all_iff intro: on_grid_diff)
  then show ?thesis by (auto simp: balance_of_def coa_sign_def dest: on_grid_minus)
qed

lemma on_grid_holds: "columns_ok s \<Longrightarrow> on_grid 18 (holds_of s a c ht)"
  unfolding holds_of_def by (intro on_grid_sum_list) (auto simp: places_ok_def list_all_iff)

lemma dec_sub_exact:
  "on_grid 18 x \<Longrightarrow> on_grid 18 y \<Longrightarrow> \<bar>x - y\<bar> < 10 ^ 10 \<Longrightarrow> dec_sub x y = x - y"
  unfolding dec_sub_def
  using ctx_round_exact [of 18 "x - y"] by (simp add: decimal_prec_def on_grid_diff)

definition active_holds :: "world \<Rightarrow> uuid \<Rightarrow> CurrencyCode \<Rightarrow> rat" where
  "active_holds s a c = holds_of s a c RESERVE - holds_of s a c RELEASE"

lemma available_exact:
  assumes "columns_ok s" "\<bar>active_holds s a c\<bar> < 10 ^ 10"
    and "\<bar>liability s a c - active_holds s a c\<bar> < 10 ^ 10"
  shows "get_available_balance s a c = liability s a c - active_holds s a c"
  using assms on_grid_balance [OF assms(1)] on_grid_holds [OF assms(1)]
  by (simp add: get_available_balance_def active_holds_def Let_def dec_sub_exact on_grid_diff)

lemma keeps_audit_uuid4 [keeps_intros]: "keeps (audit_safe s0) uuid4"
  by (rule keeps_uuid4) (simp add: audit_safe_def)

lemma keeps_audit_utcnow [keeps_intros]: "keeps (audit_safe s0) utcnow"
  by (rule keeps_utcnow) (simp add: audit_safe_def)

lemma keeps_audit_lock [keeps_intros]: "keeps (audit_safe s0) (acquire_balance_lock a c)"
  by (simp add: keeps_def acquire_balance_lock_def op_simps audit_safe_def)

lemma keeps_audit_journal [keeps_intros]:
  "keeps (audit_safe s0) (record_journal_pair a coa c amt et ref ca ccoa narr)"
proof (rule keepsI)
  fix s r s'
  assume safe: "audit_safe s0 s"
    and rs: "record_journal_pair a coa c amt et ref ca ccoa narr s = (r, s')"
  show "audit_safe s0 s'"
  proof (cases r)
    case (Inl e)
    with rs safe show ?thesis by (auto dest!: record_journal_pair_Inl simp: audit_safe_def)
  next
    case (Inr jid)
    with rs safe show ?thesis
      by (auto simp: record_journal_pair_Inr audit_safe_def imbalance_append places_ok_journal
          dest: numeric_on_grid)
  qed
qed

end
