(* ===== verification/Events.thy ===== *)
theory Events
  imports Journal
begin

text \<open>
  The event schemas of \<open>src/shared/events.py\<close> and the transactional outbox of
  \<open>src/shared/outbox.py\<close>. An event is its base fields and one constructor per Pydantic
  class; \<open>model_dump\<close> is the JSON object the outbox row stores, with the keys in the
  order the class declares them. A consumer reads that object by key.
\<close>

section \<open>Schemas\<close>

datatype event_body =
    TokenIssuanceRequested string uuid CurrencyCode rat "string option" "string option" string
  | TokenIssuanceCompleted string uuid CurrencyCode rat rat
  | TokenRedemptionRequested string uuid CurrencyCode rat "string option"
  | TokenRedemptionCompleted string uuid CurrencyCode rat rat
  | TokenBalanceUpdated uuid CurrencyCode rat rat rat string
  | RTGSSettlementSubmitted string uuid uuid CurrencyCode rat string
  | RTGSSettlementProcessing string time
  | RTGSSettlementCompleted string uuid uuid CurrencyCode rat uuid time
  | RTGSSettlementFailed string fstr int
  | ConditionalPaymentCreated string uuid uuid CurrencyCode rat ConditionType dict
  | ConditionalPaymentTriggered string dict string
  | ConditionalPaymentCompleted string uuid time
  | EscrowCreated string uuid uuid CurrencyCode rat dict time
  | EscrowReleased string string uuid string rat
  | EscrowExpired string uuid rat
  | FXRateUpdated CurrencyCode CurrencyCode rat "rat option" "rat option" string
  | FXSettlementInitiated string uuid uuid CurrencyCode rat CurrencyCode rat rat SettlementRails
  | FXSettlementLegCompleted string string uuid rat CurrencyCode
  | FXSettlementCompleted string uuid uuid "string option" time
  | FXSettlementFailed string fstr
  | ComplianceEventMsg string string string string rat dict

record BaseEvent =
  ev_event_id :: uuid
  ev_event_time :: time
  ev_service :: string

record Event = BaseEvent +
  ev_body :: event_body

definition j_uuid :: "uuid \<Rightarrow> json" where "j_uuid u = JStr (uuid_str u)"
definition j_cur :: "CurrencyCode \<Rightarrow> json" where "j_cur c = JStr (CurrencyCode_value c)"
definition j_opt :: "('a \<Rightarrow> json) \<Rightarrow> 'a option \<Rightarrow> json" where
  "j_opt f x = (case x of None \<Rightarrow> JNull | Some y \<Rightarrow> f y)"

fun j_frag :: "frag \<Rightarrow> json" where
  "j_frag (Txt t) = JStr t" | "j_frag (Dec d) = JDec d" | "j_frag (Num n) = JInt n"

text \<open>A rendered message is kept as the array of its fragments.\<close>

definition j_fstr :: "fstr \<Rightarrow> json" where "j_fstr m = JArr (map j_frag m)"

fun body_fields :: "event_body \<Rightarrow> dict" where
  "body_fields (TokenIssuanceRequested r a c m b cu ty) =
     [(''issuance_ref'', JStr r), (''account_id'', j_uuid a), (''currency'', j_cur c),
      (''amount'', JDec m), (''backing_ref'', j_opt JStr b), (''custodian'', j_opt JStr cu),
      (''issuance_type'', JStr ty)]"
| "body_fields (TokenIssuanceCompleted r a c m nb) =
     [(''issuance_ref'', JStr r), (''account_id'', j_uuid a), (''currency'', j_cur c),
      (''amount'', JDec m), (''new_balance'', JDec nb)]"
| "body_fields (TokenRedemptionRequested r a c m sr) =
     [(''issuance_ref'', JStr r), (''account_id'', j_uuid a), (''currency'', j_cur c),
      (''amount'', JDec m), (''settlement_ref'', j_opt JStr sr)]"
| "body_fields (TokenRedemptionCompleted r a c m nb) =
     [(''issuance_ref'', JStr r), (''account_id'', j_uuid a), (''currency'', j_cur c),
      (''amount'', JDec m), (''new_balance'', JDec nb)]"
| "body_fields (TokenBalanceUpdated a c ob nb rv why) =
     [(''account_id'', j_uuid a), (''currency'', j_cur c), (''old_balance'', JDec ob),
      (''new_balance'', JDec nb), (''reserved'', JDec rv), (''reason'', JStr why)]"
| "body_fields (RTGSSettlementSubmitted r a b c m p) =
     [(''settlement_ref'', JStr r), (''sending_account_id'', j_uuid a),
      (''receiving_account_id'', j_uuid b), (''currency'', j_cur c), (''amount'', JDec m),
      (''priority'', JStr p)]"
| "body_fields (RTGSSettlementProcessing r t) =
     [(''settlement_ref'', JStr r), (''started_at'', JTime t)]"
| "body_fields (RTGSSettlementCompleted r a b c m x t) =
     [(''settlement_ref'', JStr r), (''sending_account_id'', j_uuid a),
      (''receiving_account_id'', j_uuid b), (''currency'', j_cur c), (''amount'', JDec m),
      (''transaction_id'', j_uuid x), (''settled_at'', JTime t)]"
| "body_fields (RTGSSettlementFailed r why n) =
     [(''settlement_ref'', JStr r), (''reason'', j_fstr why), (''retry_count'', JInt n)]"
| "body_fields (ConditionalPaymentCreated r a b c m ty ps) =
     [(''payment_ref'', JStr r), (''payer_account_id'', j_uuid a),
      (''payee_account_id'', j_uuid b), (''currency'', j_cur c), (''amount'', JDec m),
      (''condition_type'', JStr (ConditionType_value ty)), (''condition_params'', JObj ps)]"
| "body_fields (ConditionalPaymentTriggered r d who) =
     [(''payment_ref'', JStr r), (''trigger_data'', JObj d), (''triggered_by'', JStr who)]"
| "body_fields (ConditionalPaymentCompleted r x t) =
     [(''payment_ref'', JStr r), (''transaction_id'', j_uuid x), (''executed_at'', JTime t)]"
| "body_fields (EscrowCreated r a b c m cs t) =
     [(''contract_ref'', JStr r), (''depositor_account_id'', j_uuid a),
      (''beneficiary_account_id'', j_uuid b), (''currency'', j_cur c), (''amount'', JDec m),
      (''conditions'', JObj cs), (''expires_at'', JTime t)]"
| "body_fields (EscrowReleased r x a who m) =
     [(''contract_ref'', JStr r), (''release_txn_id'', JStr x), (''released_to'', j_uuid a),
      (''triggered_by'', JStr who), (''amount'', JDec m)]"
| "body_fields (EscrowExpired r a m) =
     [(''contract_ref'', JStr r), (''refunded_account_id'', j_uuid a), (''amount'', JDec m)]"
| "body_fields (FXRateUpdated b q m bid ask src) =
     [(''base_currency'', j_cur b), (''quote_currency'', j_cur q), (''mid_rate'', JDec m),
      (''bid_rate'', j_opt JDec bid), (''ask_rate'', j_opt JDec ask), (''source'', JStr src)]"
| "body_fields (FXSettlementInitiated r a b sc sa bc ba rt rl) =
     [(''settlement_ref'', JStr r), (''sending_account_id'', j_uuid a),
      (''receiving_account_id'', j_uuid b), (''sell_currency'', j_cur sc),
      (''sell_amount'', JDec sa), (''buy_currency'', j_cur bc), (''buy_amount'', JDec ba),
      (''applied_rate'', JDec rt), (''rails'', JStr (SettlementRails_value rl))]"
| "body_fields (FXSettlementLegCompleted r l x m c) =
     [(''settlement_ref'', JStr r), (''leg'', JStr l), (''transaction_id'', j_uuid x),
      (''amount'', JDec m), (''currency'', j_cur c)]"
| "body_fields (FXSettlementCompleted r x y h t) =
     [(''settlement_ref'', JStr r), (''sell_txn_id'', j_uuid x), (''buy_txn_id'', j_uuid y),
      (''blockchain_hash'', j_opt JStr h), (''settled_at'', JTime t)]"
| "body_fields (FXSettlementFailed r why) =
     [(''settlement_ref'', JStr r), (''reason'', j_fstr why)]"
| "body_fields (ComplianceEventMsg et ei ty res sc d) =
     [(''entity_type'', JStr et), (''entity_id'', JStr ei), (''event_type'', JStr ty),
      (''result'', JStr res), (''score'', JDec sc), (''details'', JObj d)]"

definition model_dump :: "Event \<Rightarrow> dict" where
  "model_dump e =
     [(''event_id'', j_uuid (ev_event_id e)), (''event_time'', JTime (ev_event_time e)),
      (''service'', JStr (ev_service e))] @ body_fields (ev_body e)"

text \<open>Constructing an event draws its identifier and its time.\<close>

definition mk_event :: "service \<Rightarrow> event_body \<Rightarrow> Event db_op" where
  "mk_event svc b =
     op_bind uuid4 (\<lambda>i.
     op_bind utcnow (\<lambda>t.
     op_return \<lparr>ev_event_id = i, ev_event_time = t, ev_service = service_name svc, ev_body = b\<rparr>))"

section \<open>The outbox\<close>

definition insert_outbox_event :: "string \<Rightarrow> string \<Rightarrow> Event \<Rightarrow> unit db_op" where
  "insert_outbox_event aggregate_id event_type event =
     op_bind uuid4 (\<lambda>i.
     op_bind (op_get txn_now) (\<lambda>t.
     insert_row (\<lambda>_ _. []) outbox_events_update
       \<lparr>oe_id = i, oe_aggregate_id = aggregate_id, oe_event_type = event_type,
        oe_payload = model_dump event, oe_created_at = t, oe_published_at = None\<rparr>))"

text \<open>The call shape of the services: build the event and insert it.\<close>

definition emit :: "service \<Rightarrow> string \<Rightarrow> string \<Rightarrow> event_body \<Rightarrow> unit db_op" where
  "emit svc aggregate_id event_type b =
     op_bind (mk_event svc b) (\<lambda>e. insert_outbox_event aggregate_id event_type e)"

definition outbox_row ::
  "(nat \<Rightarrow> uuid) \<Rightarrow> (nat \<Rightarrow> time) \<Rightarrow> time \<Rightarrow> nat \<Rightarrow> service \<Rightarrow> string \<Rightarrow> string \<Rightarrow> event_body
     \<Rightarrow> OutboxEvent" where
  "outbox_row rnd clk now n svc agg ty b =
     \<lparr>oe_id = rnd (n + 2), oe_aggregate_id = agg, oe_event_type = ty,
      oe_payload = model_dump \<lparr>ev_event_id = rnd n, ev_event_time = clk (n + 1),
        ev_service = service_name svc, ev_body = b\<rparr>,
      oe_created_at = now, oe_published_at = None\<rparr>"

lemma emit_app [op_simps]:
  "emit svc agg ty b s =
     (Inr (), s\<lparr>ticks := ticks s + 3, outbox_events := outbox_events s @
        [outbox_row (rng s) (clock s) (txn_now s) (ticks s) svc agg ty b]\<rparr>)"
  by (simp add: emit_def mk_event_def insert_outbox_event_def outbox_row_def op_simps numeral_3_eq_3)

lemma wp_emit [wp_simps]:
  "wp (emit svc agg ty b) s Q E \<longleftrightarrow>
     Q () (s\<lparr>ticks := ticks s + 3, outbox_events := outbox_events s @
       [outbox_row (rng s) (clock s) (txn_now s) (ticks s) svc agg ty b]\<rparr>)"
  by (simp add: wp_def op_simps)

lemma keeps_audit_emit [keeps_intros]: "keeps (audit_safe s0) (emit svc agg ty b)"
  by (rule keepsI) (auto simp: op_simps audit_safe_def)

lemma outbox_row_simps [simp]:
  "oe_aggregate_id (outbox_row rnd clk now n svc agg ty b) = agg"
  "oe_event_type (outbox_row rnd clk now n svc agg ty b) = ty"
  "oe_published_at (outbox_row rnd clk now n svc agg ty b) = None"
  "oe_created_at (outbox_row rnd clk now n svc agg ty b) = now"
  by (simp_all add: outbox_row_def)

lemma outbox_row_payload:
  "k \<notin> {''event_id'', ''event_time'', ''service''} \<Longrightarrow>
     map_of (oe_payload (outbox_row rnd clk now n svc agg ty b)) k = map_of (body_fields b) k"
  by (simp add: outbox_row_def model_dump_def)

end
