(* ===== verification/Platform.thy ===== *)
theory Platform
  imports Events
begin

text \<open>
  The other shared modules: the session that commits or rolls back
  (\<open>src/shared/database.py\<close>), the status history (\<open>src/shared/status.py\<close>), the
  simulated chain and fiat rails (\<open>src/shared/blockchain_sim.py\<close>), the transition
  tables (\<open>src/shared/state_machine.py\<close>), the request context
  (\<open>src/shared/context.py\<close>) and role-based access (\<open>src/shared/rbac.py\<close>).
\<close>

section \<open>Sessions\<close>

text \<open>
  A rollback restores every table; the draws from the clock and the random source and the
  block counters of the processes are not part of the database.
\<close>

definition begin_txn :: "world \<Rightarrow> world" where
  "begin_txn s =
     s\<lparr>txn_now := clock s (ticks s), ticks := Suc (ticks s), advisory_locks := []\<rparr>"

definition rollback :: "world \<Rightarrow> world \<Rightarrow> world" where
  "rollback s0 s =
     s0\<lparr>txn_now := txn_now s, ticks := ticks s, block_counter := block_counter s,
        advisory_locks := []\<rparr>"

definition get_db_session :: "'a db_op \<Rightarrow> 'a db_op" where
  "get_db_session body =
     (\<lambda>s. case body (begin_txn s) of
            (Inr r, s') \<Rightarrow> (Inr r, s'\<lparr>advisory_locks := []\<rparr>)
          | (Inl e, s') \<Rightarrow> (Inl e, rollback s s'))"

text \<open>The persistent part of the state: two states that agree on every table.\<close>

definition same_tables :: "world \<Rightarrow> world \<Rightarrow> bool" where
  "same_tables s t \<longleftrightarrow>
     t = s\<lparr>txn_now := txn_now t, ticks := ticks t, block_counter := block_counter t,
           advisory_locks := advisory_locks t\<rparr>"

lemma get_db_session_Inl:
  "get_db_session body s = (Inl e, s') \<longleftrightarrow>
     (\<exists>t. body (begin_txn s) = (Inl e, t) \<and> s' = rollback s t)"
  by (auto simp: get_db_session_def split: prod.splits sum.splits)

lemma get_db_session_Inr:
  "get_db_session body s = (Inr r, s') \<longleftrightarrow>
     (\<exists>t. body (begin_txn s) = (Inr r, t) \<and> s' = t\<lparr>advisory_locks := []\<rparr>)"
  by (auto simp: get_db_session_def split: prod.splits sum.splits)

lemma wp_session [wp_simps]:
  "wp (get_db_session m) s Q E \<longleftrightarrow>
     wp m (begin_txn s) (\<lambda>x t. Q x (t\<lparr>advisory_locks := []\<rparr>)) (\<lambda>e t. E e (rollback s t))"
  by (simp add: wp_def get_db_session_def split: prod.splits sum.splits)

lemma get_account_begin [simp]: "get_account (begin_txn s) a = get_account s a"
  by (simp add: get_account_def begin_txn_def)

lemma account_active_begin [simp]: "account_active (begin_txn s) a = account_active s a"
  by (simp add: account_active_def)

lemma same_tables_refl [simp]: "same_tables s s"
  by (simp add: same_tables_def)

lemma same_tables_rollback [simp]: "same_tables s (rollback s t)"
  by (simp add: same_tables_def rollback_def)

lemma same_tables_begin [simp]: "same_tables s (begin_txn s)"
  by (simp add: same_tables_def begin_txn_def)

lemma begin_txn_simps [simp]:
  "accounts (begin_txn s) = accounts s" "api_keys (begin_txn s) = api_keys s"
  "processed_events (begin_txn s) = processed_events s"
  "token_balances (begin_txn s) = token_balances s"
  "journal_entries (begin_txn s) = journal_entries s"
  "outbox_events (begin_txn s) = outbox_events s" "escrow_holds (begin_txn s) = escrow_holds s"
  "status_history (begin_txn s) = status_history s"
  "token_issuances (begin_txn s) = token_issuances s"
  "transactions (begin_txn s) = transactions s"
  "rtgs_settlements (begin_txn s) = rtgs_settlements s"
  "escrow_contracts (begin_txn s) = escrow_contracts s"
  "conditional_payments (begin_txn s) = conditional_payments s"
  "fx_rates (begin_txn s) = fx_rates s" "fx_settlements (begin_txn s) = fx_settlements s"
  "compliance_events (begin_txn s) = compliance_events s"
  "rng (begin_txn s) = rng s" "clock (begin_txn s) = clock s"
  "sha256_hex (begin_txn s) = sha256_hex s" "md5_hex (begin_txn s) = md5_hex s"
  "ticks (begin_txn s) = Suc (ticks s)" "block_counter (begin_txn s) = block_counter s"
  by (simp_all add: begin_txn_def)

lemma rollback_simps [simp]:
  "accounts (rollback s t) = accounts s" "journal_entries (rollback s t) = journal_entries s"
  "outbox_events (rollback s t) = outbox_events s" "escrow_holds (rollback s t) = escrow_holds s"
  "status_history (rollback s t) = status_history s"
  "token_issuances (rollback s t) = token_issuances s"
  "transactions (rollback s t) = transactions s"
  "rtgs_settlements (rollback s t) = rtgs_settlements s"
  "escrow_contracts (rollback s t) = escrow_contracts s"
  "conditional_payments (rollback s t) = conditional_payments s"
  "fx_rates (rollback s t) = fx_rates s" "fx_settlements (rollback s t) = fx_settlements s"
  "token_balances (rollback s t) = token_balances s"
  by (simp_all add: rollback_def)

text \<open>
  The unit of work every request handler and every worker cycle runs in: the promise is
  that a failure leaves no trace in the tables.
\<close>

locale unit_of_work =
  fixes run :: "('s, 'a) op \<Rightarrow> ('s, 'a) op"
    and start :: "'s \<Rightarrow> 's"
    and same :: "'s \<Rightarrow> 's \<Rightarrow> bool"
    and I :: "'s \<Rightarrow> bool"
  assumes run_error: "run m s = (Inl e, s') \<Longrightarrow> same s s'"
    and run_ok: "run m s = (Inr r, s') \<Longrightarrow> \<exists>t. m (start s) = (Inr r, t) \<and> (I t \<longrightarrow> I s')"
    and I_start: "I s \<Longrightarrow> I (start s)"
    and I_same: "same s s' \<Longrightarrow> I s \<Longrightarrow> I s'"
begin

text \<open>
  It is enough that the successful runs of the body establish the predicate: what a failed
  body left behind is discarded.
\<close>

lemma run_preserves:
  assumes "\<And>t r t'. I t \<Longrightarrow> m t = (Inr r, t') \<Longrightarrow> I t'"
  shows "keeps I (run m)"
proof (rule keepsI)
  fix s r s' assume I: "I s" and rs: "run m s = (r, s')"
  show "I s'"
  proof (cases r)
    case (Inl e)
    with rs have "same s s'" by (simp add: run_error)
    then show ?thesis using I by (rule I_same)
  next
    case (Inr x)
    with rs obtain t where "m (start s) = (Inr x, t)" "I t \<longrightarrow> I s'"
      using run_ok by blast
    with assms I_start [OF I] show ?thesis by blast
  qed
qed

lemma run_keeps: "keeps I m \<Longrightarrow> keeps I (run m)"
  by (rule run_preserves) (rule keepsD)

end

text \<open>A predicate that looks at the tables only.\<close>

definition table_pred :: "(world \<Rightarrow> bool) \<Rightarrow> bool" where
  "table_pred I \<longleftrightarrow> (\<forall>s t. same_tables s t \<longrightarrow> I s \<longrightarrow> I t)"

lemma same_tablesE:
  assumes "same_tables s t"
  obtains a b c d where "t = s\<lparr>txn_now := a, ticks := b, block_counter := c, advisory_locks := d\<rparr>"
  using assms unfolding same_tables_def by blast

lemma same_tables_trans: "same_tables s t \<Longrightarrow> same_tables t u \<Longrightarrow> same_tables s u"
  by (elim same_tablesE) (simp add: same_tables_def)

lemma same_tables_eqs:
  assumes "same_tables s t"
  shows "accounts t = accounts s" "rtgs_settlements t = rtgs_settlements s"
    "conditional_payments t = conditional_payments s" "fx_settlements t = fx_settlements s"
    "escrow_contracts t = escrow_contracts s" "journal_entries t = journal_entries s"
    "escrow_holds t = escrow_holds s" "fx_rates t = fx_rates s" "transactions t = transactions s"
proof -
  obtain a b c d where t: "t = s\<lparr>txn_now := a, ticks := b, block_counter := c, advisory_locks := d\<rparr>"
    using assms by (rule same_tablesE)
  show "accounts t = accounts s" "rtgs_settlements t = rtgs_settlements s"
    "conditional_payments t = conditional_payments s" "fx_settlements t = fx_settlements s"
    "escrow_contracts t = escrow_contracts s" "journal_entries t = journal_entries s"
    "escrow_holds t = escrow_holds s" "fx_rates t = fx_rates s" "transactions t = transactions s"
    unfolding t by simp_all
qed

lemma same_tables_locks [simp]: "same_tables s (begin_txn s\<lparr>advisory_locks := l\<rparr>)"
  by (simp add: same_tables_def begin_txn_def)

lemma same_tables_ticks: "same_tables s (begin_txn s\<lparr>ticks := n, advisory_locks := l\<rparr>)"
  by (simp add: same_tables_def begin_txn_def)

lemma get_account_same: "same_tables s t \<Longrightarrow> get_account t a = get_account s a"
  by (simp add: get_account_def same_tables_eqs)

lemma account_active_same: "same_tables s t \<Longrightarrow> account_active t a = account_active s a"
  by (simp add: account_active_def get_account_same)

lemma session_unit_of_work:
  assumes "table_pred I"
  shows "unit_of_work get_db_session begin_txn same_tables I"
proof
  show "same_tables s s'" if "get_db_session m s = (Inl e, s')" for m :: "'a db_op" and s e s'
    using that by (auto simp: get_db_session_Inl)
  show "\<exists>t. m (begin_txn s) = (Inr r, t) \<and> (I t \<longrightarrow> I s')"
    if "get_db_session m s = (Inr r, s')" for m :: "'a db_op" and s r s'
  proof -
    have "same_tables t (t\<lparr>advisory_locks := []\<rparr>)" for t by (simp add: same_tables_def)
    with that assms show ?thesis by (auto simp: get_db_session_Inr table_pred_def)
  qed
qed (use assms same_tables_begin in \<open>unfold table_pred_def, blast\<close>)+

lemma keeps_session_wp:
  assumes "table_pred I" and "\<And>s. I s \<Longrightarrow> wp m s (\<lambda>_. I) partial"
  shows "keeps I (get_db_session m)"
  by (rule unit_of_work.run_preserves [OF session_unit_of_work [OF assms(1)]])
     (rule wp_Inr [OF assms(2)])

lemma table_pred_audit_safe: "table_pred (audit_safe s0)"
  by (auto simp: table_pred_def audit_safe_def elim!: same_tablesE)

interpretation session_audit: unit_of_work get_db_session begin_txn same_tables "audit_safe s0"
  for s0
  by (rule session_unit_of_work [OF table_pred_audit_safe])

lemmas keeps_audit_session [keeps_intros] = session_audit.run_keeps

text \<open>
  A pass of a worker loop: one session, committed when the body ends and rolled back when it
  raises; the loop logs the exception and goes on.
\<close>

definition worker_pass :: "unit db_op \<Rightarrow> world \<Rightarrow> world" where
  "worker_pass body s = snd (get_db_session body s)"

lemma audit_worker_pass: "keeps (audit_safe s0) m \<Longrightarrow> audit_safe s0 s \<Longrightarrow> audit_safe s0 (worker_pass m s)"
  using keeps_audit_session [of s0 m] by (simp add: worker_pass_def keeps_def)

text \<open>
  The worker loops of the services: read the rows that are ready, process each, and
  commit. If processing one row keeps the service's contract \<open>ok\<close> and leaves the other rows
  alone, so does the whole pass.
\<close>

locale batch_worker =
  fixes process :: "'r \<Rightarrow> 'b db_op"
    and rows :: "world \<Rightarrow> 'r list"
    and key :: "'r \<Rightarrow> uuid"
    and ready :: "'r \<Rightarrow> bool"
    and pending :: "world \<Rightarrow> 'r list"
    and inv :: "world \<Rightarrow> bool"
    and ok :: "world \<Rightarrow> world \<Rightarrow> bool"
  assumes process_ok: "inv s \<Longrightarrow> r \<in> set (rows s) \<Longrightarrow> ready r \<Longrightarrow> process r s = (Inr b, s') \<Longrightarrow>
      ok s s' \<and> (\<forall>q \<in> set (rows s). key q \<noteq> key r \<longrightarrow> q \<in> set (rows s'))"
    and ok_tables: "inv s \<Longrightarrow> same_tables s s' \<Longrightarrow> ok s s'"
    and ok_inv: "ok s s' \<Longrightarrow> inv s'"
    and ok_trans: "ok s s' \<Longrightarrow> ok s' s'' \<Longrightarrow> ok s s''"
    and pending_ready: "inv s \<Longrightarrow> distinct (map key (pending s)) \<and>
      (\<forall>r \<in> set (pending s). r \<in> set (rows s) \<and> ready r)"
begin

lemma batch_ok:
  assumes "inv s" "distinct (map key xs)" "\<forall>r \<in> set xs. r \<in> set (rows s) \<and> ready r"
    and "op_for xs process s = (Inr u, s')"
  shows "ok s s'"
  using assms
proof (induction xs arbitrary: s)
  case Nil
  then show ?case by (simp add: op_simps ok_tables)
next
  case (Cons x xs)
  then obtain b t where x: "process x s = (Inr b, t)" and xs: "op_for xs process t = (Inr u, s')"
    by (auto simp: op_bind_Inr)
  from process_ok [OF Cons.prems(1) _ _ x] Cons.prems(3)
  have ok: "ok s t" and rest: "\<forall>q \<in> set (rows s). key q \<noteq> key x \<longrightarrow> q \<in> set (rows t)" by auto
  have "r \<in> set (rows t) \<and> ready r" if "r \<in> set xs" for r
  proof -
    have "key r \<noteq> key x" using imageI [OF that, of key] Cons.prems(2) by auto
    then show ?thesis using that rest Cons.prems(3) by simp
  qed
  then have "ok t s'"
    using ok_inv [OF ok] Cons.prems(2) by (intro Cons.IH [OF _ _ _ xs]) simp_all
  with ok show ?case by (rule ok_trans)
qed

lemma pass_ok:
  assumes "inv s"
  shows "ok s (worker_pass (op_bind (op_get pending) (\<lambda>p. op_for p process)) s)"
proof -
  let ?body = "op_bind (op_get pending) (\<lambda>p. op_for p process)"
  obtain r t where run: "get_db_session ?body s = (r, t)" by fastforce
  then have t: "worker_pass ?body s = t" by (simp add: worker_pass_def)
  show ?thesis
  proof (cases r)
    case (Inl e)
    with run t assms show ?thesis by (auto simp: get_db_session_Inl intro: ok_tables)
  next
    case (Inr x)
    let ?s = "begin_txn s"
    from Inr run obtain u where u: "op_for (pending ?s) process ?s = (Inr x, u)"
      "t = u\<lparr>advisory_locks := []\<rparr>"
      by (auto simp: get_db_session_Inr op_Inr)
    have start: "ok s ?s" using assms by (simp add: ok_tables)
    with u(1) pending_ready ok_inv have "ok ?s u" by (blast intro: batch_ok)
    moreover have "ok u t" using ok_inv [OF calculation] u(2) by (simp add: ok_tables same_tables_def)
    ultimately show ?thesis using start t ok_trans by blast
  qed
qed

end

section \<open>Status history\<close>

record history_extra =
  hx_tx_hash :: "string option"
  hx_block_number :: "int option"
  hx_request_id :: "uuid option"
  hx_actor_id :: "uuid option"
  hx_actor_service :: "string option"

definition no_extra :: history_extra where
  "no_extra = \<lparr>hx_tx_hash = None, hx_block_number = None, hx_request_id = None,
     hx_actor_id = None, hx_actor_service = None\<rparr>"

definition record_status ::
  "history_table \<Rightarrow> uuid \<Rightarrow> string \<Rightarrow> dict option \<Rightarrow> history_extra \<Rightarrow> unit db_op" where
  "record_status model_class entity_id status detail extra =
     op_bind uuid4 (\<lambda>i.
     op_bind (op_get txn_now) (\<lambda>t.
     insert_row (\<lambda>_ _. []) status_history_update
       \<lparr>sh_table = model_class, sh_id = i, sh_entity_id = entity_id, sh_status = status,
        sh_detail = detail, sh_tx_hash = hx_tx_hash extra,
        sh_block_number = hx_block_number extra, sh_request_id = hx_request_id extra,
        sh_actor_id = hx_actor_id extra, sh_actor_service = hx_actor_service extra,
        sh_created_at = t\<rparr>))"

definition history_row ::
  "uuid \<Rightarrow> time \<Rightarrow> history_table \<Rightarrow> uuid \<Rightarrow> string \<Rightarrow> dict option \<Rightarrow> history_extra \<Rightarrow> StatusHistory" where
  "history_row i t tbl ent st d x =
     \<lparr>sh_table = tbl, sh_id = i, sh_entity_id = ent, sh_status = st, sh_detail = d,
      sh_tx_hash = hx_tx_hash x, sh_block_number = hx_block_number x,
      sh_request_id = hx_request_id x, sh_actor_id = hx_actor_id x,
      sh_actor_service = hx_actor_service x, sh_created_at = t\<rparr>"

lemma record_status_app [op_simps]:
  "record_status tbl ent st d x s =
     (Inr (), s\<lparr>ticks := Suc (ticks s), status_history := status_history s @
        [history_row (rng s (ticks s)) (txn_now s) tbl ent st d x]\<rparr>)"
  by (simp add: record_status_def history_row_def op_simps)

lemma wp_status [wp_simps]:
  "wp (record_status tbl ent st d x) s Q E \<longleftrightarrow>
     Q () (s\<lparr>ticks := Suc (ticks s), status_history := status_history s @
       [history_row (rng s (ticks s)) (txn_now s) tbl ent st d x]\<rparr>)"
  by (simp add: wp_def op_simps)

lemma history_row_simps [simp]:
  "sh_table (history_row i t tbl ent st d x) = tbl"
  "sh_entity_id (history_row i t tbl ent st d x) = ent"
  "sh_status (history_row i t tbl ent st d x) = st"
  "sh_actor_id (history_row i t tbl ent st d x) = hx_actor_id x"
  "sh_tx_hash (history_row i t tbl ent st d x) = hx_tx_hash x"
  by (simp_all add: history_row_def)

lemma keeps_audit_status [keeps_intros]: "keeps (audit_safe s0) (record_status tbl ent st d x)"
  by (rule keepsI) (auto simp: op_simps audit_safe_def)

section \<open>Simulated chain and fiat rails\<close>

record Receipt =
  rc_tx_hash :: string
  rc_block_number :: nat
  rc_block_hash :: string
  rc_confirmations :: nat
  rc_gas_used :: nat
  rc_network :: string
  rc_mpc_signature :: "string option"

definition hex_hash :: "(string \<Rightarrow> string) \<Rightarrow> string \<Rightarrow> string" where
  "hex_hash sha seed = ''0x'' @ sha seed"

definition chain_receipt :: "(string \<Rightarrow> string) \<Rightarrow> (string \<Rightarrow> string) \<Rightarrow> nat \<Rightarrow> string \<Rightarrow> Receipt" where
  "chain_receipt sha md5 block_num seed =
     (let gas_seed = hex_val (take 4 (md5 seed))
      in \<lparr>rc_tx_hash = hex_hash sha seed, rc_block_number = block_num,
          rc_block_hash = hex_hash sha (''block:'' @ nat_str block_num @ '':'' @ seed),
          rc_confirmations = 1, rc_gas_used = 21000 + gas_seed mod 80000,
          rc_network = ''stablecoin-l2'', rc_mpc_signature = None\<rparr>)"

definition record_on_chain :: "service \<Rightarrow> string \<Rightarrow> string \<Rightarrow> string \<Rightarrow> Receipt db_op" where
  "record_on_chain svc transaction_id operation extra_seed =
     (\<lambda>s. let block_num = block_counter s svc + 1;
              seed = transaction_id @ '':'' @ operation @ '':'' @ extra_seed
          in (Inr (chain_receipt (sha256_hex s) (md5_hex s) block_num seed),
              s\<lparr>block_counter := (block_counter s)(svc := block_num)\<rparr>))"

record FiatReceipt =
  fi_rail :: string
  fi_reference :: string
  fi_status :: string
  fi_settled_at :: "time option"
  fi_backing_ref :: "string option"

fun fiat_rail_format :: "string \<Rightarrow> string \<Rightarrow> string option" where
  "fiat_rail_format rail ref =
     (if rail = ''fedwire'' then Some (''FW'' @ upper (take 12 ref))
      else if rail = ''swift'' then
        Some (''SWIFT-'' @ upper (take 8 ref) @ ''-'' @ upper (take 8 (drop 8 ref)))
      else if rail = ''target2'' then Some (''T2-'' @ upper (take 16 ref))
      else if rail = ''internal'' then Some (''INT-'' @ upper (take 16 ref))
      else None)"

definition record_fiat_rail :: "(string \<Rightarrow> string) \<Rightarrow> string \<Rightarrow> string \<Rightarrow> FiatReceipt option" where
  "record_fiat_rail sha transaction_id rail =
     map_option (\<lambda>ref. \<lparr>fi_rail = rail, fi_reference = ref, fi_status = ''settled'',
                        fi_settled_at = None, fi_backing_ref = None\<rparr>)
       (fiat_rail_format rail (sha (transaction_id @ '':'' @ rail @ '':fiat'')))"

definition receipt_json :: "Receipt \<Rightarrow> json" where
  "receipt_json r = JObj
     ([(''tx_hash'', JStr (rc_tx_hash r)), (''block_number'', JInt (int (rc_block_number r))),
       (''block_hash'', JStr (rc_block_hash r)),
       (''confirmations'', JInt (int (rc_confirmations r))),
       (''gas_used'', JInt (int (rc_gas_used r))), (''network'', JStr (rc_network r))]
      @ (case rc_mpc_signature r of None \<Rightarrow> [] | Some g \<Rightarrow> [(''mpc_signature'', JStr g)]))"

definition fiat_json :: "FiatReceipt option \<Rightarrow> json" where
  "fiat_json f = (case f of None \<Rightarrow> JNull | Some r \<Rightarrow> JObj
     ([(''rail'', JStr (fi_rail r)), (''reference'', JStr (fi_reference r)),
       (''status'', JStr (fi_status r)), (''settled_at'', j_opt JTime (fi_settled_at r))]
      @ (case fi_backing_ref r of None \<Rightarrow> [] | Some b \<Rightarrow> [(''backing_ref'', JStr b)])))"

text \<open>The metadata update of a settlement: both legs and the legacy key.\<close>

definition with_legs :: "dict \<Rightarrow> Receipt \<Rightarrow> FiatReceipt option \<Rightarrow> dict" where
  "with_legs md receipt fiat =
     dict_set (dict_set (dict_set md ''token_leg'' (receipt_json receipt))
       ''fiat_leg'' (fiat_json fiat)) ''blockchain'' (receipt_json receipt)"

lemma record_on_chain_app [op_simps]:
  "record_on_chain svc tid oper ex s =
     (Inr (chain_receipt (sha256_hex s) (md5_hex s) (block_counter s svc + 1) (tid @ '':'' @ oper @ '':'' @ ex)),
      s\<lparr>block_counter := (block_counter s)(svc := block_counter s svc + 1)\<rparr>)"
  by (simp add: record_on_chain_def Let_def)

lemma wp_chain [wp_simps]:
  "wp (record_on_chain svc tid oper ex) s Q E \<longleftrightarrow>
     Q (chain_receipt (sha256_hex s) (md5_hex s) (block_counter s svc + 1)
          (tid @ '':'' @ oper @ '':'' @ ex))
       (s\<lparr>block_counter := (block_counter s)(svc := block_counter s svc + 1)\<rparr>)"
  by (simp add: wp_def op_simps)

lemma keeps_audit_chain [keeps_intros]: "keeps (audit_safe s0) (record_on_chain svc tid oper ex)"
  by (rule keepsI) (auto simp: record_on_chain_def Let_def audit_safe_def)

lemma record_fiat_rail_None:
  "record_fiat_rail sha tid rail = None \<longleftrightarrow> rail \<notin> {''fedwire'', ''swift'', ''target2'', ''internal''}"
  by (auto simp: record_fiat_rail_def)

section \<open>Transaction rows\<close>

text \<open>
  The statement group every service writes a completed transfer with: build the
  \<open>Transaction\<close>, add it and flush. The column stores eight places.
\<close>

definition new_transaction ::
  "string \<Rightarrow> uuid \<Rightarrow> uuid \<Rightarrow> CurrencyCode \<Rightarrow> rat \<Rightarrow> string \<Rightarrow> string option \<Rightarrow> dict \<Rightarrow> uuid db_op" where
  "new_transaction ref debit_id credit_id currency amount txn_type idempotency_key md =
     op_bind utcnow (\<lambda>now.
     op_bind uuid4 (\<lambda>i.
     op_bind (op_lift (numeric 28 8 amount)) (\<lambda>v.
     op_bind (op_get txn_now) (\<lambda>t.
     op_bind (insert_row transaction_constraints transactions_update
       \<lparr>tx_id = i, tx_ref = ref, tx_debit_account_id = debit_id, tx_credit_account_id = credit_id,
        tx_currency = currency, tx_amount = v, tx_type = txn_type, tx_status = T_COMPLETED,
        tx_idempotency_key = idempotency_key, tx_metadata = md, tx_created_at = t,
        tx_settled_at = Some now\<rparr>) (\<lambda>_.
     op_return i)))))"

definition transaction_row ::
  "uuid \<Rightarrow> time \<Rightarrow> time \<Rightarrow> string \<Rightarrow> uuid \<Rightarrow> uuid \<Rightarrow> CurrencyCode \<Rightarrow> rat \<Rightarrow> string \<Rightarrow> string option \<Rightarrow> dict
     \<Rightarrow> Transaction" where
  "transaction_row i t settled ref d c cur v ty k md =
     \<lparr>tx_id = i, tx_ref = ref, tx_debit_account_id = d,
      tx_credit_account_id = c, tx_currency = cur, tx_amount = v, tx_type = ty,
      tx_status = T_COMPLETED, tx_idempotency_key = k, tx_metadata = md,
      tx_created_at = t, tx_settled_at = Some settled\<rparr>"

lemma transaction_row_simps [simp]:
  "tx_id (transaction_row i t settled ref d c cur v ty k md) = i"
  "tx_ref (transaction_row i t settled ref d c cur v ty k md) = ref"
  "tx_debit_account_id (transaction_row i t settled ref d c cur v ty k md) = d"
  "tx_credit_account_id (transaction_row i t settled ref d c cur v ty k md) = c"
  "tx_currency (transaction_row i t settled ref d c cur v ty k md) = cur"
  "tx_amount (transaction_row i t settled ref d c cur v ty k md) = v"
  "tx_status (transaction_row i t settled ref d c cur v ty k md) = T_COMPLETED"
  "tx_idempotency_key (transaction_row i t settled ref d c cur v ty k md) = k"
  by (simp_all add: transaction_row_def)

definition can_book ::
  "Account list \<Rightarrow> Transaction list \<Rightarrow> uuid \<Rightarrow> string \<Rightarrow> uuid \<Rightarrow> uuid \<Rightarrow> rat \<Rightarrow> string option
     \<Rightarrow> bool" where
  "can_book accs txs i ref d c v k \<longleftrightarrow>
     (\<forall>q \<in> set txs. tx_id q \<noteq> i) \<and> 0 < v \<and> d \<noteq> c \<and> (\<forall>r \<in> set txs. tx_ref r \<noteq> ref) \<and>
     (k = None \<or> (\<forall>r \<in> set txs. tx_idempotency_key r \<noteq> k)) \<and>
     d \<in> acc_id ` set accs \<and> c \<in> acc_id ` set accs"

lemma valid_transaction [simp]:
  "valid_row transaction_constraints s (transaction_row i t settled ref d c cur v ty k md) \<longleftrightarrow>
     can_book (accounts s) (transactions s) i ref d c v k"
  by (simp add: valid_row_def transaction_constraints_def can_book_def transaction_row_def)

lemma wp_transaction_total:
  "numeric 28 8 amt = Inr v \<Longrightarrow> can_book (accounts s) (transactions s) (rng s (ticks s + 1)) ref d c v k \<Longrightarrow>
     wp (new_transaction ref d c cur amt ty k md) s Q E \<longleftrightarrow>
       Q (rng s (ticks s + 1)) (s\<lparr>ticks := ticks s + 2, transactions := transactions s @
         [transaction_row (rng s (ticks s + 1)) (txn_now s) (clock s (ticks s)) ref d c cur v ty k md]\<rparr>)"
  by (simp add: new_transaction_def wp_simps flip: transaction_row_def)

lemma wp_transaction [wp_simps]:
  "wp (new_transaction ref d c cur amt ty k md) s Q partial \<longleftrightarrow>
     (\<forall>v. numeric 28 8 amt = Inr v \<longrightarrow> can_book (accounts s) (transactions s) (rng s (ticks s + 1)) ref d c v k \<longrightarrow>
       Q (rng s (ticks s + 1)) (s\<lparr>ticks := ticks s + 2, transactions := transactions s @
         [transaction_row (rng s (ticks s + 1)) (txn_now s) (clock s (ticks s)) ref d c cur v ty k md]\<rparr>))"
  by (simp add: new_transaction_def wp_simps flip: transaction_row_def split: sum.splits)

lemma no_ValueError_transaction [simp]:
  "no_ValueError (new_transaction ref d c cur amt ty k md)"
  by (auto simp: no_ValueError_def new_transaction_def op_simps numeric_def Let_def
      transaction_constraints_def split: sum.splits option.splits prod.splits if_splits)

lemma new_transaction_Inl:
  "new_transaction ref d c cur amt ty k md s = (Inl e, s') \<Longrightarrow> \<exists>n. s' = s\<lparr>ticks := n\<rparr>"
  by (auto simp: new_transaction_def op_simps split: option.splits sum.splits)

lemma keeps_audit_transaction [keeps_intros]:
  "keeps (audit_safe s0) (new_transaction ref d c cur amt ty k md)"
  unfolding new_transaction_def
  by (intro keeps_intros keeps_insert_row) (simp add: audit_safe_def)

lemma keeps_audit_update_rows:
  "(\<And>g s. audit_safe s0 s \<Longrightarrow> audit_safe s0 (upd g s)) \<Longrightarrow>
     keeps (audit_safe s0) (update_rows upd P f)"
  by (rule keeps_update_rows)

section \<open>Request parameters\<close>

text \<open>The Pydantic bound \<open>Field(gt=0)\<close>: FastAPI answers 422 before the handler runs.\<close>

definition gt_zero :: "string \<Rightarrow> rat \<Rightarrow> unit db_op" where
  "gt_zero field x =
     op_assert (0 < x) (HTTPException 422 [Txt (field @ '': Input should be greater than 0'')])"

text \<open>The reference of a new row: \<open>idempotency_key or f"ISS-{uuid.uuid4().hex[:16].upper()}"\<close>.\<close>

definition key_or_fresh :: "string option \<Rightarrow> string \<Rightarrow> string db_op" where
  "key_or_fresh k pre =
     (if truthy k then op_return (the k)
      else op_bind uuid4 (\<lambda>u. op_return (pre @ hex16_upper u)))"

definition fresh_ref :: "string option \<Rightarrow> string \<Rightarrow> uuid \<Rightarrow> string" where
  "fresh_ref k pre u = (if truthy k then the k else pre @ hex16_upper u)"

definition fresh_ticks :: "string option \<Rightarrow> nat \<Rightarrow> nat" where
  "fresh_ticks k n = (if truthy k then n else Suc n)"

lemma wp_key_or_fresh [wp_simps]:
  "wp (key_or_fresh k pre) s Q E \<longleftrightarrow>
     Q (fresh_ref k pre (rng s (ticks s))) (s\<lparr>ticks := fresh_ticks k (ticks s)\<rparr>)"
  by (simp add: key_or_fresh_def fresh_ref_def fresh_ticks_def wp_simps)

lemma fresh_ref_key [simp]: "truthy k \<Longrightarrow> fresh_ref k pre u = the k"
  by (simp add: fresh_ref_def)

lemma fresh_ticks_simps [simp]: "truthy k \<Longrightarrow> fresh_ticks k n = n" "n \<le> fresh_ticks k n"
  by (simp_all add: fresh_ticks_def)

lemma fresh_None [simp]: "fresh_ref None pre u = pre @ hex16_upper u" "fresh_ticks None n = Suc n"
  by (simp_all add: fresh_ref_def fresh_ticks_def truthy_def)

lemma wp_gt_zero [wp_simps]:
  "wp (gt_zero field x) s Q E \<longleftrightarrow>
     (if 0 < x then Q () s
      else E (HTTPException 422 [Txt (field @ '': Input should be greater than 0'')]) s)"
  by (simp add: gt_zero_def wp_simps)

lemma get_account_id: "get_account s a = Some acc \<Longrightarrow> acc_id acc = a"
  by (auto simp: get_account_def dest!: find_Some_iff)

lemma keeps_audit_gt_zero [keeps_intros]: "keeps I (gt_zero field x)"
  unfolding gt_zero_def by (intro keeps_intros)

lemma keeps_audit_key_or_fresh [keeps_intros]: "keeps (audit_safe s0) (key_or_fresh k pre)"
  unfolding key_or_fresh_def by (intro keeps_intros)

text \<open>An identifier that was drawn from the random source before the state was reached.\<close>

definition drawn :: "world \<Rightarrow> uuid \<Rightarrow> bool" where
  "drawn s i \<longleftrightarrow> i \<in> rng s ` {..<ticks s}"

lemma drawn_rng: "rng s = r \<Longrightarrow> n < ticks s \<Longrightarrow> drawn s (r n)"
  by (auto simp: drawn_def)

lemma drawn_fresh: "inj (rng s) \<Longrightarrow> drawn s i \<Longrightarrow> ticks s \<le> n \<Longrightarrow> i \<noteq> rng s n"
  unfolding drawn_def by (metis imageE injD leD lessThan_iff)

section \<open>Idempotent creation\<close>

text \<open>
  The contract of a handler that creates a row under a client-chosen key: after a success the
  row is found under the key and shows the response, and a request whose key is taken is
  answered from the row.
\<close>

locale idempotent_create =
  fixes create :: "'req \<Rightarrow> ('s, 'resp) op"
    and key :: "'req \<Rightarrow> string option"
    and shown :: "'s \<Rightarrow> 'req \<Rightarrow> 'resp option"
    and same :: "'s \<Rightarrow> 's \<Rightarrow> bool"
  assumes created: "create req s = (Inr resp, s') \<Longrightarrow> truthy (key req) \<Longrightarrow> shown s' req = Some resp"
    and replayed: "truthy (key req) \<Longrightarrow> shown s req = Some resp \<Longrightarrow>
      \<exists>s'. create req s = (Inr resp, s') \<and> same s s'"
    and shown_same: "same s s' \<Longrightarrow> shown s' req = shown s req"
    and same_refl: "same s s"
    and same_trans: "same s s' \<Longrightarrow> same s' s'' \<Longrightarrow> same s s''"
begin

lemma create_twice:
  "create req s = (Inr resp, s1) \<Longrightarrow> truthy (key req) \<Longrightarrow>
     \<exists>s2. create req s1 = (Inr resp, s2) \<and> same s1 s2"
  by (intro replayed created)

text \<open>Any number of replays answers the same and leaves the tables alone.\<close>

lemma create_many:
  assumes "create req s = (Inr resp, s1)" "truthy (key req)"
  shows "\<exists>t. ((\<lambda>u. snd (create req u)) ^^ n) s1 = t \<and> same s1 t \<and>
    (\<exists>t'. create req t = (Inr resp, t'))"
proof (induction n)
  case 0
  show ?case using create_twice [OF assms] same_refl by auto
next
  case (Suc n)
  then obtain t t' where t: "((\<lambda>u. snd (create req u)) ^^ n) s1 = t" "same s1 t"
    and t': "create req t = (Inr resp, t')" by blast
  have "shown t req = Some resp" using created [OF assms] shown_same [OF t(2)] by simp
  from replayed [OF assms(2) this] t' have "same t t'" by auto
  moreover have "\<exists>t''. create req t' = (Inr resp, t'')" using create_twice [OF t' assms(2)] by blast
  ultimately show ?case using t t' same_trans by auto
qed

end

lemma available_begin [simp]: "get_available_balance (begin_txn s) a c = get_available_balance s a c"
  by (simp add: get_available_balance_def holds_of_def)

end
