(* ===== verification/Access.thy ===== *)
theory Access
  imports Platform
begin

text \<open>
  Who may do what, and when: the transition tables of
  \<open>src/shared/state_machine.py\<close>, the audit context read from request headers
  (\<open>src/shared/context.py\<close>) and the roles of \<open>src/shared/rbac.py\<close>.
\<close>

section \<open>Transition tables\<close>

type_synonym transition_map = "(string \<times> string list) list"

definition RTGS_VALID_TRANSITIONS :: transition_map where
  "RTGS_VALID_TRANSITIONS =
     [(''pending'', [''approved'', ''cancelled'']),
      (''approved'', [''signed'', ''cancelled'']),
      (''signed'', [''processing'', ''cancelled'']),
      (''processing'', [''broadcasted'', ''failed'']),
      (''broadcasted'', [''confirmed'', ''failed'']),
      (''confirmed'', [''settled'']),
      (''settled'', []),
      (''failed'', [''pending'']),
      (''cancelled'', [])]"

definition FX_VALID_TRANSITIONS :: transition_map where
  "FX_VALID_TRANSITIONS =
     [(''queued'', [''processing'', ''cancelled'']),
      (''processing'', [''settled'', ''failed'']),
      (''settled'', []),
      (''failed'', [''queued'']),
      (''cancelled'', [])]"

definition allowed_from :: "transition_map \<Rightarrow> string \<Rightarrow> string list" where
  "allowed_from m current = (case map_of m (lower current) of None \<Rightarrow> [] | Some xs \<Rightarrow> xs)"

fun py_list_items :: "string list \<Rightarrow> string" where
  "py_list_items [] = ''''"
| "py_list_items [x] = [CHR 39] @ x @ [CHR 39]"
| "py_list_items (x # y # ys) = [CHR 39] @ x @ [CHR 39] @ '', '' @ py_list_items (y # ys)"

definition transition_error :: "string \<Rightarrow> string \<Rightarrow> string list \<Rightarrow> exn" where
  "transition_error current target allowed =
     HTTPException 409
       [Txt (''Invalid transition: '' @ current @ '' -> '' @ target @ ''. Allowed from '' @ [CHR 39]
          @ current @ [CHR 39] @ '': ''
          @ (if allowed = [] then ''none'' else ''['' @ py_list_items (sort allowed) @ '']''))]"

definition validate_transition :: "string \<Rightarrow> string \<Rightarrow> transition_map \<Rightarrow> exn + unit" where
  "validate_transition current target m =
     (let allowed = allowed_from m current
      in if lower target \<notin> set allowed then Inl (transition_error current target allowed)
         else Inr ())"

text \<open>
  The contract of a transition table: a state with no successor is final, and every state
  a run can reach from a state of the table is a state of the table.
\<close>

locale transition_table =
  fixes m :: transition_map
  assumes keys_lower: "k \<in> fst ` set m \<Longrightarrow> lower k = k"
    and closed: "(k, ts) \<in> set m \<Longrightarrow> set ts \<subseteq> fst ` set m"
    and keys_distinct: "distinct (map fst m)"
begin

lemma valid_iff:
  "validate_transition a b m = Inr () \<longleftrightarrow> lower b \<in> set (allowed_from m a)"
  by (simp add: validate_transition_def Let_def)

lemma allowed_closed: "set (allowed_from m a) \<subseteq> fst ` set m"
proof (cases "map_of m (lower a)")
  case (Some ts)
  then have "(lower a, ts) \<in> set m" by (rule map_of_SomeD)
  with Some show ?thesis by (simp add: allowed_from_def closed)
qed (simp add: allowed_from_def)

lemma final_stays:
  "allowed_from m a = [] \<Longrightarrow> validate_transition a b m \<noteq> Inr ()"
  by (simp add: valid_iff)

text \<open>Along any run of permitted transitions, the states stay in the table.\<close>

fun permitted_run :: "string \<Rightarrow> string list \<Rightarrow> bool" where
  "permitted_run a [] = True"
| "permitted_run a (b # bs) = (validate_transition a b m = Inr () \<and> permitted_run b bs)"

lemma permitted_run_in_table:
  "permitted_run a bs \<Longrightarrow> b \<in> set bs \<Longrightarrow> lower b \<in> fst ` set m"
proof (induction bs arbitrary: a)
  case (Cons c cs)
  then show ?case using allowed_closed valid_iff by fastforce
qed simp

lemma no_run_from_final: "allowed_from m a = [] \<Longrightarrow> permitted_run a bs \<Longrightarrow> bs = []"
  by (cases bs) (simp_all add: final_stays)

end

interpretation rtgs_table: transition_table RTGS_VALID_TRANSITIONS
  by unfold_locales (auto simp: RTGS_VALID_TRANSITIONS_def lower_def lower_char_def)

interpretation fx_table: transition_table FX_VALID_TRANSITIONS
  by unfold_locales (auto simp: FX_VALID_TRANSITIONS_def lower_def lower_char_def)

lemmas transition_evals = validate_transition_def allowed_from_def lower_def lower_char_def
  Let_def

section \<open>Request context\<close>

type_synonym headers = "(string \<times> string) list"

text \<open>Header names are compared without case; the first match wins.\<close>

definition header_get :: "headers \<Rightarrow> string \<Rightarrow> string" where
  "header_get h name =
     (case List.find (\<lambda>(k, v). lower k = lower name) h of None \<Rightarrow> '''' | Some (k, v) \<Rightarrow> v)"

definition is_hex :: "char \<Rightarrow> bool" where
  "is_hex c \<longleftrightarrow> (let n = of_char c :: nat in (48 \<le> n \<and> n \<le> 57) \<or> (97 \<le> n \<and> n \<le> 102))"

definition is_space :: "char \<Rightarrow> bool" where
  "is_space c \<longleftrightarrow>
     (let n = of_char c :: nat
      in (9 \<le> n \<and> n \<le> 13) \<or> (28 \<le> n \<and> n \<le> 32) \<or> n = 133 \<or> n = 160)"

definition strip :: "(char \<Rightarrow> bool) \<Rightarrow> string \<Rightarrow> string" where
  "strip P xs = rev (dropWhile P (rev (dropWhile P xs)))"

fun remove_sub :: "string \<Rightarrow> string \<Rightarrow> string" where
  "remove_sub w [] = []"
| "remove_sub w (c # cs) =
     (if w \<noteq> [] \<and> prefix w (c # cs) then remove_sub w (drop (length w - 1) cs)
      else c # remove_sub w cs)"

text \<open>
  \<open>int(text, 16)\<close> on lower-case Latin-1 text: blanks around it, a sign, a \<open>0x\<close>
  prefix, and single underscores between digits are accepted.
\<close>

fun hex_groups :: "string \<Rightarrow> string option" where
  "hex_groups [] = None"
| "hex_groups [c] = (if is_hex c then Some [c] else None)"
| "hex_groups (c # d # ds) =
     (if is_hex c then map_option (Cons c) (hex_groups (if d = CHR ''_'' then ds else d # ds))
      else None)"

definition drop_underscore :: "string \<Rightarrow> string" where
  "drop_underscore xs = (if prefix ''_'' xs then tl xs else xs)"

definition py_int16 :: "string \<Rightarrow> int option" where
  "py_int16 text =
     (let h = strip is_space text;
          neg = prefix ''-'' h;
          h = (if prefix ''-'' h \<or> prefix ''+'' h then tl h else h);
          h = (if prefix ''0x'' h then drop_underscore (drop 2 h) else h)
      in map_option (\<lambda>ds. if neg then - int (hex_val ds) else int (hex_val ds)) (hex_groups h))"

text \<open>
  \<open>uuid.UUID(value)\<close>: \<open>urn:\<close> and \<open>uuid:\<close> are removed, then enclosing
  braces, then hyphens; what is left must be 32 characters and a hexadecimal number that is
  not negative.
\<close>

definition parse_uuid :: "string \<Rightarrow> uuid option" where
  "parse_uuid v =
     (let h = remove_sub ''uuid:'' (remove_sub ''urn:'' v);
          h = filter (\<lambda>c. c \<noteq> CHR ''-'') (strip (\<lambda>c. c = CHR ''{'' \<or> c = CHR ''}'') h)
      in if v = [] \<or> length h \<noteq> 32 then None
         else case py_int16 (lower h) of
                None \<Rightarrow> None
              | Some n \<Rightarrow> if 0 \<le> n then Some (nat n) else None)"

record context_dict =
  cx_request_id :: "uuid option"
  cx_actor_id :: "uuid option"
  cx_actor_service :: "string option"

definition extract_context :: "headers \<Rightarrow> context_dict" where
  "extract_context h =
     \<lparr>cx_request_id = parse_uuid (header_get h ''X-Request-ID''),
      cx_actor_id = parse_uuid (header_get h ''X-Actor-ID''),
      cx_actor_service =
        (let a = header_get h ''X-Actor-Service'' in if a = '''' then None else Some a)\<rparr>"

section \<open>Roles\<close>

definition ROUTE_ROLE_MAP :: "(string \<times> string list) list" where
  "ROUTE_ROLE_MAP =
     [(''/tokens/issue'', [''admin'', ''trader'']),
      (''/tokens/redeem'', [''admin'', ''trader'']),
      (''/tokens/balance'', [''admin'', ''trader'', ''auditor'']),
      (''/accounts'', [''admin'']),
      (''/settlements/submit'', [''admin'', ''trader'']),
      (''/payments/conditional'', [''admin'', ''trader'']),
      (''/payments/escrow'', [''admin'', ''trader'']),
      (''/fx/settle'', [''admin'', ''trader'']),
      (''/fx/quote'', [''admin'', ''trader'']),
      (''/fx/rates'', [''admin'', ''trader'', ''auditor''])]"

definition APPROVE_ROLES :: "string list" where "APPROVE_ROLES = [''admin'', ''approver'']"
definition SIGN_ROLES :: "string list" where "SIGN_ROLES = [''admin'', ''signer'']"

definition hash_api_key :: "world \<Rightarrow> string \<Rightarrow> string" where
  "hash_api_key s raw_key = sha256_hex s raw_key"

definition resolve_api_key :: "world \<Rightarrow> string \<Rightarrow> ApiKey option" where
  "resolve_api_key s raw_key =
     List.find (\<lambda>k. ak_key_hash k = hash_api_key s raw_key \<and> ak_is_active k) (api_keys s)"

fun join_comma :: "string list \<Rightarrow> string" where
  "join_comma [] = []"
| "join_comma [x] = x"
| "join_comma (x # y # ys) = x @ '', '' @ join_comma (y # ys)"

definition require_role :: "string list \<Rightarrow> headers \<Rightarrow> exn + (string \<times> string)" where
  "require_role allowed_roles h =
     (let role = header_get h ''X-Actor-Role''; actor_id = header_get h ''X-Actor-ID''
      in if role \<notin> set allowed_roles
         then Inl (HTTPException 403 [Txt (''Role '' @ [CHR 39] @ role @ [CHR 39]
                @ '' not authorized. Required: '' @ join_comma allowed_roles)])
         else Inr (role, actor_id))"

definition check_separation_of_duties :: "string \<Rightarrow> string \<Rightarrow> exn + unit" where
  "check_separation_of_duties approved_by signed_by =
     (if approved_by = signed_by
      then Inl (HTTPException 403
             [Txt ''Separation of duties: approver and signer must differ''])
      else Inr ())"

definition match_route_role :: "string \<Rightarrow> string list option" where
  "match_route_role path =
     (if sublist ''/approve'' path then Some APPROVE_ROLES
      else if sublist ''/sign'' path then Some SIGN_ROLES
      else map_option snd (List.find (\<lambda>(route_prefix, roles). sublist route_prefix path) ROUTE_ROLE_MAP))"

lemma require_role_Inr:
  "require_role rs h = Inr x \<Longrightarrow> header_get h ''X-Actor-Role'' \<in> set rs"
  by (auto simp: require_role_def Let_def split: if_splits)

lemma check_separation_Inr: "check_separation_of_duties a b = Inr u \<longleftrightarrow> a \<noteq> b"
  by (simp add: check_separation_of_duties_def)

section \<open>Identifiers round trip\<close>

lemma hex_val_append: "hex_val (xs @ ys) = hex_val xs * 16 ^ length ys + hex_val ys"
  by (induction xs) (simp_all add: Let_def power_add algebra_simps)

lemma hex_char_val: "d < 16 \<Longrightarrow> hex_val [hex_char d] = d"
  by (auto simp: hex_char_def Let_def)

lemma is_hex_neq:
  "is_hex c \<Longrightarrow> c \<noteq> CHR ''-'' \<and> c \<noteq> CHR ''+'' \<and> c \<noteq> CHR ''x'' \<and> c \<noteq> CHR ''u'' \<and>
     c \<noteq> CHR ''{'' \<and> c \<noteq> CHR ''}'' \<and> \<not> is_space c"
  by (auto simp: is_hex_def is_space_def Let_def)

lemma hex_char_props:
  assumes "d < 16"
  shows "is_hex (hex_char d) \<and> hex_char d \<noteq> CHR ''-'' \<and> lower_char (hex_char d) = hex_char d"
proof -
  have "is_hex (hex_char d)" using assms by (auto simp: hex_char_def is_hex_def Let_def)
  moreover have "lower_char (hex_char d) = hex_char d"
    using assms by (auto simp: hex_char_def lower_char_def Let_def)
  ultimately show ?thesis using is_hex_neq by blast
qed

lemma hex_val_digits: "n < 16 ^ k \<Longrightarrow> hex_val (hex_digits k n) = n"
proof (induction k arbitrary: n)
  case (Suc k)
  then have "n div 16 < 16 ^ k" by (simp add: div_less_iff_less_mult mult.commute)
  with Suc.IH show ?case by (simp add: hex_val_append hex_char_val del: hex_val.simps(2))
qed simp

lemma hex_digits_props:
  "c \<in> set (hex_digits k n) \<Longrightarrow> is_hex c \<and> c \<noteq> CHR ''-'' \<and> lower_char c = c"
proof (induction k arbitrary: n)
  case (Suc k)
  then show ?case using hex_char_props [of "n mod 16"] by auto
qed simp

lemma uuid_str_no_hyphens: "filter (\<lambda>c. c \<noteq> CHR ''-'') (uuid_str u) = uuid_hex u"
proof -
  let ?h = "uuid_hex u"
  have keep: "filter (\<lambda>c. c \<noteq> CHR ''-'') xs = xs" if "set xs \<subseteq> set ?h" for xs
    using that hex_digits_props [of _ 32 u] by (auto simp: filter_id_conv uuid_hex_def)
  have sub: "set (take 8 ?h) \<subseteq> set ?h" "set (take 4 (drop 8 ?h)) \<subseteq> set ?h"
    "set (take 4 (drop 12 ?h)) \<subseteq> set ?h" "set (take 4 (drop 16 ?h)) \<subseteq> set ?h"
    "set (drop 20 ?h) \<subseteq> set ?h"
    by (meson order_trans set_take_subset set_drop_subset)+
  have "take 8 ?h @ take 4 (drop 8 ?h) @ take 4 (drop 12 ?h) @ take 4 (drop 16 ?h) @ drop 20 ?h = ?h"
    using append_take_drop_id [of 8 ?h] append_take_drop_id [of 4 "drop 8 ?h"]
      append_take_drop_id [of 4 "drop 12 ?h"] append_take_drop_id [of 4 "drop 16 ?h"]
    by simp
  with keep [OF sub(1)] keep [OF sub(2)] keep [OF sub(3)] keep [OF sub(4)] keep [OF sub(5)]
  show ?thesis by (simp add: uuid_str_def Let_def)
qed

lemma remove_sub_id: "w \<noteq> [] \<Longrightarrow> hd w \<notin> set xs \<Longrightarrow> remove_sub w xs = xs"
  by (induction w xs rule: remove_sub.induct) (auto simp: prefix_def neq_Nil_conv)

lemma strip_id: "\<forall>c \<in> set xs. \<not> P c \<Longrightarrow> strip P xs = xs"
proof -
  assume *: "\<forall>c \<in> set xs. \<not> P c"
  then have "dropWhile P ys = ys" if "set ys = set xs" for ys
    using that by (cases ys) auto
  then show ?thesis by (simp add: strip_def)
qed

lemma hex_groups_id: "xs \<noteq> [] \<Longrightarrow> list_all is_hex xs \<Longrightarrow> hex_groups xs = Some xs"
proof (induction xs)
  case (Cons c cs)
  have "\<not> is_hex (CHR ''_'')" by code_simp
  with Cons show ?case by (cases cs) auto
qed simp

lemma py_int16_hex:
  assumes "xs \<noteq> []" and "list_all is_hex xs"
  shows "py_int16 xs = Some (int (hex_val xs))"
proof -
  have "strip is_space xs = xs" using assms(2) is_hex_neq by (simp add: strip_id list_all_iff)
  moreover have "\<not> prefix ''-'' xs" "\<not> prefix ''+'' xs" "\<not> prefix ''0x'' xs"
    using assms(2) by (auto simp: prefix_def dest!: is_hex_neq)
  ultimately show ?thesis
    using assms by (simp add: py_int16_def hex_groups_id Let_def)
qed

lemma uuid_str_chars: "c \<in> set (uuid_str u) \<Longrightarrow> is_hex c \<or> c = CHR ''-''"
  using hex_digits_props [of c 32 u]
  by (auto simp: uuid_str_def uuid_hex_def Let_def dest: in_set_takeD in_set_dropD)

lemma parse_uuid_str: "u < 2 ^ 128 \<Longrightarrow> parse_uuid (uuid_str u) = Some u"
proof -
  assume "u < 2 ^ 128"
  then have val: "hex_val (uuid_hex u) = u" by (simp add: uuid_hex_def hex_val_digits)
  have low: "lower (uuid_hex u) = uuid_hex u" and hex: "list_all is_hex (uuid_hex u)"
    using hex_digits_props [of _ 32 u]
    by (auto simp: lower_def uuid_hex_def list_all_iff intro!: map_idI)
  have len: "length (uuid_hex u) = 32" by (simp add: uuid_hex_def)
  then have "py_int16 (uuid_hex u) = Some (int u)" using py_int16_hex [OF _ hex] val by force
  moreover have ne: "c \<noteq> CHR ''u'' \<and> c \<noteq> CHR ''{'' \<and> c \<noteq> CHR ''}''" if "c \<in> set (uuid_str u)" for c
    using uuid_str_chars [OF that] is_hex_neq [of c] by auto
  then have "remove_sub ''uuid:'' (remove_sub ''urn:'' (uuid_str u)) = uuid_str u"
    by (subst remove_sub_id | force)+
  moreover have "strip (\<lambda>c. c = CHR ''{'' \<or> c = CHR ''}'') (uuid_str u) = uuid_str u"
    using ne by (intro strip_id) auto
  moreover have "uuid_str u \<noteq> []" by (simp add: uuid_str_def Let_def)
  ultimately show ?thesis by (simp add: parse_uuid_def Let_def uuid_str_no_hyphens low len)
qed

lemma uuid_str_inj: "u < 2 ^ 128 \<Longrightarrow> v < 2 ^ 128 \<Longrightarrow> uuid_str u = uuid_str v \<Longrightarrow> u = v"
  using parse_uuid_str by (metis option.inject)

end
