(* ===== verification/Samples.thy ===== *)
theory Samples
  imports Access
begin

text \<open>
  A concrete state: the omnibus account, four participants (one of them not yet cleared), an
  opening balance each, and an environment in which identifiers and times count up. The
  theorems of the services are instantiated on it.
\<close>

definition sample_account :: "uuid \<Rightarrow> string \<Rightarrow> bool \<Rightarrow> Account" where
  "sample_account i n ok =
     \<lparr>acc_id = i, acc_entity_name = n, acc_account_type = BANK, acc_bic_code = None, acc_lei = None,
      acc_is_active = True, acc_kyc_verified = ok, acc_aml_cleared = ok, acc_risk_tier = 3\<rparr>"

definition opening_entry :: "uuid \<Rightarrow> uuid \<Rightarrow> string \<Rightarrow> CurrencyCode \<Rightarrow> rat \<Rightarrow> rat \<Rightarrow> JournalEntry" where
  "opening_entry i a coa c d cr =
     \<lparr>je_id = i, je_journal_id = i, je_account_id = a, je_coa_code = coa, je_currency = c,
      je_debit = d, je_credit = cr, je_entry_type = ''opening'', je_reference_id = None,
      je_narrative = ''opening'', je_created_at = 0\<rparr>"

definition sample_world :: world where
  "sample_world =
     \<lparr>accounts = [sample_account 1 ''omnibus'' True, sample_account 2 ''alpha'' True,
        sample_account 3 ''beta'' True, sample_account 4 ''gamma'' False],
      api_keys = [], processed_events = [], token_balances = [],
      journal_entries =
        [opening_entry 11 1 ''OMNIBUS_RESERVE'' USD 100000 0,
         opening_entry 12 2 ''INSTITUTION_LIABILITY'' USD 0 1000,
         opening_entry 13 3 ''INSTITUTION_LIABILITY'' EUR 0 1000,
         opening_entry 14 2 ''FX_NOSTRO_USD'' USD 0 0],
      outbox_events = [], escrow_holds = [], status_history = [], token_issuances = [],
      transactions = [], rtgs_settlements = [], escrow_contracts = [], conditional_payments = [],
      fx_rates = [], compliance_events = [], fx_settlements = [], advisory_locks = [],
      txn_now = 0, ticks = 0, block_counter = (\<lambda>_. 1000000),
      rng = (\<lambda>n. 1000 + n), clock = (\<lambda>n. int n),
      sha256_hex = (\<lambda>x. x), md5_hex = (\<lambda>x. x)\<rparr>"

lemmas sample_defs = sample_world_def sample_account_def opening_entry_def

lemma sample_get_account [simp]:
  "get_account sample_world (Suc 0) = Some (sample_account 1 ''omnibus'' True)"
  "get_account sample_world 2 = Some (sample_account 2 ''alpha'' True)"
  "get_account sample_world 3 = Some (sample_account 3 ''beta'' True)"
  "get_account sample_world 4 = Some (sample_account 4 ''gamma'' False)"
  by (simp_all add: get_account_def sample_defs)

lemma sample_balances [simp]:
  "balance_of (journal_entries sample_world) (Suc 0) USD ''OMNIBUS_RESERVE'' = 100000"
  "balance_of (journal_entries sample_world) 2 USD ''INSTITUTION_LIABILITY'' = 1000"
  "balance_of (journal_entries sample_world) 3 EUR ''INSTITUTION_LIABILITY'' = 1000"
  "balance_of (journal_entries sample_world) 3 USD ''INSTITUTION_LIABILITY'' = 0"
  "balance_of (journal_entries sample_world) 2 EUR ''INSTITUTION_LIABILITY'' = 0"
  by (simp_all add: balance_of_def on_position_def sample_defs)

lemma sample_tables [simp]:
  "token_issuances sample_world = []" "transactions sample_world = []"
  "escrow_holds sample_world = []" "rtgs_settlements sample_world = []"
  "escrow_contracts sample_world = []" "conditional_payments sample_world = []"
  "fx_rates sample_world = []" "fx_settlements sample_world = []"
  "set (map acc_id (accounts sample_world)) = {1, 2, 3, 4}"
  "acc_id ` set (accounts sample_world) = {1, 2, 3, 4}"
  "ticks sample_world = 0" "rng sample_world n = 1000 + n" "clock sample_world n = int n"
  by (auto simp: sample_defs)

lemma sample_account_simps [simp]:
  "acc_id (sample_account i n ok) = i" "acc_is_active (sample_account i n ok)"
  "acc_kyc_verified (sample_account i n ok) = ok" "acc_aml_cleared (sample_account i n ok) = ok"
  by (simp_all add: sample_account_def)

lemma sample_active [simp]:
  "account_active sample_world (Suc 0)" "account_active sample_world 2" "account_active sample_world 3"
  by (simp_all add: account_active_def)

lemma sample_holds [simp]:
  "holds_of sample_world a c h = 0" "active_holds sample_world a c = 0"
  by (simp_all add: holds_of_def active_holds_def)

lemma sample_columns: "columns_ok sample_world"
  and sample_places [simp]: "places_ok (journal_entries sample_world) []"
  by (simp_all add: places_ok_def sample_defs on_grid_def)

lemma quantize_numeral [simp]:
  "quantize round_half_even p (of_int n) =
     (if 10 ^ decimal_prec \<le> \<bar>n * 10 ^ p\<bar> then Inl InvalidOperation else Inr (of_int n))"
proof -
  have "(of_int n :: rat) * 10 ^ p = of_int (n * 10 ^ p)" by simp
  then have "round_half_even (of_int n * 10 ^ p) = n * 10 ^ p" by (metis round_half_even_int)
  then show ?thesis by (simp add: quantize_def)
qed

lemma quantize_100 [simp]: "p \<le> 18 \<Longrightarrow> quantize round_half_even p 100 = Inr 100"
proof -
  assume "p \<le> 18"
  then have "(10::int) ^ p \<le> 10 ^ 18" by (intro power_increasing) auto
  then have "\<not> 10 ^ decimal_prec \<le> \<bar>100 * (10::int) ^ p\<bar>" by (simp add: decimal_prec_def)
  then show ?thesis using quantize_numeral [of p 100] by simp
qed

lemma numeric_100 [simp]: "numeric 28 8 100 = Inr 100"
  using numeric_int [of 100] by simp

end
