(* ===== verification/TokenIssuance.thy ===== *)
theory TokenIssuance
  imports Samples
begin

text \<open>
  The token service, \<open>src/services/token-issuance/main.py\<close>: issuing tokenized deposits
  against the omnibus reserve, redeeming them, the balance query and onboarding. A request
  handler is the body of the Python function run in a database session; the Pydantic bound
  \<open>gt=0\<close> is the 422 in front of it.
\<close>

section \<open>Operations\<close>

definition OMNIBUS_ACCOUNT_ID :: uuid where
  "OMNIBUS_ACCOUNT_ID = 1"

definition normalize :: "rat \<Rightarrow> exn + rat" where
  "normalize amount = quantize round_half_even 18 amount"

record IssueTokensRequest =
  iq_account_id :: uuid
  iq_currency :: CurrencyCode
  iq_amount :: rat
  iq_backing_ref :: string
  iq_custodian :: "string option"
  iq_idempotency_key :: "string option"

record RedeemTokensRequest =
  rq_account_id :: uuid
  rq_currency :: CurrencyCode
  rq_amount :: rat
  rq_settlement_ref :: "string option"
  rq_idempotency_key :: "string option"

record TokenBalanceResponse =
  br_account_id :: uuid
  br_currency :: CurrencyCode
  br_balance :: rat
  br_reserved :: rat
  br_available :: rat

record IssuanceResponse =
  ir_issuance_ref :: string
  ir_account_id :: uuid
  ir_currency :: CurrencyCode
  ir_amount :: rat
  ir_new_balance :: rat
  ir_status :: TxnStatus
  ir_blockchain :: Receipt
  ir_fiat_leg :: "FiatReceipt option"

text \<open>What the two engines return: a pair on an idempotent replay, a triple otherwise.\<close>

datatype token_result =
    Existing TokenIssuance
  | Fresh TokenIssuance Receipt "FiatReceipt option"

definition existing_issuance :: "world \<Rightarrow> string option \<Rightarrow> TokenIssuance option" where
  "existing_issuance s k =
     (if truthy k then List.find (\<lambda>r. ti_issuance_ref r = the k) (token_issuances s) else None)"

text \<open>
  The row is added with status \<open>PROCESSING\<close>. The flush stores the amount in a column of
  eight places; the object in memory keeps the eighteen it was built with.
\<close>

definition new_issuance ::
  "string \<Rightarrow> uuid \<Rightarrow> CurrencyCode \<Rightarrow> rat \<Rightarrow> string option \<Rightarrow> string option \<Rightarrow> string
     \<Rightarrow> TokenIssuance db_op" where
  "new_issuance ref account_id currency amount backing_ref custodian issuance_type =
     op_bind uuid4 (\<lambda>i.
     op_bind (op_lift (numeric 28 8 amount)) (\<lambda>v.
     op_bind (op_get txn_now) (\<lambda>t.
     let issuance = \<lparr>ti_id = i, ti_issuance_ref = ref, ti_account_id = account_id,
           ti_currency = currency, ti_amount = amount, ti_backing_ref = backing_ref,
           ti_custodian = custodian, ti_issuance_type = issuance_type, ti_status = T_PROCESSING,
           ti_issued_at = None, ti_redeemed_at = None, ti_created_at = t\<rparr>
     in op_bind (insert_row issuance_constraints token_issuances_update
                   (issuance\<lparr>ti_amount := v\<rparr>)) (\<lambda>_.
        op_return issuance))))"

text \<open>The on-chain receipt of the token leg and the Fedwire receipt of the fiat leg.\<close>

definition token_legs ::
  "string \<Rightarrow> string \<Rightarrow> CurrencyCode \<Rightarrow> string option \<Rightarrow> (Receipt \<times> FiatReceipt option) db_op" where
  "token_legs ref operation currency backing_ref =
     op_bind (record_on_chain TokenIssuanceSvc ref operation (CurrencyCode_value currency)) (\<lambda>receipt.
     op_bind (op_get (\<lambda>s. record_fiat_rail (sha256_hex s) ref ''fedwire'')) (\<lambda>fiat.
     case fiat of
       None \<Rightarrow> op_return (receipt, None)
     | Some f \<Rightarrow>
         op_bind utcnow (\<lambda>now.
         op_return (receipt, Some (f\<lparr>fi_backing_ref := backing_ref, fi_settled_at := Some now\<rparr>)))))"

text \<open>The status rows and the final status of the issuance row.\<close>

definition complete_issuance ::
  "uuid \<Rightarrow> Receipt \<Rightarrow> TokenIssuance \<Rightarrow> (time \<Rightarrow> TokenIssuance \<Rightarrow> TokenIssuance)
     \<Rightarrow> TokenIssuance db_op" where
  "complete_issuance txn_id receipt issuance stamp =
     op_bind (record_status TransactionStatusHistory txn_id ''completed'' None
       (no_extra\<lparr>hx_tx_hash := Some (rc_tx_hash receipt),
                 hx_block_number := Some (int (rc_block_number receipt))\<rparr>)) (\<lambda>_.
     op_bind utcnow (\<lambda>now.
     op_bind (update_rows token_issuances_update (\<lambda>r. ti_id r = ti_id issuance)
       (\<lambda>r. stamp now (r\<lparr>ti_status := T_COMPLETED\<rparr>))) (\<lambda>_.
     op_bind (record_status TokenIssuanceStatusHistory (ti_id issuance) ''completed'' None no_extra) (\<lambda>_.
     op_return (stamp now (issuance\<lparr>ti_status := T_COMPLETED\<rparr>))))))"

definition priv_issue_tokens ::
  "uuid \<Rightarrow> CurrencyCode \<Rightarrow> rat \<Rightarrow> string \<Rightarrow> string option \<Rightarrow> string option \<Rightarrow> token_result db_op" where
  "priv_issue_tokens account_id currency amount0 backing_ref custodian idempotency_key =
     op_bind (op_lift (normalize amount0)) (\<lambda>amount.
     op_bind (op_get (\<lambda>s. existing_issuance s idempotency_key)) (\<lambda>existing.
     case existing of Some r \<Rightarrow> op_return (Existing r) | None \<Rightarrow>
     op_bind (op_get (\<lambda>s. get_account s account_id)) (\<lambda>acc.
     case acc of None \<Rightarrow> op_raise (HTTPException 404 [Txt ''Account not found'']) | Some account \<Rightarrow>
     op_bind (op_assert (acc_kyc_verified account \<and> acc_aml_cleared account)
       (HTTPException 403 [Txt ''Account not KYC/AML cleared''])) (\<lambda>_.
     op_bind (op_assert (acc_is_active account)
       (HTTPException 403 [Txt ''Account is not active''])) (\<lambda>_.
     op_bind (key_or_fresh idempotency_key ''ISS-'') (\<lambda>issuance_ref.
     op_bind (acquire_balance_lock OMNIBUS_ACCOUNT_ID currency) (\<lambda>_.
     op_bind (op_get (\<lambda>s. get_balance s OMNIBUS_ACCOUNT_ID currency ''OMNIBUS_RESERVE'')) (\<lambda>omnibus_balance.
     op_bind (op_assert (amount \<le> omnibus_balance)
       (HTTPException 422 [Txt ''Insufficient reserve balance''])) (\<lambda>_.
     op_bind (new_issuance issuance_ref account_id currency amount (Some backing_ref) custodian
       ''initial'') (\<lambda>issuance.
     op_bind (record_journal_pair OMNIBUS_ACCOUNT_ID ''OMNIBUS_RESERVE'' currency amount
       ''token_issuance'' (ti_id issuance) (acc_id account) ''INSTITUTION_LIABILITY''
       (''Token issuance to '' @ uuid_str account_id)) (\<lambda>_.
     op_bind (new_transaction issuance_ref OMNIBUS_ACCOUNT_ID account_id currency amount
       ''issuance'' idempotency_key []) (\<lambda>txn_id.
     op_bind (token_legs issuance_ref ''token_issuance'' currency (ti_backing_ref issuance)) (\<lambda>(receipt, fiat).
     op_bind (complete_issuance txn_id receipt issuance (\<lambda>now r. r\<lparr>ti_issued_at := Some now\<rparr>)) (\<lambda>completed.
     op_bind (op_get (\<lambda>s. liability s account_id currency)) (\<lambda>new_balance.
     op_bind (emit TokenIssuanceSvc issuance_ref ''token.issuance.completed''
       (TokenIssuanceCompleted issuance_ref account_id currency amount new_balance)) (\<lambda>_.
     op_bind (emit TokenIssuanceSvc issuance_ref ''token.balance.updated''
       (TokenBalanceUpdated account_id currency (dec_sub new_balance amount) new_balance 0
          ''issuance'')) (\<lambda>_.
     op_return (Fresh completed receipt fiat))))))))))))))))))"

definition none_str :: "string option \<Rightarrow> string" where
  "none_str x = (case x of None \<Rightarrow> ''None'' | Some t \<Rightarrow> t)"

definition priv_redeem_tokens ::
  "uuid \<Rightarrow> CurrencyCode \<Rightarrow> rat \<Rightarrow> string option \<Rightarrow> string option \<Rightarrow> token_result db_op" where
  "priv_redeem_tokens account_id currency amount0 settlement_ref idempotency_key =
     op_bind (op_lift (normalize amount0)) (\<lambda>amount.
     op_bind (op_get (\<lambda>s. existing_issuance s idempotency_key)) (\<lambda>existing.
     case existing of Some r \<Rightarrow> op_return (Existing r) | None \<Rightarrow>
     op_bind (op_get (\<lambda>s. account_active s account_id)) (\<lambda>active.
     op_bind (op_assert active (HTTPException 404 [Txt ''Account not found or inactive''])) (\<lambda>_.
     op_bind (acquire_balance_lock account_id currency) (\<lambda>_.
     op_bind (op_get (\<lambda>s. get_available_balance s account_id currency)) (\<lambda>available.
     op_bind (op_assert (amount \<le> available)
       (HTTPException 422 [Txt ''Insufficient available balance: '', Dec available,
          Txt ('' '' @ CurrencyCode_value currency)])) (\<lambda>_.
     op_bind (key_or_fresh idempotency_key ''RED-'') (\<lambda>redemption_ref.
     op_bind (op_get (\<lambda>s. liability s account_id currency)) (\<lambda>old_balance.
     op_bind (new_issuance redemption_ref account_id currency amount settlement_ref None
       ''redemption'') (\<lambda>issuance.
     op_bind (record_journal_pair account_id ''INSTITUTION_LIABILITY'' currency amount
       ''token_redemption'' (ti_id issuance) OMNIBUS_ACCOUNT_ID ''OMNIBUS_RESERVE''
       (''Token redemption ref='' @ none_str settlement_ref)) (\<lambda>_.
     op_bind (new_transaction redemption_ref account_id OMNIBUS_ACCOUNT_ID currency amount
       ''redemption'' idempotency_key []) (\<lambda>txn_id.
     op_bind (token_legs redemption_ref ''token_redemption'' currency None) (\<lambda>(receipt, fiat).
     op_bind (complete_issuance txn_id receipt issuance (\<lambda>now r. r\<lparr>ti_redeemed_at := Some now\<rparr>)) (\<lambda>completed.
     op_bind (op_get (\<lambda>s. liability s account_id currency)) (\<lambda>new_balance.
     op_bind (emit TokenIssuanceSvc redemption_ref ''token.redemption.completed''
       (TokenRedemptionCompleted redemption_ref account_id currency amount new_balance)) (\<lambda>_.
     op_bind (emit TokenIssuanceSvc redemption_ref ''token.balance.updated''
       (TokenBalanceUpdated account_id currency old_balance new_balance 0 ''redemption'')) (\<lambda>_.
     op_return (Fresh completed receipt fiat))))))))))))))))))"

section \<open>Handlers\<close>

text \<open>The caller unpacks three values; a replay hands it two.\<close>

definition unpack3 :: "token_result \<Rightarrow> exn + (TokenIssuance \<times> Receipt \<times> FiatReceipt option)" where
  "unpack3 r =
     (case r of
        Existing _ \<Rightarrow> Inl (ValueError [Txt ''not enough values to unpack (expected 3, got 2)''])
      | Fresh i rc f \<Rightarrow> Inr (i, rc, f))"

definition issuance_response ::
  "uuid \<Rightarrow> CurrencyCode \<Rightarrow> token_result \<Rightarrow> IssuanceResponse db_op" where
  "issuance_response account_id currency result =
     op_bind (op_lift (unpack3 result)) (\<lambda>(issuance, receipt, fiat_receipt).
     op_bind (op_get (\<lambda>s. liability s account_id currency)) (\<lambda>new_balance.
     op_return \<lparr>ir_issuance_ref = ti_issuance_ref issuance, ir_account_id = account_id,
       ir_currency = currency, ir_amount = ti_amount issuance, ir_new_balance = new_balance,
       ir_status = ti_status issuance, ir_blockchain = receipt, ir_fiat_leg = fiat_receipt\<rparr>))"

definition issue_tokens :: "IssueTokensRequest \<Rightarrow> IssuanceResponse db_op" where
  "issue_tokens req =
     op_bind (gt_zero ''amount'' (iq_amount req)) (\<lambda>_.
     get_db_session (
       op_bind (priv_issue_tokens (iq_account_id req) (iq_currency req) (iq_amount req)
         (iq_backing_ref req) (iq_custodian req) (iq_idempotency_key req))
         (issuance_response (iq_account_id req) (iq_currency req))))"

definition redeem_tokens :: "RedeemTokensRequest \<Rightarrow> IssuanceResponse db_op" where
  "redeem_tokens req =
     op_bind (gt_zero ''amount'' (rq_amount req)) (\<lambda>_.
     get_db_session (
       op_bind (priv_redeem_tokens (rq_account_id req) (rq_currency req) (rq_amount req)
         (rq_settlement_ref req) (rq_idempotency_key req))
         (issuance_response (rq_account_id req) (rq_currency req))))"

definition account_currencies :: "world \<Rightarrow> uuid \<Rightarrow> CurrencyCode list" where
  "account_currencies s account_id =
     remdups (map je_currency (filter (\<lambda>e. je_account_id e = account_id
       \<and> je_coa_code e = ''INSTITUTION_LIABILITY'') (journal_entries s)))"

definition balance_response :: "world \<Rightarrow> uuid \<Rightarrow> CurrencyCode \<Rightarrow> TokenBalanceResponse" where
  "balance_response s account_id cur =
     (let balance = liability s account_id cur;
          available = get_available_balance s account_id cur
      in \<lparr>br_account_id = account_id, br_currency = cur, br_balance = balance,
          br_reserved = dec_sub balance available, br_available = available\<rparr>)"

definition get_balances :: "uuid \<Rightarrow> TokenBalanceResponse list db_op" where
  "get_balances account_id =
     get_db_session (
       op_bind (op_get (\<lambda>s. account_exists s account_id)) (\<lambda>found.
       op_bind (op_assert found (HTTPException 404 [Txt ''Account not found''])) (\<lambda>_.
       op_get (\<lambda>s. map (balance_response s account_id) (account_currencies s account_id)))))"

definition AccountType_of :: "string \<Rightarrow> AccountType option" where
  "AccountType_of t =
     List.find (\<lambda>a. AccountType_value a = t) [INSTITUTIONAL, BANK, CORRESPONDENT, CENTRAL_BANK]"

definition create_account ::
  "string \<Rightarrow> string \<Rightarrow> string option \<Rightarrow> string option \<Rightarrow> (uuid \<times> string) db_op" where
  "create_account entity_name account_type bic_code lei =
     get_db_session (
       op_bind uuid4 (\<lambda>i.
       case AccountType_of account_type of
         None \<Rightarrow> op_raise (StatementError ''account_type'')
       | Some ty \<Rightarrow>
           op_bind (insert_row account_constraints accounts_update
             \<lparr>acc_id = i, acc_entity_name = entity_name, acc_account_type = ty,
              acc_bic_code = bic_code, acc_lei = lei, acc_is_active = True,
              acc_kyc_verified = False, acc_aml_cleared = False, acc_risk_tier = 3\<rparr>) (\<lambda>_.
           op_return (i, entity_name))))"

section \<open>What the steps do\<close>

definition issuance_row ::
  "uuid \<Rightarrow> time \<Rightarrow> string \<Rightarrow> uuid \<Rightarrow> CurrencyCode \<Rightarrow> rat \<Rightarrow> string option \<Rightarrow> string option \<Rightarrow> string
     \<Rightarrow> TokenIssuance" where
  "issuance_row i t ref a c v b cu ty =
     \<lparr>ti_id = i, ti_issuance_ref = ref, ti_account_id = a, ti_currency = c,
      ti_amount = v, ti_backing_ref = b, ti_custodian = cu, ti_issuance_type = ty,
      ti_status = T_PROCESSING, ti_issued_at = None, ti_redeemed_at = None,
      ti_created_at = t\<rparr>"

lemma issuance_row_simps [simp]:
  "ti_id (issuance_row i t ref a c v b cu ty) = i"
  "ti_issuance_ref (issuance_row i t ref a c v b cu ty) = ref"
  "ti_account_id (issuance_row i t ref a c v b cu ty) = a"
  "ti_currency (issuance_row i t ref a c v b cu ty) = c"
  "ti_amount (issuance_row i t ref a c v b cu ty) = v"
  "ti_backing_ref (issuance_row i t ref a c v b cu ty) = b"
  "ti_issuance_type (issuance_row i t ref a c v b cu ty) = ty"
  by (simp_all add: issuance_row_def)

definition can_record :: "Account list \<Rightarrow> TokenIssuance list \<Rightarrow> uuid \<Rightarrow> string \<Rightarrow> uuid \<Rightarrow> rat \<Rightarrow> bool" where
  "can_record accs rows i ref a v \<longleftrightarrow>
     (\<forall>q \<in> set rows. ti_id q \<noteq> i) \<and> 0 < v \<and>
     (\<forall>q \<in> set rows. ti_issuance_ref q \<noteq> ref) \<and> a \<in> acc_id ` set accs"

lemma valid_issuance [simp]:
  "valid_row issuance_constraints s (issuance_row i t ref a c v b cu ty) \<longleftrightarrow>
     can_record (accounts s) (token_issuances s) i ref a v"
  by (simp add: valid_row_def issuance_constraints_def can_record_def)

lemma new_issuance_Inr [op_Inr]:
  "new_issuance ref a c amt b cu ty s = (Inr r, s') \<longleftrightarrow>
     (\<exists>v. numeric 28 8 amt = Inr v \<and> can_record (accounts s) (token_issuances s) (rng s (ticks s)) ref a v \<and>
        r = issuance_row (rng s (ticks s)) (txn_now s) ref a c amt b cu ty \<and>
        s' = s\<lparr>ticks := Suc (ticks s), token_issuances := token_issuances s @
               [issuance_row (rng s (ticks s)) (txn_now s) ref a c v b cu ty]\<rparr>)"
  by (auto simp: new_issuance_def op_Inr issuance_row_def issuance_constraints_def can_record_def)

lemma wp_new_issuance [wp_simps]:
  "wp (new_issuance ref a c amt b cu ty) s Q partial \<longleftrightarrow>
     (\<forall>v. numeric 28 8 amt = Inr v \<longrightarrow> can_record (accounts s) (token_issuances s) (rng s (ticks s)) ref a v \<longrightarrow>
        Q (issuance_row (rng s (ticks s)) (txn_now s) ref a c amt b cu ty)
          (s\<lparr>ticks := Suc (ticks s), token_issuances := token_issuances s @
             [issuance_row (rng s (ticks s)) (txn_now s) ref a c v b cu ty]\<rparr>))"
  by (auto intro!: wpI simp: new_issuance_Inr dest: wp_Inr)

lemma wp_new_issuance_total:
  "numeric 28 8 amt = Inr v \<Longrightarrow> can_record (accounts s) (token_issuances s) (rng s (ticks s)) ref a v \<Longrightarrow>
   wp (new_issuance ref a c amt b cu ty) s Q E \<longleftrightarrow>
        Q (issuance_row (rng s (ticks s)) (txn_now s) ref a c amt b cu ty)
          (s\<lparr>ticks := Suc (ticks s), token_issuances := token_issuances s @
             [issuance_row (rng s (ticks s)) (txn_now s) ref a c v b cu ty]\<rparr>)"
  by (rule wp_app) (simp add: new_issuance_Inr)

definition fedwire_leg :: "(string \<Rightarrow> string) \<Rightarrow> time \<Rightarrow> string \<Rightarrow> string option \<Rightarrow> FiatReceipt" where
  "fedwire_leg sha now ref b =
     \<lparr>fi_rail = ''fedwire'',
      fi_reference = ''FW'' @ upper (take 12 (sha (ref @ '':fedwire:fiat''))),
      fi_status = ''settled'', fi_settled_at = Some now, fi_backing_ref = b\<rparr>"

lemma wp_token_legs [wp_simps]:
  "wp (token_legs ref oper c b) s Q E \<longleftrightarrow>
     Q (chain_receipt (sha256_hex s) (md5_hex s) (block_counter s TokenIssuanceSvc + 1)
            (ref @ '':'' @ oper @ '':'' @ CurrencyCode_value c),
        Some (fedwire_leg (sha256_hex s) (clock s (ticks s)) ref b))
       (s\<lparr>ticks := Suc (ticks s), block_counter :=
            (block_counter s)(TokenIssuanceSvc := block_counter s TokenIssuanceSvc + 1)\<rparr>)"
  by (rule wp_app) (simp add: token_legs_def op_simps record_fiat_rail_def fedwire_leg_def)

lemma wp_complete_issuance [wp_simps]:
  "wp (complete_issuance t rc r stamp) s Q E \<longleftrightarrow>
     Q (stamp (clock s (Suc (ticks s))) (r\<lparr>ti_status := T_COMPLETED\<rparr>))
       (s\<lparr>ticks := ticks s + 3, status_history := status_history s @
             [history_row (rng s (ticks s)) (txn_now s) TransactionStatusHistory t ''completed'' None
                (no_extra\<lparr>hx_tx_hash := Some (rc_tx_hash rc),
                          hx_block_number := Some (int (rc_block_number rc))\<rparr>),
              history_row (rng s (ticks s + 2)) (txn_now s) TokenIssuanceStatusHistory (ti_id r)
                ''completed'' None no_extra],
            token_issuances := map_where (\<lambda>q. ti_id q = ti_id r)
              (\<lambda>q. stamp (clock s (Suc (ticks s))) (q\<lparr>ti_status := T_COMPLETED\<rparr>))
              (token_issuances s)\<rparr>)"
  by (rule wp_app) (simp add: complete_issuance_def op_simps numeral_3_eq_3)

lemma normalize_on_grid: "normalize x = Inr v \<Longrightarrow> on_grid 18 v"
  by (simp add: normalize_def quantize_on_grid)

lemma normalize_numeric: "normalize x = Inr v \<Longrightarrow> numeric 38 18 v = Inr v"
proof -
  assume n: "normalize x = Inr v"
  then obtain m where "v = of_int m / 10 ^ 18" "\<bar>m\<bar> < 10 ^ 28"
    by (auto simp: normalize_def quantize_Inr decimal_prec_def)
  then show ?thesis by (simp add: numeric_Inr)
qed

section \<open>Requests against their specification\<close>

text \<open>
  What a refused request is refused with: the checks in the order the code makes them.
\<close>

definition issue_refusal :: "world \<Rightarrow> IssueTokensRequest \<Rightarrow> exn option" where
  "issue_refusal s req =
     (if \<not> 0 < iq_amount req
      then Some (HTTPException 422 [Txt ''amount: Input should be greater than 0''])
      else case normalize (iq_amount req) of Inl e \<Rightarrow> Some e | Inr v \<Rightarrow>
        (if existing_issuance s (iq_idempotency_key req) \<noteq> None
         then Some (ValueError [Txt ''not enough values to unpack (expected 3, got 2)''])
         else case get_account s (iq_account_id req) of
           None \<Rightarrow> Some (HTTPException 404 [Txt ''Account not found''])
         | Some acc \<Rightarrow>
             if \<not> (acc_kyc_verified acc \<and> acc_aml_cleared acc)
             then Some (HTTPException 403 [Txt ''Account not KYC/AML cleared''])
             else if \<not> acc_is_active acc
             then Some (HTTPException 403 [Txt ''Account is not active''])
             else if get_balance s OMNIBUS_ACCOUNT_ID (iq_currency req) ''OMNIBUS_RESERVE'' < v
             then Some (HTTPException 422 [Txt ''Insufficient reserve balance''])
             else None))"

text \<open>
  What an accepted one does: one balanced pair from the omnibus reserve to the holder's
  liability, one completed issuance row and one transaction row under the same reference
  with the amount rounded to the column's eight places, and the two events.
\<close>

definition token_effect ::
  "string \<Rightarrow> uuid \<Rightarrow> CurrencyCode \<Rightarrow> string option \<Rightarrow> uuid \<times> string \<Rightarrow> uuid \<times> string \<Rightarrow> world
     \<Rightarrow> IssuanceResponse \<Rightarrow> world \<Rightarrow> bool" where
  "token_effect kind a c key debit credit s resp s' \<longleftrightarrow>
     (let v = ir_amount resp; row = last (token_issuances s'); tr = last (transactions s') in
        posted c v debit credit (journal_entries s) (journal_entries s') \<and>
        ir_status resp = T_COMPLETED \<and> ir_new_balance resp = liability s' a c \<and>
        length (token_issuances s') = Suc (length (token_issuances s)) \<and>
        ti_issuance_ref row = ir_issuance_ref resp \<and> ti_account_id row = a \<and>
        ti_status row = T_COMPLETED \<and> numeric 28 8 v = Inr (ti_amount row) \<and> 0 < ti_amount row \<and>
        transactions s' \<noteq> [] \<and> butlast (transactions s') = transactions s \<and> tx_ref tr = ir_issuance_ref resp \<and>
        tx_debit_account_id tr = fst debit \<and> tx_credit_account_id tr = fst credit \<and>
        tx_amount tr = ti_amount row \<and> tx_idempotency_key tr = key \<and>
        map oe_event_type (drop (length (outbox_events s)) (outbox_events s')) =
          [kind, ''token.balance.updated''] \<and>
        escrow_holds s' = escrow_holds s \<and> accounts s' = accounts s \<and> rng s' = rng s \<and>
        drawn s' (ti_id row) \<and> drawn s' (tx_id tr))"

lemma wp_issuance_response [wp_simps]:
  "wp (issuance_response a c res) s Q E \<longleftrightarrow>
     (case res of
        Existing _ \<Rightarrow> E (ValueError [Txt ''not enough values to unpack (expected 3, got 2)'']) s
      | Fresh r rc f \<Rightarrow>
          Q \<lparr>ir_issuance_ref = ti_issuance_ref r, ir_account_id = a, ir_currency = c,
             ir_amount = ti_amount r, ir_new_balance = liability s a c,
             ir_status = ti_status r, ir_blockchain = rc, ir_fiat_leg = f\<rparr> s)"
  by (simp add: issuance_response_def unpack3_def wp_simps split: token_result.splits)

lemma can_record_pos: "can_record accs rows i ref a v \<Longrightarrow> 0 < v"
  by (simp add: can_record_def)

lemma existing_begin [simp]: "existing_issuance (begin_txn s) k = existing_issuance s k"
  by (simp add: existing_issuance_def)

lemma wp_issue_tokens:
  "wp (issue_tokens req) s
     (\<lambda>resp s'. issue_refusal s req = None \<and> normalize (iq_amount req) = Inr (ir_amount resp) \<and>
        (truthy (iq_idempotency_key req) \<longrightarrow> ir_issuance_ref resp = the (iq_idempotency_key req)) \<and>
        token_effect ''token.issuance.completed'' (iq_account_id req) (iq_currency req) (iq_idempotency_key req)
          (OMNIBUS_ACCOUNT_ID, ''OMNIBUS_RESERVE'')
          (iq_account_id req, ''INSTITUTION_LIABILITY'') s resp s') partial"
  by (simp add: issue_tokens_def priv_issue_tokens_def wp_simps split: option.splits sum.splits)
     (auto simp: normalize_numeric get_account_id token_effect_def issue_refusal_def
       drawn_rng dest: can_record_pos)

lemma wp_issue_refused:
  assumes "issue_refusal s req = Some e"
  shows "wp (issue_tokens req) s (\<lambda>_ _. False) (\<lambda>e' s'. e' = e \<and> same_tables s s')"
  using assms
  by (auto simp: issue_tokens_def priv_issue_tokens_def issue_refusal_def wp_simps
      split: option.splits sum.splits if_splits)

definition can_issue :: "world \<Rightarrow> uuid \<Rightarrow> string \<Rightarrow> rat \<Rightarrow> bool" where
  "can_issue s a ref v \<longleftrightarrow>
     account_exists s OMNIBUS_ACCOUNT_ID \<and> a \<noteq> OMNIBUS_ACCOUNT_ID \<and>
     (\<forall>q \<in> set (token_issuances s). ti_issuance_ref q \<noteq> ref \<and> (\<forall>n\<ge>ticks s. ti_id q \<noteq> rng s n)) \<and>
     (\<forall>r \<in> set (transactions s). tx_ref r \<noteq> ref \<and> tx_idempotency_key r \<noteq> Some ref \<and>
        (\<forall>n\<ge>ticks s. tx_id r \<noteq> rng s n)) \<and>
     1 / (2 * 10 ^ 8) \<le> v"

lemma normalize_numeric8:
  assumes "normalize x = Inr v" "1 / (2 * 10 ^ 8) \<le> v"
  obtains w where "numeric 28 8 v = Inr w" "0 < w"
proof -
  obtain m where v: "v = of_int m / 10 ^ 18" and m: "\<bar>m\<bar> < 10 ^ 28"
    using assms(1) by (auto simp: normalize_def quantize_Inr decimal_prec_def)
  have "\<bar>of_int m :: rat\<bar> < 10 ^ 28"
    using m by (metis of_int_abs of_int_less_iff of_int_numeral of_int_power)
  with v have v10: "v < 10 ^ 10" by simp
  let ?n = "\<lfloor>v * 10 ^ 8 + 1 / 2\<rfloor>"
  have "1 \<le> ?n" using assms(2) by (simp add: le_floor_iff)
  moreover have "?n < 10 ^ 28" using v10 by (simp add: floor_less_iff)
  moreover have "round_half_up (v * 10 ^ 8) = ?n" using assms(2) by (simp add: round_half_up_def)
  ultimately show thesis
    using that [of "of_int ?n / 10 ^ 8"] by (simp add: numeric_Inr)
qed

lemma wp_issue_accepted:
  assumes ok: "issue_refusal s req = None" "normalize (iq_amount req) = Inr v"
    and key: "iq_idempotency_key req = Some key" "key \<noteq> []"
    and can: "can_issue s (iq_account_id req) key v"
  shows "wp (issue_tokens req) s (\<lambda>_ _. True) total"
proof -
  obtain w where w: "numeric 28 8 v = Inr w" "0 < w"
    using normalize_numeric8 [OF ok(2)] can by (auto simp: can_issue_def)
  have pos: "0 < iq_amount req" using ok(1) by (auto simp: issue_refusal_def split: if_splits)
  obtain acc where acc: "get_account s (iq_account_id req) = Some acc"
    "acc_kyc_verified acc" "acc_aml_cleared acc" "acc_is_active acc"
    and none: "existing_issuance s (iq_idempotency_key req) = None"
    and bal: "v \<le> get_balance s OMNIBUS_ACCOUNT_ID (iq_currency req) ''OMNIBUS_RESERVE''"
    using ok by (auto simp: issue_refusal_def pos split: option.splits if_splits)
  have ex: "iq_account_id req \<in> acc_id ` set (accounts s)"
    using get_account_exists [OF acc(1)] by simp
  note facts = key acc none bal w ex ok(2) pos can get_account_id [OF acc(1)]
    normalize_numeric [OF ok(2)]
  have t: "truthy (Some key)" using key by (simp add: truthy_def)
  show ?thesis using facts t
    by (simp add: issue_tokens_def priv_issue_tokens_def wp_simps can_issue_def
      wp_new_issuance_total [OF w(1)] wp_journal_pair_total [OF normalize_numeric [OF ok(2)]]
      wp_transaction_total [OF w(1)] can_record_def can_post_def can_book_def chart_of_accounts_def)
qed
lemma issue_tokens_refused_aux:
  "issue_refusal s req = Some e \<Longrightarrow> \<exists>s'. issue_tokens req s = (Inl e, s') \<and> same_tables s s'"
  by (drule wp_issue_refused) (auto simp: wp_raises)

definition redeem_refusal :: "world \<Rightarrow> RedeemTokensRequest \<Rightarrow> exn option" where
  "redeem_refusal s req =
     (let a = rq_account_id req; c = rq_currency req in
      if \<not> 0 < rq_amount req
      then Some (HTTPException 422 [Txt ''amount: Input should be greater than 0''])
      else case normalize (rq_amount req) of Inl e \<Rightarrow> Some e | Inr v \<Rightarrow>
        (if existing_issuance s (rq_idempotency_key req) \<noteq> None
         then Some (ValueError [Txt ''not enough values to unpack (expected 3, got 2)''])
         else if \<not> account_active s a
         then Some (HTTPException 404 [Txt ''Account not found or inactive''])
         else if get_available_balance s a c < v
         then Some (HTTPException 422 [Txt ''Insufficient available balance: '',
                Dec (get_available_balance s a c), Txt ('' '' @ CurrencyCode_value c)])
         else None))"

lemma available_frame [simp]:
  "get_available_balance (s\<lparr>advisory_locks := l\<rparr>) a c = get_available_balance s a c"
  by (simp add: get_available_balance_def holds_of_def)

lemma wp_redeem_tokens:
  "wp (redeem_tokens req) s
     (\<lambda>resp s'. redeem_refusal s req = None \<and> normalize (rq_amount req) = Inr (ir_amount resp) \<and>
        (truthy (rq_idempotency_key req) \<longrightarrow> ir_issuance_ref resp = the (rq_idempotency_key req)) \<and>
        token_effect ''token.redemption.completed'' (rq_account_id req) (rq_currency req) (rq_idempotency_key req)
          (rq_account_id req, ''INSTITUTION_LIABILITY'')
          (OMNIBUS_ACCOUNT_ID, ''OMNIBUS_RESERVE'') s resp s') partial"
  by (simp add: redeem_tokens_def priv_redeem_tokens_def wp_simps split: option.splits sum.splits)
     (auto simp: normalize_numeric token_effect_def redeem_refusal_def drawn_rng
       dest: can_record_pos)

lemma wp_redeem_refused:
  assumes "redeem_refusal s req = Some e"
  shows "wp (redeem_tokens req) s (\<lambda>_ _. False) (\<lambda>e' s'. e' = e \<and> same_tables s s')"
  using assms
  by (auto simp: redeem_tokens_def priv_redeem_tokens_def redeem_refusal_def wp_simps Let_def
      split: option.splits sum.splits if_splits)

lemma token_effect_balance:
  assumes "token_effect kind a c key (d, dc) (k, kc) s resp s'"
  shows "balance_of (journal_entries s') b cur code = balance_of (journal_entries s) b cur code +
     (if b = d \<and> cur = c \<and> code = dc then coa_sign dc * ir_amount resp else 0) -
     (if b = k \<and> cur = c \<and> code = kc then coa_sign kc * ir_amount resp else 0)"
  using assms unfolding token_effect_def Let_def by (blast intro: posted_balance)

lemma keeps_audit_issue [keeps_intros]: "keeps (audit_safe s0) (issue_tokens req)"
  unfolding issue_tokens_def priv_issue_tokens_def issuance_response_def new_issuance_def token_legs_def complete_issuance_def
  by (intro keeps_intros keeps_insert_row keeps_update_rows) (simp_all add: audit_safe_def)

lemma keeps_audit_redeem [keeps_intros]: "keeps (audit_safe s0) (redeem_tokens req)"
  unfolding redeem_tokens_def priv_redeem_tokens_def issuance_response_def new_issuance_def token_legs_def complete_issuance_def
  by (intro keeps_intros keeps_insert_row keeps_update_rows) (simp_all add: audit_safe_def)

lemma keeps_audit_get_balances [keeps_intros]: "keeps (audit_safe s0) (get_balances a)"
  unfolding get_balances_def by (intro keeps_intros)

lemma keeps_audit_create_account [keeps_intros]:
  "keeps (audit_safe s0) (create_account n ty bic lei)"
  unfolding create_account_def
  by (intro keeps_intros keeps_insert_row) (simp_all add: audit_safe_def)

lemma existing_after:
  assumes "truthy k" "token_issuances s \<noteq> []" "ti_issuance_ref (last (token_issuances s)) = the k"
  shows "existing_issuance s k \<noteq> None"
proof -
  have "\<exists>x. x \<in> set (token_issuances s) \<and> ti_issuance_ref x = the k"
    using last_in_set [OF assms(2)] assms(3) by blast
  with assms(1) show ?thesis by (simp add: existing_issuance_def find_None_iff)
qed

section \<open>Properties\<close>


definition sample_issue :: IssueTokensRequest where
  "sample_issue = \<lparr>iq_account_id = 2, iq_currency = USD, iq_amount = 100,
     iq_backing_ref = ''IMAD-1'', iq_custodian = None, iq_idempotency_key = Some ''ISS-A''\<rparr>"

lemma sample_issue_ok:
  "issue_refusal sample_world sample_issue = None" "normalize (iq_amount sample_issue) = Inr 100"
  "can_issue sample_world (iq_account_id sample_issue) ''ISS-A'' 100"
  by (simp_all add: issue_refusal_def sample_issue_def normalize_def existing_issuance_def
      OMNIBUS_ACCOUNT_ID_def can_issue_def)

lemma sample_issue_runs: "\<exists>resp s'. issue_tokens sample_issue sample_world = (Inr resp, s')"
proof -
  have "iq_idempotency_key sample_issue = Some ''ISS-A''" by (simp add: sample_issue_def)
  from wp_issue_accepted [OF sample_issue_ok(1,2) this _ sample_issue_ok(3)]
  show ?thesis by (simp add: wp_total)
qed


text \<open>
  C31. A request to issue tokens that fails one of the checks is answered with exactly the
  error of the first check it fails, in the order the handler makes them, and leaves every
  table as it was.
\<close>

theorem issue_tokens_refused:
  assumes "issue_refusal s req = Some e"
  shows "\<exists>s'. issue_tokens req s = (Inl e, s') \<and> same_tables s s'"
  using assms by (rule issue_tokens_refused_aux)

theorem issue_tokens_refused_witness:
  "\<exists>s'. issue_tokens (sample_issue\<lparr>iq_account_id := 4\<rparr>) sample_world =
     (Inl (HTTPException 403 [Txt ''Account not KYC/AML cleared'']), s') \<and> same_tables sample_world s'"
  by (rule issue_tokens_refused)
     (simp add: issue_refusal_def sample_issue_def normalize_def existing_issuance_def)



text \<open>
  C40. Repeating a request to issue tokens under the same idempotency key, after it succeeded,
  raises a \<open>ValueError\<close> (the engine returns two values where the handler unpacks three)
  and issues nothing: the replay is an internal error instead of the first response.
\<close>

theorem issue_tokens_replay:
  assumes "issue_tokens req s = (Inr resp, s1)" "truthy (iq_idempotency_key req)"
  shows "\<exists>s2. issue_tokens req s1 =
     (Inl (ValueError [Txt ''not enough values to unpack (expected 3, got 2)'']), s2) \<and>
     same_tables s1 s2"
proof (rule issue_tokens_refused_aux)
  note post = wp_Inr [OF wp_issue_tokens assms(1)]
  then have "existing_issuance s1 (iq_idempotency_key req) \<noteq> None"
    using assms(2) by (intro existing_after) (auto simp: token_effect_def Let_def)
  with post show "issue_refusal s1 req =
      Some (ValueError [Txt ''not enough values to unpack (expected 3, got 2)''])"
    by (auto simp: issue_refusal_def split: if_splits)
qed

theorem issue_tokens_replay_witness:
  "\<exists>resp s1 s2. issue_tokens sample_issue sample_world = (Inr resp, s1) \<and>
     issue_tokens sample_issue s1 =
     (Inl (ValueError [Txt ''not enough values to unpack (expected 3, got 2)'']), s2)"
proof -
  obtain resp s1 where run: "issue_tokens sample_issue sample_world = (Inr resp, s1)"
    using sample_issue_runs by blast
  have "truthy (iq_idempotency_key sample_issue)" by (simp add: sample_issue_def truthy_def)
  from issue_tokens_replay [OF run this] run show ?thesis by blast
qed

lemma wp_redeem_accepted:
  assumes ok: "redeem_refusal s req = None" "normalize (rq_amount req) = Inr v"
    and key: "rq_idempotency_key req = Some key" "key \<noteq> []"
    and can: "can_issue s (rq_account_id req) key v"
  shows "wp (redeem_tokens req) s (\<lambda>_ _. True) total"
proof -
  obtain w where w: "numeric 28 8 v = Inr w" "0 < w"
    using normalize_numeric8 [OF ok(2)] can by (auto simp: can_issue_def)
  have pos: "0 < rq_amount req" using ok(1) by (auto simp: redeem_refusal_def Let_def split: if_splits)
  have acc: "account_active s (rq_account_id req)"
    and none: "existing_issuance s (rq_idempotency_key req) = None"
    and bal: "v \<le> get_available_balance s (rq_account_id req) (rq_currency req)"
    using ok by (auto simp: redeem_refusal_def pos Let_def split: if_splits)
  have ex: "rq_account_id req \<in> acc_id ` set (accounts s)"
    using acc get_account_exists by (auto simp: account_active_def split: option.splits)
  have "truthy (Some key)" using key by (simp add: truthy_def)
  with key acc none bal w ex ok(2) pos can normalize_numeric [OF ok(2)] show ?thesis
    by (simp add: redeem_tokens_def priv_redeem_tokens_def wp_simps can_issue_def
      wp_new_issuance_total [OF w(1)] wp_journal_pair_total [OF normalize_numeric [OF ok(2)]]
      wp_transaction_total [OF w(1)] can_record_def can_post_def can_book_def chart_of_accounts_def)
qed

definition sample_redeem :: RedeemTokensRequest where
  "sample_redeem = \<lparr>rq_account_id = 2, rq_currency = USD, rq_amount = 100,
     rq_settlement_ref = None, rq_idempotency_key = Some ''RED-A''\<rparr>"

lemma sample_redeem_runs:
  assumes "normalize 100 = Inr 100" "existing_issuance s (Some ''RED-A'') = None"
    and "account_active s 2" "100 \<le> get_available_balance s 2 USD"
    and "can_issue s 2 ''RED-A'' 100"
  shows "\<exists>resp s'. redeem_tokens sample_redeem s = (Inr resp, s')"
proof -
  have "redeem_refusal s sample_redeem = None"
    using assms by (simp add: redeem_refusal_def sample_redeem_def)
  from wp_redeem_accepted [OF this, of 100 "''RED-A''"] assms show ?thesis
    by (simp add: sample_redeem_def OMNIBUS_ACCOUNT_ID_def wp_total)
qed

lemma sample_redeem_world: "\<exists>resp s'. redeem_tokens sample_redeem sample_world = (Inr resp, s')"
proof (rule sample_redeem_runs)
  have "get_available_balance sample_world 2 USD = 1000"
    by (subst available_exact) simp_all
  then show "100 \<le> get_available_balance sample_world 2 USD" by simp
qed (simp_all add: normalize_def existing_issuance_def can_issue_def OMNIBUS_ACCOUNT_ID_def)



text \<open>
  C5. A redemption never spends what is held in escrow: as long as the amounts involved stay
  below ten billion, so that the 28-digit decimal arithmetic is exact, what is left after it,
  net of the active holds, is what there was less the amount, and it is not negative.
\<close>

theorem redeem_no_overdraft:
  assumes "redeem_tokens req s = (Inr resp, s')" "columns_ok s"
    and "\<bar>active_holds s (rq_account_id req) (rq_currency req)\<bar> < 10 ^ 10"
    and "\<bar>liability s (rq_account_id req) (rq_currency req) -
          active_holds s (rq_account_id req) (rq_currency req)\<bar> < 10 ^ 10"
  shows "liability s' (rq_account_id req) (rq_currency req) -
      active_holds s' (rq_account_id req) (rq_currency req) =
      liability s (rq_account_id req) (rq_currency req) -
      active_holds s (rq_account_id req) (rq_currency req) - ir_amount resp \<and>
    0 \<le> liability s' (rq_account_id req) (rq_currency req) -
      active_holds s' (rq_account_id req) (rq_currency req)"
proof -
  let ?a = "rq_account_id req" and ?c = "rq_currency req"
  note post = wp_Inr [OF wp_redeem_tokens assms(1)]
  have bal: "liability s' ?a ?c = liability s ?a ?c - ir_amount resp"
    using post by (auto simp: token_effect_balance)
  have holds: "active_holds s' ?a ?c = active_holds s ?a ?c"
    using post by (simp add: active_holds_def holds_of_def token_effect_def Let_def)
  have "ir_amount resp \<le> get_available_balance s ?a ?c"
    using post by (auto simp: redeem_refusal_def Let_def split: if_splits)
  then have "ir_amount resp \<le> liability s ?a ?c - active_holds s ?a ?c"
    using available_exact [OF assms(2-4)] by simp
  then show ?thesis using bal holds by simp
qed

theorem redeem_no_overdraft_witness:
  "\<exists>resp s'. redeem_tokens sample_redeem sample_world = (Inr resp, s') \<and>
     0 \<le> liability s' 2 USD - active_holds s' 2 USD"
proof -
  obtain resp s' where run: "redeem_tokens sample_redeem sample_world = (Inr resp, s')"
    using sample_redeem_world by blast
  have "0 \<le> liability s' 2 USD - active_holds s' 2 USD"
    using redeem_no_overdraft [OF run sample_columns] by (simp add: sample_redeem_def)
  with run show ?thesis by blast
qed

text \<open>
  A redemption that fails a check is answered with the error of the first check it fails
  and leaves every table as it was.
\<close>

theorem redeem_tokens_refused:
  assumes "redeem_refusal s req = Some e"
  shows "\<exists>s'. redeem_tokens req s = (Inl e, s') \<and> same_tables s s'"
  using wp_redeem_refused [OF assms] by (auto simp: wp_raises)

theorem redeem_tokens_refused_witness:
  "\<exists>s'. redeem_tokens (sample_redeem\<lparr>rq_currency := EUR\<rparr>) sample_world =
     (Inl (HTTPException 422 [Txt ''Insufficient available balance: '', Dec 0, Txt '' EUR'']), s') \<and>
     same_tables sample_world s'"
proof (rule redeem_tokens_refused)
  have "get_available_balance sample_world 2 EUR = 0"
    by (subst available_exact) simp_all
  then show "redeem_refusal sample_world (sample_redeem\<lparr>rq_currency := EUR\<rparr>) =
      Some (HTTPException 422 [Txt ''Insufficient available balance: '', Dec 0, Txt '' EUR''])"
    by (simp add: redeem_refusal_def sample_redeem_def normalize_def existing_issuance_def)
qed

text \<open>
  C30. Issuing and then redeeming the same amount for the same holder and currency returns
  every position of the ledger, of every account, currency and chart code, to its value before.
\<close>

theorem issue_redeem_roundtrip:
  assumes "issue_tokens ireq s = (Inr r1, s1)" "redeem_tokens rreq s1 = (Inr r2, s2)"
    and "rq_account_id rreq = iq_account_id ireq" "rq_currency rreq = iq_currency ireq"
      "rq_amount rreq = iq_amount ireq"
  shows "get_balance s2 b c code = get_balance s b c code"
proof -
  note i = wp_Inr [OF wp_issue_tokens assms(1)] and r = wp_Inr [OF wp_redeem_tokens assms(2)]
  have "ir_amount r2 = ir_amount r1" using i r assms(5) by simp
  then have "posted (iq_currency ireq) (ir_amount r1) (OMNIBUS_ACCOUNT_ID, ''OMNIBUS_RESERVE'')
      (iq_account_id ireq, ''INSTITUTION_LIABILITY'') (journal_entries s) (journal_entries s1)"
    and "posted (iq_currency ireq) (ir_amount r1) (iq_account_id ireq, ''INSTITUTION_LIABILITY'')
      (OMNIBUS_ACCOUNT_ID, ''OMNIBUS_RESERVE'') (journal_entries s1) (journal_entries s2)"
    using i r assms(3,4) by (auto simp: token_effect_def Let_def)
  then show ?thesis by (simp add: posted_reverse)
qed

lemma sample_issued:
  assumes run: "issue_tokens sample_issue sample_world = (Inr r1, s1)"
  shows "accounts s1 = accounts sample_world \<and> escrow_holds s1 = [] \<and> inj (rng s1) \<and>
    liability s1 2 USD = 1100 \<and>
    set (token_issuances s1) \<subseteq> {x. ti_issuance_ref x = ''ISS-A'' \<and> drawn s1 (ti_id x)} \<and>
    set (transactions s1) \<subseteq>
      {y. tx_ref y = ''ISS-A'' \<and> tx_idempotency_key y = Some ''ISS-A'' \<and> drawn s1 (tx_id y)}"
proof (intro conjI)
  note i = wp_Inr [OF wp_issue_tokens run]
  have r1: "ir_issuance_ref r1 = ''ISS-A''" "ir_amount r1 = 100"
    using i by (simp_all add: sample_issue_def truthy_def normalize_def)
  have eff: "token_effect ''token.issuance.completed'' 2 USD (Some ''ISS-A'')
      (OMNIBUS_ACCOUNT_ID, ''OMNIBUS_RESERVE'')
      (2, ''INSTITUTION_LIABILITY'') sample_world r1 s1"
    using i by (simp add: sample_issue_def)
  show "accounts s1 = accounts sample_world" "escrow_holds s1 = []"
    using eff by (simp_all add: token_effect_def Let_def)
  show "inj (rng s1)" using eff by (simp add: token_effect_def Let_def inj_on_def fun_eq_iff)
  show "liability s1 2 USD = 1100" using eff r1 by (simp add: token_effect_balance)
  show "set (token_issuances s1) \<subseteq> {x. ti_issuance_ref x = ''ISS-A'' \<and> drawn s1 (ti_id x)}"
    using eff r1 by (auto simp: token_effect_def Let_def length_Suc_conv)
  have "transactions s1 \<noteq> []" "butlast (transactions s1) = []"
    and last: "tx_ref (last (transactions s1)) = ''ISS-A''"
      "tx_idempotency_key (last (transactions s1)) = Some ''ISS-A''"
      "drawn s1 (tx_id (last (transactions s1)))"
    using eff r1 by (simp_all add: token_effect_def Let_def)
  then obtain y where "transactions s1 = [y]" by (metis append_Nil append_butlast_last_id)
  with last show "set (transactions s1) \<subseteq>
      {y. tx_ref y = ''ISS-A'' \<and> tx_idempotency_key y = Some ''ISS-A'' \<and> drawn s1 (tx_id y)}" by simp
qed

theorem issue_redeem_roundtrip_witness:
  "\<exists>r1 s1 r2 s2. issue_tokens sample_issue sample_world = (Inr r1, s1) \<and>
     redeem_tokens sample_redeem s1 = (Inr r2, s2) \<and>
     get_balance s2 2 USD ''INSTITUTION_LIABILITY'' = 1000"
proof -
  obtain r1 s1 where run: "issue_tokens sample_issue sample_world = (Inr r1, s1)"
    using sample_issue_runs by blast
  note issued = sample_issued [OF run]
  have "columns_ok s1"
    using keepsD [OF keeps_audit_issue audit_safe_refl run] sample_columns
    by (simp add: audit_safe_def)
  moreover have "active_holds s1 2 USD = 0" using issued by (simp add: active_holds_def holds_of_def)
  ultimately have "get_available_balance s1 2 USD = 1100" using issued by (subst available_exact) simp_all
  moreover have "account_active s1 2" using sample_active(2) issued
    by (simp add: account_active_def get_account_def)
  moreover have "List.find (\<lambda>r. ti_issuance_ref r = ''RED-A'') (token_issuances s1) = None"
    using issued by (auto simp: find_None_iff)
  moreover have "can_issue s1 2 ''RED-A'' 100"
    unfolding can_issue_def using issued drawn_fresh [of s1] by (auto simp: OMNIBUS_ACCOUNT_ID_def)
  ultimately obtain r2 s2 where run2: "redeem_tokens sample_redeem s1 = (Inr r2, s2)"
    using sample_redeem_runs [of s1] by (auto simp: normalize_def existing_issuance_def truthy_def)
  from issue_redeem_roundtrip [OF run run2] have "get_balance s2 2 USD ''INSTITUTION_LIABILITY'' = 1000"
    by (simp add: sample_issue_def sample_redeem_def)
  with run run2 show ?thesis by blast
qed

end
