(* ===== verification/Rtgs.thy ===== *)
theory Rtgs
  imports Samples
begin

text \<open>
  The real-time gross settlement service, \<open>src/services/rtgs/main.py\<close>: submission,
  approval and signature of a settlement instruction, and the background worker that settles
  the signed ones. One pass of the worker's loop is \<open>settlement_cycle\<close>.
\<close>

section \<open>Operations\<close>

definition MAX_RETRY :: int where "MAX_RETRY = 3"

definition update_settlement :: "uuid \<Rightarrow> (RTGSSettlement \<Rightarrow> RTGSSettlement) \<Rightarrow> unit db_op" where
  "update_settlement i f = update_rows rtgs_settlements_update (\<lambda>r. rs_id r = i) f"

definition priv_transfer_balances :: "RTGSSettlement \<Rightarrow> uuid db_op" where
  "priv_transfer_balances settlement =
     (let sender_id = rs_sending_account_id settlement;
          receiver_id = rs_receiving_account_id settlement;
          currency = rs_currency settlement;
          ref = rs_settlement_ref settlement;
          amount = rs_amount settlement in
     op_bind (acquire_balance_lock sender_id currency) (\<lambda>_.
     op_bind (op_get (\<lambda>s. liability s sender_id currency)) (\<lambda>available.
     op_bind (op_assert (amount \<le> available)
       (ValueError [Txt ''Insufficient balance: available='', Dec available, Txt '' required='',
          Dec amount])) (\<lambda>_.
     op_bind (record_journal_pair sender_id ''INSTITUTION_LIABILITY'' currency amount
       ''rtgs_settlement'' (rs_id settlement) receiver_id ''INSTITUTION_LIABILITY''
       (''RTGS settlement '' @ ref)) (\<lambda>_.
     new_transaction ref sender_id receiver_id currency amount ''rtgs_settlement'' None
       [(''priority'', JStr (rs_priority settlement))])))))"

text \<open>The body of the \<open>try\<close>: transfer, then mark the row settled and record both legs.\<close>

definition settle_transfer :: "RTGSSettlement \<Rightarrow> bool db_op" where
  "settle_transfer settlement =
     (let ref = rs_settlement_ref settlement in
     op_bind (priv_transfer_balances settlement) (\<lambda>txn_id.
     op_bind utcnow (\<lambda>now.
     op_bind (record_on_chain RtgsSvc ref ''rtgs_settlement'' '''') (\<lambda>receipt.
     op_bind (op_get (\<lambda>s. map_option (\<lambda>f. f\<lparr>fi_settled_at := Some now\<rparr>)
       (record_fiat_rail (sha256_hex s) ref ''fedwire''))) (\<lambda>fiat_receipt.
     op_bind (update_settlement (rs_id settlement) (\<lambda>r. r\<lparr>rs_status := S_SETTLED,
       rs_settled_at := Some now, rs_transaction_id := Some txn_id,
       rs_metadata := with_legs (rs_metadata settlement) receipt fiat_receipt\<rparr>)) (\<lambda>_.
     op_bind (record_status RTGSSettlementStatusHistory (rs_id settlement)
       (SettlementStatus_value S_SETTLED) None no_extra) (\<lambda>_.
     op_bind (emit RtgsSvc ref ''rtgs.settlement.completed''
       (RTGSSettlementCompleted ref (rs_sending_account_id settlement)
          (rs_receiving_account_id settlement) (rs_currency settlement) (rs_amount settlement)
          txn_id now)) (\<lambda>_.
     op_return True))))))))"

text \<open>The \<open>except ValueError\<close> branch.\<close>

definition fail_settlement :: "RTGSSettlement \<Rightarrow> fstr \<Rightarrow> bool db_op" where
  "fail_settlement settlement exc =
     (let ref = rs_settlement_ref settlement; retry_count = rs_retry_count settlement + 1 in
      if retry_count < MAX_RETRY \<and> \<not> fstr_has ''Insufficient'' exc
      then
        op_bind (update_settlement (rs_id settlement) (\<lambda>r. r\<lparr>rs_retry_count := retry_count,
          rs_status := S_SIGNED\<rparr>)) (\<lambda>_.
        op_bind (record_status RTGSSettlementStatusHistory (rs_id settlement)
          (SettlementStatus_value S_SIGNED)
          (Some [(''reason'', j_fstr exc), (''retry'', JInt retry_count)]) no_extra) (\<lambda>_.
        op_return False))
      else
        op_bind (update_settlement (rs_id settlement) (\<lambda>r. r\<lparr>rs_retry_count := retry_count,
          rs_status := S_FAILED\<rparr>)) (\<lambda>_.
        op_bind (record_status RTGSSettlementStatusHistory (rs_id settlement)
          (SettlementStatus_value S_FAILED)
          (Some [(''reason'', j_fstr exc), (''retry_count'', JInt retry_count)]) no_extra) (\<lambda>_.
        op_bind (emit RtgsSvc ref ''rtgs.settlement.failed''
          (RTGSSettlementFailed ref exc retry_count)) (\<lambda>_.
        op_return False))))"

definition priv_process_one_settlement :: "RTGSSettlement \<Rightarrow> bool db_op" where
  "priv_process_one_settlement settlement =
     op_bind utcnow (\<lambda>now.
     op_bind (update_settlement (rs_id settlement) (\<lambda>r. r\<lparr>rs_status := S_PROCESSING,
       rs_processing_started := Some now\<rparr>)) (\<lambda>_.
     op_bind (record_status RTGSSettlementStatusHistory (rs_id settlement)
       (SettlementStatus_value S_PROCESSING) None no_extra) (\<lambda>_.
     op_bind (emit RtgsSvc (rs_settlement_ref settlement) ''rtgs.settlement.processing''
       (RTGSSettlementProcessing (rs_settlement_ref settlement) now)) (\<lambda>_.
     op_catch_ValueError (settle_transfer settlement) (fail_settlement settlement)))))"

definition pending_settlements :: "world \<Rightarrow> RTGSSettlement list" where
  "pending_settlements s =
     take 10 (sort_key (\<lambda>r. (rs_priority r, rs_queued_at r))
       (filter (\<lambda>r. rs_status r = S_SIGNED) (rtgs_settlements s)))"

definition settlement_cycle :: "world \<Rightarrow> world" where
  "settlement_cycle =
     worker_pass (op_bind (op_get pending_settlements) (\<lambda>pending.
       op_for pending priv_process_one_settlement))"

section \<open>Handlers\<close>

record SubmitSettlementRequest =
  sq_sending_account_id :: uuid
  sq_receiving_account_id :: uuid
  sq_currency :: CurrencyCode
  sq_amount :: rat
  sq_priority :: string
  sq_scheduled_at :: "time option"
  sq_metadata :: dict
  sq_idempotency_key :: "string option"

record SettlementResponse =
  sr_settlement_ref :: string
  sr_status :: SettlementStatus
  sr_sending_account_id :: uuid
  sr_receiving_account_id :: uuid
  sr_currency :: CurrencyCode
  sr_amount :: rat
  sr_priority :: string
  sr_queued_at :: time

definition find_settlement :: "world \<Rightarrow> string \<Rightarrow> RTGSSettlement option" where
  "find_settlement s ref = List.find (\<lambda>r. rs_settlement_ref r = ref) (rtgs_settlements s)"

definition settlement_response :: "RTGSSettlement \<Rightarrow> SettlementResponse" where
  "settlement_response r =
     \<lparr>sr_settlement_ref = rs_settlement_ref r, sr_status = rs_status r,
      sr_sending_account_id = rs_sending_account_id r,
      sr_receiving_account_id = rs_receiving_account_id r, sr_currency = rs_currency r,
      sr_amount = rs_amount r, sr_priority = rs_priority r, sr_queued_at = rs_queued_at r\<rparr>"

definition new_settlement :: "string \<Rightarrow> rat \<Rightarrow> SubmitSettlementRequest \<Rightarrow> RTGSSettlement db_op" where
  "new_settlement ref amount req =
     op_bind uuid4 (\<lambda>i.
     op_bind (op_lift (numeric 28 8 amount)) (\<lambda>v.
     op_bind (op_get txn_now) (\<lambda>t.
     let row = \<lparr>rs_id = i, rs_settlement_ref = ref,
         rs_sending_account_id = sq_sending_account_id req,
         rs_receiving_account_id = sq_receiving_account_id req, rs_currency = sq_currency req,
         rs_amount = v, rs_priority = sq_priority req, rs_status = S_PENDING,
         rs_transaction_id = None, rs_scheduled_at = sq_scheduled_at req, rs_queued_at = t,
         rs_processing_started = None, rs_settled_at = None, rs_failure_reason = None,
         rs_retry_count = 0, rs_approved_by = None, rs_approved_at = None, rs_signed_by = None,
         rs_signed_at = None, rs_metadata = sq_metadata req\<rparr>
     in op_bind (insert_row rtgs_constraints rtgs_settlements_update row) (\<lambda>_.
        op_return row))))"

text \<open>The Pydantic pattern \<open>^(urgent|high|normal|low)$\<close>.\<close>

definition valid_priority :: "string \<Rightarrow> bool" where
  "valid_priority p \<longleftrightarrow> p \<in> {''urgent'', ''high'', ''normal'', ''low''}"

definition submit_settlement :: "SubmitSettlementRequest \<Rightarrow> SettlementResponse db_op" where
  "submit_settlement req =
     op_bind (gt_zero ''amount'' (sq_amount req)) (\<lambda>_.
     op_bind (op_assert (valid_priority (sq_priority req))
       (HTTPException 422 [Txt ''priority: String should match pattern''])) (\<lambda>_.
     get_db_session (
     op_bind (op_get (\<lambda>s. account_active s (sq_sending_account_id req))) (\<lambda>sender_ok.
     op_bind (op_assert sender_ok
       (HTTPException 404 [Txt ''Sending account not found or inactive''])) (\<lambda>_.
     op_bind (op_get (\<lambda>s. account_active s (sq_receiving_account_id req))) (\<lambda>receiver_ok.
     op_bind (op_assert receiver_ok
       (HTTPException 404 [Txt ''Receiving account not found or inactive''])) (\<lambda>_.
     op_bind (op_get (\<lambda>s. if truthy (sq_idempotency_key req)
       then find_settlement s (the (sq_idempotency_key req)) else None)) (\<lambda>existing.
     case existing of Some r \<Rightarrow> op_return (settlement_response r) | None \<Rightarrow>
     op_bind (key_or_fresh (sq_idempotency_key req) ''RTGS-'') (\<lambda>ref.
     op_bind (op_lift (quantize round_half_even 8 (sq_amount req))) (\<lambda>amount.
     op_bind (new_settlement ref amount req) (\<lambda>settlement.
     op_bind (emit RtgsSvc ref ''rtgs.settlement.submitted''
       (RTGSSettlementSubmitted ref (sq_sending_account_id req) (sq_receiving_account_id req)
          (sq_currency req) amount (sq_priority req))) (\<lambda>_.
     op_return \<lparr>sr_settlement_ref = ref, sr_status = rs_status settlement,
       sr_sending_account_id = sq_sending_account_id req,
       sr_receiving_account_id = sq_receiving_account_id req, sr_currency = sq_currency req,
       sr_amount = amount, sr_priority = sq_priority req,
       sr_queued_at = rs_queued_at settlement\<rparr>))))))))))))"

definition find_or_404 :: "string \<Rightarrow> RTGSSettlement db_op" where
  "find_or_404 ref =
     op_bind (op_get (\<lambda>s. find_settlement s ref)) (\<lambda>r.
     case r of None \<Rightarrow> op_raise (HTTPException 404 [Txt ''Settlement not found''])
     | Some x \<Rightarrow> op_return x)"

record SettlementView =
  sv_settlement_ref :: string
  sv_status :: string
  sv_currency :: string
  sv_amount :: rat
  sv_priority :: string
  sv_queued_at :: time
  sv_settled_at :: "time option"

record SettlementDetail = SettlementView +
  sv_processing_started :: "time option"
  sv_failure_reason :: "fstr option"
  sv_retry_count :: int
  sv_transaction_id :: "uuid option"
  sv_token_leg :: json
  sv_fiat_leg :: json
  sv_blockchain :: json

definition settlement_view :: "RTGSSettlement \<Rightarrow> SettlementView" where
  "settlement_view r =
     \<lparr>sv_settlement_ref = rs_settlement_ref r, sv_status = SettlementStatus_value (rs_status r),
      sv_currency = CurrencyCode_value (rs_currency r), sv_amount = rs_amount r,
      sv_priority = rs_priority r, sv_queued_at = rs_queued_at r, sv_settled_at = rs_settled_at r\<rparr>"

definition settlement_detail :: "RTGSSettlement \<Rightarrow> SettlementDetail" where
  "settlement_detail r =
     SettlementView.extend (settlement_view r)
       (SettlementDetail.fields (rs_processing_started r) (rs_failure_reason r) (rs_retry_count r)
          (rs_transaction_id r) (dict_get (rs_metadata r) ''token_leg'' JNull)
          (dict_get (rs_metadata r) ''fiat_leg'' JNull) (dict_get (rs_metadata r) ''blockchain'' JNull))"

definition get_settlement :: "string \<Rightarrow> SettlementDetail db_op" where
  "get_settlement settlement_ref =
     get_db_session (op_bind (find_or_404 settlement_ref) (\<lambda>r. op_return (settlement_detail r)))"

definition SettlementStatus_of :: "string \<Rightarrow> SettlementStatus option" where
  "SettlementStatus_of t =
     List.find (\<lambda>a. SettlementStatus_value a = t)
       [S_PENDING, S_APPROVED, S_SIGNED, S_QUEUED, S_PROCESSING, S_BROADCASTED, S_CONFIRMED,
        S_SETTLED, S_FAILED, S_CANCELLED]"

definition list_settlements :: "string option \<Rightarrow> int \<Rightarrow> SettlementView list db_op" where
  "list_settlements status limit =
     get_db_session (
       op_bind (op_assert (\<not> truthy status \<or> SettlementStatus_of (the status) \<noteq> None)
         (StatementError ''status'')) (\<lambda>_.
       op_bind (op_assert (0 \<le> limit) (DataError ''LIMIT must not be negative'')) (\<lambda>_.
       op_get (\<lambda>s. map settlement_view (take (nat limit) (sort_key (\<lambda>r. - rs_queued_at r)
         (filter (\<lambda>r. \<not> truthy status \<or> Some (rs_status r) = SettlementStatus_of (the status))
            (rtgs_settlements s))))))))"

definition uuid_or_None :: "uuid option \<Rightarrow> string" where
  "uuid_or_None u = (case u of None \<Rightarrow> ''None'' | Some i \<Rightarrow> uuid_str i)"

definition uuid_or_empty :: "uuid option \<Rightarrow> string" where
  "uuid_or_empty u = (case u of None \<Rightarrow> '''' | Some i \<Rightarrow> uuid_str i)"

definition ctx_extra :: "context_dict \<Rightarrow> history_extra" where
  "ctx_extra ctx = no_extra\<lparr>hx_request_id := cx_request_id ctx, hx_actor_id := cx_actor_id ctx,
     hx_actor_service := cx_actor_service ctx\<rparr>"

definition approve_settlement :: "string \<Rightarrow> headers \<Rightarrow> (string \<times> string \<times> time) db_op" where
  "approve_settlement settlement_ref request =
     op_bind (op_lift (require_role [''admin'', ''approver''] request)) (\<lambda>_.
     get_db_session (
     op_bind (find_or_404 settlement_ref) (\<lambda>r.
     op_bind (op_lift (validate_transition (SettlementStatus_value (rs_status r)) ''approved''
       RTGS_VALID_TRANSITIONS)) (\<lambda>_.
     let ctx = extract_context request; actor_id = cx_actor_id ctx in
     op_bind utcnow (\<lambda>now.
     op_bind (update_settlement (rs_id r) (\<lambda>q. q\<lparr>rs_status := S_APPROVED,
       rs_approved_by := actor_id, rs_approved_at := Some now\<rparr>)) (\<lambda>_.
     op_bind (record_status RTGSSettlementStatusHistory (rs_id r)
       (SettlementStatus_value S_APPROVED)
       (Some [(''approved_by'', JStr (uuid_or_None actor_id))]) (ctx_extra ctx)) (\<lambda>_.
     op_return (rs_settlement_ref r, uuid_or_None actor_id, now))))))))"

definition sign_settlement :: "string \<Rightarrow> headers \<Rightarrow> (string \<times> string \<times> time) db_op" where
  "sign_settlement settlement_ref request =
     op_bind (op_lift (require_role [''admin'', ''signer''] request)) (\<lambda>_.
     get_db_session (
     op_bind (find_or_404 settlement_ref) (\<lambda>r.
     op_bind (op_lift (validate_transition (SettlementStatus_value (rs_status r)) ''signed''
       RTGS_VALID_TRANSITIONS)) (\<lambda>_.
     let ctx = extract_context request; actor_id = cx_actor_id ctx in
     op_bind (op_lift (check_separation_of_duties (uuid_or_empty (rs_approved_by r))
       (uuid_or_empty actor_id))) (\<lambda>_.
     op_bind utcnow (\<lambda>now.
     op_bind (update_settlement (rs_id r) (\<lambda>q. q\<lparr>rs_status := S_SIGNED,
       rs_signed_by := actor_id, rs_signed_at := Some now\<rparr>)) (\<lambda>_.
     op_bind (record_status RTGSSettlementStatusHistory (rs_id r)
       (SettlementStatus_value S_SIGNED)
       (Some [(''signed_by'', JStr (uuid_or_None actor_id))]) (ctx_extra ctx)) (\<lambda>_.
     op_return (rs_settlement_ref r, uuid_or_None actor_id, now)))))))))"

section \<open>Processing one settlement\<close>

lemma wp_update_settlement [wp_simps]:
  "wp (update_settlement i f) s Q E \<longleftrightarrow>
     Q () (s\<lparr>rtgs_settlements := map_where (\<lambda>r. rs_id r = i) f (rtgs_settlements s)\<rparr>)"
  by (simp add: update_settlement_def wp_simps)

text \<open>What no step of the worker changes in a row.\<close>

definition same_instruction :: "RTGSSettlement \<Rightarrow> RTGSSettlement \<Rightarrow> bool" where
  "same_instruction q q' \<longleftrightarrow>
     rs_id q' = rs_id q \<and> rs_settlement_ref q' = rs_settlement_ref q \<and>
     rs_sending_account_id q' = rs_sending_account_id q \<and>
     rs_receiving_account_id q' = rs_receiving_account_id q \<and>
     rs_currency q' = rs_currency q \<and> rs_amount q' = rs_amount q \<and>
     rs_priority q' = rs_priority q \<and> rs_approved_by q' = rs_approved_by q \<and>
     rs_approved_at q' = rs_approved_at q \<and> rs_signed_by q' = rs_signed_by q \<and>
     rs_signed_at q' = rs_signed_at q"

definition settled_effect :: "RTGSSettlement \<Rightarrow> world \<Rightarrow> world \<Rightarrow> bool" where
  "settled_effect r s s' \<longleftrightarrow>
     0 < rs_amount r \<and> rs_amount r \<le> liability s (rs_sending_account_id r) (rs_currency r) \<and>
     posted (rs_currency r) (rs_amount r) (rs_sending_account_id r, ''INSTITUTION_LIABILITY'')
       (rs_receiving_account_id r, ''INSTITUTION_LIABILITY'')
       (journal_entries s) (journal_entries s') \<and>
     (\<exists>tr. transactions s' = transactions s @ [tr] \<and> tx_ref tr = rs_settlement_ref r \<and>
        tx_debit_account_id tr = rs_sending_account_id r \<and>
        tx_credit_account_id tr = rs_receiving_account_id r \<and>
        tx_currency tr = rs_currency r \<and> tx_amount tr = rs_amount r \<and>
        tx_debit_account_id tr \<noteq> tx_credit_account_id tr \<and>
        changed_where (\<lambda>q. rs_id q = rs_id r) (\<lambda>q q'. same_instruction q q' \<and> rs_status q' = S_SETTLED \<and>
          rs_settled_at q' \<noteq> None \<and> rs_transaction_id q' = Some (tx_id tr))
          (rtgs_settlements s) (rtgs_settlements s')) \<and>
     map sh_status (drop (length (status_history s)) (status_history s')) =
       [''processing'', ''settled''] \<and>
     map oe_event_type (drop (length (outbox_events s)) (outbox_events s')) =
       [''rtgs.settlement.processing'', ''rtgs.settlement.completed''] \<and>
     {rs_sending_account_id r, rs_receiving_account_id r} \<subseteq> acc_id ` set (accounts s) \<and>
     accounts s' = accounts s \<and> escrow_holds s' = escrow_holds s"

definition failed_effect :: "RTGSSettlement \<Rightarrow> world \<Rightarrow> world \<Rightarrow> bool" where
  "failed_effect r s s' \<longleftrightarrow>
     liability s (rs_sending_account_id r) (rs_currency r) < rs_amount r \<and>
     journal_entries s' = journal_entries s \<and> transactions s' = transactions s \<and>
     changed_where (\<lambda>q. rs_id q = rs_id r) (\<lambda>q q'. same_instruction q q' \<and> rs_status q' = S_FAILED \<and>
          rs_retry_count q' = rs_retry_count r + 1 \<and>
          rs_transaction_id q' = rs_transaction_id q)
       (rtgs_settlements s) (rtgs_settlements s') \<and>
     map sh_status (drop (length (status_history s)) (status_history s')) =
       [''processing'', ''failed''] \<and>
     map oe_event_type (drop (length (outbox_events s)) (outbox_events s')) =
       [''rtgs.settlement.processing'', ''rtgs.settlement.failed''] \<and>
     accounts s' = accounts s \<and> escrow_holds s' = escrow_holds s"

lemma fstr_has_insufficient [simp]:
  "fstr_has ''Insufficient'' (Txt ''Insufficient balance: available='' # m)"
  by (simp add: fstr_has_def sublist_Cons_right)

definition post_transfer :: "RTGSSettlement \<Rightarrow> uuid db_op" where
  "post_transfer r =
     op_bind (record_journal_pair (rs_sending_account_id r) ''INSTITUTION_LIABILITY''
            (rs_currency r) (rs_amount r) ''rtgs_settlement'' (rs_id r) (rs_receiving_account_id r)
            ''INSTITUTION_LIABILITY'' (''RTGS settlement '' @ rs_settlement_ref r)) (\<lambda>_.
          new_transaction (rs_settlement_ref r) (rs_sending_account_id r)
            (rs_receiving_account_id r) (rs_currency r) (rs_amount r) ''rtgs_settlement'' None
            [(''priority'', JStr (rs_priority r))])"

lemma wp_transfer_catch [wp_simps]:
  "wp (priv_transfer_balances r) s Q (\<lambda>e t. case e of ValueError msg \<Rightarrow> H msg t | _ \<Rightarrow> True) \<longleftrightarrow>
     (let bal = liability s (rs_sending_account_id r) (rs_currency r);
          t = s\<lparr>advisory_locks := lock_key (sha256_hex s) (rs_sending_account_id r) (rs_currency r)
              # advisory_locks s\<rparr>
      in if rs_amount r \<le> bal then wp (post_transfer r) t Q partial
         else H [Txt ''Insufficient balance: available='', Dec bal, Txt '' required='',
                 Dec (rs_amount r)] t)"
  by (simp add: priv_transfer_balances_def post_transfer_def wp_simps Let_def)

lemma wp_process:
  assumes "numeric 28 8 (rs_amount r) = Inr (rs_amount r)"
  shows "wp (priv_process_one_settlement r) s
     (\<lambda>b s'. if b then settled_effect r s s' else failed_effect r s s') partial"
  using numeric_stored [OF assms]
  by (simp add: priv_process_one_settlement_def settle_transfer_def wp_simps Let_def,
      simp add: post_transfer_def fail_settlement_def wp_simps Let_def,
      simp add: settled_effect_def failed_effect_def can_book_def can_post_def map_where_twice,
      intro conjI impI exI changed_map_where)
     (simp_all (no_asm_simp) add: same_instruction_def)

lemma wp_transfer_enough:
  "rs_amount r \<le> liability s (rs_sending_account_id r) (rs_currency r) \<Longrightarrow>
     wp (priv_transfer_balances r) s Q E \<longleftrightarrow> wp (post_transfer r)
       (s\<lparr>advisory_locks := lock_key (sha256_hex s) (rs_sending_account_id r) (rs_currency r)
              # advisory_locks s\<rparr>) Q E"
  by (simp add: priv_transfer_balances_def post_transfer_def wp_simps Let_def)

lemma wp_transfer_short:
  "\<not> rs_amount r \<le> liability s (rs_sending_account_id r) (rs_currency r) \<Longrightarrow>
     wp (priv_transfer_balances r) s Q E \<longleftrightarrow>
       E (ValueError [Txt ''Insufficient balance: available='',
            Dec (liability s (rs_sending_account_id r) (rs_currency r)), Txt '' required='',
            Dec (rs_amount r)])
         (s\<lparr>advisory_locks := lock_key (sha256_hex s) (rs_sending_account_id r) (rs_currency r)
              # advisory_locks s\<rparr>)"
  by (simp add: priv_transfer_balances_def wp_simps Let_def)

definition can_settle :: "world \<Rightarrow> RTGSSettlement \<Rightarrow> bool" where
  "can_settle s r \<longleftrightarrow>
     rs_amount r \<le> liability s (rs_sending_account_id r) (rs_currency r) \<and>
     numeric 28 8 (rs_amount r) = Inr (rs_amount r) \<and> 0 < rs_amount r \<and>
     rs_sending_account_id r \<noteq> rs_receiving_account_id r \<and>
     {rs_sending_account_id r, rs_receiving_account_id r} \<subseteq> acc_id ` set (accounts s) \<and>
     (\<forall>q \<in> set (transactions s). tx_ref q \<noteq> rs_settlement_ref r \<and>
        (\<forall>n\<ge>ticks s. tx_id q \<noteq> rng s n))"

lemma wp_process_settles:
  assumes "can_settle s r"
  shows "wp (priv_process_one_settlement r) s (\<lambda>b _. b) total"
proof -
  have n: "numeric 28 8 (rs_amount r) = Inr (rs_amount r)"
    using assms by (simp add: can_settle_def)
  show ?thesis
    using assms
    by (simp add: priv_process_one_settlement_def settle_transfer_def wp_simps Let_def
        wp_transfer_enough can_settle_def post_transfer_def
        wp_journal_pair_total [OF numeric_stored(2) [OF n]] wp_transaction_total [OF n]
        can_post_def can_book_def chart_of_accounts_def)
qed

lemma wp_process_fails:
  assumes "liability s (rs_sending_account_id r) (rs_currency r) < rs_amount r"
  shows "wp (priv_process_one_settlement r) s (\<lambda>b _. \<not> b) total"
  using assms
  by (simp add: priv_process_one_settlement_def settle_transfer_def wp_simps Let_def
      wp_transfer_short fail_settlement_def)

section \<open>The life of a settlement\<close>

text \<open>Two different actors approved and signed.\<close>

definition dual_control :: "RTGSSettlement \<Rightarrow> bool" where
  "dual_control r \<longleftrightarrow>
     rs_approved_at r \<noteq> None \<and> rs_signed_at r \<noteq> None \<and> rs_approved_by r \<noteq> rs_signed_by r"

definition backed_by :: "Transaction \<Rightarrow> RTGSSettlement \<Rightarrow> bool" where
  "backed_by t r \<longleftrightarrow>
     rs_transaction_id r = Some (tx_id t) \<and> tx_ref t = rs_settlement_ref r \<and>
     tx_debit_account_id t = rs_sending_account_id r \<and>
     tx_credit_account_id t = rs_receiving_account_id r \<and>
     tx_currency t = rs_currency r \<and> tx_amount t = rs_amount r"

definition lifecycle :: "Transaction list \<Rightarrow> RTGSSettlement \<Rightarrow> bool" where
  "lifecycle txs r \<longleftrightarrow>
     numeric 28 8 (rs_amount r) = Inr (rs_amount r) \<and>
     (case rs_status r of
        S_PENDING \<Rightarrow> rs_transaction_id r = None
      | S_APPROVED \<Rightarrow> rs_approved_at r \<noteq> None \<and> rs_transaction_id r = None
      | S_SIGNED \<Rightarrow> dual_control r \<and> rs_transaction_id r = None
      | S_FAILED \<Rightarrow> dual_control r \<and> rs_transaction_id r = None
      | S_SETTLED \<Rightarrow> dual_control r \<and> (\<exists>t \<in> set txs. backed_by t r)
      | _ \<Rightarrow> False)"

definition rtgs_inv :: "world \<Rightarrow> bool" where
  "rtgs_inv s \<longleftrightarrow>
     distinct (map rs_id (rtgs_settlements s)) \<and>
     (\<forall>r \<in> set (rtgs_settlements s). lifecycle (transactions s) r)"

lemma lifecycle_mono: "lifecycle txs r \<Longrightarrow> set txs \<subseteq> set txs' \<Longrightarrow> lifecycle txs' r"
  by (auto simp: lifecycle_def split: SettlementStatus.splits)

lemma changed_lifecycle:
  assumes inv: "rtgs_inv s" and r: "r \<in> set (rtgs_settlements s)"
    and ch: "changed_where (\<lambda>q. rs_id q = rs_id r) R (rtgs_settlements s) rows'"
    and id: "\<And>q q'. R q q' \<Longrightarrow> rs_id q' = rs_id q"
    and life: "\<And>q'. R r q' \<Longrightarrow> lifecycle txs' q'"
    and mono: "set (transactions s) \<subseteq> set txs'"
  shows "distinct (map rs_id rows') \<and> (\<forall>q' \<in> set rows'. lifecycle txs' q')"
  using inv mono unfolding rtgs_inv_def
  by (intro changed_where_all [OF ch r id life]) (auto intro: lifecycle_mono)

text \<open>What a batch of the worker keeps.\<close>

definition batch_ok :: "world \<Rightarrow> world \<Rightarrow> bool" where
  "batch_ok s s' \<longleftrightarrow>
     rtgs_inv s' \<and> accounts s' = accounts s \<and>
     (\<forall>c. total_liability (accounts s) (journal_entries s') c =
          total_liability (accounts s) (journal_entries s) c) \<and>
     (solvent (journal_entries s) \<longrightarrow> solvent (journal_entries s'))"

lemma signed_row:
  assumes "rtgs_inv s" "r \<in> set (rtgs_settlements s)" "rs_status r = S_SIGNED"
  shows "numeric 28 8 (rs_amount r) = Inr (rs_amount r)" "rs_transaction_id r = None"
    "same_instruction r q \<Longrightarrow> dual_control q"
proof -
  have "lifecycle (transactions s) r" using assms(1,2) by (simp add: rtgs_inv_def)
  with assms(3) show "numeric 28 8 (rs_amount r) = Inr (rs_amount r)" "rs_transaction_id r = None"
    "same_instruction r q \<Longrightarrow> dual_control q"
    by (simp_all add: lifecycle_def dual_control_def same_instruction_def)
qed

definition others_kept :: "RTGSSettlement \<Rightarrow> world \<Rightarrow> world \<Rightarrow> bool" where
  "others_kept r s s' \<longleftrightarrow>
     (\<forall>q \<in> set (rtgs_settlements s). rs_id q \<noteq> rs_id r \<longrightarrow> q \<in> set (rtgs_settlements s'))"

lemma settled_ok:
  assumes inv: "rtgs_inv s" and r: "r \<in> set (rtgs_settlements s)" "rs_status r = S_SIGNED"
    and eff: "settled_effect r s s'"
  shows "batch_ok s s' \<and> others_kept r s s'"
proof -
  obtain tr where tr: "transactions s' = transactions s @ [tr]"
    "tx_ref tr = rs_settlement_ref r" "tx_debit_account_id tr = rs_sending_account_id r"
    "tx_credit_account_id tr = rs_receiving_account_id r" "tx_currency tr = rs_currency r"
    "tx_amount tr = rs_amount r"
    and ch: "changed_where (\<lambda>q. rs_id q = rs_id r) (\<lambda>q q'. same_instruction q q' \<and>
        rs_status q' = S_SETTLED \<and> rs_settled_at q' \<noteq> None \<and>
        rs_transaction_id q' = Some (tx_id tr)) (rtgs_settlements s) (rtgs_settlements s')"
    using eff unfolding settled_effect_def by blast
  have "rtgs_inv s'"
    unfolding rtgs_inv_def
    by (rule changed_lifecycle [OF inv r(1) ch])
       (use tr signed_row [OF inv r] in \<open>auto simp: same_instruction_def lifecycle_def backed_by_def\<close>)
  moreover have "others_kept r s s'"
    unfolding others_kept_def using changed_where_keeps [OF ch] by blast
  moreover have "total_liability (accounts s) (journal_entries s') c =
      total_liability (accounts s) (journal_entries s) c" for c
    using eff unfolding settled_effect_def by (blast intro: posted_total_liability)
  moreover have "solvent (journal_entries s) \<Longrightarrow> solvent (journal_entries s')"
    using eff unfolding settled_effect_def get_balance_eq
    by (blast intro: posted_solvent less_imp_le)
  ultimately show ?thesis using eff by (simp add: batch_ok_def settled_effect_def)
qed

lemma failed_ok:
  assumes inv: "rtgs_inv s" and r: "r \<in> set (rtgs_settlements s)" "rs_status r = S_SIGNED"
    and eff: "failed_effect r s s'"
  shows "batch_ok s s' \<and> others_kept r s s'"
proof -
  have ch: "changed_where (\<lambda>q. rs_id q = rs_id r) (\<lambda>q q'. same_instruction q q' \<and>
        rs_status q' = S_FAILED \<and> rs_retry_count q' = rs_retry_count r + 1 \<and>
        rs_transaction_id q' = rs_transaction_id q) (rtgs_settlements s) (rtgs_settlements s')"
    and tr: "transactions s' = transactions s"
    using eff unfolding failed_effect_def by blast+
  have "rtgs_inv s'"
    unfolding rtgs_inv_def
    by (rule changed_lifecycle [OF inv r(1) ch])
       (use tr signed_row [OF inv r] in \<open>auto simp: same_instruction_def lifecycle_def\<close>)
  moreover have "others_kept r s s'"
    unfolding others_kept_def using changed_where_keeps [OF ch] by blast
  ultimately show ?thesis using eff by (simp add: batch_ok_def failed_effect_def)
qed

lemma process_one_ok:
  assumes inv: "rtgs_inv s" and r: "r \<in> set (rtgs_settlements s)" "rs_status r = S_SIGNED"
    and run: "priv_process_one_settlement r s = (Inr b, s')"
  shows "batch_ok s s' \<and> (\<forall>q \<in> set (rtgs_settlements s). rs_id q \<noteq> rs_id r \<longrightarrow>
           q \<in> set (rtgs_settlements s'))"
  using wp_Inr [OF wp_process [OF signed_row(1) [OF inv r]] run] settled_ok [OF inv r] failed_ok [OF inv r]
  by (cases b) (auto simp: others_kept_def)

section \<open>Handlers\<close>

lemma wp_new_settlement [wp_simps]:
  "wp (new_settlement ref amt req) s Q partial \<longleftrightarrow>
     (\<forall>v. numeric 28 8 amt = Inr v \<longrightarrow>
        (let row = \<lparr>rs_id = rng s (ticks s), rs_settlement_ref = ref,
         rs_sending_account_id = sq_sending_account_id req,
         rs_receiving_account_id = sq_receiving_account_id req, rs_currency = sq_currency req,
         rs_amount = v, rs_priority = sq_priority req, rs_status = S_PENDING,
         rs_transaction_id = None, rs_scheduled_at = sq_scheduled_at req, rs_queued_at = txn_now s,
         rs_processing_started = None, rs_settled_at = None, rs_failure_reason = None,
         rs_retry_count = 0, rs_approved_by = None, rs_approved_at = None, rs_signed_by = None,
         rs_signed_at = None, rs_metadata = sq_metadata req\<rparr>
        in valid_row rtgs_constraints s row \<longrightarrow>
           Q row (s\<lparr>ticks := Suc (ticks s), rtgs_settlements := rtgs_settlements s @ [row]\<rparr>)))"
  by (simp add: new_settlement_def wp_simps Let_def valid_row_def rtgs_constraints_def
      split: sum.splits)

lemma table_pred_rtgs_inv: "table_pred rtgs_inv"
  by (auto simp: table_pred_def rtgs_inv_def elim!: same_tablesE)

lemma rtgs_inv_append:
  assumes "rtgs_inv s" "valid_row rtgs_constraints s row" "lifecycle (transactions s) row"
  shows "distinct (map rs_id (rtgs_settlements s @ [row])) \<and>
    (\<forall>r \<in> set (rtgs_settlements s @ [row]). lifecycle (transactions s) r)"
  using assms by (auto simp: rtgs_inv_def valid_row_def rtgs_constraints_def)

lemma rtgs_inv_update:
  assumes "rtgs_inv s" "r \<in> set (rtgs_settlements s)"
    and "rs_id (f r) = rs_id r" "lifecycle (transactions s) (f r)"
  shows "distinct (map rs_id (map_where (\<lambda>q. rs_id q = rs_id r) f (rtgs_settlements s))) \<and>
    (\<forall>q \<in> set (map_where (\<lambda>q. rs_id q = rs_id r) f (rtgs_settlements s)).
       lifecycle (transactions s) q)"
proof -
  have "inj_on rs_id (set (rtgs_settlements s))"
    using assms(1) by (simp add: rtgs_inv_def distinct_map)
  then have only: "q = r" if "q \<in> set (rtgs_settlements s)" "rs_id q = rs_id r" for q
    using that assms(2) by (blast dest: inj_onD)
  have "map rs_id (map_where (\<lambda>q. rs_id q = rs_id r) f (rtgs_settlements s)) =
      map rs_id (rtgs_settlements s)"
    using only assms(3) by (auto simp: map_where_def)
  moreover have "lifecycle (transactions s) q"
    if "q \<in> set (map_where (\<lambda>q. rs_id q = rs_id r) f (rtgs_settlements s))" for q
    using that only assms(1,4) by (auto simp: in_map_where rtgs_inv_def split: if_splits)
  ultimately show ?thesis using assms(1) by (simp add: rtgs_inv_def)
qed

lemma find_settlement_in:
  "find_settlement s ref = Some r \<Longrightarrow> r \<in> set (rtgs_settlements s) \<and> rs_settlement_ref r = ref"
  unfolding find_settlement_def by (rule find_Some_iff)

lemma wp_find_or_404 [wp_simps]:
  "wp (find_or_404 ref) s Q E \<longleftrightarrow>
     (case find_settlement s ref of
        None \<Rightarrow> E (HTTPException 404 [Txt ''Settlement not found'']) s | Some r \<Rightarrow> Q r s)"
  by (simp add: find_or_404_def wp_simps split: option.split)

lemma to_approved:
  "validate_transition (SettlementStatus_value st) ''approved'' RTGS_VALID_TRANSITIONS = Inr u \<longleftrightarrow>
     st = S_PENDING"
  by (cases st) (simp_all add: transition_evals RTGS_VALID_TRANSITIONS_def)

lemma to_signed:
  "validate_transition (SettlementStatus_value st) ''signed'' RTGS_VALID_TRANSITIONS = Inr u \<longleftrightarrow>
     st = S_APPROVED"
  by (cases st) (simp_all add: transition_evals RTGS_VALID_TRANSITIONS_def)

lemma rtgs_inv_frame [simp]:
  "rtgs_inv (rollback s t) \<longleftrightarrow> rtgs_inv s" "rtgs_inv (begin_txn s) \<longleftrightarrow> rtgs_inv s"
  by (simp_all add: rtgs_inv_def)

lemma find_settlement_begin [simp]: "find_settlement (begin_txn s) ref = find_settlement s ref"
  by (simp add: find_settlement_def)

lemma quantize_stored: "numeric 28 8 x = Inr v \<Longrightarrow> numeric 28 8 v = Inr v"
  by (rule numeric_stored(1))

lemma inv_submit:
  assumes "rtgs_inv s"
  shows "wp (submit_settlement req) s (\<lambda>_. rtgs_inv) (\<lambda>_. rtgs_inv)"
  using assms
  by (simp add: submit_settlement_def wp_simps Let_def split: option.splits sum.splits)
     (auto simp: rtgs_inv_def lifecycle_def quantize_stored valid_row_def rtgs_constraints_def)

text \<open>
  An approval or a signature: the row named by the reference was in the expected status, the
  role was allowed, and that row alone took the new status, the actor and the time.
\<close>

definition decision_effect ::
  "string list \<Rightarrow> SettlementStatus \<Rightarrow> SettlementStatus
     \<Rightarrow> (uuid option \<Rightarrow> time \<Rightarrow> RTGSSettlement \<Rightarrow> RTGSSettlement) \<Rightarrow> string \<Rightarrow> headers \<Rightarrow> RTGSSettlement
     \<Rightarrow> world \<Rightarrow> world \<Rightarrow> bool" where
  "decision_effect roles st st' f ref req r s s' \<longleftrightarrow>
     header_get req ''X-Actor-Role'' \<in> set roles \<and>
     find_settlement s ref = Some r \<and> rs_status r = st \<and>
     (\<exists>now. rtgs_settlements s' = map_where (\<lambda>q. rs_id q = rs_id r)
        (\<lambda>q. f (cx_actor_id (extract_context req)) now (q\<lparr>rs_status := st'\<rparr>)) (rtgs_settlements s)) \<and>
     (\<exists>h. status_history s' = status_history s @ [h] \<and> sh_entity_id h = rs_id r \<and>
        sh_status h = SettlementStatus_value st' \<and> sh_actor_id h = cx_actor_id (extract_context req)) \<and>
     transactions s' = transactions s \<and> journal_entries s' = journal_entries s \<and>
     accounts s' = accounts s \<and> escrow_holds s' = escrow_holds s"

abbreviation approve_effect where
  "approve_effect \<equiv> decision_effect [''admin'', ''approver''] S_PENDING S_APPROVED
     (\<lambda>a now q. q\<lparr>rs_approved_by := a, rs_approved_at := Some now\<rparr>)"

abbreviation sign_effect where
  "sign_effect \<equiv> decision_effect [''admin'', ''signer''] S_APPROVED S_SIGNED
     (\<lambda>a now q. q\<lparr>rs_signed_by := a, rs_signed_at := Some now\<rparr>)"

lemma ctx_extra_actor [simp]: "hx_actor_id (ctx_extra ctx) = cx_actor_id ctx"
  by (simp add: ctx_extra_def)

lemma wp_approve:
  "wp (approve_settlement ref req) s (\<lambda>_ s'. \<exists>r. approve_effect ref req r s s')
     (\<lambda>_. same_tables s)"
  by (simp add: approve_settlement_def wp_simps Let_def to_approved split: option.splits sum.splits)
     (auto simp: decision_effect_def dest: require_role_Inr)

lemma wp_sign:
  "wp (sign_settlement ref req) s (\<lambda>_ s'. \<exists>r. sign_effect ref req r s s' \<and>
       rs_approved_by r \<noteq> cx_actor_id (extract_context req)) (\<lambda>_. same_tables s)"
  by (simp add: sign_settlement_def wp_simps Let_def to_signed check_separation_Inr
       split: option.splits sum.splits)
     (auto simp: decision_effect_def dest: require_role_Inr)

lemma inv_approve:
  assumes inv: "rtgs_inv s" and eff: "approve_effect ref req r s s'"
  shows "rtgs_inv s'"
proof -
  obtain now where rows: "rtgs_settlements s' = map_where (\<lambda>q. rs_id q = rs_id r)
      (\<lambda>q. q\<lparr>rs_status := S_APPROVED, rs_approved_by := cx_actor_id (extract_context req),
         rs_approved_at := Some now\<rparr>) (rtgs_settlements s)"
    and r: "r \<in> set (rtgs_settlements s)" "rs_status r = S_PENDING"
    and tx: "transactions s' = transactions s"
    using eff find_settlement_in [of s ref r] unfolding decision_effect_def by auto
  have "lifecycle (transactions s) r" using inv r(1) by (simp add: rtgs_inv_def)
  then have "lifecycle (transactions s) (r\<lparr>rs_status := S_APPROVED,
      rs_approved_by := cx_actor_id (extract_context req), rs_approved_at := Some now\<rparr>)"
    using r(2) by (simp add: lifecycle_def)
  then show ?thesis
    unfolding rtgs_inv_def rows tx by (intro rtgs_inv_update [OF inv r(1)]) simp_all
qed

lemma inv_sign:
  assumes inv: "rtgs_inv s" and eff: "sign_effect ref req r s s'"
    and sep: "rs_approved_by r \<noteq> cx_actor_id (extract_context req)"
  shows "rtgs_inv s'"
proof -
  obtain now where rows: "rtgs_settlements s' = map_where (\<lambda>q. rs_id q = rs_id r)
      (\<lambda>q. q\<lparr>rs_status := S_SIGNED, rs_signed_by := cx_actor_id (extract_context req),
         rs_signed_at := Some now\<rparr>) (rtgs_settlements s)"
    and r: "r \<in> set (rtgs_settlements s)" "rs_status r = S_APPROVED"
    and tx: "transactions s' = transactions s"
    using eff find_settlement_in [of s ref r] unfolding decision_effect_def by auto
  have "lifecycle (transactions s) r" using inv r(1) by (simp add: rtgs_inv_def)
  then have "lifecycle (transactions s) (r\<lparr>rs_status := S_SIGNED,
      rs_signed_by := cx_actor_id (extract_context req), rs_signed_at := Some now\<rparr>)"
    using r(2) sep by (simp add: lifecycle_def dual_control_def)
  then show ?thesis
    unfolding rtgs_inv_def rows tx by (intro rtgs_inv_update [OF inv r(1)]) simp_all
qed

section \<open>Runs\<close>

text \<open>
  The steps that touch the settlement table, each whole handler or worker pass, and any
  other step of the platform: it leaves the settlements alone and only adds transactions.
\<close>

inductive rtgs_step :: "world \<Rightarrow> world \<Rightarrow> bool" where
  submit: "submit_settlement req s = (resp, s') \<Longrightarrow> rtgs_step s s'"
| approve: "approve_settlement ref hdr s = (resp, s') \<Longrightarrow> rtgs_step s s'"
| sign: "sign_settlement ref hdr s = (resp, s') \<Longrightarrow> rtgs_step s s'"
| cycle: "rtgs_step s (settlement_cycle s)"
| other: "rtgs_settlements s' = rtgs_settlements s \<Longrightarrow>
    set (transactions s) \<subseteq> set (transactions s') \<Longrightarrow> rtgs_step s s'"

inductive rtgs_reachable :: "world \<Rightarrow> bool" where
  start: "rtgs_settlements s = [] \<Longrightarrow> rtgs_reachable s"
| step: "rtgs_reachable s \<Longrightarrow> rtgs_step s s' \<Longrightarrow> rtgs_reachable s'"

inductive_cases rtgs_stepE: "rtgs_step s s'"

lemma rtgs_inv_same_tables: "rtgs_inv s \<Longrightarrow> same_tables s s' \<Longrightarrow> rtgs_inv s'"
  using table_pred_rtgs_inv unfolding table_pred_def by blast

interpretation rtgs_worker: batch_worker priv_process_one_settlement rtgs_settlements rs_id
  "\<lambda>r. rs_status r = S_SIGNED" pending_settlements rtgs_inv batch_ok
proof
  show "batch_ok s s'" if "rtgs_inv s" "same_tables s s'" for s s'
    using that rtgs_inv_same_tables by (auto simp: batch_ok_def same_tables_eqs)
  show "distinct (map rs_id (pending_settlements s)) \<and>
      (\<forall>r \<in> set (pending_settlements s). r \<in> set (rtgs_settlements s) \<and> rs_status r = S_SIGNED)"
    if "rtgs_inv s" for s
    using that unfolding pending_settlements_def rtgs_inv_def by (intro take_ready) simp
qed (auto simp: batch_ok_def dest: process_one_ok)

lemmas cycle_ok = rtgs_worker.pass_ok [folded settlement_cycle_def]

lemma rtgs_inv_step: "rtgs_step s s' \<Longrightarrow> rtgs_inv s \<Longrightarrow> rtgs_inv s'"
proof (induction rule: rtgs_step.induct)
  case (submit req s resp s')
  then show ?case using inv_submit [OF submit.prems] by (cases resp) (auto dest: wp_Inr wp_Inl)
next
  case (approve ref hdr s resp s')
  then show ?case
  proof (cases resp)
    case (Inl e)
    with approve wp_Inl [OF wp_approve] show ?thesis by (blast intro: rtgs_inv_same_tables)
  next
    case (Inr x)
    with approve wp_Inr [OF wp_approve] show ?thesis by (blast intro: inv_approve)
  qed
next
  case (sign ref hdr s resp s')
  then show ?case
  proof (cases resp)
    case (Inl e)
    with sign wp_Inl [OF wp_sign] show ?thesis by (blast intro: rtgs_inv_same_tables)
  next
    case (Inr x)
    with sign wp_Inr [OF wp_sign] show ?thesis by (blast intro: inv_sign)
  qed
next
  case (cycle s)
  then show ?case using cycle_ok by (simp add: batch_ok_def)
next
  case (other s' s)
  then show ?case by (auto simp: rtgs_inv_def intro: lifecycle_mono)
qed

lemma rtgs_inv_reachable: "rtgs_reachable s \<Longrightarrow> rtgs_inv s"
proof (induction rule: rtgs_reachable.induct)
  case (start s)
  then show ?case by (simp add: rtgs_inv_def)
next
  case (step s s')
  then show ?case using rtgs_inv_step by blast
qed


section \<open>Idempotent submission\<close>

text \<open>What a request is answered when its key is taken and its other checks pass.\<close>

definition submit_shown :: "world \<Rightarrow> SubmitSettlementRequest \<Rightarrow> SettlementResponse option" where
  "submit_shown s req =
     (if 0 < sq_amount req \<and> valid_priority (sq_priority req) \<and>
         account_active s (sq_sending_account_id req) \<and>
         account_active s (sq_receiving_account_id req) \<and> truthy (sq_idempotency_key req)
      then map_option settlement_response (find_settlement s (the (sq_idempotency_key req)))
      else None)"

lemma wp_submit_created:
  "wp (submit_settlement req) s
     (\<lambda>resp s'. truthy (sq_idempotency_key req) \<longrightarrow> submit_shown s' req = Some resp) partial"
  by (simp add: submit_settlement_def wp_simps Let_def split: option.splits sum.splits)
     (auto simp: submit_shown_def settlement_response_def find_settlement_def account_active_def
       get_account_def find_append_new dest: quantize_numeric8)

lemma wp_submit_replayed:
  assumes "truthy (sq_idempotency_key req)" "submit_shown s req = Some resp"
  shows "wp (submit_settlement req) s (\<lambda>r s'. r = resp \<and> same_tables s s') total"
  using assms
  by (auto simp: submit_settlement_def submit_shown_def wp_simps split: if_splits)

lemma find_settlement_same: "same_tables s t \<Longrightarrow> find_settlement t ref = find_settlement s ref"
  by (simp add: find_settlement_def same_tables_eqs)

interpretation rtgs_submit:
  idempotent_create submit_settlement sq_idempotency_key submit_shown same_tables
proof
  show "submit_shown s' req = Some resp"
    if "submit_settlement req s = (Inr resp, s')" "truthy (sq_idempotency_key req)" for req s resp s'
    using wp_Inr [OF wp_submit_created that(1)] that(2) by blast
  show "\<exists>s'. submit_settlement req s = (Inr resp, s') \<and> same_tables s s'"
    if "truthy (sq_idempotency_key req)" "submit_shown s req = Some resp" for req s resp
    using wp_submit_replayed [OF that] by (auto simp: wp_total)
  show "submit_shown s' req = submit_shown s req" if "same_tables s s'" for s s' req
    using that by (simp add: submit_shown_def account_active_same find_settlement_same)
qed (auto intro: same_tables_trans)

section \<open>Audit tables\<close>

lemma keeps_audit_update_settlement [keeps_intros]:
  "keeps (audit_safe s0) (update_settlement i f)"
  unfolding update_settlement_def by (rule keeps_update_rows) (simp add: audit_safe_def)

lemma keeps_audit_process [keeps_intros]: "keeps (audit_safe s0) (priv_process_one_settlement r)"
  unfolding priv_process_one_settlement_def settle_transfer_def priv_transfer_balances_def
    fail_settlement_def Let_def
  by (intro keeps_intros)

lemma audit_cycle: "audit_safe s (settlement_cycle s)"
  unfolding settlement_cycle_def by (intro audit_worker_pass keeps_intros audit_safe_refl)

lemma keeps_audit_submit [keeps_intros]: "keeps (audit_safe s0) (submit_settlement req)"
  unfolding submit_settlement_def new_settlement_def Let_def
  by (intro keeps_intros keeps_insert_row) (simp_all add: audit_safe_def)

lemma keeps_audit_find [keeps_intros]: "keeps (audit_safe s0) (find_or_404 ref)"
  unfolding find_or_404_def by (intro keeps_intros)

lemma keeps_audit_approve [keeps_intros]: "keeps (audit_safe s0) (approve_settlement ref req)"
  unfolding approve_settlement_def Let_def by (intro keeps_intros)

lemma keeps_audit_sign [keeps_intros]: "keeps (audit_safe s0) (sign_settlement ref req)"
  unfolding sign_settlement_def Let_def by (intro keeps_intros)

lemma lifecycle_status:
  assumes "lifecycle txs r"
  shows "rs_status r \<in> {S_PENDING, S_APPROVED, S_SIGNED, S_SETTLED, S_FAILED} \<and>
    (rs_status r \<in> {S_SIGNED, S_SETTLED, S_FAILED} \<longrightarrow> dual_control r) \<and>
    (rs_status r = S_SETTLED \<longrightarrow> (\<exists>t \<in> set txs. backed_by t r)) \<and>
    (rs_status r \<noteq> S_SETTLED \<longrightarrow> rs_transaction_id r = None)"
  using assms by (cases "rs_status r") (simp_all add: lifecycle_def)

section \<open>Properties\<close>

definition sample_settlement :: RTGSSettlement where
  "sample_settlement =
     \<lparr>rs_id = 50, rs_settlement_ref = ''R-1'', rs_sending_account_id = 2,
      rs_receiving_account_id = 3, rs_currency = USD, rs_amount = 100, rs_priority = ''normal'',
      rs_status = S_SIGNED, rs_transaction_id = None, rs_scheduled_at = None, rs_queued_at = 0,
      rs_processing_started = None, rs_settled_at = None, rs_failure_reason = None,
      rs_retry_count = 0, rs_approved_by = Some 7, rs_approved_at = Some 0, rs_signed_by = Some 8,
      rs_signed_at = Some 0, rs_metadata = []\<rparr>"

lemma sample_can_settle: "can_settle sample_world sample_settlement"
  by (simp add: can_settle_def sample_settlement_def)



text \<open>
  C35. A settlement whose sender lacks the funds fails at once: no journal entry and no
  transaction is written, the row (and no other) becomes failed with one more attempt counted,
  and the failure is recorded and announced. The branch that would put it back in the queue
  is never taken, whatever the number of attempts, since insufficient funds is the only
  \<open>ValueError\<close> the transfer raises.
\<close>

theorem process_fails:
  assumes "liability s (rs_sending_account_id r) (rs_currency r) < rs_amount r"
    and "numeric 28 8 (rs_amount r) = Inr (rs_amount r)"
  shows "\<exists>s'. priv_process_one_settlement r s = (Inr False, s') \<and> failed_effect r s s'"
proof -
  obtain s' where run: "priv_process_one_settlement r s = (Inr False, s')"
    using wp_process_fails [OF assms(1)] by (auto simp: wp_total)
  then show ?thesis using wp_Inr [OF wp_process [OF assms(2)] run] by auto
qed

theorem process_fails_witness:
  "\<exists>s'. priv_process_one_settlement (sample_settlement\<lparr>rs_currency := EUR\<rparr>) sample_world =
     (Inr False, s') \<and> journal_entries s' = journal_entries sample_world"
  using process_fails [of sample_world "sample_settlement\<lparr>rs_currency := EUR\<rparr>"]
  by (auto simp: sample_settlement_def failed_effect_def)





text \<open>
  The batch the worker takes holds at most ten settlements, all of them signed, and sorted by
  the priority text and then by age. Since the text order of the four priorities is
  high, low, normal, urgent, an urgent settlement comes after every settlement of another
  priority in the batch: the highest priority is served last.
\<close>

theorem urgent_served_last:
  "length (pending_settlements s) \<le> 10 \<and>
   (\<forall>r \<in> set (pending_settlements s). rs_status r = S_SIGNED) \<and>
   sorted (map (\<lambda>r. (rs_priority r, rs_queued_at r)) (pending_settlements s)) \<and>
   (\<forall>i j. i < j \<and> j < length (pending_settlements s) \<and>
      rs_priority (pending_settlements s ! i) = ''urgent'' \<and>
      valid_priority (rs_priority (pending_settlements s ! j)) \<longrightarrow>
      rs_priority (pending_settlements s ! j) = ''urgent'')"
proof -
  let ?key = "\<lambda>r. (rs_priority r, rs_queued_at r)" and ?p = "pending_settlements s"
  let ?xs = "sort_key ?key (filter (\<lambda>r. rs_status r = S_SIGNED) (rtgs_settlements s))"
  have "sorted (map ?key ?xs)" by simp
  then have sorted: "sorted (map ?key ?p)"
    unfolding pending_settlements_def take_map [symmetric] by (rule sorted_wrt_take)
  have "rs_priority (?p ! j) = ''urgent''"
    if "i < j" "j < length ?p" "rs_priority (?p ! i) = ''urgent''" "valid_priority (rs_priority (?p ! j))"
    for i j
  proof -
    have "map ?key ?p ! i \<le> map ?key ?p ! j"
      using sorted_nth_mono [OF sorted, of i j] that(1,2) by simp
    then have "?key (?p ! i) \<le> ?key (?p ! j)" using that(1,2) by (simp only: nth_map length_map less_trans)
    then have "''urgent'' \<le> rs_priority (?p ! j)"
      using that(3) by (auto simp: less_eq_prod_def)
    with that(4) show ?thesis by (auto simp: valid_priority_def)
  qed
  moreover have "\<forall>r \<in> set ?p. rs_status r = S_SIGNED"
    using set_take_subset [of 10 ?xs] by (auto simp: pending_settlements_def)
  moreover have "length ?p \<le> 10" by (simp add: pending_settlements_def)
  ultimately show ?thesis using sorted by blast
qed

theorem urgent_served_last_witness:
  "length (pending_settlements (sample_world\<lparr>rtgs_settlements := [sample_settlement]\<rparr>)) = 1 \<and>
   rs_priority (pending_settlements (sample_world\<lparr>rtgs_settlements :=
     [sample_settlement\<lparr>rs_priority := ''urgent''\<rparr>, sample_settlement\<lparr>rs_priority := ''low''\<rparr>]\<rparr>) ! 1)
     = ''urgent''"
  using urgent_served_last [of "sample_world\<lparr>rtgs_settlements :=
     [sample_settlement\<lparr>rs_priority := ''urgent''\<rparr>, sample_settlement\<lparr>rs_priority := ''low''\<rparr>]\<rparr>"]
  by (simp add: pending_settlements_def sample_settlement_def)

text \<open>
  Four-eyes control: a signature by the actor that approved the settlement is refused with
  403 and changes no table, whatever the signer's role allows otherwise.
\<close>

theorem sign_by_approver_refused:
  assumes "find_settlement s ref = Some r" "rs_status r = S_APPROVED"
    and "header_get req ''X-Actor-Role'' \<in> {''admin'', ''signer''}"
    and "rs_approved_by r = cx_actor_id (extract_context req)"
  shows "\<exists>msg s'. sign_settlement ref req s = (Inl (HTTPException 403 msg), s') \<and> same_tables s s'"
proof -
  have "wp (sign_settlement ref req) s (\<lambda>_ _. False)
      (\<lambda>e s'. (\<exists>msg. e = HTTPException 403 msg) \<and> same_tables s s')"
    using assms by (auto simp: sign_settlement_def wp_simps require_role_def Let_def
      check_separation_of_duties_def find_settlement_def to_signed
      transition_evals RTGS_VALID_TRANSITIONS_def split: sum.splits)
  then show ?thesis by (auto simp: wp_def split: prod.splits sum.splits)
qed

definition sample_approved :: world where
  "sample_approved = sample_world\<lparr>rtgs_settlements := [sample_settlement\<lparr>rs_status := S_APPROVED\<rparr>]\<rparr>"

definition sample_signer :: headers where
  "sample_signer = [(''X-Actor-ID'', uuid_str 7), (''X-Actor-Role'', ''admin'')]"

theorem sign_by_approver_refused_witness:
  "\<exists>msg s'. sign_settlement ''R-1'' sample_signer sample_approved = (Inl (HTTPException 403 msg), s')"
  using sign_by_approver_refused [of sample_approved "''R-1''"
    "sample_settlement\<lparr>rs_status := S_APPROVED\<rparr>" sample_signer]
  by (auto simp: sample_approved_def find_settlement_def sample_settlement_def sample_signer_def
    extract_context_def header_get_def lower_def parse_uuid_str)

text \<open>
  Submission is idempotent: after a submission under a client key succeeded, repeating the
  request any number of times gives the response of the first, and the repetitions leave every
  table as the first submission left it.
\<close>

theorem submit_idempotent:
  assumes "submit_settlement req s = (Inr resp, s1)" "truthy (sq_idempotency_key req)"
  shows "same_tables s1 (((\<lambda>u. snd (submit_settlement req u)) ^^ n) s1) \<and>
    fst (submit_settlement req (((\<lambda>u. snd (submit_settlement req u)) ^^ n) s1)) = Inr resp"
  using rtgs_submit.create_many [OF assms, of n] by fastforce

definition sample_submission :: SubmitSettlementRequest where
  "sample_submission =
     \<lparr>sq_sending_account_id = 2, sq_receiving_account_id = 3, sq_currency = USD, sq_amount = 100,
      sq_priority = ''normal'', sq_scheduled_at = None, sq_metadata = [],
      sq_idempotency_key = Some ''R-9''\<rparr>"

theorem submit_idempotent_witness:
  "\<exists>resp s1. submit_settlement sample_submission sample_world = (Inr resp, s1) \<and>
     same_tables s1 (snd (submit_settlement sample_submission s1)) \<and>
     fst (submit_settlement sample_submission (snd (submit_settlement sample_submission s1))) = Inr resp"
proof -
  have "wp (submit_settlement sample_submission) sample_world (\<lambda>_ _. True) total"
    by (simp add: submit_settlement_def new_settlement_def sample_submission_def wp_simps
      valid_priority_def valid_row_def
      rtgs_constraints_def truthy_def find_settlement_def key_or_fresh_def Let_def)
  then obtain resp s1 where run: "submit_settlement sample_submission sample_world = (Inr resp, s1)"
    by (auto simp: wp_total)
  have key: "truthy (sq_idempotency_key sample_submission)" by (simp add: sample_submission_def truthy_def)
  show ?thesis using run submit_idempotent [OF run key, of 1] by auto
qed

text \<open>
  The settlement path does not look at escrow holds: an instruction the sender's balance
  covers is settled whatever part of that balance is on hold.
\<close>

theorem settles_held_funds:
  assumes "can_settle s r"
  shows "\<exists>s'. priv_process_one_settlement r (s\<lparr>escrow_holds := hs\<rparr>) = (Inr True, s') \<and>
    liability s' (rs_sending_account_id r) (rs_currency r) =
      liability s (rs_sending_account_id r) (rs_currency r) - rs_amount r \<and> escrow_holds s' = hs"
proof -
  let ?s = "s\<lparr>escrow_holds := hs\<rparr>"
  have can: "can_settle ?s r" using assms by (simp add: can_settle_def)
  obtain s' where run: "priv_process_one_settlement r ?s = (Inr True, s')"
    using wp_process_settles [OF can] by (auto simp: wp_total)
  have "numeric 28 8 (rs_amount r) = Inr (rs_amount r)" using assms by (simp add: can_settle_def)
  from wp_Inr [OF wp_process [OF this] run] have "settled_effect r ?s s'" by simp
  with run assms show ?thesis by (auto simp: settled_effect_def can_settle_def posted_balance)
qed

theorem settles_held_funds_witness:
  "\<exists>s'. priv_process_one_settlement sample_settlement (sample_world\<lparr>escrow_holds := []\<rparr>) = (Inr True, s') \<and>
     liability s' 2 USD = 900"
  using settles_held_funds [OF sample_can_settle, of "[]"] by (auto simp: sample_settlement_def)

end
