(* ===== verification/FxSettlement.thy ===== *)
theory FxSettlement
  imports Samples
begin

text \<open>
  The foreign-exchange service, \<open>src/services/fx-settlement/main.py\<close>: the rate book and
  its feed, quotes, the initiation of a settlement, and the worker that executes both legs of
  the queued ones. The signing gateway is called over HTTP; its answers are a parameter
  \<open>gateway\<close> of the operations that reach it.
\<close>

section \<open>Rates\<close>

definition NOSTRO_MAP :: "(CurrencyCode \<times> uuid) list" where
  "NOSTRO_MAP = [(USD, 2), (EUR, 3), (GBP, 4)]"

definition nostro_of :: "CurrencyCode \<Rightarrow> uuid" where
  "nostro_of c = (case map_of NOSTRO_MAP c of None \<Rightarrow> 2 | Some a \<Rightarrow> a)"

definition priv_get_live_rate :: "world \<Rightarrow> CurrencyCode \<Rightarrow> CurrencyCode \<Rightarrow> FXRate option" where
  "priv_get_live_rate s base quote =
     (case sort_key (\<lambda>r. - fr_valid_from r)
        (filter (\<lambda>r. fr_base_currency r = base \<and> fr_quote_currency r = quote \<and> fr_is_active r)
           (fx_rates s)) of
        [] \<Rightarrow> None | r # _ \<Rightarrow> Some r)"

text \<open>A decimal that is absent or zero is false, so \<open>or\<close> passes it over.\<close>

definition dec_or :: "rat option \<Rightarrow> rat \<Rightarrow> rat" where
  "dec_or x d = (case x of None \<Rightarrow> d | Some v \<Rightarrow> if v = 0 then d else v)"

definition priv_apply_spread :: "FXRate \<Rightarrow> string \<Rightarrow> rat option \<Rightarrow> exn + rat" where
  "priv_apply_spread rate direction custom_bps =
     (let spread_bps = dec_or custom_bps (dec_or (fr_spread_bps rate) 10);
          mid_rate = fr_mid_rate rate
      in case dec_div spread_bps 10000 of Inl e \<Rightarrow> Inl e | Inr spread_factor \<Rightarrow>
         case dec_div (dec_mul mid_rate spread_factor) 2 of Inl e \<Rightarrow> Inl e | Inr half_spread \<Rightarrow>
         if direction = ''buy'' then quantize round_half_even 8 (dec_add mid_rate half_spread)
         else quantize round_half_even 8 (dec_sub mid_rate half_spread))"

text \<open>\<open>(Decimal("1") / x).quantize(RATE_PREC)\<close>\<close>

definition inverse_rate :: "rat \<Rightarrow> exn + rat" where
  "inverse_rate x = (case dec_div 1 x of Inl e \<Rightarrow> Inl e | Inr y \<Rightarrow> quantize round_half_even 8 y)"

text \<open>
  The gateway's answer to \<open>POST /sign\<close>: nothing when the call raises, otherwise the status
  code and the \<open>signature\<close> member of the body, if it has one.
\<close>

type_synonym sign_gateway = "string \<Rightarrow> dict \<Rightarrow> (int \<times> string option) option"

definition priv_sign_settlement :: "sign_gateway \<Rightarrow> string \<Rightarrow> dict \<Rightarrow> string" where
  "priv_sign_settlement gateway settlement_ref settlement_data =
     (case gateway settlement_ref settlement_data of
        None \<Rightarrow> ''''
      | Some (status_code, signature) \<Rightarrow>
          if status_code = 200 then (case signature of None \<Rightarrow> '''' | Some g \<Rightarrow> g) else '''')"

section \<open>Execution of a settlement\<close>

definition nostro_code :: "CurrencyCode \<Rightarrow> string" where
  "nostro_code c = ''FX_NOSTRO_'' @ CurrencyCode_value c"

definition leg_codes :: "string \<Rightarrow> CurrencyCode \<Rightarrow> string \<times> string" where
  "leg_codes leg_type currency =
     (if leg_type = ''sell'' then (''INSTITUTION_LIABILITY'', nostro_code currency)
      else (nostro_code currency, ''INSTITUTION_LIABILITY''))"

definition priv_execute_leg ::
  "uuid \<Rightarrow> uuid \<Rightarrow> CurrencyCode \<Rightarrow> rat \<Rightarrow> string \<Rightarrow> string \<Rightarrow> uuid db_op" where
  "priv_execute_leg debit_id credit_id currency amount narrative leg_type =
     (let debit_coa = fst (leg_codes leg_type currency);
          credit_coa = snd (leg_codes leg_type currency) in
     op_bind (acquire_balance_lock debit_id currency) (\<lambda>_.
     op_bind (op_get (\<lambda>s. get_balance s debit_id currency debit_coa)) (\<lambda>available.
     op_bind (op_assert (amount \<le> available)
       (ValueError [Txt (''Insufficient '' @ CurrencyCode_value currency @ '' balance for '' @
          uuid_str debit_id @ '': available=''), Dec available])) (\<lambda>_.
     op_bind (key_or_fresh None ''FX-'') (\<lambda>ref.
     op_bind (new_transaction ref debit_id credit_id currency amount ''fx_leg'' None []) (\<lambda>txn_id.
     op_bind (record_journal_pair debit_id debit_coa currency amount ''fx_leg'' txn_id credit_id
       credit_coa narrative) (\<lambda>_.
     op_bind (record_status TransactionStatusHistory txn_id ''completed'' None no_extra) (\<lambda>_.
     op_return txn_id))))))))"

definition update_fx :: "uuid \<Rightarrow> (FXSettlement \<Rightarrow> FXSettlement) \<Rightarrow> unit db_op" where
  "update_fx i f = update_rows fx_settlements_update (\<lambda>r. fs_id r = i) f"

definition sell_leg :: "FXSettlement \<Rightarrow> uuid db_op" where
  "sell_leg fx =
     (let settle_ref = fs_settlement_ref fx; currency = fs_sell_currency fx in
     op_bind (priv_execute_leg (fs_sending_account_id fx) (nostro_of currency) currency
       (fs_sell_amount fx) (''FX sell leg '' @ settle_ref @ '': sell '' @ CurrencyCode_value currency)
       ''sell'') (\<lambda>sell_txn.
     op_bind (update_fx (fs_id fx) (\<lambda>r. r\<lparr>fs_sell_txn_id := Some sell_txn\<rparr>)) (\<lambda>_.
     op_bind (emit FxSettlementSvc settle_ref ''fx.settlement.leg.completed''
       (FXSettlementLegCompleted settle_ref ''sell'' sell_txn (fs_sell_amount fx) currency)) (\<lambda>_.
     op_return sell_txn))))"

definition buy_leg :: "FXSettlement \<Rightarrow> uuid db_op" where
  "buy_leg fx =
     (let settle_ref = fs_settlement_ref fx; currency = fs_buy_currency fx in
     op_bind (priv_execute_leg (nostro_of currency) (fs_receiving_account_id fx) currency
       (fs_buy_amount fx) (''FX buy leg '' @ settle_ref @ '': buy '' @ CurrencyCode_value currency)
       ''buy'') (\<lambda>buy_txn.
     op_bind (update_fx (fs_id fx) (\<lambda>r. r\<lparr>fs_buy_txn_id := Some buy_txn\<rparr>)) (\<lambda>_.
     op_bind (emit FxSettlementSvc settle_ref ''fx.settlement.leg.completed''
       (FXSettlementLegCompleted settle_ref ''buy'' buy_txn (fs_buy_amount fx) currency)) (\<lambda>_.
     op_return buy_txn))))"

text \<open>The payload sent to be signed; an amount printed with \<open>str\<close> keeps its value.\<close>

definition sign_payload :: "FXSettlement \<Rightarrow> dict" where
  "sign_payload fx =
     [(''sell_currency'', j_cur (fs_sell_currency fx)), (''sell_amount'', JDec (fs_sell_amount fx)),
      (''buy_currency'', j_cur (fs_buy_currency fx)), (''buy_amount'', JDec (fs_buy_amount fx))]"

definition finalise_fx :: "sign_gateway \<Rightarrow> FXSettlement \<Rightarrow> uuid \<Rightarrow> uuid \<Rightarrow> bool db_op" where
  "finalise_fx gateway fx sell_txn buy_txn =
     (let settle_ref = fs_settlement_ref fx in
     op_bind utcnow (\<lambda>now.
     op_bind (record_on_chain FxSettlementSvc settle_ref ''fx_settlement'' '''') (\<lambda>receipt0.
     let mpc_sig = priv_sign_settlement gateway settle_ref (sign_payload fx);
         receipt = (if mpc_sig \<noteq> '''' then receipt0\<lparr>rc_mpc_signature := Some mpc_sig\<rparr> else receipt0) in
     op_bind (op_get (\<lambda>s. map_option (\<lambda>f. f\<lparr>fi_settled_at := Some now\<rparr>)
       (record_fiat_rail (sha256_hex s) settle_ref (SettlementRails_value (fs_rails fx))))) (\<lambda>fiat_receipt.
     op_bind (update_fx (fs_id fx) (\<lambda>r. r\<lparr>fs_status := S_SETTLED, fs_settled_at := Some now,
       fs_blockchain_tx_hash := Some (rc_tx_hash receipt),
       fs_metadata := with_legs (fs_metadata fx) receipt fiat_receipt\<rparr>)) (\<lambda>_.
     op_bind (record_status FXSettlementStatusHistory (fs_id fx) ''settled'' None no_extra) (\<lambda>_.
     op_bind (emit FxSettlementSvc settle_ref ''fx.settlement.completed''
       (FXSettlementCompleted settle_ref sell_txn buy_txn (Some (rc_tx_hash receipt)) now)) (\<lambda>_.
     op_return True)))))))"

definition fail_fx :: "FXSettlement \<Rightarrow> fstr \<Rightarrow> bool db_op" where
  "fail_fx fx exc =
     op_bind (update_fx (fs_id fx) (\<lambda>r. r\<lparr>fs_status := S_FAILED\<rparr>)) (\<lambda>_.
     op_bind (record_status FXSettlementStatusHistory (fs_id fx) ''failed''
       (Some [(''reason'', j_fstr exc)]) no_extra) (\<lambda>_.
     op_bind (emit FxSettlementSvc (fs_settlement_ref fx) ''fx.settlement.failed''
       (FXSettlementFailed (fs_settlement_ref fx) exc)) (\<lambda>_.
     op_return False)))"

definition priv_process_fx_settlement :: "sign_gateway \<Rightarrow> FXSettlement \<Rightarrow> bool db_op" where
  "priv_process_fx_settlement gateway fx =
     op_bind (update_fx (fs_id fx) (\<lambda>r. r\<lparr>fs_status := S_PROCESSING\<rparr>)) (\<lambda>_.
     op_bind (record_status FXSettlementStatusHistory (fs_id fx) ''processing'' None no_extra) (\<lambda>_.
     op_catch_ValueError
       (op_bind (sell_leg fx) (\<lambda>sell_txn.
        op_bind (buy_leg fx) (\<lambda>buy_txn.
        finalise_fx gateway fx sell_txn buy_txn)))
       (fail_fx fx)))"

definition pending_fx :: "world \<Rightarrow> FXSettlement list" where
  "pending_fx s =
     take 5 (sort_key fs_created_at (filter (\<lambda>r. fs_status r = S_QUEUED) (fx_settlements s)))"

definition fx_cycle :: "sign_gateway \<Rightarrow> world \<Rightarrow> world" where
  "fx_cycle gateway =
     worker_pass (op_bind (op_get pending_fx) (\<lambda>pending.
       op_for pending (priv_process_fx_settlement gateway)))"

section \<open>The rate feed\<close>

definition fx_rate_constraints :: "world \<Rightarrow> FXRate \<Rightarrow> (bool \<times> string) list" where
  "fx_rate_constraints s r =
     [(\<forall>q \<in> set (fx_rates s). fr_id q \<noteq> fr_id r, ''fx_rates_pkey''),
      (\<forall>q \<in> set (fx_rates s). (fr_base_currency q, fr_quote_currency q, fr_valid_from q) \<noteq>
         (fr_base_currency r, fr_quote_currency r, fr_valid_from r),
       ''fx_rates_base_currency_quote_currency_valid_from_key'')]"

definition CurrencyCode_of :: "string \<Rightarrow> CurrencyCode option" where
  "CurrencyCode_of t = List.find (\<lambda>c. CurrencyCode_value c = t) [USD, EUR, GBP, JPY, SGD, CHF, HKD]"

text \<open>
  The members of the payload as the handler reads them: an index raises when the key is
  missing, a value no enum member has is refused by the column type, and
  \<open>Decimal(str(v))\<close> accepts a number or the rendering of a decimal.
\<close>

definition payload_currency :: "dict \<Rightarrow> string \<Rightarrow> exn + CurrencyCode" where
  "payload_currency payload k =
     (case map_of payload k of
        None \<Rightarrow> Inl (KeyError k)
      | Some (JStr t) \<Rightarrow> (case CurrencyCode_of t of None \<Rightarrow> Inl (StatementError t) | Some c \<Rightarrow> Inr c)
      | Some _ \<Rightarrow> Inl (StatementError k))"

definition payload_rate :: "dict \<Rightarrow> string \<Rightarrow> exn + rat" where
  "payload_rate payload k =
     (case map_of payload k of None \<Rightarrow> Inl (KeyError k) | Some v \<Rightarrow>
      case decimal_of v of Inl e \<Rightarrow> Inl e | Inr x \<Rightarrow> numeric 18 8 x)"

definition payload_opt_rate :: "dict \<Rightarrow> string \<Rightarrow> exn + rat option" where
  "payload_opt_rate payload k =
     (if json_truthy (dict_get payload k JNull)
      then (case payload_rate payload k of Inl e \<Rightarrow> Inl e | Inr x \<Rightarrow> Inr (Some x)) else Inr None)"

text \<open>The event schema makes \<open>source\<close> a string; a null violates the column.\<close>

definition payload_source :: "dict \<Rightarrow> exn + string" where
  "payload_source payload =
     (case dict_get payload ''source'' (JStr ''kafka'') of
        JStr t \<Rightarrow> Inr t | _ \<Rightarrow> Inl (IntegrityError ''fx_rates_source''))"

definition ingest_rate :: "dict \<Rightarrow> unit db_op" where
  "ingest_rate payload =
     op_bind (op_lift (payload_currency payload ''base_currency'')) (\<lambda>base.
     op_bind (op_lift (payload_currency payload ''quote_currency'')) (\<lambda>quote.
     op_bind (update_rows fx_rates_update (\<lambda>r. fr_base_currency r = base \<and>
       fr_quote_currency r = quote \<and> fr_is_active r) (\<lambda>r. r\<lparr>fr_is_active := False\<rparr>)) (\<lambda>_.
     op_bind (op_lift (payload_rate payload ''mid_rate'')) (\<lambda>mid.
     op_bind (op_lift (payload_opt_rate payload ''bid_rate'')) (\<lambda>bid.
     op_bind (op_lift (payload_opt_rate payload ''ask_rate'')) (\<lambda>ask.
     op_bind (op_lift (payload_source payload)) (\<lambda>source.
     op_bind uuid4 (\<lambda>i.
     op_bind (op_get txn_now) (\<lambda>t.
     insert_row fx_rate_constraints fx_rates_update
       \<lparr>fr_id = i, fr_base_currency = base, fr_quote_currency = quote, fr_mid_rate = mid,
        fr_bid_rate = bid, fr_ask_rate = ask, fr_spread_bps = None, fr_source = source,
        fr_is_active = True, fr_valid_from = t\<rparr>)))))))))"

text \<open>Every exception is logged and swallowed, after the rollback.\<close>

definition priv_rate_update_handler :: "string \<Rightarrow> dict \<Rightarrow> world \<Rightarrow> world" where
  "priv_rate_update_handler topic payload = worker_pass (ingest_rate payload)"

section \<open>Handlers\<close>

record FXQuoteRequest =
  qr_sell_currency :: CurrencyCode
  qr_sell_amount :: rat
  qr_buy_currency :: CurrencyCode

record FXQuoteResponse =
  qs_sell_currency :: CurrencyCode
  qs_sell_amount :: rat
  qs_buy_currency :: CurrencyCode
  qs_buy_amount :: rat
  qs_applied_rate :: rat
  qs_mid_rate :: rat
  qs_spread_bps :: "rat option"
  qs_quote_valid_until :: time

record InitiateFXSettlementRequest =
  fq_sending_account_id :: uuid
  fq_receiving_account_id :: uuid
  fq_sell_currency :: CurrencyCode
  fq_sell_amount :: rat
  fq_buy_currency :: CurrencyCode
  fq_rails :: SettlementRails
  fq_value_date :: "int option"
  fq_metadata :: dict
  fq_idempotency_key :: "string option"

record FXSettleResponse =
  sp_settlement_ref :: string
  sp_status :: SettlementStatus
  sp_sell_currency :: CurrencyCode
  sp_sell_amount :: rat
  sp_buy_currency :: CurrencyCode
  sp_buy_amount :: rat
  sp_applied_rate :: rat
  sp_rails :: SettlementRails
  sp_value_date :: int
  sp_estimated_settlement :: "string option"

text \<open>A rate that is zero is shown as absent, as \<open>str(x) if x else None\<close> does.\<close>

definition dec_shown :: "rat option \<Rightarrow> json" where
  "dec_shown x = (case x of None \<Rightarrow> JNull | Some v \<Rightarrow> if v = 0 then JNull else JDec v)"

definition fx_rate_view :: "FXRate \<Rightarrow> dict" where
  "fx_rate_view r =
     [(''base'', JStr (CurrencyCode_value (fr_base_currency r))),
      (''quote'', JStr (CurrencyCode_value (fr_quote_currency r))),
      (''mid_rate'', JDec (fr_mid_rate r)), (''bid_rate'', dec_shown (fr_bid_rate r)),
      (''ask_rate'', dec_shown (fr_ask_rate r)), (''spread_bps'', dec_shown (fr_spread_bps r)),
      (''source'', JStr (fr_source r)), (''updated_at'', JTime (fr_valid_from r))]"

definition get_fx_rates :: "dict list db_op" where
  "get_fx_rates =
     get_db_session (op_get (\<lambda>s.
       map fx_rate_view (sort_key (\<lambda>r. - fr_valid_from r) (filter fr_is_active (fx_rates s)))))"

text \<open>Times are microseconds.\<close>

definition seconds :: "int \<Rightarrow> time" where "seconds n = n * 1000000"

definition day_of :: "time \<Rightarrow> int" where "day_of t = t div 86400000000"

text \<open>The applied rate, the mid rate shown and the spread shown.\<close>

definition quote_rate ::
  "world \<Rightarrow> CurrencyCode \<Rightarrow> CurrencyCode \<Rightarrow> exn + rat \<times> rat \<times> rat option" where
  "quote_rate s sell buy =
     (case priv_get_live_rate s sell buy of
        Some rate \<Rightarrow>
          (case priv_apply_spread rate ''buy'' None of Inl e \<Rightarrow> Inl e
           | Inr applied \<Rightarrow> Inr (applied, fr_mid_rate rate, fr_spread_bps rate))
      | None \<Rightarrow>
          (case priv_get_live_rate s buy sell of
             None \<Rightarrow> Inl (HTTPException 404 [Txt (''No FX rate available for '' @
               CurrencyCode_value sell @ ''/'' @ CurrencyCode_value buy)])
           | Some inv_rate \<Rightarrow>
               (case priv_apply_spread inv_rate ''sell'' None of Inl e \<Rightarrow> Inl e | Inr sold \<Rightarrow>
                case inverse_rate sold of Inl e \<Rightarrow> Inl e | Inr applied \<Rightarrow>
                case inverse_rate (fr_mid_rate inv_rate) of Inl e \<Rightarrow> Inl e
                | Inr mid \<Rightarrow> Inr (applied, mid, fr_spread_bps inv_rate))))"

definition get_fx_quote :: "FXQuoteRequest \<Rightarrow> FXQuoteResponse db_op" where
  "get_fx_quote req =
     op_bind (gt_zero ''sell_amount'' (qr_sell_amount req)) (\<lambda>_.
     get_db_session (
     op_bind (op_assert (qr_sell_currency req \<noteq> qr_buy_currency req)
       (HTTPException 400 [Txt ''Sell and buy currencies must differ''])) (\<lambda>_.
     op_bind (op_get (\<lambda>s. quote_rate s (qr_sell_currency req) (qr_buy_currency req))) (\<lambda>found.
     op_bind (op_lift found) (\<lambda>(applied, mid, spread).
     op_bind (op_lift (quantize round_half_even 8 (qr_sell_amount req))) (\<lambda>sell_amount.
     op_bind (op_lift (quantize round_down 8 (dec_mul sell_amount applied))) (\<lambda>buy_amount.
     op_bind utcnow (\<lambda>now.
     op_return \<lparr>qs_sell_currency = qr_sell_currency req, qs_sell_amount = sell_amount,
       qs_buy_currency = qr_buy_currency req, qs_buy_amount = buy_amount, qs_applied_rate = applied,
       qs_mid_rate = mid, qs_spread_bps = spread,
       qs_quote_valid_until = now + seconds 30\<rparr>))))))))"

definition find_fx :: "world \<Rightarrow> string \<Rightarrow> FXSettlement option" where
  "find_fx s ref = List.find (\<lambda>r. fs_settlement_ref r = ref) (fx_settlements s)"

definition fx_response :: "FXSettlement \<Rightarrow> FXSettleResponse" where
  "fx_response r =
     \<lparr>sp_settlement_ref = fs_settlement_ref r, sp_status = fs_status r,
      sp_sell_currency = fs_sell_currency r, sp_sell_amount = fs_sell_amount r,
      sp_buy_currency = fs_buy_currency r, sp_buy_amount = fs_buy_amount r,
      sp_applied_rate = fs_applied_rate r, sp_rails = fs_rails r, sp_value_date = fs_value_date r,
      sp_estimated_settlement = None\<rparr>"

definition settlement_rate :: "world \<Rightarrow> CurrencyCode \<Rightarrow> CurrencyCode \<Rightarrow> exn + rat \<times> uuid" where
  "settlement_rate s sell buy =
     (case priv_get_live_rate s sell buy of
        Some rate \<Rightarrow>
          (case priv_apply_spread rate ''buy'' None of Inl e \<Rightarrow> Inl e
           | Inr applied_rate \<Rightarrow> Inr (applied_rate, fr_id rate))
      | None \<Rightarrow>
          (case priv_get_live_rate s buy sell of
             None \<Rightarrow> Inl (HTTPException 404 [Txt ''No FX rate available''])
           | Some inv_rate \<Rightarrow>
               (case priv_apply_spread inv_rate ''sell'' None of Inl e \<Rightarrow> Inl e | Inr sold \<Rightarrow>
                case inverse_rate sold of Inl e \<Rightarrow> Inl e
                | Inr applied_rate \<Rightarrow> Inr (applied_rate, fr_id inv_rate))))"

definition fx_value_date :: "int option \<Rightarrow> int db_op" where
  "fx_value_date d =
     (case d of Some v \<Rightarrow> op_return v | None \<Rightarrow> op_bind utcnow (\<lambda>now. op_return (day_of now)))"

definition new_fx ::
  "string \<Rightarrow> rat \<Rightarrow> rat \<Rightarrow> rat \<Rightarrow> uuid \<Rightarrow> InitiateFXSettlementRequest \<Rightarrow> FXSettlement db_op" where
  "new_fx ref sell_amount buy_amount applied_rate fx_rate_id req =
     op_bind (fx_value_date (fq_value_date req)) (\<lambda>d.
     op_bind uuid4 (\<lambda>i.
     op_bind (op_lift (numeric 28 8 sell_amount)) (\<lambda>sv.
     op_bind (op_lift (numeric 28 8 buy_amount)) (\<lambda>bv.
     op_bind (op_lift (numeric 18 8 applied_rate)) (\<lambda>rv.
     op_bind (op_get txn_now) (\<lambda>t.
     let row = \<lparr>fs_id = i, fs_settlement_ref = ref,
       fs_sending_account_id = fq_sending_account_id req,
       fs_receiving_account_id = fq_receiving_account_id req,
       fs_sell_currency = fq_sell_currency req, fs_sell_amount = sv,
       fs_buy_currency = fq_buy_currency req, fs_buy_amount = bv, fs_applied_rate = rv,
       fs_fx_rate_id = Some fx_rate_id, fs_rails = fq_rails req, fs_status = S_QUEUED,
       fs_sell_txn_id = None, fs_buy_txn_id = None, fs_blockchain_tx_hash = None,
       fs_value_date = d, fs_created_at = t, fs_settled_at = None, fs_metadata = fq_metadata req\<rparr>
     in op_bind (insert_row fx_constraints fx_settlements_update row) (\<lambda>_.
        op_return row)))))))"

definition initiate_fx_settlement :: "InitiateFXSettlementRequest \<Rightarrow> FXSettleResponse db_op" where
  "initiate_fx_settlement req =
     op_bind (gt_zero ''sell_amount'' (fq_sell_amount req)) (\<lambda>_.
     get_db_session (
     op_bind (op_assert (fq_sell_currency req \<noteq> fq_buy_currency req)
       (HTTPException 400 [Txt ''Currency pair must differ''])) (\<lambda>_.
     op_bind (op_get (\<lambda>s. if truthy (fq_idempotency_key req)
       then find_fx s (the (fq_idempotency_key req)) else None)) (\<lambda>existing.
     case existing of Some r \<Rightarrow> op_return (fx_response r) | None \<Rightarrow>
     op_bind (op_get (\<lambda>s. account_active s (fq_sending_account_id req))) (\<lambda>sender_ok.
     op_bind (op_assert sender_ok (HTTPException 404 [Txt ''Sending account not found''])) (\<lambda>_.
     op_bind (op_get (\<lambda>s. account_active s (fq_receiving_account_id req))) (\<lambda>receiver_ok.
     op_bind (op_assert receiver_ok (HTTPException 404 [Txt ''Receiving account not found''])) (\<lambda>_.
     op_bind (op_get (\<lambda>s. settlement_rate s (fq_sell_currency req) (fq_buy_currency req))) (\<lambda>found.
     op_bind (op_lift found) (\<lambda>(applied_rate, fx_rate_id).
     op_bind (op_lift (quantize round_half_even 8 (fq_sell_amount req))) (\<lambda>sell_amount.
     op_bind (op_lift (quantize round_down 8 (dec_mul sell_amount applied_rate))) (\<lambda>buy_amount.
     op_bind (key_or_fresh (fq_idempotency_key req) ''FXS-'') (\<lambda>ref.
     op_bind (new_fx ref sell_amount buy_amount applied_rate fx_rate_id req) (\<lambda>fx.
     op_bind (record_status FXSettlementStatusHistory (fs_id fx) ''queued'' None no_extra) (\<lambda>_.
     op_bind (emit FxSettlementSvc ref ''fx.settlement.initiated''
       (FXSettlementInitiated ref (fq_sending_account_id req) (fq_receiving_account_id req)
          (fq_sell_currency req) sell_amount (fq_buy_currency req) buy_amount applied_rate
          (fq_rails req))) (\<lambda>_.
     op_return \<lparr>sp_settlement_ref = ref, sp_status = fs_status fx,
       sp_sell_currency = fq_sell_currency req, sp_sell_amount = sell_amount,
       sp_buy_currency = fq_buy_currency req, sp_buy_amount = buy_amount,
       sp_applied_rate = applied_rate, sp_rails = fq_rails req,
       sp_value_date = fs_value_date fx, sp_estimated_settlement = Some (if fq_rails req = R_BLOCKCHAIN
         then ''< 5 seconds (blockchain)'' else ''T+1'')\<rparr>))))))))))))))))"

record FXSettlementView = FXSettleResponse +
  sp_blockchain_tx_hash :: "string option"
  sp_sell_txn_id :: "uuid option"
  sp_buy_txn_id :: "uuid option"
  sp_created_at :: time
  sp_settled_at :: "time option"
  sp_token_leg :: json
  sp_fiat_leg :: json

definition fx_view :: "FXSettlement \<Rightarrow> FXSettlementView" where
  "fx_view fx =
     FXSettleResponse.extend (fx_response fx)
       (FXSettlementView.fields (fs_blockchain_tx_hash fx) (fs_sell_txn_id fx) (fs_buy_txn_id fx)
          (fs_created_at fx) (fs_settled_at fx) (dict_get (fs_metadata fx) ''token_leg'' JNull)
          (dict_get (fs_metadata fx) ''fiat_leg'' JNull))"

definition get_fx_settlement :: "string \<Rightarrow> FXSettlementView db_op" where
  "get_fx_settlement settlement_ref =
     get_db_session (
     op_bind (op_get (\<lambda>s. find_fx s settlement_ref)) (\<lambda>r.
     case r of None \<Rightarrow> op_raise (HTTPException 404 [Txt ''FX settlement not found''])
     | Some x \<Rightarrow> op_return (fx_view x)))"

section \<open>One leg\<close>

lemma wp_update_fx [wp_simps]:
  "wp (update_fx i f) s Q E \<longleftrightarrow>
     Q () (s\<lparr>fx_settlements := map_where (\<lambda>r. fs_id r = i) f (fx_settlements s)\<rparr>)"
  by (simp add: update_fx_def wp_simps)

text \<open>What a leg writes once its balance check passed.\<close>

definition post_leg :: "uuid \<Rightarrow> uuid \<Rightarrow> CurrencyCode \<Rightarrow> rat \<Rightarrow> string \<Rightarrow> string \<Rightarrow> uuid db_op" where
  "post_leg debit_id credit_id currency amount narrative leg_type =
     op_bind (key_or_fresh None ''FX-'') (\<lambda>ref.
     op_bind (new_transaction ref debit_id credit_id currency amount ''fx_leg'' None []) (\<lambda>txn_id.
     op_bind (record_journal_pair debit_id (fst (leg_codes leg_type currency)) currency amount
       ''fx_leg'' txn_id credit_id (snd (leg_codes leg_type currency)) narrative) (\<lambda>_.
     op_bind (record_status TransactionStatusHistory txn_id ''completed'' None no_extra) (\<lambda>_.
     op_return txn_id))))"

definition short_msg :: "uuid \<Rightarrow> CurrencyCode \<Rightarrow> rat \<Rightarrow> fstr" where
  "short_msg a c available =
     [Txt (''Insufficient '' @ CurrencyCode_value c @ '' balance for '' @ uuid_str a @
        '': available=''), Dec available]"

lemma no_ValueError_post_leg [simp]: "no_ValueError (post_leg d k c v narr ty)"
  unfolding post_leg_def
  by (intro no_ValueError_bind no_ValueError_transaction no_ValueError_journal)
     (auto simp: no_ValueError_def key_or_fresh_def op_simps)

lemma wp_leg:
  "wp (priv_execute_leg d k c v narr ty) s Q E \<longleftrightarrow>
     (let bal = balance_of (journal_entries s) d c (fst (leg_codes ty c));
          t = s\<lparr>advisory_locks := lock_key (sha256_hex s) d c # advisory_locks s\<rparr>
      in if v \<le> bal then wp (post_leg d k c v narr ty) t Q E
         else E (ValueError (short_msg d c bal)) t)"
  by (simp add: priv_execute_leg_def post_leg_def short_msg_def wp_simps Let_def)

section \<open>Outcomes\<close>

text \<open>What no step of the worker changes in a row.\<close>

definition same_swap :: "FXSettlement \<Rightarrow> FXSettlement \<Rightarrow> bool" where
  "same_swap q q' \<longleftrightarrow>
     fs_id q' = fs_id q \<and> fs_settlement_ref q' = fs_settlement_ref q \<and>
     fs_sending_account_id q' = fs_sending_account_id q \<and>
     fs_receiving_account_id q' = fs_receiving_account_id q \<and>
     fs_sell_currency q' = fs_sell_currency q \<and> fs_sell_amount q' = fs_sell_amount q \<and>
     fs_buy_currency q' = fs_buy_currency q \<and> fs_buy_amount q' = fs_buy_amount q \<and>
     fs_applied_rate q' = fs_applied_rate q \<and> fs_rails q' = fs_rails q"

definition sell_tx :: "FXSettlement \<Rightarrow> Transaction \<Rightarrow> bool" where
  "sell_tx r t \<longleftrightarrow>
     tx_debit_account_id t = fs_sending_account_id r \<and>
     tx_credit_account_id t = nostro_of (fs_sell_currency r) \<and>
     tx_currency t = fs_sell_currency r \<and> tx_amount t = fs_sell_amount r"

definition buy_tx :: "FXSettlement \<Rightarrow> Transaction \<Rightarrow> bool" where
  "buy_tx r t \<longleftrightarrow>
     tx_debit_account_id t = nostro_of (fs_buy_currency r) \<and>
     tx_credit_account_id t = fs_receiving_account_id r \<and>
     tx_currency t = fs_buy_currency r \<and> tx_amount t = fs_buy_amount r"

abbreviation sell_posted where
  "sell_posted r \<equiv> posted (fs_sell_currency r) (fs_sell_amount r)
     (fs_sending_account_id r, ''INSTITUTION_LIABILITY'')
     (nostro_of (fs_sell_currency r), nostro_code (fs_sell_currency r))"

abbreviation buy_posted where
  "buy_posted r \<equiv> posted (fs_buy_currency r) (fs_buy_amount r)
     (nostro_of (fs_buy_currency r), nostro_code (fs_buy_currency r))
     (fs_receiving_account_id r, ''INSTITUTION_LIABILITY'')"

abbreviation nostro_balance :: "world \<Rightarrow> CurrencyCode \<Rightarrow> rat" where
  "nostro_balance s c \<equiv> get_balance s (nostro_of c) c (nostro_code c)"

definition swapped :: "FXSettlement \<Rightarrow> world \<Rightarrow> world \<Rightarrow> bool" where
  "swapped r s s' \<longleftrightarrow>
     0 < fs_sell_amount r \<and> 0 < fs_buy_amount r \<and>
     fs_sell_amount r \<le> liability s (fs_sending_account_id r) (fs_sell_currency r) \<and>
     (\<exists>js. sell_posted r (journal_entries s) js \<and> buy_posted r js (journal_entries s')) \<and>
     (\<exists>t1 t2. transactions s' = transactions s @ [t1, t2] \<and> sell_tx r t1 \<and> buy_tx r t2 \<and>
        changed_where (\<lambda>q. fs_id q = fs_id r) (\<lambda>q q'. same_swap q q' \<and> fs_status q' = S_SETTLED \<and>
          fs_settled_at q' \<noteq> None \<and> fs_sell_txn_id q' = Some (tx_id t1) \<and>
          fs_buy_txn_id q' = Some (tx_id t2) \<and> fs_blockchain_tx_hash q' \<noteq> None)
          (fx_settlements s) (fx_settlements s')) \<and>
     map sh_status (drop (length (status_history s)) (status_history s')) =
       [''processing'', ''completed'', ''completed'', ''settled''] \<and>
     map oe_event_type (drop (length (outbox_events s)) (outbox_events s')) =
       [''fx.settlement.leg.completed'', ''fx.settlement.leg.completed'', ''fx.settlement.completed''] \<and>
     fs_sending_account_id r \<in> acc_id ` set (accounts s) \<and>
     fs_receiving_account_id r \<in> acc_id ` set (accounts s) \<and>
     accounts s' = accounts s \<and> escrow_holds s' = escrow_holds s"

text \<open>The sender was short: nothing was posted.\<close>

definition refused :: "FXSettlement \<Rightarrow> world \<Rightarrow> world \<Rightarrow> bool" where
  "refused r s s' \<longleftrightarrow>
     liability s (fs_sending_account_id r) (fs_sell_currency r) < fs_sell_amount r \<and>
     journal_entries s' = journal_entries s \<and> transactions s' = transactions s \<and>
     changed_where (\<lambda>q. fs_id q = fs_id r) (\<lambda>q q'. same_swap q q' \<and> fs_status q' = S_FAILED \<and>
         fs_sell_txn_id q' = fs_sell_txn_id q \<and> fs_buy_txn_id q' = fs_buy_txn_id q)
       (fx_settlements s) (fx_settlements s') \<and>
     map oe_event_type (drop (length (outbox_events s)) (outbox_events s')) =
       [''fx.settlement.failed''] \<and>
     accounts s' = accounts s \<and> escrow_holds s' = escrow_holds s"

text \<open>The nostro was short after the sell leg had been written: the sell leg stays.\<close>

definition half_done :: "FXSettlement \<Rightarrow> world \<Rightarrow> world \<Rightarrow> bool" where
  "half_done r s s' \<longleftrightarrow>
     0 < fs_sell_amount r \<and>
     fs_sell_amount r \<le> liability s (fs_sending_account_id r) (fs_sell_currency r) \<and>
     sell_posted r (journal_entries s) (journal_entries s') \<and>
     (\<exists>t1. transactions s' = transactions s @ [t1] \<and> sell_tx r t1 \<and>
        changed_where (\<lambda>q. fs_id q = fs_id r) (\<lambda>q q'. same_swap q q' \<and> fs_status q' = S_FAILED \<and>
            fs_sell_txn_id q' = Some (tx_id t1) \<and> fs_buy_txn_id q' = fs_buy_txn_id q)
          (fx_settlements s) (fx_settlements s')) \<and>
     map oe_event_type (drop (length (outbox_events s)) (outbox_events s')) =
       [''fx.settlement.leg.completed'', ''fx.settlement.failed''] \<and>
     fs_sending_account_id r \<in> acc_id ` set (accounts s) \<and>
     accounts s' = accounts s \<and> escrow_holds s' = escrow_holds s"

lemma leg_codes_simps [simp]:
  "leg_codes ''sell'' c = (''INSTITUTION_LIABILITY'', nostro_code c)"
  "leg_codes ''buy'' c = (nostro_code c, ''INSTITUTION_LIABILITY'')"
  by (simp_all add: leg_codes_def)

lemma posted_pairs [simp]:
  "\<exists>js. posted c v (a, coa) (b, coa') js0 js \<and> posted d w (x, coa2) (y, coa2') js
     (js0 @ pair_rows j1 i1 i2 t1 a coa c v et1 ref1 b coa' n1 @
        pair_rows j2 i3 i4 t2 x coa2 d w et2 ref2 y coa2' n2)"
  unfolding append_assoc [symmetric] by (blast intro: posted_pair)

lemma wp_process_fx:
  assumes "numeric 28 8 (fs_sell_amount r) = Inr (fs_sell_amount r)"
    and "numeric 28 8 (fs_buy_amount r) = Inr (fs_buy_amount r)"
  shows "wp (priv_process_fx_settlement gw r) s
     (\<lambda>b s'. if b then swapped r s s' else refused r s s' \<or> half_done r s s') partial"
  using numeric_stored [OF assms(1)] numeric_stored [OF assms(2)]
  apply (simp add: priv_process_fx_settlement_def sell_leg_def buy_leg_def finalise_fx_def
      fail_fx_def wp_simps wp_leg Let_def)
  apply (simp add: post_leg_def wp_simps Let_def)
  apply (simp add: swapped_def refused_def half_done_def can_book_def can_post_def map_where_twice
      sell_tx_def buy_tx_def)
  apply (intro conjI impI disjI2 exI changed_map_where)
  apply (simp_all (no_asm_simp) add: same_swap_def)
  done

section \<open>When both legs go through\<close>

text \<open>The draws that name the two transactions and their references.\<close>

definition legs_fresh :: "world \<Rightarrow> bool" where
  "legs_fresh s \<longleftrightarrow>
     (let u = (\<lambda>k. rng s (k + ticks s)); ref = (\<lambda>k. ''FX-'' @ hex16_upper (u k))
      in u 3 \<noteq> u 13 \<and> ref 1 \<noteq> ref 11 \<and>
         (\<forall>q \<in> set (transactions s). tx_id q \<notin> {u 3, u 13} \<and> tx_ref q \<notin> {ref 1, ref 11}))"

definition leg_ok :: "world \<Rightarrow> CurrencyCode \<Rightarrow> uuid \<Rightarrow> rat \<Rightarrow> bool" where
  "leg_ok s c a v \<longleftrightarrow>
     c \<in> {USD, EUR, GBP} \<and> a \<noteq> nostro_of c \<and>
     {a, nostro_of c} \<subseteq> acc_id ` set (accounts s) \<and>
     numeric 28 8 v = Inr v \<and> 0 < v"

definition can_swap :: "world \<Rightarrow> FXSettlement \<Rightarrow> bool" where
  "can_swap s r \<longleftrightarrow>
     fs_sell_amount r \<le> liability s (fs_sending_account_id r) (fs_sell_currency r) \<and>
     fs_buy_amount r \<le> nostro_balance s (fs_buy_currency r) \<and>
     fs_sell_currency r \<noteq> fs_buy_currency r \<and>
     leg_ok s (fs_sell_currency r) (fs_sending_account_id r) (fs_sell_amount r) \<and>
     leg_ok s (fs_buy_currency r) (fs_receiving_account_id r) (fs_buy_amount r) \<and> legs_fresh s"

lemma nostro_code_chart: "c \<in> {USD, EUR, GBP} \<Longrightarrow> nostro_code c \<in> set chart_of_accounts"
  by (auto simp: nostro_code_def chart_of_accounts_def)

lemma liability_chart: "''INSTITUTION_LIABILITY'' \<in> set chart_of_accounts"
  by (simp add: chart_of_accounts_def)

lemma wp_post_leg_total:
  assumes n: "numeric 28 8 v = Inr v"
    and "can_book (accounts s) (transactions s) (rng s (ticks s + 2))
      (''FX-'' @ hex16_upper (rng s (ticks s))) d k v None"
    and "can_post (accounts s) d (fst (leg_codes ty c)) k (snd (leg_codes ty c))"
  shows "wp (post_leg d k c v narr ty) s Q E \<longleftrightarrow>
    Q (rng s (ticks s + 2)) (s\<lparr>
      transactions := transactions s @ [transaction_row (rng s (ticks s + 2)) (txn_now s)
        (clock s (ticks s + 1)) (''FX-'' @ hex16_upper (rng s (ticks s))) d k c v ''fx_leg'' None []],
      journal_entries := journal_entries s @ pair_rows (rng s (ticks s + 3)) (rng s (ticks s + 4))
        (rng s (ticks s + 5)) (txn_now s) d (fst (leg_codes ty c)) c v ''fx_leg''
        (rng s (ticks s + 2)) k (snd (leg_codes ty c)) narr,
      ticks := ticks s + 7,
      status_history := status_history s @ [history_row (rng s (ticks s + 6)) (txn_now s)
        TransactionStatusHistory (rng s (ticks s + 2)) ''completed'' None no_extra]\<rparr>)"
  using assms(2,3)
  by (simp add: post_leg_def wp_simps wp_transaction_total [OF n]
      wp_journal_pair_total [OF numeric_stored(2) [OF n]] eval_nat_numeral)

lemma wp_process_swaps:
  assumes "can_swap s r"
  shows "wp (priv_process_fx_settlement gw r) s (\<lambda>b _. b) total"
proof -
  have n: "numeric 28 8 (fs_sell_amount r) = Inr (fs_sell_amount r)"
    "numeric 28 8 (fs_buy_amount r) = Inr (fs_buy_amount r)"
    using assms by (simp_all add: can_swap_def leg_ok_def)
  have e: "Suc (Suc (Suc (ticks s))) = 3 + ticks s" by simp
  have ne: "fs_buy_currency r \<noteq> fs_sell_currency r" using assms by (auto simp: can_swap_def)
  show ?thesis
    using assms ne nostro_code_chart liability_chart
    apply (simp add: priv_process_fx_settlement_def sell_leg_def buy_leg_def finalise_fx_def
        wp_simps wp_leg Let_def can_swap_def leg_ok_def legs_fresh_def
        wp_post_leg_total [OF n(1)] wp_post_leg_total [OF n(2)]
        can_book_def can_post_def balance_of_append balance_of_pair e)
    done
qed

lemma wp_process_half:
  assumes "fs_sell_amount r \<le> liability s (fs_sending_account_id r) (fs_sell_currency r)"
    and "leg_ok s (fs_sell_currency r) (fs_sending_account_id r) (fs_sell_amount r)"
    and "legs_fresh s" "fs_sell_currency r \<noteq> fs_buy_currency r"
    and "nostro_balance s (fs_buy_currency r) < fs_buy_amount r"
  shows "wp (priv_process_fx_settlement gw r) s (\<lambda>b _. \<not> b) total"
proof -
  have n: "numeric 28 8 (fs_sell_amount r) = Inr (fs_sell_amount r)"
    using assms by (simp add: leg_ok_def)
  have e: "Suc (Suc (Suc (ticks s))) = 3 + ticks s" by simp
  have ne: "fs_buy_currency r \<noteq> fs_sell_currency r" using assms(4) by simp
  show ?thesis
    using assms ne nostro_code_chart liability_chart
    by (simp add: priv_process_fx_settlement_def sell_leg_def buy_leg_def fail_fx_def
        wp_simps wp_leg Let_def leg_ok_def legs_fresh_def wp_post_leg_total [OF n]
        can_book_def can_post_def balance_of_append balance_of_pair e)
qed

lemma wp_process_refused:
  assumes "liability s (fs_sending_account_id r) (fs_sell_currency r) < fs_sell_amount r"
  shows "wp (priv_process_fx_settlement gw r) s (\<lambda>b _. \<not> b) total"
  using assms
  by (simp add: priv_process_fx_settlement_def sell_leg_def fail_fx_def wp_simps wp_leg Let_def)

section \<open>The life of a settlement\<close>

definition both_legs :: "Transaction list \<Rightarrow> FXSettlement \<Rightarrow> bool" where
  "both_legs txs r \<longleftrightarrow>
     (\<exists>t1 \<in> set txs. \<exists>t2 \<in> set txs. sell_tx r t1 \<and> buy_tx r t2 \<and>
        fs_sell_txn_id r = Some (tx_id t1) \<and> fs_buy_txn_id r = Some (tx_id t2))"

definition sell_only :: "Transaction list \<Rightarrow> FXSettlement \<Rightarrow> bool" where
  "sell_only txs r \<longleftrightarrow>
     fs_buy_txn_id r = None \<and>
     (\<exists>t1 \<in> set txs. sell_tx r t1 \<and> fs_sell_txn_id r = Some (tx_id t1))"

abbreviation no_leg :: "FXSettlement \<Rightarrow> bool" where
  "no_leg r \<equiv> fs_sell_txn_id r = None \<and> fs_buy_txn_id r = None"

definition fx_lifecycle :: "Transaction list \<Rightarrow> FXSettlement \<Rightarrow> bool" where
  "fx_lifecycle txs r \<longleftrightarrow>
     numeric 28 8 (fs_sell_amount r) = Inr (fs_sell_amount r) \<and>
     numeric 28 8 (fs_buy_amount r) = Inr (fs_buy_amount r) \<and>
     (case fs_status r of
        S_QUEUED \<Rightarrow> no_leg r
      | S_SETTLED \<Rightarrow> both_legs txs r
      | S_FAILED \<Rightarrow> no_leg r \<or> sell_only txs r
      | _ \<Rightarrow> False)"

definition fx_inv :: "world \<Rightarrow> bool" where
  "fx_inv s \<longleftrightarrow>
     distinct (map fs_id (fx_settlements s)) \<and>
     (\<forall>r \<in> set (fx_settlements s). fx_lifecycle (transactions s) r)"

lemma fx_lifecycle_mono:
  "fx_lifecycle txs r \<Longrightarrow> set txs \<subseteq> set txs' \<Longrightarrow> fx_lifecycle txs' r"
  by (auto simp: fx_lifecycle_def both_legs_def sell_only_def split: SettlementStatus.splits)

lemma changed_fx:
  assumes inv: "fx_inv s" and r: "r \<in> set (fx_settlements s)"
    and ch: "changed_where (\<lambda>q. fs_id q = fs_id r) R (fx_settlements s) rows'"
    and id: "\<And>q q'. R q q' \<Longrightarrow> fs_id q' = fs_id q"
    and life: "\<And>q'. R r q' \<Longrightarrow> fx_lifecycle txs' q'"
    and mono: "set (transactions s) \<subseteq> set txs'"
  shows "distinct (map fs_id rows') \<and> (\<forall>q' \<in> set rows'. fx_lifecycle txs' q')"
  using inv mono unfolding fx_inv_def
  by (intro changed_where_all [OF ch r id life]) (auto intro: fx_lifecycle_mono)

definition fx_ok :: "world \<Rightarrow> world \<Rightarrow> bool" where
  "fx_ok s s' \<longleftrightarrow>
     fx_inv s' \<and> accounts s' = accounts s \<and>
     (solvent (journal_entries s) \<longrightarrow> solvent (journal_entries s'))"

lemma same_swap_legs:
  "same_swap r q \<Longrightarrow> sell_tx q t \<longleftrightarrow> sell_tx r t"
  "same_swap r q \<Longrightarrow> buy_tx q t \<longleftrightarrow> buy_tx r t"
  "same_swap r q \<Longrightarrow> fs_sell_amount q = fs_sell_amount r"
  "same_swap r q \<Longrightarrow> fs_buy_amount q = fs_buy_amount r"
  "same_swap r q \<Longrightarrow> fs_id q = fs_id r"
  by (simp_all add: same_swap_def sell_tx_def buy_tx_def)

lemma nostro_code_not_liability [simp]: "nostro_code c \<noteq> ''INSTITUTION_LIABILITY''"
  by (simp add: nostro_code_def)

text \<open>A debit that the liability covers, or a credit, keeps everybody out of debt.\<close>

lemma sell_posted_solvent:
  assumes "posted c v (a, ''INSTITUTION_LIABILITY'') (b, coa) js js'" "coa \<noteq> ''INSTITUTION_LIABILITY''"
    and "v \<le> balance_of js a c ''INSTITUTION_LIABILITY''" "solvent js"
  shows "solvent js'"
  using assms(2-4) posted_balance [OF assms(1)] by (auto simp: solvent_def)

lemma buy_posted_solvent:
  assumes "posted c v (b, coa) (a, ''INSTITUTION_LIABILITY'') js js'" "coa \<noteq> ''INSTITUTION_LIABILITY''"
    and "0 \<le> v" "solvent js"
  shows "solvent js'"
  using assms(2-4) posted_balance [OF assms(1)]
  by (auto simp: solvent_def intro: order_trans [of "- v" 0])

abbreviation others_kept :: "FXSettlement \<Rightarrow> world \<Rightarrow> world \<Rightarrow> bool" where
  "others_kept r s s' \<equiv>
     \<forall>q \<in> set (fx_settlements s). fs_id q \<noteq> fs_id r \<longrightarrow> q \<in> set (fx_settlements s')"

definition queued_row :: "world \<Rightarrow> FXSettlement \<Rightarrow> bool" where
  "queued_row s r \<longleftrightarrow> fx_inv s \<and> r \<in> set (fx_settlements s) \<and> fs_status r = S_QUEUED"

lemma queued_rowD:
  assumes "queued_row s r"
  shows "fx_inv s" "r \<in> set (fx_settlements s)" "no_leg r"
    "numeric 28 8 (fs_sell_amount r) = Inr (fs_sell_amount r)"
    "numeric 28 8 (fs_buy_amount r) = Inr (fs_buy_amount r)"
proof -
  have "fx_lifecycle (transactions s) r" using assms by (simp add: queued_row_def fx_inv_def)
  then show "fx_inv s" "r \<in> set (fx_settlements s)" "no_leg r"
    "numeric 28 8 (fs_sell_amount r) = Inr (fs_sell_amount r)"
    "numeric 28 8 (fs_buy_amount r) = Inr (fs_buy_amount r)"
    using assms by (simp_all add: fx_lifecycle_def queued_row_def)
qed

lemma swapped_ok:
  assumes row: "queued_row s r" and eff: "swapped r s s'"
  shows "fx_ok s s' \<and> others_kept r s s'"
proof -
  obtain t1 t2 js where tx: "transactions s' = transactions s @ [t1, t2]" "sell_tx r t1" "buy_tx r t2"
    and ch: "changed_where (\<lambda>q. fs_id q = fs_id r) (\<lambda>q q'. same_swap q q' \<and> fs_status q' = S_SETTLED \<and>
          fs_settled_at q' \<noteq> None \<and> fs_sell_txn_id q' = Some (tx_id t1) \<and>
          fs_buy_txn_id q' = Some (tx_id t2) \<and> fs_blockchain_tx_hash q' \<noteq> None)
          (fx_settlements s) (fx_settlements s')"
    and js: "sell_posted r (journal_entries s) js" "buy_posted r js (journal_entries s')"
    using eff unfolding swapped_def by blast
  have "fx_inv s'"
    unfolding fx_inv_def
    by (rule changed_fx [OF queued_rowD(1,2) [OF row] ch])
       (use queued_rowD(4,5) [OF row] tx in \<open>auto simp: same_swap_legs fx_lifecycle_def both_legs_def\<close>)
  moreover have "solvent (journal_entries s) \<Longrightarrow> solvent (journal_entries s')"
    using sell_posted_solvent [OF js(1)] buy_posted_solvent [OF js(2)] eff by (simp add: swapped_def)
  moreover note changed_where_keeps [OF ch]
  ultimately show ?thesis using eff by (auto simp: fx_ok_def swapped_def)
qed

lemma refused_ok:
  assumes row: "queued_row s r" and eff: "refused r s s'"
  shows "fx_ok s s' \<and> others_kept r s s'"
proof -
  have tx: "transactions s' = transactions s"
    and ch: "changed_where (\<lambda>q. fs_id q = fs_id r) (\<lambda>q q'. same_swap q q' \<and> fs_status q' = S_FAILED \<and>
         fs_sell_txn_id q' = fs_sell_txn_id q \<and> fs_buy_txn_id q' = fs_buy_txn_id q)
         (fx_settlements s) (fx_settlements s')"
    using eff unfolding refused_def by blast+
  have "fx_inv s'"
    unfolding fx_inv_def
    by (rule changed_fx [OF queued_rowD(1,2) [OF row] ch])
       (use queued_rowD(3-5) [OF row] tx in \<open>auto simp: same_swap_legs fx_lifecycle_def\<close>)
  moreover note changed_where_keeps [OF ch]
  ultimately show ?thesis using eff by (auto simp: fx_ok_def refused_def)
qed

lemma half_done_ok:
  assumes row: "queued_row s r" and eff: "half_done r s s'"
  shows "fx_ok s s' \<and> others_kept r s s'"
proof -
  obtain t1 where tx: "transactions s' = transactions s @ [t1]" "sell_tx r t1"
    and ch: "changed_where (\<lambda>q. fs_id q = fs_id r) (\<lambda>q q'. same_swap q q' \<and> fs_status q' = S_FAILED \<and>
            fs_sell_txn_id q' = Some (tx_id t1) \<and> fs_buy_txn_id q' = fs_buy_txn_id q)
          (fx_settlements s) (fx_settlements s')"
    and js: "sell_posted r (journal_entries s) (journal_entries s')"
    using eff unfolding half_done_def by blast
  have "fx_inv s'"
    unfolding fx_inv_def
    by (rule changed_fx [OF queued_rowD(1,2) [OF row] ch])
       (use queued_rowD(3-5) [OF row] tx in \<open>auto simp: same_swap_legs fx_lifecycle_def sell_only_def\<close>)
  moreover have "solvent (journal_entries s) \<Longrightarrow> solvent (journal_entries s')"
    using sell_posted_solvent [OF js] eff by (simp add: half_done_def)
  moreover note changed_where_keeps [OF ch]
  ultimately show ?thesis using eff by (auto simp: fx_ok_def half_done_def)
qed

lemma process_fx_ok:
  assumes row: "queued_row s r" and run: "priv_process_fx_settlement gw r s = (Inr b, s')"
  shows "fx_ok s s' \<and> others_kept r s s'"
proof -
  from wp_Inr [OF wp_process_fx [OF queued_rowD(4,5) [OF row]] run]
  consider "swapped r s s'" | "refused r s s'" | "half_done r s s'" by (auto split: if_splits)
  then show ?thesis
    by cases (rule swapped_ok [OF row] refused_ok [OF row] half_done_ok [OF row]; assumption)+
qed

lemma fx_inv_same_tables: "fx_inv s \<Longrightarrow> same_tables s s' \<Longrightarrow> fx_inv s'"
  by (simp add: fx_inv_def same_tables_eqs)

interpretation fx_worker: batch_worker "priv_process_fx_settlement gw" fx_settlements fs_id
  "\<lambda>r. fs_status r = S_QUEUED" pending_fx fx_inv fx_ok
  for gw
proof
  show "fx_ok s s'" if "fx_inv s" "same_tables s s'" for s s'
    using that fx_inv_same_tables by (auto simp: fx_ok_def same_tables_eqs)
  show "distinct (map fs_id (pending_fx s)) \<and>
      (\<forall>r \<in> set (pending_fx s). r \<in> set (fx_settlements s) \<and> fs_status r = S_QUEUED)"
    if "fx_inv s" for s
    using that unfolding pending_fx_def fx_inv_def by (intro take_ready) simp
next
  show "fx_ok s s' \<and> others_kept r s s'" if "fx_inv s" "r \<in> set (fx_settlements s)"
    "fs_status r = S_QUEUED" "priv_process_fx_settlement gw r s = (Inr b, s')" for s s' r b
    using that by (intro process_fx_ok) (simp_all add: queued_row_def)
qed (auto simp: fx_ok_def)

lemmas fx_cycle_ok = fx_worker.pass_ok [folded fx_cycle_def]

section \<open>Initiation\<close>

lemma live_rate_begin [simp]: "priv_get_live_rate (begin_txn s) a b = priv_get_live_rate s a b"
  by (simp add: priv_get_live_rate_def)

lemma rates_begin [simp]:
  "settlement_rate (begin_txn s) a b = settlement_rate s a b"
  "quote_rate (begin_txn s) a b = quote_rate s a b" "find_fx (begin_txn s) ref = find_fx s ref"
  by (simp_all add: settlement_rate_def quote_rate_def find_fx_def cong: option.case_cong)

lemma apply_spread_on_grid: "priv_apply_spread r d b = Inr x \<Longrightarrow> on_grid 8 x"
  by (auto simp: priv_apply_spread_def Let_def split: sum.splits if_splits dest: quantize_on_grid)

lemma inverse_on_grid: "inverse_rate x = Inr y \<Longrightarrow> on_grid 8 y"
  by (auto simp: inverse_rate_def split: sum.splits dest: quantize_on_grid)

lemma settlement_rate_on_grid: "settlement_rate s a b = Inr (x, i) \<Longrightarrow> on_grid 8 x"
  by (auto simp: settlement_rate_def split: option.splits sum.splits
      dest: apply_spread_on_grid inverse_on_grid)

definition fx_row ::
  "uuid \<Rightarrow> time \<Rightarrow> int \<Rightarrow> string \<Rightarrow> rat \<Rightarrow> rat \<Rightarrow> rat \<Rightarrow> uuid \<Rightarrow> InitiateFXSettlementRequest \<Rightarrow> FXSettlement" where
  "fx_row i t d ref sv bv rv rate_id req =
     \<lparr>fs_id = i, fs_settlement_ref = ref,
       fs_sending_account_id = fq_sending_account_id req,
       fs_receiving_account_id = fq_receiving_account_id req,
       fs_sell_currency = fq_sell_currency req, fs_sell_amount = sv,
       fs_buy_currency = fq_buy_currency req, fs_buy_amount = bv, fs_applied_rate = rv,
       fs_fx_rate_id = Some rate_id, fs_rails = fq_rails req, fs_status = S_QUEUED,
       fs_sell_txn_id = None, fs_buy_txn_id = None, fs_blockchain_tx_hash = None,
       fs_value_date = d, fs_created_at = t, fs_settled_at = None, fs_metadata = fq_metadata req\<rparr>"

lemma fx_row_simps [simp]:
  "fs_id (fx_row i t d ref sv bv rv rate_id req) = i"
  "fs_settlement_ref (fx_row i t d ref sv bv rv rate_id req) = ref"
  "fs_status (fx_row i t d ref sv bv rv rate_id req) = S_QUEUED"
  "fs_sell_amount (fx_row i t d ref sv bv rv rate_id req) = sv"
  "fs_buy_amount (fx_row i t d ref sv bv rv rate_id req) = bv"
  "fs_applied_rate (fx_row i t d ref sv bv rv rate_id req) = rv"
  "fs_value_date (fx_row i t d ref sv bv rv rate_id req) = d"
  "fs_sell_currency (fx_row i t d ref sv bv rv rate_id req) = fq_sell_currency req"
  "fs_buy_currency (fx_row i t d ref sv bv rv rate_id req) = fq_buy_currency req"
  "fs_rails (fx_row i t d ref sv bv rv rate_id req) = fq_rails req"
  "fs_sell_txn_id (fx_row i t d ref sv bv rv rate_id req) = None"
  "fs_buy_txn_id (fx_row i t d ref sv bv rv rate_id req) = None"
  by (simp_all add: fx_row_def)

lemma wp_new_fx [wp_simps]:
  "wp (new_fx ref sa ba ar rate_id req) s Q partial \<longleftrightarrow>
     (\<forall>sv bv rv. numeric 28 8 sa = Inr sv \<longrightarrow> numeric 28 8 ba = Inr bv \<longrightarrow> numeric 18 8 ar = Inr rv \<longrightarrow>
        wp (fx_value_date (fq_value_date req)) s (\<lambda>d t.
          valid_row fx_constraints (t\<lparr>ticks := Suc (ticks t)\<rparr>) (fx_row (rng t (ticks t)) (txn_now t) d ref sv bv rv rate_id req) \<longrightarrow>
          Q (fx_row (rng t (ticks t)) (txn_now t) d ref sv bv rv rate_id req)
            (t\<lparr>ticks := Suc (ticks t), fx_settlements := fx_settlements t @
               [fx_row (rng t (ticks t)) (txn_now t) d ref sv bv rv rate_id req]\<rparr>)) partial)"
  by (cases "fq_value_date req"; cases "numeric 28 8 sa"; cases "numeric 28 8 ba"; cases "numeric 18 8 ar")
     (simp_all add: new_fx_def fx_value_date_def wp_simps Let_def flip: fx_row_def)

text \<open>What a request is answered when its key is taken.\<close>

definition fx_shown :: "world \<Rightarrow> InitiateFXSettlementRequest \<Rightarrow> FXSettleResponse option" where
  "fx_shown s req =
     (if 0 < fq_sell_amount req \<and> fq_sell_currency req \<noteq> fq_buy_currency req \<and>
         truthy (fq_idempotency_key req)
      then map_option fx_response (find_fx s (the (fq_idempotency_key req))) else None)"

lemma wp_initiate_created:
  "wp (initiate_fx_settlement req) s (\<lambda>resp s'. truthy (fq_idempotency_key req) \<longrightarrow>
     fx_shown s' req = Some (resp\<lparr>sp_estimated_settlement := None\<rparr>)) partial"
  apply (simp add: initiate_fx_settlement_def wp_simps Let_def fx_value_date_def
      split: option.splits sum.splits)
  apply (auto simp: fx_shown_def fx_response_def find_fx_def find_append_new
      dest: settlement_rate_on_grid quantize_on_grid numeric_exact)
  done

lemma wp_initiate_replayed:
  assumes "truthy (fq_idempotency_key req)" "fx_shown s req = Some resp"
  shows "wp (initiate_fx_settlement req) s (\<lambda>r s'. r = resp \<and> same_tables s s') total"
  using assms by (auto simp: initiate_fx_settlement_def fx_shown_def wp_simps split: if_splits)

text \<open>The answer without the estimate, which only the first request is given.\<close>

definition initiate_core :: "InitiateFXSettlementRequest \<Rightarrow> FXSettleResponse db_op" where
  "initiate_core req =
     op_bind (initiate_fx_settlement req) (\<lambda>r. op_return (r\<lparr>sp_estimated_settlement := None\<rparr>))"

lemma fx_shown_estimate: "fx_shown s req = Some r \<Longrightarrow> sp_estimated_settlement r = None"
  by (auto simp: fx_shown_def fx_response_def split: if_splits)

lemma fx_shown_same: "same_tables s t \<Longrightarrow> fx_shown t req = fx_shown s req"
  by (simp add: fx_shown_def find_fx_def same_tables_eqs)

interpretation fx_initiate:
  idempotent_create initiate_core fq_idempotency_key fx_shown same_tables
proof
  show "fx_shown s' req = Some resp"
    if "initiate_core req s = (Inr resp, s')" "truthy (fq_idempotency_key req)" for req s resp s'
    using that wp_Inr [OF wp_initiate_created] by (auto simp: initiate_core_def op_Inr)
  show "\<exists>s'. initiate_core req s = (Inr resp, s') \<and> same_tables s s'"
    if "truthy (fq_idempotency_key req)" "fx_shown s req = Some resp" for req s resp
    using wp_initiate_replayed [OF that] fx_shown_estimate [OF that(2)]
    by (auto simp: wp_total initiate_core_def op_simps)
qed (auto intro: same_tables_trans simp: fx_shown_same)

lemma fx_inv_frame [simp]:
  "fx_inv (rollback s t) = fx_inv s" "fx_inv (begin_txn s) = fx_inv s"
  "fx_inv (s\<lparr>advisory_locks := l\<rparr>) = fx_inv s"
  by (simp_all add: fx_inv_def)

lemma inv_initiate:
  assumes "fx_inv s"
  shows "wp (initiate_fx_settlement req) s (\<lambda>_. fx_inv) (\<lambda>_. fx_inv)"
  using assms
  by (simp add: initiate_fx_settlement_def fx_value_date_def wp_simps Let_def
       split: option.splits sum.splits)
     (auto simp: fx_inv_def fx_lifecycle_def numeric_stored valid_row_def fx_constraints_def)

section \<open>Runs\<close>

text \<open>
  The steps that touch the settlement table, each a whole handler or worker pass, and any other
  step of the platform: it leaves the settlements alone and only adds transactions.
\<close>

inductive fx_step :: "world \<Rightarrow> world \<Rightarrow> bool" where
  initiate: "initiate_fx_settlement req s = (resp, s') \<Longrightarrow> fx_step s s'"
| cycle: "fx_step s (fx_cycle gateway s)"
| other: "fx_settlements s' = fx_settlements s \<Longrightarrow>
    set (transactions s) \<subseteq> set (transactions s') \<Longrightarrow> fx_step s s'"

inductive fx_reachable :: "world \<Rightarrow> bool" where
  start: "fx_settlements s = [] \<Longrightarrow> fx_reachable s"
| step: "fx_reachable s \<Longrightarrow> fx_step s s' \<Longrightarrow> fx_reachable s'"

lemma fx_inv_step: "fx_step s s' \<Longrightarrow> fx_inv s \<Longrightarrow> fx_inv s'"
proof (induction rule: fx_step.induct)
  case (initiate req s resp s')
  then show ?case using inv_initiate [OF initiate.prems] by (cases resp) (auto dest: wp_Inr wp_Inl)
next
  case (cycle s gateway)
  then show ?case using fx_cycle_ok by (simp add: fx_ok_def)
next
  case (other s' s)
  then show ?case by (auto simp: fx_inv_def intro: fx_lifecycle_mono)
qed

lemma fx_inv_reachable: "fx_reachable s \<Longrightarrow> fx_inv s"
proof (induction rule: fx_reachable.induct)
  case (start s)
  then show ?case by (simp add: fx_inv_def)
next
  case (step s s')
  then show ?case using fx_inv_step by blast
qed

section \<open>Rates\<close>

text \<open>What a stored rate looks like: the columns' precision and range.\<close>

definition rate_row_ok :: "FXRate \<Rightarrow> bool" where
  "rate_row_ok r \<longleftrightarrow>
     on_grid 8 (fr_mid_rate r) \<and> 0 < fr_mid_rate r \<and> fr_mid_rate r < 10 ^ 10 \<and>
     (case fr_spread_bps r of None \<Rightarrow> True | Some b \<Rightarrow> on_grid 4 b \<and> 0 \<le> b \<and> b < 10 ^ 4)"

definition half_spread :: "FXRate \<Rightarrow> rat" where
  "half_spread r = ctx_round (dec_mul (fr_mid_rate r)
     (ctx_round (dec_or (fr_spread_bps r) 10 / 10000)) / 2)"

lemma apply_spread_eq:
  "priv_apply_spread r d None =
     (if d = ''buy'' then quantize round_half_even 8 (dec_add (fr_mid_rate r) (half_spread r))
      else quantize round_half_even 8 (dec_sub (fr_mid_rate r) (half_spread r)))"
  by (simp add: priv_apply_spread_def half_spread_def dec_div_def dec_or_def Let_def)

lemma dec_or_range:
  "rate_row_ok r \<Longrightarrow> 0 < dec_or (fr_spread_bps r) 10 \<and> dec_or (fr_spread_bps r) 10 < 10 ^ 4"
  by (auto simp: rate_row_ok_def dec_or_def split: option.splits)

lemma half_spread_range:
  assumes "rate_row_ok r"
  shows "0 \<le> half_spread r" "half_spread r \<le> 10 ^ 10"
proof -
  let ?b = "dec_or (fr_spread_bps r) 10" and ?m = "fr_mid_rate r"
  have b: "0 < ?b" "?b < 10 ^ 4" using dec_or_range [OF assms] by auto
  have m: "0 < ?m" "?m < 10 ^ 10" using assms by (auto simp: rate_row_ok_def)
  let ?f = "ctx_round (?b / 10000)"
  have f0: "0 \<le> ?f" using b by (intro ctx_round_nonneg) simp
  have f1: "?f \<le> 1" using b by (intro ctx_round_le [of 0]) (auto simp: on_grid_def decimal_prec_def)
  let ?p = "dec_mul ?m ?f"
  have p0: "0 \<le> ?p" using m f0 by (simp add: dec_mul_def ctx_round_nonneg)
  have mf: "?m * ?f \<le> 10 ^ 10" using mult_mono [of ?m "10 ^ 10" ?f 1] m f0 f1 by simp
  have p1: "?p \<le> 10 ^ 10" unfolding dec_mul_def
    using mf m f0 by (intro ctx_round_le [of 0]) (auto simp: on_grid_def decimal_prec_def)
  show "0 \<le> half_spread r" using p0 by (simp add: half_spread_def ctx_round_nonneg)
  show "half_spread r \<le> 10 ^ 10" unfolding half_spread_def
    using p0 p1 by (intro ctx_round_le [of 0]) (auto simp: on_grid_def decimal_prec_def)
qed

lemma ask_ge_mid:
  assumes "rate_row_ok r" "priv_apply_spread r ''buy'' None = Inr ask"
  shows "fr_mid_rate r \<le> ask"
proof -
  let ?m = "fr_mid_rate r"
  have m: "on_grid 8 ?m" "0 < ?m" "?m < 10 ^ 10" using assms(1) by (auto simp: rate_row_ok_def)
  have "?m \<le> dec_add ?m (half_spread r)" unfolding dec_add_def
    using m half_spread_range [OF assms(1)]
    by (intro ctx_round_ge [OF m(1)]) (auto simp: decimal_prec_def)
  with m(1) assms(2) show ?thesis by (auto simp: apply_spread_eq intro: quantize_ge)
qed

lemma bid_le_mid:
  assumes "rate_row_ok r" "priv_apply_spread r ''sell'' None = Inr bid"
  shows "bid \<le> fr_mid_rate r"
proof -
  let ?m = "fr_mid_rate r"
  have m: "on_grid 8 ?m" "0 < ?m" "?m < 10 ^ 10" using assms(1) by (auto simp: rate_row_ok_def)
  have "dec_sub ?m (half_spread r) \<le> ?m" unfolding dec_sub_def
    using m half_spread_range [OF assms(1)]
    by (intro ctx_round_le [OF m(1)]) (auto simp: decimal_prec_def)
  with m(1) assms(2) show ?thesis by (auto simp: apply_spread_eq intro: quantize_le)
qed

section \<open>The rate feed\<close>

definition fed_rate :: "dict \<Rightarrow> CurrencyCode \<Rightarrow> CurrencyCode \<Rightarrow> uuid \<Rightarrow> time \<Rightarrow> exn + FXRate" where
  "fed_rate p b q i t =
     (case payload_rate p ''mid_rate'' of Inl e \<Rightarrow> Inl e | Inr mid \<Rightarrow>
      case payload_opt_rate p ''bid_rate'' of Inl e \<Rightarrow> Inl e | Inr bid \<Rightarrow>
      case payload_opt_rate p ''ask_rate'' of Inl e \<Rightarrow> Inl e | Inr ask \<Rightarrow>
      case payload_source p of Inl e \<Rightarrow> Inl e | Inr source \<Rightarrow>
        Inr \<lparr>fr_id = i, fr_base_currency = b, fr_quote_currency = q, fr_mid_rate = mid,
          fr_bid_rate = bid, fr_ask_rate = ask, fr_spread_bps = None, fr_source = source,
          fr_is_active = True, fr_valid_from = t\<rparr>)"

definition of_pair :: "CurrencyCode \<Rightarrow> CurrencyCode \<Rightarrow> FXRate \<Rightarrow> bool" where
  "of_pair b q r \<longleftrightarrow> fr_base_currency r = b \<and> fr_quote_currency r = q \<and> fr_is_active r"

lemma live_rate_of_pair:
  "priv_get_live_rate s b q =
     (case sort_key (\<lambda>r. - fr_valid_from r) (filter (of_pair b q) (fx_rates s)) of
        [] \<Rightarrow> None | r # _ \<Rightarrow> Some r)"
  by (simp add: priv_get_live_rate_def of_pair_def [abs_def])

lemma feed_filter:
  fixes rs :: "FXRate list" and b q b' q' :: CurrencyCode
  defines "rs' \<equiv> map_where (of_pair b q) (\<lambda>r. r\<lparr>fr_is_active := False\<rparr>) rs"
  shows "filter (of_pair b q) rs' = []"
    and "(b', q') \<noteq> (b, q) \<Longrightarrow> filter (of_pair b' q') rs' = filter (of_pair b' q') rs"
proof -
  have f: "filter (of_pair x y) rs' = filter (\<lambda>r. \<not> of_pair b q r \<and> of_pair x y r) rs" for x y
    unfolding rs'_def by (rule filter_map_where) (simp add: of_pair_def)
  show "filter (of_pair b q) rs' = []" by (simp add: f)
  show "filter (of_pair b' q') rs' = filter (of_pair b' q') rs" if "(b', q') \<noteq> (b, q)"
    unfolding f by (rule filter_cong) (use that in \<open>auto simp: of_pair_def\<close>)
qed

lemma valid_fed_rate:
  assumes "\<forall>r \<in> set rs. fr_id r \<noteq> fr_id new \<and> fr_valid_from r \<noteq> fr_valid_from new"
    and "fx_rates s = map_where P (\<lambda>r. r\<lparr>fr_is_active := False\<rparr>) rs"
  shows "valid_row fx_rate_constraints s new"
proof -
  have "fr_id q \<noteq> fr_id new \<and> fr_valid_from q \<noteq> fr_valid_from new" if "q \<in> set (fx_rates s)" for q
    using that assms by (auto simp: in_map_where split: if_splits)
  then show ?thesis by (simp add: valid_row_def fx_rate_constraints_def)
qed

lemma wp_ingest:
  assumes "payload_currency p ''base_currency'' = Inr b" "payload_currency p ''quote_currency'' = Inr q"
    and "fed_rate p b q (rng s (ticks s)) (txn_now s) = Inr new"
    and "\<forall>r \<in> set (fx_rates s). fr_id r \<noteq> rng s (ticks s) \<and> fr_valid_from r \<noteq> txn_now s"
  shows "wp (ingest_rate p) s (\<lambda>_ s'. fx_rates s' =
      map_where (of_pair b q) (\<lambda>r. r\<lparr>fr_is_active := False\<rparr>) (fx_rates s) @ [new]) total"
  using assms
  by (simp add: ingest_rate_def fed_rate_def wp_simps of_pair_def [abs_def]
      valid_fed_rate [of "fx_rates s"] split: sum.splits)

section \<open>Audit tables\<close>

lemma keeps_audit_update_fx [keeps_intros]: "keeps (audit_safe s0) (update_fx i f)"
  unfolding update_fx_def by (rule keeps_update_rows) (simp add: audit_safe_def)

lemma keeps_audit_leg [keeps_intros]: "keeps (audit_safe s0) (priv_execute_leg d k c v narr ty)"
  unfolding priv_execute_leg_def Let_def by (intro keeps_intros)

lemma keeps_audit_process_fx [keeps_intros]:
  "keeps (audit_safe s0) (priv_process_fx_settlement gw fx)"
  unfolding priv_process_fx_settlement_def sell_leg_def buy_leg_def finalise_fx_def fail_fx_def Let_def
  by (intro keeps_intros)

lemma audit_fx_cycle: "audit_safe s (fx_cycle gw s)"
  unfolding fx_cycle_def by (intro audit_worker_pass keeps_intros audit_safe_refl)

lemma keeps_audit_value_date [keeps_intros]: "keeps (audit_safe s0) (fx_value_date d)"
  unfolding fx_value_date_def by (intro keeps_intros)

lemma keeps_audit_initiate [keeps_intros]: "keeps (audit_safe s0) (initiate_fx_settlement req)"
  unfolding initiate_fx_settlement_def new_fx_def Let_def
  by (intro keeps_intros keeps_insert_row) (simp_all add: audit_safe_def)

lemma keeps_audit_ingest [keeps_intros]: "keeps (audit_safe s0) (ingest_rate p)"
  unfolding ingest_rate_def
  by (intro keeps_intros keeps_insert_row keeps_update_rows) (simp_all add: audit_safe_def)

lemma audit_rate_update: "audit_safe s (priv_rate_update_handler topic p s)"
  unfolding priv_rate_update_handler_def by (intro audit_worker_pass keeps_intros audit_safe_refl)

section \<open>Currencies without a nostro account\<close>

lemma nostro_code_missing: "c \<notin> {USD, EUR, GBP} \<Longrightarrow> nostro_code c \<notin> set chart_of_accounts"
  by (cases c) (simp_all add: nostro_code_def chart_of_accounts_def)

lemma wp_process_stuck:
  assumes "fs_sell_currency r \<notin> {USD, EUR, GBP}"
    and "fs_sell_amount r \<le> liability s (fs_sending_account_id r) (fs_sell_currency r)"
  shows "wp (priv_process_fx_settlement gw r) s (\<lambda>_ _. False) partial"
  using assms nostro_code_missing [OF assms(1)]
  by (simp add: priv_process_fx_settlement_def sell_leg_def wp_simps wp_leg Let_def)
     (simp add: post_leg_def wp_simps can_post_def)

section \<open>Properties\<close>

definition sample_fx :: FXSettlement where
  "sample_fx =
     \<lparr>fs_id = 60, fs_settlement_ref = ''F-1'', fs_sending_account_id = 4, fs_receiving_account_id = 1,
      fs_sell_currency = USD, fs_sell_amount = 100, fs_buy_currency = EUR, fs_buy_amount = 100,
      fs_applied_rate = 1, fs_fx_rate_id = None, fs_rails = R_BLOCKCHAIN, fs_status = S_QUEUED,
      fs_sell_txn_id = None, fs_buy_txn_id = None, fs_blockchain_tx_hash = None, fs_value_date = 0,
      fs_created_at = 0, fs_settled_at = None, fs_metadata = []\<rparr>"

text \<open>The sender holds dollars; the nostro holds the given amount of euros.\<close>

definition sample_fx_world :: "rat \<Rightarrow> world" where
  "sample_fx_world n = sample_world\<lparr>rng := (\<lambda>k. (1000 + k) * 2 ^ 64),
     fx_settlements := [sample_fx],
     journal_entries := [opening_entry 15 4 ''INSTITUTION_LIABILITY'' USD 0 1000,
       opening_entry 16 3 ''FX_NOSTRO_EUR'' EUR n 0]\<rparr>"

lemma sample_fx_refs: "hex16_upper (1001 * 2 ^ 64) \<noteq> hex16_upper (1011 * 2 ^ 64)"
  unfolding hex16_upper_shift by (simp add: upper_char_def hex_char_def)

lemma sample_fx_simps [simp]:
  "accounts (sample_fx_world n) = accounts sample_world" "transactions (sample_fx_world n) = []"
  "ticks (sample_fx_world n) = 0" "rng (sample_fx_world n) k = (1000 + k) * 2 ^ 64"
  "balance_of (journal_entries (sample_fx_world n)) 4 USD ''INSTITUTION_LIABILITY'' = 1000"
  "balance_of (journal_entries (sample_fx_world n)) 3 EUR (nostro_code EUR) = n"
  by (simp_all add: sample_fx_world_def balance_of_def on_position_def opening_entry_def nostro_code_def
      coa_sign_def asset_codes_def)

lemma nostro_of_simps [simp]: "nostro_of USD = 2" "nostro_of EUR = 3" "nostro_of GBP = 4"
  by (simp_all add: nostro_of_def NOSTRO_MAP_def)

lemma sample_legs_fresh: "legs_fresh (sample_fx_world n)"
  using sample_fx_refs by (simp add: legs_fresh_def)

lemma sample_can_swap: "can_swap (sample_fx_world 1000) sample_fx"
  by (simp add: can_swap_def leg_ok_def sample_fx_def sample_legs_fresh)



text \<open>
  C36. The swap is not atomic when the nostro account is short: the sell leg has been written when
  the buy leg raises, the handler catches the exception inside the transaction, and the worker
  commits. The sender has paid, the receiver has got nothing, and the row is failed with a sell
  transaction and no buy transaction.
\<close>

theorem fx_half_done:
  assumes "fs_sell_amount r \<le> liability s (fs_sending_account_id r) (fs_sell_currency r)"
    and "leg_ok s (fs_sell_currency r) (fs_sending_account_id r) (fs_sell_amount r)"
    and "legs_fresh s" "fs_sell_currency r \<noteq> fs_buy_currency r"
    and "nostro_balance s (fs_buy_currency r) < fs_buy_amount r"
    and "numeric 28 8 (fs_buy_amount r) = Inr (fs_buy_amount r)"
  shows "\<exists>s'. priv_process_fx_settlement gw r s = (Inr False, s') \<and> half_done r s s' \<and>
    liability s' (fs_sending_account_id r) (fs_sell_currency r) =
      liability s (fs_sending_account_id r) (fs_sell_currency r) - fs_sell_amount r \<and>
    liability s' (fs_receiving_account_id r) (fs_buy_currency r) =
      liability s (fs_receiving_account_id r) (fs_buy_currency r)"
proof -
  obtain s' where run: "priv_process_fx_settlement gw r s = (Inr False, s')"
    using wp_process_half [OF assms(1-5), of gw] by (auto simp: wp_total)
  have "numeric 28 8 (fs_sell_amount r) = Inr (fs_sell_amount r)"
    using assms(2) by (simp add: leg_ok_def)
  from wp_Inr [OF wp_process_fx [OF this assms(6)] run] have "refused r s s' \<or> half_done r s s'" by simp
  then have eff: "half_done r s s'" using assms(1) by (auto simp: refused_def)
  then have "sell_posted r (journal_entries s) (journal_entries s')" by (simp add: half_done_def)
  from posted_balance [OF this] run eff assms(4) nostro_code_not_liability
  show ?thesis by (auto simp: eq_commute [of "''INSTITUTION_LIABILITY''"])
qed

theorem fx_half_done_witness:
  "\<exists>s'. priv_process_fx_settlement (\<lambda>_ _. None) sample_fx (sample_fx_world 50) = (Inr False, s') \<and>
     liability s' 4 USD = 900"
  using fx_half_done [of sample_fx "sample_fx_world 50" "\<lambda>_ _. None"] sample_legs_fresh [of 50]
  by (auto simp: leg_ok_def sample_fx_def)

text \<open>
  In every state the platform can reach from one without swaps: each swap is queued with no
  leg, settled with both legs pointing at transactions of its accounts, currencies and amounts, or
  failed without a buy leg; no other status is left behind, and identifiers stay unique. A pass of
  the worker never overdraws a participant.
\<close>

theorem fx_reachable_legs:
  assumes "fx_reachable s"
  shows "distinct (map fs_id (fx_settlements s)) \<and>
    (\<forall>r \<in> set (fx_settlements s).
       fs_status r \<in> {S_QUEUED, S_SETTLED, S_FAILED} \<and>
       (fs_status r = S_QUEUED \<longrightarrow> no_leg r) \<and>
       (fs_status r = S_SETTLED \<longrightarrow> both_legs (transactions s) r) \<and>
       (fs_status r = S_FAILED \<longrightarrow> no_leg r \<or> sell_only (transactions s) r)) \<and>
    (solvent (journal_entries s) \<longrightarrow> solvent (journal_entries (fx_cycle gw s)))"
proof -
  have inv: "fx_inv s" using assms by (rule fx_inv_reachable)
  have "fs_status r \<in> {S_QUEUED, S_SETTLED, S_FAILED} \<and> (fs_status r = S_QUEUED \<longrightarrow> no_leg r) \<and>
       (fs_status r = S_SETTLED \<longrightarrow> both_legs (transactions s) r) \<and>
       (fs_status r = S_FAILED \<longrightarrow> no_leg r \<or> sell_only (transactions s) r)"
    if "fx_lifecycle (transactions s) r" for r
    using that by (cases "fs_status r") (simp_all add: fx_lifecycle_def)
  with inv fx_cycle_ok [OF inv] show ?thesis by (simp add: fx_inv_def fx_ok_def)
qed

theorem fx_reachable_legs_witness:
  "distinct (map fs_id (fx_settlements (fx_cycle (\<lambda>_ _. None) sample_world)))"
proof -
  have "fx_reachable sample_world" by (rule fx_reachable.start) simp
  then have "fx_reachable (fx_cycle (\<lambda>_ _. None) sample_world)"
    using fx_step.cycle by (rule fx_reachable.step)
  from fx_reachable_legs [OF this] show ?thesis by blast
qed


definition sample_rate :: FXRate where
  "sample_rate = \<lparr>fr_id = 70, fr_base_currency = USD, fr_quote_currency = EUR, fr_mid_rate = 2,
     fr_bid_rate = None, fr_ask_rate = None, fr_spread_bps = None, fr_source = ''internal'',
     fr_is_active = True, fr_valid_from = 0\<rparr>"

definition sample_quote_world :: world where
  "sample_quote_world = sample_world\<lparr>fx_rates := [sample_rate]\<rparr>"

lemma sample_quote_simps [simp]:
  "accounts sample_quote_world = accounts sample_world" "fx_settlements sample_quote_world = []"
  "ticks sample_quote_world = 0" "rng sample_quote_world n = 1000 + n"
  "clock sample_quote_world n = int n" "fx_rates sample_quote_world = [sample_rate]"
  "account_active sample_quote_world 2" "account_active sample_quote_world 3"
  by (simp_all add: sample_quote_world_def account_active_def get_account_def
    sample_world_def sample_account_def)

lemma sample_live [simp]: "priv_get_live_rate sample_quote_world USD EUR = Some sample_rate"
  by (simp add: priv_get_live_rate_def sample_rate_def)

lemma sample_rate_ok: "rate_row_ok sample_rate"
  by (simp add: rate_row_ok_def sample_rate_def on_grid_def)

lemma ctx_round_frac: "x * 10 ^ p = of_int n \<Longrightarrow> \<bar>x\<bar> < 10 ^ decimal_prec / 10 ^ p \<Longrightarrow> ctx_round x = x"
  by (rule ctx_round_exact [of p]) (simp_all add: on_grid_def)

lemma sample_applied [simp]: "priv_apply_spread sample_rate ''buy'' None = Inr (2001 / 1000)"
proof -
  have r: "ctx_round (1 / 1000) = 1 / 1000" "ctx_round (1 / 500) = 1 / 500"
    "ctx_round (2001 / 1000) = 2001 / 1000"
    using ctx_round_frac [of "1 / 1000" 3 1] ctx_round_frac [of "1 / 500" 3 2]
      ctx_round_frac [of "2001 / 1000" 3 2001] by (simp_all add: decimal_prec_def)
  have "quantize round_half_even 8 (2001 / 1000) = Inr (2001 / 1000)"
    by (rule quantize_half_even_exact) (simp_all add: on_grid_def decimal_prec_def)
  then show ?thesis
    by (simp add: apply_spread_eq half_spread_def sample_rate_def dec_or_def dec_mul_def dec_add_def r)
qed

lemma sample_buy_amount:
  "quantize round_down 8 (dec_mul 100 (2001 / 1000)) = Inr (2001 / 10)"
  "numeric 28 8 (2001 / 10) = Inr (2001 / 10)" "numeric 18 8 (2001 / 1000) = Inr (2001 / 1000)"
proof -
  have r: "ctx_round (2001 / 10) = 2001 / 10"
    using ctx_round_frac [of "2001 / 10" 1 2001] by (simp add: decimal_prec_def)
  show "quantize round_down 8 (dec_mul 100 (2001 / 1000)) = Inr (2001 / 10)"
    by (simp add: dec_mul_def quantize_def round_down_def decimal_prec_def r)
qed (simp_all add: numeric_def round_half_up_def floor_eq_iff)


text \<open>
  A rate event that can be read makes its rate the one and only active rate of the pair,
  which every later quote uses, and touches no other pair.
\<close>

theorem rate_update_live:
  assumes "payload_currency p ''base_currency'' = Inr b" "payload_currency p ''quote_currency'' = Inr q"
    and "fed_rate p b q (rng s (ticks s + 1)) (clock s (ticks s)) = Inr new"
    and "\<forall>r \<in> set (fx_rates s). fr_id r \<noteq> rng s (ticks s + 1) \<and> fr_valid_from r \<noteq> clock s (ticks s)"
  shows "filter (of_pair b q) (fx_rates (priv_rate_update_handler topic p s)) = [new] \<and>
    priv_get_live_rate (priv_rate_update_handler topic p s) b q = Some new \<and>
    (\<forall>b' q'. (b', q') \<noteq> (b, q) \<longrightarrow>
       priv_get_live_rate (priv_rate_update_handler topic p s) b' q' = priv_get_live_rate s b' q')"
proof -
  let ?t = "begin_txn s" and ?s' = "priv_rate_update_handler topic p s"
  have "wp (ingest_rate p) ?t (\<lambda>_ s'. fx_rates s' =
      map_where (of_pair b q) (\<lambda>r. r\<lparr>fr_is_active := False\<rparr>) (fx_rates ?t) @ [new]) total"
    by (rule wp_ingest) (use assms in \<open>simp_all add: begin_txn_def\<close>)
  then have rates: "fx_rates ?s' =
      map_where (of_pair b q) (\<lambda>r. r\<lparr>fr_is_active := False\<rparr>) (fx_rates s) @ [new]"
    by (auto simp: wp_total priv_rate_update_handler_def worker_pass_def get_db_session_def)
  have new: "of_pair b' q' new \<longleftrightarrow> (b', q') = (b, q)" for b' q'
    using assms(3) by (auto simp: fed_rate_def of_pair_def split: sum.splits)
  have "filter (of_pair b q) (fx_rates ?s') = [new]" using new by (simp add: rates feed_filter(1))
  moreover have "filter (of_pair b' q') (fx_rates ?s') = filter (of_pair b' q') (fx_rates s)"
    if "(b', q') \<noteq> (b, q)" for b' q'
    using new that by (simp add: rates feed_filter(2) [OF that])
  ultimately show ?thesis by (simp add: live_rate_of_pair)
qed

definition sample_feed :: dict where
  "sample_feed = [(''base_currency'', JStr ''USD''), (''quote_currency'', JStr ''EUR''),
     (''mid_rate'', JInt 2), (''source'', JStr ''oracle'')]"

theorem rate_update_live_witness:
  "\<exists>new. priv_get_live_rate (priv_rate_update_handler ''fx.rate.updated'' sample_feed sample_world) USD EUR
     = Some new \<and> fr_source new = ''oracle''"
proof -
  let ?new = "\<lparr>fr_id = 1001, fr_base_currency = USD, fr_quote_currency = EUR, fr_mid_rate = 2,
     fr_bid_rate = None, fr_ask_rate = None, fr_spread_bps = None, fr_source = ''oracle'',
     fr_is_active = True, fr_valid_from = 0\<rparr>"
  have "payload_currency sample_feed ''base_currency'' = Inr USD"
    "payload_currency sample_feed ''quote_currency'' = Inr EUR"
    by (simp_all add: payload_currency_def sample_feed_def CurrencyCode_of_def)
  moreover have "fed_rate sample_feed USD EUR 1001 0 = Inr ?new"
    using numeric_int [of 2]
    by (simp add: fed_rate_def sample_feed_def payload_rate_def payload_opt_rate_def payload_source_def
      decimal_of_def dict_get_def numeric_def round_half_up_def)
  ultimately show ?thesis
    using rate_update_live [of sample_feed USD EUR sample_world ?new] by auto
qed

text \<open>
  One swap in a currency without a chart code stops the service: when it heads the queue and its
  sender has the funds, every pass of the worker ends in a rollback and leaves every table as it
  was, so the swap stays at the head and no other swap is ever processed.
\<close>

theorem fx_stuck:
  assumes "pending_fx s = r # rs" "fs_sell_currency r \<notin> {USD, EUR, GBP}"
    and "fs_sell_amount r \<le> liability s (fs_sending_account_id r) (fs_sell_currency r)"
  shows "same_tables s (fx_cycle gw s)"
proof -
  let ?body = "op_bind (op_get pending_fx) (\<lambda>p. op_for p (priv_process_fx_settlement gw))"
  have "wp (priv_process_fx_settlement gw r) (begin_txn s) (\<lambda>_ _. False) partial"
    by (rule wp_process_stuck) (use assms in simp_all)
  then have "wp (get_db_session ?body) s (\<lambda>_ _. False) (\<lambda>_. same_tables s)"
    using assms(1) by (auto simp: wp_simps pending_fx_def intro: wp_mono)
  then show ?thesis by (auto simp: fx_cycle_def worker_pass_def wp_raises)
qed

definition sample_stuck_world :: world where
  "sample_stuck_world = sample_world\<lparr>fx_settlements := [sample_fx\<lparr>fs_sell_currency := JPY\<rparr>],
     journal_entries := [opening_entry 15 4 ''INSTITUTION_LIABILITY'' JPY 0 1000]\<rparr>"

theorem fx_stuck_witness: "same_tables sample_stuck_world (fx_cycle (\<lambda>_ _. None) sample_stuck_world)"
  by (rule fx_stuck [of _ "sample_fx\<lparr>fs_sell_currency := JPY\<rparr>" "[]"])
     (simp_all add: sample_stuck_world_def pending_fx_def sample_fx_def balance_of_def on_position_def
       opening_entry_def)

text \<open>
  Initiation is idempotent under a client key: once a request succeeded, every repetition is
  answered with the same swap (without the settlement estimate of the first answer) and leaves
  every table as the first left it.
\<close>

theorem initiate_idempotent:
  assumes "initiate_fx_settlement req s = (Inr resp, s1)" "truthy (fq_idempotency_key req)"
  shows "\<exists>t. ((\<lambda>u. snd (initiate_core req u)) ^^ n) s1 = t \<and> same_tables s1 t \<and>
    (\<exists>t'. initiate_core req t = (Inr (resp\<lparr>sp_estimated_settlement := None\<rparr>), t'))"
proof (rule fx_initiate.create_many [OF _ assms(2)])
  show "initiate_core req s = (Inr (resp\<lparr>sp_estimated_settlement := None\<rparr>), s1)"
    using assms(1) by (simp add: initiate_core_def op_simps)
qed

definition sample_fx_request :: InitiateFXSettlementRequest where
  "sample_fx_request =
     \<lparr>fq_sending_account_id = 2, fq_receiving_account_id = 3, fq_sell_currency = USD,
      fq_sell_amount = 100, fq_buy_currency = EUR, fq_rails = R_SWIFT, fq_value_date = Some 0,
      fq_metadata = [], fq_idempotency_key = Some ''F-9''\<rparr>"

theorem initiate_idempotent_witness:
  "\<exists>resp s1 t'. initiate_fx_settlement sample_fx_request sample_quote_world = (Inr resp, s1) \<and>
     initiate_core sample_fx_request s1 = (Inr (resp\<lparr>sp_estimated_settlement := None\<rparr>), t')"
proof -
  have "wp (initiate_fx_settlement sample_fx_request) sample_quote_world (\<lambda>_ _. True) total"
    by (simp add: initiate_fx_settlement_def sample_fx_request_def wp_simps truthy_def find_fx_def
      key_or_fresh_def new_fx_def fx_value_date_def valid_row_def fx_constraints_def settlement_rate_def
      sample_buy_amount Let_def)
  then obtain resp s1 where run: "initiate_fx_settlement sample_fx_request sample_quote_world = (Inr resp, s1)"
    by (auto simp: wp_total)
  have key: "truthy (fq_idempotency_key sample_fx_request)" by (simp add: sample_fx_request_def truthy_def)
  show ?thesis using run initiate_idempotent [OF run key, of 0] by auto
qed

end
