(* ===== verification/Conditions.thy ===== *)
theory Conditions
  imports Samples
begin

text \<open>
  The condition evaluator of the payment engine, \<open>evaluate_condition\<close> in
  \<open>src/services/payment-engine/main.py\<close>, with the parts of Python it rests on: reading an
  ISO 8601 time, equality and sets of JSON values. Client JSON has null, booleans, integers,
  strings, arrays and objects.
\<close>

section \<open>ISO 8601 times\<close>

text \<open>
  \<open>datetime.fromisoformat\<close> on extended calendar dates: a date, optionally one separator
  character and a time of day with an optional fraction, optionally an offset. The result is
  the local time in microseconds since 1970 and the offset, which is absent from a naive time.
\<close>

definition is_digit :: "char \<Rightarrow> bool" where
  "is_digit c \<longleftrightarrow> (let n = of_char c :: nat in 48 \<le> n \<and> n \<le> 57)"

definition digit_val :: "char \<Rightarrow> int" where
  "digit_val c = int (of_char c) - 48"

definition dec_val :: "string \<Rightarrow> int" where
  "dec_val t = foldl (\<lambda>a c. 10 * a + digit_val c) 0 t"

definition digits :: "nat \<Rightarrow> string \<Rightarrow> int option" where
  "digits n t = (if length t = n \<and> list_all is_digit t then Some (dec_val t) else None)"

definition leap_year :: "int \<Rightarrow> bool" where
  "leap_year y \<longleftrightarrow> 4 dvd y \<and> (\<not> 100 dvd y \<or> 400 dvd y)"

definition days_in_month :: "int \<Rightarrow> int \<Rightarrow> int" where
  "days_in_month y m =
     (if m = 2 then if leap_year y then 29 else 28 else if m \<in> {4, 6, 9, 11} then 30 else 31)"

definition days_from_civil :: "int \<Rightarrow> int \<Rightarrow> int \<Rightarrow> int" where
  "days_from_civil y m d =
     (let y' = (if m \<le> 2 then y - 1 else y); era = y' div 400; yoe = y' mod 400;
          doy = (153 * (if 2 < m then m - 3 else m + 9) + 2) div 5 + d - 1;
          doe = yoe * 365 + yoe div 4 - yoe div 100 + doy
      in era * 146097 + doe - 719468)"

definition iso_date :: "string \<Rightarrow> int option" where
  "iso_date t =
     (case (digits 4 (take 4 t), digits 2 (take 2 (drop 5 t)), digits 2 (drop 8 t)) of
        (Some y, Some m, Some d) \<Rightarrow>
          if t ! 4 = CHR ''-'' \<and> t ! 7 = CHR ''-'' \<and> 1 \<le> y \<and> 1 \<le> m \<and> m \<le> 12 \<and> 1 \<le> d \<and>
             d \<le> days_in_month y m
          then Some (days_from_civil y m d) else None
      | _ \<Rightarrow> None)"

text \<open>The fraction of a second: at least one digit, of which six count.\<close>

definition iso_fraction :: "string \<Rightarrow> int option" where
  "iso_fraction t =
     (case t of
        [] \<Rightarrow> Some 0
      | c # f \<Rightarrow>
          if (c = CHR ''.'' \<or> c = CHR '','') \<and> f \<noteq> [] \<and> list_all is_digit f
          then Some (dec_val (take 6 (f @ ''00000''))) else None)"

definition clock_us :: "int \<Rightarrow> int \<Rightarrow> int \<Rightarrow> int \<Rightarrow> int option" where
  "clock_us h m s u =
     (if h < 24 \<and> m < 60 \<and> s < 60 then Some (((h * 60 + m) * 60 + s) * 1000000 + u) else None)"

definition iso_clock :: "string \<Rightarrow> int option" where
  "iso_clock t =
     (case digits 2 (take 2 t) of None \<Rightarrow> None | Some h \<Rightarrow>
      if length t = 2 then clock_us h 0 0 0
      else case digits 2 (take 2 (drop 3 t)) of None \<Rightarrow> None | Some m \<Rightarrow>
      if t ! 2 \<noteq> CHR '':'' then None
      else if length t = 5 then clock_us h m 0 0
      else case digits 2 (take 2 (drop 6 t)) of None \<Rightarrow> None | Some s \<Rightarrow>
      if t ! 5 \<noteq> CHR '':'' then None
      else case iso_fraction (drop 8 t) of None \<Rightarrow> None | Some u \<Rightarrow> clock_us h m s u)"

definition iso_offset :: "string \<Rightarrow> int option option" where
  "iso_offset t =
     (case t of
        [] \<Rightarrow> Some None
      | c # f \<Rightarrow>
          if c = CHR ''Z'' then (if f = [] then Some (Some 0) else None)
          else map_option (\<lambda>u. Some (if c = CHR ''-'' then - u else u)) (iso_clock f))"

definition fromisoformat :: "string \<Rightarrow> (int \<times> int option) option" where
  "fromisoformat t =
     (case iso_date (take 10 t) of None \<Rightarrow> None | Some d \<Rightarrow>
      if length t = 10 then Some (d * 86400000000, None)
      else let rest = drop 11 t; tod = takeWhile (\<lambda>c. c \<notin> {CHR ''+'', CHR ''-'', CHR ''Z''}) rest
           in case (iso_clock tod, iso_offset (drop (length tod) rest)) of
                (Some u, Some off) \<Rightarrow> Some (d * 86400000000 + u, off)
              | _ \<Rightarrow> None)"

text \<open>\<open>now >= datetime.fromisoformat(v)\<close>: a naive time cannot be compared.\<close>

definition reached :: "time \<Rightarrow> json \<Rightarrow> exn + bool" where
  "reached now v =
     (case v of
        JTime t \<Rightarrow> Inr (t \<le> now)
      | JStr t \<Rightarrow>
          (case fromisoformat t of
             None \<Rightarrow> Inl (ValueError [Txt ''Invalid isoformat string''])
           | Some (l, None) \<Rightarrow>
               Inl (TypeError ''can't compare offset-naive and offset-aware datetimes'')
           | Some (l, Some off) \<Rightarrow> Inr (l - off \<le> now))
      | _ \<Rightarrow> Inl (TypeError ''fromisoformat: argument must be str''))"

section \<open>JSON values in Python\<close>

text \<open>
  \<open>==\<close> on JSON values: a boolean equals its integer, and the order of an object's
  members does not matter. Values are compared in a normal form.
\<close>

fun py_norm :: "json \<Rightarrow> json" where
  "py_norm (JBool b) = JInt (if b then 1 else 0)"
| "py_norm (JArr xs) = JArr (map py_norm xs)"
| "py_norm (JObj d) = JObj (sort_key fst (map (\<lambda>p. (fst p, py_norm (snd p))) d))"
| "py_norm v = v"

definition py_eq :: "json \<Rightarrow> json \<Rightarrow> bool" where
  "py_eq a b \<longleftrightarrow> py_norm a = py_norm b"

fun hashable :: "json \<Rightarrow> bool" where
  "hashable (JArr _) = False"
| "hashable (JObj _) = False"
| "hashable _ = True"

definition py_set :: "json \<Rightarrow> exn + json list" where
  "py_set v =
     (case v of
        JArr xs \<Rightarrow>
          if list_all hashable xs then Inr (remdups (map py_norm xs))
          else Inl (TypeError ''unhashable type'')
      | JStr t \<Rightarrow> Inr (remdups (map (\<lambda>c. JStr [c]) t))
      | JObj d \<Rightarrow> Inr (remdups (map (\<lambda>p. JStr (fst p)) d))
      | _ \<Rightarrow> Inl (TypeError ''object is not iterable''))"

text \<open>\<open>n >= threshold\<close>.\<close>

definition at_least :: "int \<Rightarrow> json \<Rightarrow> exn + bool" where
  "at_least n threshold =
     (case threshold of
        JInt k \<Rightarrow> Inr (k \<le> n)
      | JBool b \<Rightarrow> Inr ((if b then 1 else 0) \<le> n)
      | _ \<Rightarrow> Inl (TypeError '''>=' not supported''))"

section \<open>The evaluator\<close>

definition multi_sig :: "dict \<Rightarrow> dict \<Rightarrow> exn + bool" where
  "multi_sig params trigger_data =
     (case py_set (dict_get params ''required_signers'' (JArr [])) of Inl e \<Rightarrow> Inl e | Inr required \<Rightarrow>
      case py_set (dict_get trigger_data ''signatures'' (JArr [])) of Inl e \<Rightarrow> Inl e | Inr received \<Rightarrow>
      at_least (int (length (filter (\<lambda>x. x \<in> set received) required)))
        (dict_get params ''threshold'' (JInt (int (length required)))))"

definition evaluate_condition :: "time \<Rightarrow> ConditionType \<Rightarrow> dict \<Rightarrow> dict \<Rightarrow> exn + bool" where
  "evaluate_condition now condition_type params trigger_data =
     (case condition_type of
        TIME_LOCK \<Rightarrow>
          (case map_of params ''release_at'' of
             None \<Rightarrow> Inl (KeyError ''release_at'') | Some v \<Rightarrow> reached now v)
      | ORACLE_TRIGGER \<Rightarrow>
          if trigger_data = [] then Inr False
          else Inr (py_eq (dict_get trigger_data ''oracle_key'' JNull) (dict_get params ''oracle_key'' JNull) \<and>
                    py_eq (dict_get trigger_data ''oracle_value'' JNull)
                      (dict_get params ''expected_value'' JNull))
      | MULTI_SIG \<Rightarrow> if trigger_data = [] then Inr False else multi_sig params trigger_data
      | DELIVERY_CONFIRMATION \<Rightarrow>
          if trigger_data = [] then Inr False
          else Inr (py_eq (dict_get trigger_data ''delivery_ref'' JNull)
                      (dict_get params ''delivery_ref'' JNull) \<and>
                    dict_get trigger_data ''confirmed'' (JBool False) = JBool True)
      | KYC_VERIFIED \<Rightarrow>
          Inr (trigger_data \<noteq> [] \<and> json_truthy (dict_get trigger_data ''kyc_cleared'' JNull)))"

section \<open>Examples\<close>

lemma iso_examples:
  "fromisoformat ''2024-02-29T12:30:00+01:00'' = Some (1709209800000000, Some 3600000000)"
  "fromisoformat ''1970-01-01'' = Some (0, None)"
  "fromisoformat ''2023-02-29T00:00:00Z'' = None"
  "fromisoformat ''2026-01-15T09:05:07.25Z'' = Some (1768467907250000, Some 0)"
  by code_simp+

section \<open>Several signatures\<close>

lemma py_norm_str: "map py_norm (map JStr xs) = map JStr xs"
  by simp

lemma py_set_strings: "py_set (JArr (map JStr xs)) = Inr (remdups (map JStr xs))"
  by (simp add: py_set_def list_all_iff comp_def)

lemma card_common:
  "length (filter (\<lambda>x. x \<in> set (remdups (map JStr ys))) (remdups (map JStr xs))) =
     card (set xs \<inter> set ys)"
proof -
  have inj: "inj JStr" by (simp add: inj_def)
  have "length (filter (\<lambda>x. x \<in> set (remdups (map JStr ys))) (remdups (map JStr xs))) =
      card (set (filter (\<lambda>x. x \<in> set (remdups (map JStr ys))) (remdups (map JStr xs))))"
    by (rule distinct_card [symmetric]) simp
  also have "set (filter (\<lambda>x. x \<in> set (remdups (map JStr ys))) (remdups (map JStr xs))) =
      JStr ` (set xs \<inter> set ys)" by auto
  also have "card \<dots> = card (set xs \<inter> set ys)" using inj by (intro card_image) (auto simp: inj_on_def)
  finally show ?thesis .
qed

lemma multi_sig_strings:
  assumes "dict_get params ''required_signers'' (JArr []) = JArr (map JStr req)"
    and "dict_get trig ''signatures'' (JArr []) = JArr (map JStr sig)"
  shows "multi_sig params trig =
    at_least (int (card (set req \<inter> set sig))) (dict_get params ''threshold'' (JInt (int (card (set req)))))"
proof -
  have "length (remdups (map JStr req)) = card (set req)"
    using card_common [of req req] by (simp add: filter_True)
  then show ?thesis
    unfolding multi_sig_def assms py_set_strings sum.case card_common by simp
qed

text \<open>
  A payment under several signatures is due exactly when the number of different required
  signers among those who signed reaches the threshold, which is all of them when none is given:
  repeated signatures and signatures of outsiders do not count.
\<close>

theorem multi_sig_counts:
  assumes "dict_get params ''required_signers'' (JArr []) = JArr (map JStr req)"
    and "dict_get trig ''signatures'' (JArr []) = JArr (map JStr sig)" "trig \<noteq> []"
    and "map_of params ''threshold'' = map_option (\<lambda>k. JInt k) threshold"
  shows "evaluate_condition now MULTI_SIG params trig =
    Inr (case threshold of None \<Rightarrow> set req \<subseteq> set sig | Some k \<Rightarrow> k \<le> int (card (set req \<inter> set sig)))"
proof -
  have all: "card (set req) \<le> card (set req \<inter> set sig) \<longleftrightarrow> set req \<subseteq> set sig"
    using card_seteq [of "set req" "set req \<inter> set sig"] by (auto simp: Int_absorb2)
  show ?thesis
    using assms(3,4) multi_sig_strings [OF assms(1,2)] all
    by (cases threshold) (simp_all add: evaluate_condition_def at_least_def dict_get_def)
qed

theorem multi_sig_counts_witness:
  "evaluate_condition 0 MULTI_SIG
     [(''required_signers'', JArr [JStr ''a'', JStr ''b'', JStr ''c'']), (''threshold'', JInt 2)]
     [(''signatures'', JArr [JStr ''a'', JStr ''a'', JStr ''x''])] = Inr False"
proof -
  have "{''a'', ''b'', ''c''} \<inter> {''a'', ''x''} = {''a''}" by auto
  then show ?thesis
    using multi_sig_counts [of "[(''required_signers'', JArr [JStr ''a'', JStr ''b'', JStr ''c'']),
        (''threshold'', JInt 2)]" "[''a'', ''b'', ''c'']" "[(''signatures'', JArr [JStr ''a'', JStr ''a'', JStr ''x''])]"
        "[''a'', ''a'', ''x'']" "Some 2" 0]
    by (simp add: dict_get_def)
qed

end
