(* ===== verification/PaymentEngine.thy ===== *)
theory PaymentEngine
  imports Conditions
begin

text \<open>
  The operations of the payment engine, \<open>src/services/payment-engine/main.py\<close>: the transfer
  and reservation helpers, conditional payments, escrow contracts, and one pass of the background
  checker. What they keep and achieve is shown in the theories on escrow and on conditional
  payments.
\<close>

section \<open>Transfers and holds\<close>

definition hex12 :: "uuid \<Rightarrow> string" where
  "hex12 u = take 12 (uuid_hex u)"

definition new_hold ::
  "string \<Rightarrow> uuid \<Rightarrow> CurrencyCode \<Rightarrow> rat \<Rightarrow> HoldType \<Rightarrow> uuid option \<Rightarrow> unit db_op" where
  "new_hold pre account_id currency amount hold_type related =
     op_bind uuid4 (\<lambda>u.
     op_bind uuid4 (\<lambda>i.
     op_bind (op_lift (numeric 38 18 amount)) (\<lambda>v.
     op_bind (op_get txn_now) (\<lambda>t.
     insert_row hold_constraints escrow_holds_update
       \<lparr>eh_id = i, eh_hold_ref = pre @ hex12 u, eh_account_id = account_id, eh_currency = currency,
        eh_amount = v, eh_hold_type = hold_type, eh_related_entity_type = ''escrow'',
        eh_related_entity_id = related, eh_created_at = t\<rparr>))))"

text \<open>The legacy column \<open>TokenBalance.reserved\<close> is kept in step, where the row exists.\<close>

definition unreserve_legacy :: "uuid \<Rightarrow> CurrencyCode \<Rightarrow> rat \<Rightarrow> unit db_op" where
  "unreserve_legacy account_id currency amount =
     update_rows token_balances_update (\<lambda>b. tb_account_id b = account_id \<and> tb_currency b = currency)
       (\<lambda>b. b\<lparr>tb_reserved := dec_sub (tb_reserved b) (min amount (tb_reserved b)),
              tb_version := tb_version b + 1\<rparr>)"

definition priv_locked_transfer ::
  "uuid \<Rightarrow> uuid \<Rightarrow> CurrencyCode \<Rightarrow> rat \<Rightarrow> string \<Rightarrow> string \<Rightarrow> bool \<Rightarrow> uuid db_op" where
  "priv_locked_transfer debit_id credit_id currency amount narrative txn_type release_reserve =
     op_bind (acquire_balance_lock debit_id currency) (\<lambda>_.
     op_bind (op_get (\<lambda>s. get_available_balance s debit_id currency)) (\<lambda>available.
     op_bind (op_assert (release_reserve \<or> amount \<le> available)
       (ValueError [Txt ''Insufficient available: '', Dec available, Txt '' < '', Dec amount])) (\<lambda>_.
     op_bind (key_or_fresh None ''PE-'') (\<lambda>ref.
     op_bind (new_transaction ref debit_id credit_id currency amount txn_type None []) (\<lambda>txn_id.
     op_bind (record_journal_pair debit_id ''INSTITUTION_LIABILITY'' currency amount txn_type txn_id
       credit_id ''INSTITUTION_LIABILITY'' narrative) (\<lambda>_.
     op_bind (if release_reserve
         then op_bind (new_hold ''REL-'' debit_id currency amount RELEASE None) (\<lambda>_.
              unreserve_legacy debit_id currency amount)
         else op_return ()) (\<lambda>_.
     op_return txn_id)))))))"

definition priv_reserve_funds :: "uuid \<Rightarrow> CurrencyCode \<Rightarrow> rat \<Rightarrow> unit db_op" where
  "priv_reserve_funds account_id currency amount =
     op_bind (op_get (\<lambda>s. get_available_balance s account_id currency)) (\<lambda>available.
     op_bind (op_assert (amount \<le> available)
       (ValueError [Txt ''Insufficient available balance to reserve: '', Dec available])) (\<lambda>_.
     new_hold ''HOLD-'' account_id currency amount RESERVE None))"

section \<open>Conditional payments\<close>

definition update_payment :: "uuid \<Rightarrow> (ConditionalPayment \<Rightarrow> ConditionalPayment) \<Rightarrow> unit db_op" where
  "update_payment i f = update_rows conditional_payments_update (\<lambda>r. cp_id r = i) f"

definition priv_execute_conditional_payment ::
  "ConditionalPayment \<Rightarrow> dict \<Rightarrow> string \<Rightarrow> (uuid \<times> time \<times> Receipt) db_op" where
  "priv_execute_conditional_payment cp trigger_data triggered_by =
     op_bind (update_payment (cp_id cp) (\<lambda>r. r\<lparr>cp_status := T_PROCESSING,
       cp_trigger_data := Some trigger_data\<rparr>)) (\<lambda>_.
     op_bind (record_status ConditionalPaymentStatusHistory (cp_id cp) (TxnStatus_value T_PROCESSING)
       (Some [(''triggered_by'', JStr triggered_by)]) no_extra) (\<lambda>_.
     op_bind (priv_locked_transfer (cp_payer_account_id cp) (cp_payee_account_id cp) (cp_currency cp)
       (cp_amount cp) (''Conditional payment '' @ cp_payment_ref cp @ '' triggered by '' @ triggered_by)
       ''conditional_payment'' False) (\<lambda>txn_id.
     op_bind utcnow (\<lambda>executed_at.
     op_bind (record_on_chain PaymentEngineSvc (cp_payment_ref cp) ''conditional_payment'' '''') (\<lambda>receipt.
     op_bind (op_get (\<lambda>s. map_option (\<lambda>f. f\<lparr>fi_settled_at := Some executed_at\<rparr>)
       (record_fiat_rail (sha256_hex s) (cp_payment_ref cp) ''internal''))) (\<lambda>fiat_receipt.
     op_bind (update_payment (cp_id cp) (\<lambda>r. r\<lparr>cp_status := T_COMPLETED,
       cp_executed_at := Some executed_at, cp_transaction_id := Some txn_id,
       cp_trigger_data := Some (with_legs trigger_data receipt fiat_receipt)\<rparr>)) (\<lambda>_.
     op_bind (record_status ConditionalPaymentStatusHistory (cp_id cp) (TxnStatus_value T_COMPLETED)
       None no_extra) (\<lambda>_.
     op_bind (emit PaymentEngineSvc (cp_payment_ref cp) ''payment.conditional.completed''
       (ConditionalPaymentCompleted (cp_payment_ref cp) txn_id executed_at)) (\<lambda>_.
     op_return (txn_id, executed_at, receipt))))))))))"

section \<open>Expiry\<close>

definition update_escrow :: "uuid \<Rightarrow> (EscrowContract \<Rightarrow> EscrowContract) \<Rightarrow> unit db_op" where
  "update_escrow i f = update_rows escrow_contracts_update (\<lambda>r. ec_id r = i) f"

definition priv_expire_escrow :: "EscrowContract \<Rightarrow> unit db_op" where
  "priv_expire_escrow escrow =
     (let depositor_id = ec_depositor_account_id escrow in
     op_bind (new_hold ''REL-'' depositor_id (ec_currency escrow) (ec_amount escrow) RELEASE
       (Some (ec_id escrow))) (\<lambda>_.
     op_bind (unreserve_legacy depositor_id (ec_currency escrow) (ec_amount escrow)) (\<lambda>_.
     op_bind (update_escrow (ec_id escrow) (\<lambda>r. r\<lparr>ec_status := E_EXPIRED\<rparr>)) (\<lambda>_.
     op_bind (record_status EscrowStatusHistory (ec_id escrow) (EscrowStatus_value E_EXPIRED) None no_extra) (\<lambda>_.
     emit PaymentEngineSvc (ec_contract_ref escrow) ''escrow.expired''
       (EscrowExpired (ec_contract_ref escrow) depositor_id (ec_amount escrow)))))))"

section \<open>The background checker\<close>

definition auto_pending :: "world \<Rightarrow> ConditionalPayment list" where
  "auto_pending s =
     filter (\<lambda>cp. cp_status cp = T_PENDING \<and> cp_condition_type cp \<in> {TIME_LOCK, KYC_VERIFIED})
       (conditional_payments s)"

definition expired_escrows :: "time \<Rightarrow> world \<Rightarrow> EscrowContract list" where
  "expired_escrows now s =
     filter (\<lambda>e. ec_status e = E_ACTIVE \<and> ec_expires_at e \<le> now) (escrow_contracts s)"

text \<open>\<open>payee and payee.kyc_verified and payee.aml_cleared\<close>\<close>

definition kyc_cleared :: "Account option \<Rightarrow> json" where
  "kyc_cleared payee =
     (case payee of None \<Rightarrow> JNull | Some a \<Rightarrow> JBool (acc_kyc_verified a \<and> acc_aml_cleared a))"

definition check_trigger :: "world \<Rightarrow> ConditionalPayment \<Rightarrow> dict" where
  "check_trigger s cp =
     (if cp_condition_type cp = KYC_VERIFIED
      then [(''kyc_cleared'', kyc_cleared (get_account s (cp_payee_account_id cp)))] else [])"

definition check_payment :: "time \<Rightarrow> ConditionalPayment \<Rightarrow> unit db_op" where
  "check_payment now cp =
     (if (case cp_expires_at cp of None \<Rightarrow> False | Some t \<Rightarrow> t < now)
      then
        op_bind (update_payment (cp_id cp) (\<lambda>r. r\<lparr>cp_status := T_FAILED\<rparr>)) (\<lambda>_.
        record_status ConditionalPaymentStatusHistory (cp_id cp) (TxnStatus_value T_FAILED)
          (Some [(''reason'', JStr ''expired'')]) no_extra)
      else
        op_bind (op_get (\<lambda>s. check_trigger s cp)) (\<lambda>trigger.
        op_bind utcnow (\<lambda>now'.
        op_bind (op_lift (evaluate_condition now' (cp_condition_type cp) (cp_condition_params cp) trigger)) (\<lambda>due.
        if due then op_bind (priv_execute_conditional_payment cp trigger ''auto-checker'') (\<lambda>_. op_return ())
        else op_return ()))))"

definition check_pass :: "unit db_op" where
  "check_pass =
     op_bind utcnow (\<lambda>now.
     op_bind (op_get auto_pending) (\<lambda>pending.
     op_bind (op_for pending (check_payment now)) (\<lambda>_.
     op_bind (op_get (expired_escrows now)) (\<lambda>expired.
     op_for expired priv_expire_escrow))))"

definition check_conditions_cycle :: "world \<Rightarrow> world" where
  "check_conditions_cycle = worker_pass check_pass"

section \<open>Handlers\<close>

record CreateConditionalPaymentRequest =
  cq_payer_account_id :: uuid
  cq_payee_account_id :: uuid
  cq_currency :: CurrencyCode
  cq_amount :: rat
  cq_condition_type :: ConditionType
  cq_condition_params :: dict
  cq_expires_at :: "time option"
  cq_idempotency_key :: "string option"

record ConditionalPaymentResponse =
  cr_payment_ref :: string
  cr_status :: TxnStatus
  cr_condition_type :: ConditionType
  cr_amount :: rat
  cr_currency :: CurrencyCode

definition find_payment :: "world \<Rightarrow> string \<Rightarrow> ConditionalPayment option" where
  "find_payment s ref = List.find (\<lambda>r. cp_payment_ref r = ref) (conditional_payments s)"

definition payment_response :: "ConditionalPayment \<Rightarrow> ConditionalPaymentResponse" where
  "payment_response r =
     \<lparr>cr_payment_ref = cp_payment_ref r, cr_status = cp_status r,
      cr_condition_type = cp_condition_type r, cr_amount = cp_amount r, cr_currency = cp_currency r\<rparr>"

definition new_payment ::
  "string \<Rightarrow> rat \<Rightarrow> CreateConditionalPaymentRequest \<Rightarrow> ConditionalPayment db_op" where
  "new_payment ref amount req =
     op_bind uuid4 (\<lambda>i.
     op_bind (op_lift (numeric 28 8 amount)) (\<lambda>v.
     op_bind (op_get txn_now) (\<lambda>t.
     let row = \<lparr>cp_id = i, cp_payment_ref = ref, cp_payer_account_id = cq_payer_account_id req,
       cp_payee_account_id = cq_payee_account_id req, cp_currency = cq_currency req, cp_amount = v,
       cp_condition_type = cq_condition_type req, cp_condition_params = cq_condition_params req,
       cp_status = T_PENDING, cp_trigger_data = None, cp_transaction_id = None, cp_created_at = t,
       cp_executed_at = None, cp_expires_at = cq_expires_at req\<rparr>
     in op_bind (insert_row condpay_constraints conditional_payments_update row) (\<lambda>_.
        op_return row))))"

definition create_conditional_payment ::
  "CreateConditionalPaymentRequest \<Rightarrow> ConditionalPaymentResponse db_op" where
  "create_conditional_payment req =
     op_bind (gt_zero ''amount'' (cq_amount req)) (\<lambda>_.
     get_db_session (
     op_bind (op_get (\<lambda>s. if truthy (cq_idempotency_key req)
       then find_payment s (the (cq_idempotency_key req)) else None)) (\<lambda>existing.
     case existing of Some r \<Rightarrow> op_return (payment_response r) | None \<Rightarrow>
     op_bind (op_get (\<lambda>s. account_active s (cq_payer_account_id req))) (\<lambda>payer_ok.
     op_bind (op_assert payer_ok (HTTPException 404 [Txt ''Payer account not found''])) (\<lambda>_.
     op_bind (op_get (\<lambda>s. account_active s (cq_payee_account_id req))) (\<lambda>payee_ok.
     op_bind (op_assert payee_ok (HTTPException 404 [Txt ''Payee account not found''])) (\<lambda>_.
     op_bind (op_lift (quantize round_half_even 8 (cq_amount req))) (\<lambda>amount.
     op_bind (key_or_fresh (cq_idempotency_key req) ''CP-'') (\<lambda>ref.
     op_bind (new_payment ref amount req) (\<lambda>cp.
     op_bind (record_status ConditionalPaymentStatusHistory (cp_id cp) (TxnStatus_value T_PENDING)
       None no_extra) (\<lambda>_.
     op_bind (emit PaymentEngineSvc ref ''payment.conditional.created''
       (ConditionalPaymentCreated ref (cq_payer_account_id req) (cq_payee_account_id req)
          (cq_currency req) amount (cq_condition_type req) (cq_condition_params req))) (\<lambda>_.
     op_return \<lparr>cr_payment_ref = ref, cr_status = cp_status cp,
       cr_condition_type = cq_condition_type req, cr_amount = amount,
       cr_currency = cq_currency req\<rparr>))))))))))))"

record TriggerConditionalPaymentRequest =
  tq_trigger_data :: dict
  tq_triggered_by :: string

datatype TriggerResult =
    condition_not_satisfied string
  | executed string uuid time Receipt

definition payment_or_404 :: "string \<Rightarrow> string \<Rightarrow> ConditionalPayment db_op" where
  "payment_or_404 detail ref =
     op_bind (op_get (\<lambda>s. find_payment s ref)) (\<lambda>r.
     case r of None \<Rightarrow> op_raise (HTTPException 404 [Txt detail]) | Some x \<Rightarrow> op_return x)"

definition trigger_conditional_payment ::
  "string \<Rightarrow> TriggerConditionalPaymentRequest \<Rightarrow> TriggerResult db_op" where
  "trigger_conditional_payment payment_ref req =
     get_db_session (
     op_bind (payment_or_404 ''Conditional payment not found'' payment_ref) (\<lambda>cp.
     op_bind (op_assert (cp_status cp = T_PENDING)
       (HTTPException 409 [Txt (''Payment is in state: '' @ TxnStatus_value (cp_status cp))])) (\<lambda>_.
     op_bind utcnow (\<lambda>now.
     op_bind (op_lift (evaluate_condition now (cp_condition_type cp) (cp_condition_params cp)
       (tq_trigger_data req))) (\<lambda>satisfied.
     if \<not> satisfied
     then
       op_bind (emit PaymentEngineSvc payment_ref ''payment.conditional.triggered''
         (ConditionalPaymentTriggered payment_ref (tq_trigger_data req) (tq_triggered_by req))) (\<lambda>_.
       op_return (condition_not_satisfied payment_ref))
     else
       op_bind (priv_execute_conditional_payment cp (tq_trigger_data req) (tq_triggered_by req))
         (\<lambda>(txn_id, executed_at, receipt).
       op_return (executed payment_ref txn_id executed_at receipt)))))))"

record ConditionalPaymentView = ConditionalPaymentResponse +
  pr_condition_params :: dict
  pr_trigger_data :: "dict option"
  pr_created_at :: time
  pr_executed_at :: "time option"
  pr_expires_at :: "time option"
  pr_blockchain :: json

definition payment_view :: "ConditionalPayment \<Rightarrow> ConditionalPaymentView" where
  "payment_view cp =
     ConditionalPaymentResponse.extend (payment_response cp)
       (ConditionalPaymentView.fields (cp_condition_params cp) (cp_trigger_data cp) (cp_created_at cp)
          (cp_executed_at cp) (cp_expires_at cp)
          (dict_get (case cp_trigger_data cp of None \<Rightarrow> [] | Some d \<Rightarrow> d) ''blockchain'' JNull))"

definition get_conditional_payment :: "string \<Rightarrow> ConditionalPaymentView db_op" where
  "get_conditional_payment payment_ref =
     get_db_session (op_bind (payment_or_404 ''Not found'' payment_ref) (\<lambda>cp. op_return (payment_view cp)))"

record CreateEscrowRequest =
  eq_depositor_account_id :: uuid
  eq_beneficiary_account_id :: uuid
  eq_currency :: CurrencyCode
  eq_amount :: rat
  eq_conditions :: dict
  eq_expires_at :: time
  eq_arbiter_account_id :: "uuid option"
  eq_idempotency_key :: "string option"

record EscrowResponse =
  er_contract_ref :: string
  er_status :: EscrowStatus
  er_amount :: rat
  er_currency :: CurrencyCode
  er_expires_at :: time
  er_depositor_account_id :: uuid
  er_beneficiary_account_id :: uuid

definition find_escrow :: "world \<Rightarrow> string \<Rightarrow> EscrowContract option" where
  "find_escrow s ref = List.find (\<lambda>r. ec_contract_ref r = ref) (escrow_contracts s)"

definition escrow_response :: "EscrowContract \<Rightarrow> EscrowResponse" where
  "escrow_response r =
     \<lparr>er_contract_ref = ec_contract_ref r, er_status = ec_status r, er_amount = ec_amount r,
      er_currency = ec_currency r, er_expires_at = ec_expires_at r,
      er_depositor_account_id = ec_depositor_account_id r,
      er_beneficiary_account_id = ec_beneficiary_account_id r\<rparr>"

definition new_escrow :: "string \<Rightarrow> rat \<Rightarrow> CreateEscrowRequest \<Rightarrow> EscrowContract db_op" where
  "new_escrow ref amount req =
     op_bind uuid4 (\<lambda>i.
     op_bind (op_lift (numeric 28 8 amount)) (\<lambda>v.
     op_bind (op_get txn_now) (\<lambda>t.
     let row = \<lparr>ec_id = i, ec_contract_ref = ref,
       ec_depositor_account_id = eq_depositor_account_id req,
       ec_beneficiary_account_id = eq_beneficiary_account_id req, ec_currency = eq_currency req,
       ec_amount = v, ec_conditions = eq_conditions req, ec_status = E_ACTIVE,
       ec_release_txn_id = None, ec_arbiter_account_id = eq_arbiter_account_id req,
       ec_expires_at = eq_expires_at req, ec_released_at = None, ec_release_triggered_by = None,
       ec_created_at = t\<rparr>
     in op_bind (insert_row escrow_constraints escrow_contracts_update row) (\<lambda>_.
        op_return row))))"

definition create_escrow :: "CreateEscrowRequest \<Rightarrow> EscrowResponse db_op" where
  "create_escrow req =
     op_bind (gt_zero ''amount'' (eq_amount req)) (\<lambda>_.
     get_db_session (
     op_bind (op_get (\<lambda>s. if truthy (eq_idempotency_key req)
       then find_escrow s (the (eq_idempotency_key req)) else None)) (\<lambda>existing.
     case existing of Some r \<Rightarrow> op_return (escrow_response r) | None \<Rightarrow>
     op_bind (op_get (\<lambda>s. account_active s (eq_depositor_account_id req))) (\<lambda>depositor_ok.
     op_bind (op_assert depositor_ok (HTTPException 404 [Txt ''Depositor account not found''])) (\<lambda>_.
     op_bind (op_get (\<lambda>s. account_active s (eq_beneficiary_account_id req))) (\<lambda>beneficiary_ok.
     op_bind (op_assert beneficiary_ok (HTTPException 404 [Txt ''Beneficiary account not found''])) (\<lambda>_.
     op_bind (op_lift (quantize round_half_even 8 (eq_amount req))) (\<lambda>amount.
     op_bind (priv_reserve_funds (eq_depositor_account_id req) (eq_currency req) amount) (\<lambda>_.
     op_bind (key_or_fresh None ''ESC-'') (\<lambda>ref.
     op_bind (new_escrow ref amount req) (\<lambda>escrow.
     op_bind (record_status EscrowStatusHistory (ec_id escrow) (EscrowStatus_value E_ACTIVE) None no_extra) (\<lambda>_.
     op_bind (emit PaymentEngineSvc ref ''escrow.created''
       (EscrowCreated ref (eq_depositor_account_id req) (eq_beneficiary_account_id req)
          (eq_currency req) amount (eq_conditions req) (eq_expires_at req))) (\<lambda>_.
     op_return \<lparr>er_contract_ref = ref, er_status = ec_status escrow, er_amount = amount,
       er_currency = eq_currency req, er_expires_at = eq_expires_at req,
       er_depositor_account_id = eq_depositor_account_id req,
       er_beneficiary_account_id = eq_beneficiary_account_id req\<rparr>)))))))))))))"

record ReleaseEscrowRequest =
  rq_release_to :: string
  rq_triggered_by :: string

datatype ReleaseResult =
    released_to_beneficiary uuid Receipt "FiatReceipt option"
  | refunded_to_depositor rat

definition escrow_or_404 :: "string \<Rightarrow> EscrowContract db_op" where
  "escrow_or_404 ref =
     op_bind (op_get (\<lambda>s. find_escrow s ref)) (\<lambda>r.
     case r of None \<Rightarrow> op_raise (HTTPException 404 [Txt ''Escrow not found'']) | Some x \<Rightarrow> op_return x)"

text \<open>The narrative holds an arrow, in the bytes of its UTF-8 form.\<close>

definition release_narrative :: "string \<Rightarrow> string" where
  "release_narrative ref = ''Escrow release '' @ ref @ '' '' @ [CHR 0xE2, CHR 0x86, CHR 0x92] @ '' beneficiary''"

definition release_to_beneficiary ::
  "string \<Rightarrow> EscrowContract \<Rightarrow> time \<Rightarrow> string \<Rightarrow> ReleaseResult db_op" where
  "release_to_beneficiary contract_ref escrow now triggered_by =
     op_bind (priv_locked_transfer (ec_depositor_account_id escrow) (ec_beneficiary_account_id escrow)
       (ec_currency escrow) (ec_amount escrow) (release_narrative contract_ref) ''escrow_release'' True) (\<lambda>txn_id.
     op_bind (update_escrow (ec_id escrow) (\<lambda>r. r\<lparr>ec_status := E_RELEASED,
       ec_release_txn_id := Some txn_id, ec_released_at := Some now,
       ec_release_triggered_by := Some triggered_by\<rparr>)) (\<lambda>_.
     op_bind (record_status EscrowStatusHistory (ec_id escrow) (EscrowStatus_value E_RELEASED) None no_extra) (\<lambda>_.
     op_bind (emit PaymentEngineSvc contract_ref ''escrow.released''
       (EscrowReleased contract_ref (uuid_str txn_id) (ec_beneficiary_account_id escrow) triggered_by
          (ec_amount escrow))) (\<lambda>_.
     op_bind (record_on_chain PaymentEngineSvc contract_ref ''escrow_release'' '''') (\<lambda>receipt.
     op_bind utcnow (\<lambda>settled.
     op_bind (op_get (\<lambda>s. map_option (\<lambda>f. f\<lparr>fi_settled_at := Some settled\<rparr>)
       (record_fiat_rail (sha256_hex s) contract_ref ''internal''))) (\<lambda>fiat_receipt.
     op_return (released_to_beneficiary txn_id receipt fiat_receipt))))))))"

definition refund_to_depositor ::
  "string \<Rightarrow> EscrowContract \<Rightarrow> time \<Rightarrow> string \<Rightarrow> ReleaseResult db_op" where
  "refund_to_depositor contract_ref escrow now triggered_by =
     (let depositor_id = ec_depositor_account_id escrow in
     op_bind (new_hold ''REL-'' depositor_id (ec_currency escrow) (ec_amount escrow) RELEASE
       (Some (ec_id escrow))) (\<lambda>_.
     op_bind (unreserve_legacy depositor_id (ec_currency escrow) (ec_amount escrow)) (\<lambda>_.
     op_bind (update_escrow (ec_id escrow) (\<lambda>r. r\<lparr>ec_status := E_REFUNDED,
       ec_released_at := Some now, ec_release_triggered_by := Some triggered_by\<rparr>)) (\<lambda>_.
     op_bind (record_status EscrowStatusHistory (ec_id escrow) (EscrowStatus_value E_REFUNDED) None no_extra) (\<lambda>_.
     op_bind (emit PaymentEngineSvc contract_ref ''escrow.released''
       (EscrowReleased contract_ref '''' depositor_id triggered_by (ec_amount escrow))) (\<lambda>_.
     op_return (refunded_to_depositor (ec_amount escrow))))))))"

definition release_escrow :: "string \<Rightarrow> ReleaseEscrowRequest \<Rightarrow> ReleaseResult db_op" where
  "release_escrow contract_ref req =
     op_bind (op_assert (rq_release_to req \<in> {''beneficiary'', ''depositor''})
       (HTTPException 422 [Txt ''release_to: String should match pattern''])) (\<lambda>_.
     get_db_session (
     op_bind (escrow_or_404 contract_ref) (\<lambda>escrow.
     op_bind (op_assert (ec_status escrow = E_ACTIVE)
       (HTTPException 409 [Txt (''Escrow is in state: '' @ EscrowStatus_value (ec_status escrow))])) (\<lambda>_.
     op_bind utcnow (\<lambda>now.
     if ec_expires_at escrow < now
     then op_bind (priv_expire_escrow escrow) (\<lambda>_.
          op_raise (HTTPException 410 [Txt ''Escrow has expired and been refunded'']))
     else if rq_release_to req = ''beneficiary''
     then release_to_beneficiary contract_ref escrow now (rq_triggered_by req)
     else refund_to_depositor contract_ref escrow now (rq_triggered_by req))))))"

record EscrowView =
  ev_contract_ref :: string
  ev_status :: EscrowStatus
  ev_currency :: CurrencyCode
  ev_amount :: rat
  ev_conditions :: dict
  ev_expires_at :: time
  ev_released_at :: "time option"
  ev_release_triggered_by :: "string option"

definition escrow_view :: "EscrowContract \<Rightarrow> EscrowView" where
  "escrow_view r =
     \<lparr>ev_contract_ref = ec_contract_ref r, ev_status = ec_status r, ev_currency = ec_currency r,
      ev_amount = ec_amount r, ev_conditions = ec_conditions r, ev_expires_at = ec_expires_at r,
      ev_released_at = ec_released_at r, ev_release_triggered_by = ec_release_triggered_by r\<rparr>"

definition get_escrow :: "string \<Rightarrow> EscrowView db_op" where
  "get_escrow contract_ref =
     get_db_session (op_bind (escrow_or_404 contract_ref) (\<lambda>r. op_return (escrow_view r)))"

section \<open>What the helpers do\<close>

definition hold_row ::
  "uuid \<Rightarrow> string \<Rightarrow> time \<Rightarrow> uuid \<Rightarrow> CurrencyCode \<Rightarrow> rat \<Rightarrow> HoldType \<Rightarrow> uuid option \<Rightarrow> EscrowHold" where
  "hold_row i ref t a c v ht rel =
     \<lparr>eh_id = i, eh_hold_ref = ref, eh_account_id = a, eh_currency = c, eh_amount = v,
      eh_hold_type = ht, eh_related_entity_type = ''escrow'', eh_related_entity_id = rel,
      eh_created_at = t\<rparr>"

lemma hold_row_simps [simp]:
  "eh_account_id (hold_row i ref t a c v ht rel) = a"
  "eh_currency (hold_row i ref t a c v ht rel) = c"
  "eh_amount (hold_row i ref t a c v ht rel) = v"
  "eh_hold_type (hold_row i ref t a c v ht rel) = ht"
  by (simp_all add: hold_row_def)

lemma valid_hold [simp]:
  "valid_row hold_constraints s (hold_row i ref t a c v ht rel) \<longleftrightarrow> a \<in> acc_id ` set (accounts s)"
  by (simp add: valid_row_def hold_constraints_def)

lemma wp_new_hold [wp_simps]:
  "wp (new_hold pre a c amt ht rel) s Q partial \<longleftrightarrow>
     (\<forall>v. numeric 38 18 amt = Inr v \<longrightarrow> a \<in> acc_id ` set (accounts s) \<longrightarrow>
        Q () (s\<lparr>ticks := ticks s + 2, escrow_holds := escrow_holds s @
          [hold_row (rng s (Suc (ticks s))) (pre @ hex12 (rng s (ticks s))) (txn_now s) a c v ht rel]\<rparr>))"
  by (simp add: new_hold_def wp_simps flip: hold_row_def split: sum.splits)

lemma wp_new_hold_total:
  "numeric 38 18 amt = Inr v \<Longrightarrow> a \<in> acc_id ` set (accounts s) \<Longrightarrow>
   wp (new_hold pre a c amt ht rel) s Q E \<longleftrightarrow>
     Q () (s\<lparr>ticks := ticks s + 2, escrow_holds := escrow_holds s @
          [hold_row (rng s (Suc (ticks s))) (pre @ hex12 (rng s (ticks s))) (txn_now s) a c v ht rel]\<rparr>)"
  by (simp add: new_hold_def wp_simps flip: hold_row_def)

definition legacy_rows :: "uuid \<Rightarrow> CurrencyCode \<Rightarrow> rat \<Rightarrow> TokenBalance list \<Rightarrow> TokenBalance list" where
  "legacy_rows a c v =
     map_where (\<lambda>b. tb_account_id b = a \<and> tb_currency b = c)
       (\<lambda>b. b\<lparr>tb_reserved := dec_sub (tb_reserved b) (min v (tb_reserved b)), tb_version := tb_version b + 1\<rparr>)"

lemma wp_unreserve [wp_simps]:
  "wp (unreserve_legacy a c v) s Q E \<longleftrightarrow> Q () (s\<lparr>token_balances := legacy_rows a c v (token_balances s)\<rparr>)"
  by (simp add: unreserve_legacy_def legacy_rows_def wp_simps)

lemma wp_update_payment [wp_simps]:
  "wp (update_payment i f) s Q E \<longleftrightarrow>
     Q () (s\<lparr>conditional_payments := map_where (\<lambda>r. cp_id r = i) f (conditional_payments s)\<rparr>)"
  by (simp add: update_payment_def wp_simps)

lemma wp_update_escrow [wp_simps]:
  "wp (update_escrow i f) s Q E \<longleftrightarrow>
     Q () (s\<lparr>escrow_contracts := map_where (\<lambda>r. ec_id r = i) f (escrow_contracts s)\<rparr>)"
  by (simp add: update_escrow_def wp_simps)

lemma wp_payment_or_404 [wp_simps]:
  "wp (payment_or_404 d ref) s Q E \<longleftrightarrow>
     (case find_payment s ref of None \<Rightarrow> E (HTTPException 404 [Txt d]) s | Some r \<Rightarrow> Q r s)"
  by (simp add: payment_or_404_def wp_simps split: option.splits)

lemma wp_escrow_or_404 [wp_simps]:
  "wp (escrow_or_404 ref) s Q E \<longleftrightarrow>
     (case find_escrow s ref of None \<Rightarrow> E (HTTPException 404 [Txt ''Escrow not found'']) s | Some r \<Rightarrow> Q r s)"
  by (simp add: escrow_or_404_def wp_simps split: option.splits)

lemma find_begin [simp]:
  "find_payment (begin_txn s) ref = find_payment s ref" "find_escrow (begin_txn s) ref = find_escrow s ref"
  by (simp_all add: find_payment_def find_escrow_def)

section \<open>Holds\<close>

text \<open>The part of a list of holds that is in force, per account and currency.\<close>

definition net_holds :: "EscrowHold list \<Rightarrow> uuid \<Rightarrow> CurrencyCode \<Rightarrow> rat" where
  "net_holds hs a c =
     (\<Sum>h\<leftarrow>filter (\<lambda>h. eh_account_id h = a \<and> eh_currency h = c) hs.
        if eh_hold_type h = RESERVE then eh_amount h else - eh_amount h)"

lemma net_holds_append: "net_holds (hs @ hs') a c = net_holds hs a c + net_holds hs' a c"
  by (simp add: net_holds_def)

lemma net_holds_row [simp]:
  "net_holds [hold_row i ref t a c v ht rel] b d =
     (if b = a \<and> d = c then if ht = RESERVE then v else - v else 0)"
  by (simp add: net_holds_def)

lemma active_holds_net: "active_holds s a c = net_holds (escrow_holds s) a c"
proof -
  have "(\<Sum>h\<leftarrow>filter (\<lambda>h. eh_account_id h = a \<and> eh_currency h = c \<and> eh_hold_type h = RESERVE) hs. eh_amount h) -
        (\<Sum>h\<leftarrow>filter (\<lambda>h. eh_account_id h = a \<and> eh_currency h = c \<and> eh_hold_type h = RELEASE) hs. eh_amount h) =
        net_holds hs a c" for hs
  proof (induction hs)
    case (Cons h hs)
    then show ?case by (cases "eh_hold_type h") (auto simp: net_holds_def)
  qed (simp add: net_holds_def)
  then show ?thesis by (simp add: active_holds_def holds_of_def)
qed

end
