(* ===== verification/Escrow.thy ===== *)
theory Escrow
  imports PaymentEngine
begin

text \<open>
  Escrow contracts of \<open>src/services/payment-engine/main.py\<close>: what creation, release, refund
  and expiry do, and that the holds in force are always exactly the contracts in force.
\<close>

section \<open>What the operations do\<close>

definition same_contract :: "EscrowContract \<Rightarrow> EscrowContract \<Rightarrow> bool" where
  "same_contract q q' \<longleftrightarrow>
     ec_id q' = ec_id q \<and> ec_contract_ref q' = ec_contract_ref q \<and>
     ec_depositor_account_id q' = ec_depositor_account_id q \<and>
     ec_beneficiary_account_id q' = ec_beneficiary_account_id q \<and>
     ec_currency q' = ec_currency q \<and> ec_amount q' = ec_amount q \<and> ec_expires_at q' = ec_expires_at q"

text \<open>The hold of a contract is released and the contract, and no other, takes the final status.\<close>

definition closes :: "EscrowStatus \<Rightarrow> EscrowContract \<Rightarrow> world \<Rightarrow> world \<Rightarrow> bool" where
  "closes st r s s' \<longleftrightarrow>
     (\<exists>i ref t rel. escrow_holds s' = escrow_holds s @
        [hold_row i ref t (ec_depositor_account_id r) (ec_currency r) (ec_amount r) RELEASE rel]) \<and>
     changed_where (\<lambda>q. ec_id q = ec_id r) (\<lambda>q q'. same_contract q q' \<and> ec_status q' = st)
       (escrow_contracts s) (escrow_contracts s') \<and>
     (\<exists>h. status_history s' = status_history s @ h \<and> map sh_status h = [EscrowStatus_value st]) \<and>
     accounts s' = accounts s \<and> conditional_payments s' = conditional_payments s"

abbreviation moved_to_beneficiary :: "EscrowContract \<Rightarrow> JournalEntry list \<Rightarrow> JournalEntry list \<Rightarrow> bool" where
  "moved_to_beneficiary r \<equiv> posted (ec_currency r) (ec_amount r)
     (ec_depositor_account_id r, ''INSTITUTION_LIABILITY'')
     (ec_beneficiary_account_id r, ''INSTITUTION_LIABILITY'')"

lemma wp_expire:
  assumes "numeric 28 8 (ec_amount r) = Inr (ec_amount r)"
  shows "wp (priv_expire_escrow r) s (\<lambda>_ s'. closes E_EXPIRED r s s' \<and>
     journal_entries s' = journal_entries s \<and> transactions s' = transactions s) partial"
  using numeric_stored [OF assms]
  by (simp add: priv_expire_escrow_def wp_simps Let_def closes_def)
     (auto simp: same_contract_def intro!: changed_map_where)

lemma wp_refund:
  assumes "numeric 28 8 (ec_amount r) = Inr (ec_amount r)"
  shows "wp (refund_to_depositor ref r now who) s (\<lambda>res s'. closes E_REFUNDED r s s' \<and>
     res = refunded_to_depositor (ec_amount r) \<and>
     journal_entries s' = journal_entries s \<and> transactions s' = transactions s) partial"
  using numeric_stored [OF assms]
  by (simp add: refund_to_depositor_def wp_simps Let_def closes_def)
     (auto simp: same_contract_def intro!: changed_map_where)

definition release_tx :: "EscrowContract \<Rightarrow> Transaction \<Rightarrow> bool" where
  "release_tx r t \<longleftrightarrow>
     tx_debit_account_id t = ec_depositor_account_id r \<and>
     tx_credit_account_id t = ec_beneficiary_account_id r \<and>
     tx_currency t = ec_currency r \<and> tx_amount t = ec_amount r"

lemma wp_pay_out:
  assumes "numeric 28 8 (ec_amount r) = Inr (ec_amount r)"
  shows "wp (release_to_beneficiary ref r now who) s (\<lambda>res s'. closes E_RELEASED r s s' \<and>
     (\<exists>x rc fr. res = released_to_beneficiary x rc fr) \<and>
     moved_to_beneficiary r (journal_entries s) (journal_entries s') \<and>
     (\<exists>t. transactions s' = transactions s @ [t] \<and> release_tx r t)) partial"
  using numeric_stored [OF assms]
  by (simp add: release_to_beneficiary_def priv_locked_transfer_def wp_simps Let_def closes_def release_tx_def)
     (auto simp: same_contract_def intro!: changed_map_where)

text \<open>The outcome of a release request, by the side it names.\<close>

definition release_outcome ::
  "ReleaseEscrowRequest \<Rightarrow> EscrowContract \<Rightarrow> ReleaseResult \<Rightarrow> world \<Rightarrow> world \<Rightarrow> bool" where
  "release_outcome req r res s s' \<longleftrightarrow>
     (if rq_release_to req = ''beneficiary''
      then closes E_RELEASED r s s' \<and> moved_to_beneficiary r (journal_entries s) (journal_entries s') \<and>
        (\<exists>t. transactions s' = transactions s @ [t] \<and> release_tx r t)
      else closes E_REFUNDED r s s' \<and> journal_entries s' = journal_entries s \<and>
        transactions s' = transactions s \<and> res = refunded_to_depositor (ec_amount r))"

lemma closes_frame [simp]:
  "closes st r (begin_txn s\<lparr>ticks := n\<rparr>) t = closes st r s t"
  "closes st r s (t\<lparr>advisory_locks := l\<rparr>) = closes st r s t"
  by (simp_all add: closes_def)

lemma wp_release:
  assumes stored: "\<And>r. find_escrow s ref = Some r \<Longrightarrow> numeric 28 8 (ec_amount r) = Inr (ec_amount r)"
  shows "wp (release_escrow ref req) s (\<lambda>res s'. \<exists>r. find_escrow s ref = Some r \<and> ec_status r = E_ACTIVE \<and>
      clock s (ticks s + 1) \<le> ec_expires_at r \<and> release_outcome req r res s s') (\<lambda>_. same_tables s)"
proof (cases "find_escrow s ref")
  case None
  then show ?thesis by (simp add: release_escrow_def wp_simps)
next
  case (Some r)
  let ?t = "begin_txn s\<lparr>ticks := Suc (Suc (ticks s))\<rparr>"
  have "wp (if rq_release_to req = ''beneficiary''
      then release_to_beneficiary ref r now who else refund_to_depositor ref r now who) ?t
      (\<lambda>res t. release_outcome req r res s (t\<lparr>advisory_locks := []\<rparr>)) partial" for now who
    by (auto simp: wp_if release_outcome_def
          intro: wp_mono [OF wp_pay_out [OF stored [OF Some]]] wp_mono [OF wp_refund [OF stored [OF Some]]])
  note out = this [unfolded wp_if]
  show ?thesis
    using Some out by (simp add: release_escrow_def wp_simps split: if_splits)
qed

text \<open>A new contract and the reservation of its amount.\<close>

definition opens :: "CreateEscrowRequest \<Rightarrow> EscrowContract \<Rightarrow> world \<Rightarrow> world \<Rightarrow> bool" where
  "opens req e s s' \<longleftrightarrow>
     ec_depositor_account_id e = eq_depositor_account_id req \<and>
     ec_beneficiary_account_id e = eq_beneficiary_account_id req \<and> ec_currency e = eq_currency req \<and>
     quantize round_half_even 8 (eq_amount req) = Inr (ec_amount e) \<and> 0 < ec_amount e \<and>
     numeric 28 8 (ec_amount e) = Inr (ec_amount e) \<and>
     ec_expires_at e = eq_expires_at req \<and> ec_status e = E_ACTIVE \<and>
     (\<forall>q \<in> set (escrow_contracts s). ec_id q \<noteq> ec_id e) \<and>
     (\<exists>u. ec_contract_ref e = ''ESC-'' @ hex16_upper u) \<and>
     ec_amount e \<le> get_available_balance s (ec_depositor_account_id e) (ec_currency e) \<and>
     account_active s (ec_depositor_account_id e) \<and> account_active s (ec_beneficiary_account_id e) \<and>
     escrow_contracts s' = escrow_contracts s @ [e] \<and>
     (\<exists>i ref t. escrow_holds s' = escrow_holds s @
        [hold_row i ref t (ec_depositor_account_id e) (ec_currency e) (ec_amount e) RESERVE None]) \<and>
     journal_entries s' = journal_entries s \<and> transactions s' = transactions s \<and>
     accounts s' = accounts s \<and> conditional_payments s' = conditional_payments s"

definition escrow_row ::
  "uuid \<Rightarrow> time \<Rightarrow> string \<Rightarrow> rat \<Rightarrow> CreateEscrowRequest \<Rightarrow> EscrowContract" where
  "escrow_row i t ref v req =
     \<lparr>ec_id = i, ec_contract_ref = ref,
       ec_depositor_account_id = eq_depositor_account_id req,
       ec_beneficiary_account_id = eq_beneficiary_account_id req, ec_currency = eq_currency req,
       ec_amount = v, ec_conditions = eq_conditions req, ec_status = E_ACTIVE,
       ec_release_txn_id = None, ec_arbiter_account_id = eq_arbiter_account_id req,
       ec_expires_at = eq_expires_at req, ec_released_at = None, ec_release_triggered_by = None,
       ec_created_at = t\<rparr>"

lemma escrow_row_simps [simp]:
  "ec_id (escrow_row i t ref v req) = i" "ec_contract_ref (escrow_row i t ref v req) = ref"
  "ec_depositor_account_id (escrow_row i t ref v req) = eq_depositor_account_id req"
  "ec_beneficiary_account_id (escrow_row i t ref v req) = eq_beneficiary_account_id req"
  "ec_currency (escrow_row i t ref v req) = eq_currency req" "ec_amount (escrow_row i t ref v req) = v"
  "ec_status (escrow_row i t ref v req) = E_ACTIVE"
  "ec_expires_at (escrow_row i t ref v req) = eq_expires_at req"
  by (simp_all add: escrow_row_def)

lemma wp_new_escrow [wp_simps]:
  "wp (new_escrow ref amt req) s Q partial \<longleftrightarrow>
     (\<forall>v. numeric 28 8 amt = Inr v \<longrightarrow>
        valid_row escrow_constraints (s\<lparr>ticks := Suc (ticks s)\<rparr>) (escrow_row (rng s (ticks s)) (txn_now s) ref v req) \<longrightarrow>
        Q (escrow_row (rng s (ticks s)) (txn_now s) ref v req)
          (s\<lparr>ticks := Suc (ticks s), escrow_contracts := escrow_contracts s @
             [escrow_row (rng s (ticks s)) (txn_now s) ref v req]\<rparr>))"
  by (simp add: new_escrow_def wp_simps Let_def flip: escrow_row_def split: sum.splits)

lemma wp_create_escrow:
  "wp (create_escrow req) s (\<lambda>resp s'.
     (\<exists>r. truthy (eq_idempotency_key req) \<and> find_escrow s (the (eq_idempotency_key req)) = Some r \<and>
        resp = escrow_response r \<and> same_tables s s') \<or>
     (\<exists>e. opens req e s s' \<and> resp = escrow_response e \<and>
        (truthy (eq_idempotency_key req) \<longrightarrow> find_escrow s (the (eq_idempotency_key req)) = None)))
     (\<lambda>_. same_tables s)"
proof (cases "quantize round_half_even 8 (eq_amount req)")
  case (Inl e)
  then show ?thesis by (auto simp: create_escrow_def wp_simps split: option.splits)
next
  case (Inr v)
  show ?thesis
    by (simp add: create_escrow_def priv_reserve_funds_def wp_simps Let_def Inr
          quantize_numeric8 [OF Inr] quantize_numeric18 [OF Inr] split: option.splits)
       (auto simp: opens_def escrow_response_def valid_row_def escrow_constraints_def
          quantize_numeric8 [OF Inr] Inr)
qed

section \<open>Holds in force are contracts in force\<close>

definition active_sum :: "EscrowContract list \<Rightarrow> uuid \<Rightarrow> CurrencyCode \<Rightarrow> rat" where
  "active_sum es a c =
     (\<Sum>e\<leftarrow>filter (\<lambda>e. ec_status e = E_ACTIVE \<and> ec_depositor_account_id e = a \<and> ec_currency e = c) es.
        ec_amount e)"

definition escrow_inv :: "world \<Rightarrow> bool" where
  "escrow_inv s \<longleftrightarrow>
     distinct (map ec_id (escrow_contracts s)) \<and>
     (\<forall>e \<in> set (escrow_contracts s). numeric 28 8 (ec_amount e) = Inr (ec_amount e)) \<and>
     (\<forall>a c. net_holds (escrow_holds s) a c = active_sum (escrow_contracts s) a c)"

lemma active_sum_append: "active_sum (es @ es') a c = active_sum es a c + active_sum es' a c"
  by (simp add: active_sum_def)

lemma active_sum_changed:
  assumes "changed_where (\<lambda>q. ec_id q = ec_id r) (\<lambda>q q'. same_contract q q' \<and> ec_status q' = st) es es'"
    and "distinct (map ec_id es)" "r \<in> set es" "ec_status r = E_ACTIVE" "st \<noteq> E_ACTIVE"
  shows "active_sum es' a c = active_sum es a c -
    (if ec_depositor_account_id r = a \<and> ec_currency r = c then ec_amount r else 0)"
proof -
  let ?g = "\<lambda>e. if ec_status e = E_ACTIVE \<and> ec_depositor_account_id e = a \<and> ec_currency e = c
    then ec_amount e else 0"
  have "active_sum xs a c = (\<Sum>e\<leftarrow>xs. ?g e)" for xs
    by (induction xs) (simp_all add: active_sum_def)
  then show ?thesis
    using changed_where_sum [OF assms(1-3), of ?g
        "if ec_depositor_account_id r = a \<and> ec_currency r = c then ec_amount r else 0"] assms(4,5)
    by (simp add: same_contract_def)
qed

lemma closes_inv:
  assumes inv: "escrow_inv s" and r: "r \<in> set (escrow_contracts s)" "ec_status r = E_ACTIVE"
    and eff: "closes st r s s'" "st \<noteq> E_ACTIVE"
  shows "escrow_inv s'"
proof -
  have ch: "changed_where (\<lambda>q. ec_id q = ec_id r) (\<lambda>q q'. same_contract q q' \<and> ec_status q' = st)
      (escrow_contracts s) (escrow_contracts s')" using eff(1) by (simp add: closes_def)
  have dist: "distinct (map ec_id (escrow_contracts s))" using inv by (simp add: escrow_inv_def)
  have "distinct (map ec_id (escrow_contracts s')) \<and>
      (\<forall>e \<in> set (escrow_contracts s'). numeric 28 8 (ec_amount e) = Inr (ec_amount e))"
    using inv r(1) by (intro changed_where_all [OF ch r(1) _ _ dist]) (auto simp: escrow_inv_def same_contract_def)
  moreover have "net_holds (escrow_holds s') a c = active_sum (escrow_contracts s') a c" for a c
    using inv eff(1) active_sum_changed [OF ch dist r eff(2)]
    by (auto simp: escrow_inv_def closes_def net_holds_append)
  ultimately show ?thesis by (simp add: escrow_inv_def)
qed

lemma opens_inv:
  assumes inv: "escrow_inv s" and eff: "opens req e s s'"
  shows "escrow_inv s'"
  using assms
  by (auto simp: escrow_inv_def opens_def net_holds_append active_sum_append active_sum_def)

section \<open>The checker\<close>

lemma wp_for_inv:
  assumes "\<And>x s. I s \<Longrightarrow> wp (f x) s (\<lambda>_. I) partial"
  shows "I s \<Longrightarrow> wp (op_for xs f) s (\<lambda>_. I) partial"
proof (induction xs arbitrary: s)
  case (Cons x xs)
  show ?case unfolding wp_for_Cons
    by (rule wp_mono [OF assms [OF Cons.prems]]) (use Cons.IH in auto)
qed (simp add: wp_simps)

abbreviation same_escrow :: "world \<Rightarrow> world \<Rightarrow> bool" where
  "same_escrow s s' \<equiv> escrow_holds s' = escrow_holds s \<and> escrow_contracts s' = escrow_contracts s"

lemma check_payment_escrow:
  "same_escrow s0 s \<Longrightarrow> wp (check_payment now cp) s (\<lambda>_. same_escrow s0) partial"
  by (simp add: check_payment_def priv_execute_conditional_payment_def priv_locked_transfer_def
      wp_simps Let_def split: option.splits sum.splits)

lemma escrow_inv_frame [simp]:
  "escrow_inv (rollback s t) \<longleftrightarrow> escrow_inv s" "escrow_inv (begin_txn s) \<longleftrightarrow> escrow_inv s"
  "escrow_inv (s\<lparr>advisory_locks := l\<rparr>) \<longleftrightarrow> escrow_inv s" "escrow_inv (s\<lparr>ticks := n\<rparr>) \<longleftrightarrow> escrow_inv s"
  by (simp_all add: escrow_inv_def)

lemma escrow_inv_same: "same_escrow s s' \<Longrightarrow> escrow_inv s \<Longrightarrow> escrow_inv s'"
  by (simp add: escrow_inv_def)

lemma escrow_inv_tables: "escrow_inv s \<Longrightarrow> same_tables s s' \<Longrightarrow> escrow_inv s'"
  by (simp add: escrow_inv_def same_tables_eqs)

lemma stored_amount:
  "escrow_inv s \<Longrightarrow> r \<in> set (escrow_contracts s) \<Longrightarrow> numeric 28 8 (ec_amount r) = Inr (ec_amount r)"
  by (simp add: escrow_inv_def)

lemma expire_ok:
  assumes inv: "escrow_inv s" and r: "r \<in> set (escrow_contracts s)" "ec_status r = E_ACTIVE"
    and run: "priv_expire_escrow r s = (Inr u, s')"
  shows "escrow_inv s' \<and> (\<forall>q \<in> set (escrow_contracts s). ec_id q \<noteq> ec_id r \<longrightarrow> q \<in> set (escrow_contracts s'))"
proof -
  have eff: "closes E_EXPIRED r s s'"
    using wp_Inr [OF wp_expire [OF stored_amount [OF inv r(1)]] run] by blast
  then have "changed_where (\<lambda>q. ec_id q = ec_id r) (\<lambda>q q'. same_contract q q' \<and> ec_status q' = E_EXPIRED)
      (escrow_contracts s) (escrow_contracts s')" by (simp add: closes_def)
  from changed_where_keeps [OF this] closes_inv [OF inv r eff] show ?thesis by simp
qed

interpretation expiry: batch_worker priv_expire_escrow escrow_contracts ec_id
  "\<lambda>e. ec_status e = E_ACTIVE" "expired_escrows now" escrow_inv "\<lambda>_. escrow_inv"
  for now
proof
  show "distinct (map ec_id (expired_escrows now s)) \<and>
      (\<forall>r \<in> set (expired_escrows now s). r \<in> set (escrow_contracts s) \<and> ec_status r = E_ACTIVE)"
    if "escrow_inv s" for s
    using that by (auto simp: expired_escrows_def escrow_inv_def distinct_map_filter)
qed (auto dest: expire_ok intro: escrow_inv_tables)

lemma wp_check_pass:
  assumes "escrow_inv s"
  shows "wp check_pass s (\<lambda>_. escrow_inv) partial"
proof -
  let ?s = "s\<lparr>ticks := Suc (ticks s)\<rparr>" and ?now = "clock s (ticks s)"
  have "wp (op_for es priv_expire_escrow) t (\<lambda>_. escrow_inv) partial"
    if t: "escrow_inv t" and es: "es = expired_escrows ?now t" for t es
  proof (rule wpI)
    fix x t' assume run: "op_for es priv_expire_escrow t = (Inr x, t')"
    show "escrow_inv t'"
      using expiry.batch_ok [OF t _ _ run] expiry.pending_ready [OF t, of ?now] es by blast
  qed simp
  moreover have "wp (op_for xs (check_payment ?now)) ?s (\<lambda>_. same_escrow ?s) partial" for xs
    by (rule wp_for_inv) (auto intro: check_payment_escrow)
  ultimately show ?thesis
    unfolding check_pass_def using assms
    by (simp add: wp_bind wp_utcnow wp_get) (rule wp_mono, assumption, auto intro: escrow_inv_same)
qed

lemma inv_check_cycle:
  assumes "escrow_inv s"
  shows "escrow_inv (check_conditions_cycle s)"
proof -
  have "wp (get_db_session check_pass) s (\<lambda>_. escrow_inv) (\<lambda>_. escrow_inv)"
    using assms wp_check_pass [of "begin_txn s"] by (simp add: wp_session)
  then show ?thesis
    by (auto simp: check_conditions_cycle_def worker_pass_def wp_def split: prod.splits sum.splits)
qed

section \<open>Runs\<close>

text \<open>
  The steps that touch escrow contracts or holds, each a whole handler or checker pass, and any
  other step of the platform, which leaves both tables alone.
\<close>

inductive escrow_step :: "world \<Rightarrow> world \<Rightarrow> bool" where
  create: "create_escrow req s = (resp, s') \<Longrightarrow> escrow_step s s'"
| release: "release_escrow ref rel s = (res, s') \<Longrightarrow> escrow_step s s'"
| check: "escrow_step s (check_conditions_cycle s)"
| other: "same_escrow s s' \<Longrightarrow> escrow_step s s'"

inductive escrow_reachable :: "world \<Rightarrow> bool" where
  start: "escrow_contracts s = [] \<Longrightarrow> escrow_holds s = [] \<Longrightarrow> escrow_reachable s"
| step: "escrow_reachable s \<Longrightarrow> escrow_step s s' \<Longrightarrow> escrow_reachable s'"

lemma find_escrow_in: "find_escrow s ref = Some r \<Longrightarrow> r \<in> set (escrow_contracts s)"
  by (auto simp: find_escrow_def dest!: find_Some_iff)

lemma inv_release:
  assumes inv: "escrow_inv s" and run: "release_escrow ref req s = (res, s')"
  shows "escrow_inv s'"
proof -
  have "numeric 28 8 (ec_amount r) = Inr (ec_amount r)" if "find_escrow s ref = Some r" for r
    using inv find_escrow_in [OF that] by (rule stored_amount)
  note post = wp_release [OF this, of s ref req]
  show ?thesis
  proof (cases res)
    case (Inl e)
    with run inv wp_Inl [OF post] show ?thesis by (blast intro: escrow_inv_tables)
  next
    case (Inr x)
    with run wp_Inr [OF post] obtain r where r: "r \<in> set (escrow_contracts s)" "ec_status r = E_ACTIVE"
        "release_outcome req r x s s'"
      by (blast dest: find_escrow_in)
    from r(3) have "closes E_RELEASED r s s' \<or> closes E_REFUNDED r s s'"
      by (auto simp: release_outcome_def split: if_splits)
    with inv r show ?thesis by (auto intro: closes_inv)
  qed
qed

lemma escrow_inv_step: "escrow_step s s' \<Longrightarrow> escrow_inv s \<Longrightarrow> escrow_inv s'"
proof (induction rule: escrow_step.induct)
  case (create req s resp s')
  then show ?case
    using wp_Inr [OF wp_create_escrow, of req s] wp_Inl [OF wp_create_escrow, of req s]
    by (cases resp) (blast intro: escrow_inv_tables opens_inv)+
next
  case (release ref rel s res s')
  then show ?case by (blast intro: inv_release)
next
  case (check s)
  then show ?case by (rule inv_check_cycle)
next
  case (other s s')
  then show ?case using escrow_inv_same by blast
qed

lemma escrow_inv_reachable: "escrow_reachable s \<Longrightarrow> escrow_inv s"
proof (induction rule: escrow_reachable.induct)
  case (start s)
  then show ?case by (simp add: escrow_inv_def net_holds_def active_sum_def)
next
  case (step s s')
  then show ?case using escrow_inv_step by blast
qed

section \<open>Audit tables\<close>

lemma places_ok_hold [simp]: "places_ok [] [hold_row i ref t a c v ht rel] \<longleftrightarrow> on_grid 18 v"
  by (simp add: places_ok_def)

lemma keeps_audit_hold [keeps_intros]: "keeps (audit_safe s0) (new_hold pre a c v ht rel)"
proof (rule keepsI)
  fix s r s' assume s: "audit_safe s0 s" and run: "new_hold pre a c v ht rel s = (r, s')"
  have "wp (new_hold pre a c v ht rel) s (\<lambda>_. audit_safe s0) (\<lambda>_. audit_safe s0)"
    using s by (simp add: new_hold_def wp_simps audit_safe_def places_ok_holds
        flip: hold_row_def split: sum.splits) (auto dest: numeric_on_grid)
  then show "audit_safe s0 s'" using run by (simp add: wp_def split: sum.splits)
qed

lemma keeps_audit_unreserve [keeps_intros]: "keeps (audit_safe s0) (unreserve_legacy a c v)"
  unfolding unreserve_legacy_def by (rule keeps_update_rows) (simp add: audit_safe_def)

lemma keeps_audit_update_payment [keeps_intros]: "keeps (audit_safe s0) (update_payment i f)"
  unfolding update_payment_def by (rule keeps_update_rows) (simp add: audit_safe_def)

lemma keeps_audit_update_escrow [keeps_intros]: "keeps (audit_safe s0) (update_escrow i f)"
  unfolding update_escrow_def by (rule keeps_update_rows) (simp add: audit_safe_def)

lemma keeps_audit_transfer [keeps_intros]:
  "keeps (audit_safe s0) (priv_locked_transfer d k c v narr ty rel)"
  unfolding priv_locked_transfer_def by (intro keeps_intros)

lemma keeps_audit_execute [keeps_intros]:
  "keeps (audit_safe s0) (priv_execute_conditional_payment cp trig who)"
  unfolding priv_execute_conditional_payment_def by (intro keeps_intros)

lemma keeps_audit_expire [keeps_intros]: "keeps (audit_safe s0) (priv_expire_escrow e)"
  unfolding priv_expire_escrow_def Let_def by (intro keeps_intros)

lemma audit_check_cycle: "audit_safe s (check_conditions_cycle s)"
  unfolding check_conditions_cycle_def check_pass_def check_payment_def
  by (intro audit_worker_pass keeps_intros audit_safe_refl)

lemma keeps_audit_create_escrow [keeps_intros]: "keeps (audit_safe s0) (create_escrow req)"
  unfolding create_escrow_def priv_reserve_funds_def new_escrow_def Let_def
  by (intro keeps_intros keeps_insert_row) (simp_all add: audit_safe_def)

lemma keeps_audit_release_escrow [keeps_intros]: "keeps (audit_safe s0) (release_escrow ref req)"
  unfolding release_escrow_def escrow_or_404_def release_to_beneficiary_def refund_to_depositor_def Let_def
  by (intro keeps_intros)

section \<open>Properties\<close>

text \<open>
  C9. The holds table refines the contracts: in every state the platform can reach, for every
  account and currency, the holds in force (reserved less released) are exactly the amounts of the
  active contracts the account deposited. So a balance net of holds is a balance net of contracts.
\<close>

theorem escrow_holds_exact:
  assumes "escrow_reachable s"
  shows "active_holds s a c = active_sum (escrow_contracts s) a c"
  using escrow_inv_reachable [OF assms] by (simp add: active_holds_net escrow_inv_def)

definition sample_escrow :: CreateEscrowRequest where
  "sample_escrow =
     \<lparr>eq_depositor_account_id = 2, eq_beneficiary_account_id = 3, eq_currency = USD, eq_amount = 100,
      eq_conditions = [], eq_expires_at = 500, eq_arbiter_account_id = None,
      eq_idempotency_key = Some ''K-1''\<rparr>"

lemma sample_escrow_reachable: "escrow_reachable sample_world"
  by (rule escrow_reachable.start) simp_all

theorem escrow_holds_exact_witness:
  "active_holds (snd (create_escrow sample_escrow sample_world)) 2 USD =
     active_sum (escrow_contracts (snd (create_escrow sample_escrow sample_world))) 2 USD"
proof -
  let ?r = "create_escrow sample_escrow sample_world"
  have "escrow_step sample_world (snd ?r)" by (rule escrow_step.create [of _ _ "fst ?r"]) simp
  with sample_escrow_reachable have "escrow_reachable (snd ?r)" by (rule escrow_reachable.step)
  then show ?thesis by (rule escrow_holds_exact)
qed

text \<open>
  Creating a contract reserves its funds: a success that is not a replay adds one active contract
  with the requested parties, currency and rounded amount, moves no money, and lowers what the depositor
  has available by exactly that amount, not below zero, while the amounts involved stay below ten
  billion.
\<close>

theorem create_escrow_reserves:
  assumes run: "create_escrow req s = (Inr resp, s')"
    and new: "\<not> truthy (eq_idempotency_key req) \<or> find_escrow s (the (eq_idempotency_key req)) = None"
    and cols: "columns_ok s" "\<bar>active_holds s (eq_depositor_account_id req) (eq_currency req)\<bar> < 10 ^ 10"
      "\<bar>liability s (eq_depositor_account_id req) (eq_currency req) -
        active_holds s (eq_depositor_account_id req) (eq_currency req)\<bar> < 10 ^ 10"
  shows "\<exists>e. opens req e s s' \<and> resp = escrow_response e \<and>
    liability s' (ec_depositor_account_id e) (ec_currency e) -
      active_holds s' (ec_depositor_account_id e) (ec_currency e) =
    liability s (ec_depositor_account_id e) (ec_currency e) -
      active_holds s (ec_depositor_account_id e) (ec_currency e) - ec_amount e \<and>
    0 \<le> liability s' (ec_depositor_account_id e) (ec_currency e) -
      active_holds s' (ec_depositor_account_id e) (ec_currency e)"
proof -
  from wp_Inr [OF wp_create_escrow run] new obtain e
    where e: "opens req e s s'" "resp = escrow_response e" by auto
  have "get_available_balance s (ec_depositor_account_id e) (ec_currency e) =
      liability s (ec_depositor_account_id e) (ec_currency e) -
      active_holds s (ec_depositor_account_id e) (ec_currency e)"
    using e(1) cols by (intro available_exact) (simp_all add: opens_def)
  moreover have "ec_amount e \<le> get_available_balance s (ec_depositor_account_id e) (ec_currency e)"
    using e(1) unfolding opens_def by blast
  ultimately have "ec_amount e \<le> liability s (ec_depositor_account_id e) (ec_currency e) -
      active_holds s (ec_depositor_account_id e) (ec_currency e)" by simp
  moreover have "liability s' (ec_depositor_account_id e) (ec_currency e) =
      liability s (ec_depositor_account_id e) (ec_currency e)"
    "active_holds s' (ec_depositor_account_id e) (ec_currency e) =
      active_holds s (ec_depositor_account_id e) (ec_currency e) + ec_amount e"
    using e(1) by (auto simp: opens_def active_holds_net net_holds_append)
  ultimately show ?thesis using e by (intro exI [of _ e]) simp
qed

lemma sample_available: "get_available_balance sample_world 2 USD = 1000"
  using available_exact [OF sample_columns, of 2 USD] by simp

lemma sample_create_escrow:
  "\<exists>resp s'. create_escrow sample_escrow sample_world = (Inr resp, s')"
proof -
  have "wp (create_escrow sample_escrow) sample_world (\<lambda>_ _. True) total"
    by (simp add: create_escrow_def priv_reserve_funds_def new_escrow_def sample_escrow_def wp_simps
      find_escrow_def sample_available valid_row_def escrow_constraints_def Let_def
      wp_new_hold_total [OF quantize_numeric18 [OF quantize_100]])
  then show ?thesis by (simp add: wp_total)
qed

theorem create_escrow_reserves_witness:
  "\<exists>resp s'. create_escrow sample_escrow sample_world = (Inr resp, s') \<and>
     liability s' 2 USD - active_holds s' 2 USD = 900"
proof -
  obtain resp s' where run: "create_escrow sample_escrow sample_world = (Inr resp, s')"
    using sample_create_escrow by blast
  obtain e where "opens sample_escrow e sample_world s'"
    "liability s' (ec_depositor_account_id e) (ec_currency e) -
      active_holds s' (ec_depositor_account_id e) (ec_currency e) =
     liability sample_world (ec_depositor_account_id e) (ec_currency e) -
      active_holds sample_world (ec_depositor_account_id e) (ec_currency e) - ec_amount e"
    using create_escrow_reserves [OF run _ sample_columns]
    by (auto simp: sample_escrow_def find_escrow_def)
  with run show ?thesis by (auto simp: opens_def sample_escrow_def)
qed

text \<open>
  C10. A release that succeeds closes exactly the named contract, which was active and not past its
  expiry. To the beneficiary, the amount moves from the depositor's liability and the hold is
  released with it, so what the depositor has available does not change; as a refund, no money
  moves and the amount becomes available to the depositor again.
\<close>

theorem release_escrow_effect:
  assumes reach: "escrow_reachable s" and run: "release_escrow ref req s = (Inr res, s')"
  shows "\<exists>r. find_escrow s ref = Some r \<and> ec_status r = E_ACTIVE \<and> release_outcome req r res s s' \<and>
    (let free = (\<lambda>t. liability t (ec_depositor_account_id r) (ec_currency r) -
                  active_holds t (ec_depositor_account_id r) (ec_currency r)) in
     if rq_release_to req = ''beneficiary''
     then ec_depositor_account_id r \<noteq> ec_beneficiary_account_id r \<longrightarrow> free s' = free s \<and>
       liability s' (ec_beneficiary_account_id r) (ec_currency r) =
         liability s (ec_beneficiary_account_id r) (ec_currency r) + ec_amount r
     else free s' = free s + ec_amount r)"
proof -
  note inv = escrow_inv_reachable [OF reach]
  have "numeric 28 8 (ec_amount r) = Inr (ec_amount r)" if "find_escrow s ref = Some r" for r
    using inv find_escrow_in [OF that] by (rule stored_amount)
  from wp_Inr [OF wp_release [OF this] run] obtain r
    where r: "find_escrow s ref = Some r" "ec_status r = E_ACTIVE" "release_outcome req r res s s'" by blast
  have holds: "active_holds s' (ec_depositor_account_id r) (ec_currency r) =
      active_holds s (ec_depositor_account_id r) (ec_currency r) - ec_amount r"
    using r(3) by (auto simp: release_outcome_def closes_def active_holds_net net_holds_append split: if_splits)
  show ?thesis
  proof (cases "rq_release_to req = ''beneficiary''")
    case True
    with r(3) have "moved_to_beneficiary r (journal_entries s) (journal_entries s')"
      by (simp add: release_outcome_def)
    from posted_balance [OF this] r holds True show ?thesis by (intro exI [of _ r]) (simp add: Let_def)
  next
    case False
    with r holds show ?thesis by (intro exI [of _ r]) (simp add: Let_def release_outcome_def)
  qed
qed

lemma sample_decimals [simp]: "dec_sub 100 0 = 100" "dec_sub 1000 100 = 900" "dec_sub 0 0 = 0" "dec_sub 1000 0 = 1000"
  by (simp_all add: dec_sub_exact on_grid_def)

lemmas sample_escrow_evals = create_escrow_def priv_reserve_funds_def new_escrow_def sample_escrow_def
  wp_simps find_escrow_def valid_row_def escrow_constraints_def Let_def
  wp_new_hold_total [OF quantize_numeric18 [OF quantize_100]]
  get_available_balance_def holds_of_def

definition sample_refund :: ReleaseEscrowRequest where
  "sample_refund = \<lparr>rq_release_to = ''depositor'', rq_triggered_by = ''ops''\<rparr>"

lemma sample_create_release:
  "wp (op_bind (create_escrow sample_escrow) (\<lambda>resp. release_escrow (er_contract_ref resp) sample_refund))
     sample_world (\<lambda>_ _. True) total"
  by (simp add: sample_escrow_evals sample_refund_def release_escrow_def refund_to_depositor_def)

theorem release_escrow_effect_witness:
  "\<exists>resp s1 res s2. create_escrow sample_escrow sample_world = (Inr resp, s1) \<and>
     release_escrow (er_contract_ref resp) sample_refund s1 = (Inr res, s2) \<and>
     (\<exists>r. release_outcome sample_refund r res s1 s2)"
proof -
  obtain resp s1 res s2 where run: "create_escrow sample_escrow sample_world = (Inr resp, s1)"
    "release_escrow (er_contract_ref resp) sample_refund s1 = (Inr res, s2)"
    using sample_create_release by (auto simp: wp_total op_bind_Inr)
  have "escrow_reachable s1"
    using sample_escrow_reachable escrow_step.create [OF run(1)] by (rule escrow_reachable.step)
  from release_escrow_effect [OF this run(2)] run show ?thesis by blast
qed

text \<open>
  A release that comes after the expiry is answered with 410, whose message says that the funds
  have been refunded; but the exception rolls the refund back, so the request changes no table and
  the contract is still active.
\<close>

theorem release_after_expiry:
  assumes "find_escrow s ref = Some r" "ec_status r = E_ACTIVE"
    and "rq_release_to req \<in> {''beneficiary'', ''depositor''}"
    and "ec_expires_at r < clock s (ticks s + 1)" "numeric 28 8 (ec_amount r) = Inr (ec_amount r)"
    and "account_exists s (ec_depositor_account_id r)"
  shows "\<exists>s'. release_escrow ref req s =
      (Inl (HTTPException 410 [Txt ''Escrow has expired and been refunded'']), s') \<and>
    same_tables s s' \<and> find_escrow s' ref = Some r"
proof -
  have "wp (release_escrow ref req) s (\<lambda>_ _. False) (\<lambda>e s'.
      e = HTTPException 410 [Txt ''Escrow has expired and been refunded''] \<and> same_tables s s')"
    using assms by (auto simp: release_escrow_def wp_simps priv_expire_escrow_def Let_def
      wp_new_hold_total [OF numeric_stored(2) [OF assms(5)]])
  then show ?thesis using assms(1) by (auto simp: wp_raises find_escrow_def same_tables_eqs)
qed

definition sample_contract :: EscrowContract where
  "sample_contract =
     \<lparr>ec_id = 80, ec_contract_ref = ''ESC-1'', ec_depositor_account_id = 2, ec_beneficiary_account_id = 3,
      ec_currency = USD, ec_amount = 100, ec_conditions = [], ec_status = E_ACTIVE,
      ec_release_txn_id = None, ec_arbiter_account_id = None, ec_expires_at = 0, ec_released_at = None,
      ec_release_triggered_by = None, ec_created_at = 0\<rparr>"

theorem release_after_expiry_witness:
  "\<exists>s'. release_escrow ''ESC-1'' \<lparr>rq_release_to = ''depositor'', rq_triggered_by = ''ops''\<rparr>
      (sample_world\<lparr>escrow_contracts := [sample_contract]\<rparr>) =
      (Inl (HTTPException 410 [Txt ''Escrow has expired and been refunded'']), s')"
  using release_after_expiry [of "sample_world\<lparr>escrow_contracts := [sample_contract]\<rparr>" "''ESC-1''"
    sample_contract "\<lparr>rq_release_to = ''depositor'', rq_triggered_by = ''ops''\<rparr>"]
  by (auto simp: find_escrow_def sample_contract_def)

lemma opens_holds:
  "opens req e s s' \<Longrightarrow> active_holds s' (eq_depositor_account_id req) (eq_currency req) =
     active_holds s (eq_depositor_account_id req) (eq_currency req) + ec_amount e"
  by (auto simp: opens_def active_holds_net net_holds_append)

text \<open>
  The idempotency key of an escrow request is checked and never stored: repeating a request whose
  key is not itself the reference of a contract opens a second contract and holds the amount twice.
\<close>

theorem escrow_key_ignored:
  assumes "create_escrow req s = (Inr r1, s1)" "create_escrow req s1 = (Inr r2, s2)"
    and "\<not> prefix ''ESC-'' (the (eq_idempotency_key req))"
    and "find_escrow s (the (eq_idempotency_key req)) = None"
  shows "\<exists>e1 e2. escrow_contracts s2 = escrow_contracts s @ [e1, e2] \<and>
    active_holds s2 (eq_depositor_account_id req) (eq_currency req) =
      active_holds s (eq_depositor_account_id req) (eq_currency req) + 2 * ec_amount e1"
proof -
  obtain e1 where e1: "opens req e1 s s1" using wp_Inr [OF wp_create_escrow assms(1)] assms(4) by auto
  have "ec_contract_ref e1 \<noteq> the (eq_idempotency_key req)"
    using e1 assms(3) unfolding opens_def by (metis prefixI)
  then have "find_escrow s1 (the (eq_idempotency_key req)) = None"
    using e1 assms(4) by (auto simp: opens_def find_escrow_def find_None_iff)
  then obtain e2 where e2: "opens req e2 s1 s2" using wp_Inr [OF wp_create_escrow assms(2)] by auto
  have "ec_amount e2 = ec_amount e1" using e1 e2 by (simp add: opens_def)
  moreover have "escrow_contracts s2 = escrow_contracts s @ [e1, e2]" using e1 e2 by (simp add: opens_def)
  ultimately show ?thesis using opens_holds [OF e1] opens_holds [OF e2] by auto
qed

definition sample_uuid :: "nat \<Rightarrow> uuid" where
  "sample_uuid k = (1000 + k) * 2 ^ 64"

lemma sample_uuid_eq [simp]: "sample_uuid j = sample_uuid k \<longleftrightarrow> j = k"
  by (simp add: sample_uuid_def)

lemma sample_escrow_refs [simp]: "hex16_upper (sample_uuid (Suc (Suc (Suc 0)))) \<noteq> hex16_upper (sample_uuid 12)"
  unfolding sample_uuid_def hex16_upper_shift by (simp add: upper_char_def hex_char_def)

definition sample_uuids :: world where
  "sample_uuids = sample_world\<lparr>rng := sample_uuid\<rparr>"

lemma sample_uuids_simps [simp]:
  "accounts sample_uuids = accounts sample_world" "escrow_contracts sample_uuids = []"
  "escrow_holds sample_uuids = []" "journal_entries sample_uuids = journal_entries sample_world"
  "ticks sample_uuids = 0" "rng sample_uuids = sample_uuid" "account_active sample_uuids 2"
  "account_active sample_uuids 3"
  using sample_active by (simp_all add: sample_uuids_def account_active_def get_account_def)

lemma sample_find:
  "find (\<lambda>r. acc_id r = 2) (accounts sample_world) = Some (sample_account 2 ''alpha'' True)"
  "find (\<lambda>r. acc_id r = 3) (accounts sample_world) = Some (sample_account 3 ''beta'' True)"
  by (simp_all add: sample_defs)

lemma sample_create_twice:
  "wp (op_bind (create_escrow sample_escrow) (\<lambda>_. create_escrow sample_escrow)) sample_uuids
     (\<lambda>_ _. True) total"
  by (simp add: sample_escrow_evals account_active_def get_account_def sample_find)

theorem escrow_key_ignored_witness:
  "\<exists>r1 s1 r2 s2. create_escrow sample_escrow sample_uuids = (Inr r1, s1) \<and>
     create_escrow sample_escrow s1 = (Inr r2, s2) \<and> length (escrow_contracts s2) = 2"
proof -
  obtain r1 s1 r2 s2 where run: "create_escrow sample_escrow sample_uuids = (Inr r1, s1)"
    "create_escrow sample_escrow s1 = (Inr r2, s2)"
    using sample_create_twice by (auto simp: wp_total op_bind_Inr)
  from escrow_key_ignored [OF run] run show ?thesis
    by (auto simp: sample_escrow_def find_escrow_def)
qed

end
