(* ===== verification/ConditionalPayments.thy ===== *)
theory ConditionalPayments
  imports Escrow
begin

text \<open>
  Conditional payments of \<open>src/services/payment-engine/main.py\<close>: what creation, the trigger
  and the background checker do, the life cycle of a payment, and how one payment holds up a pass.
\<close>

section \<open>What the operations do\<close>

definition same_payment :: "ConditionalPayment \<Rightarrow> ConditionalPayment \<Rightarrow> bool" where
  "same_payment q q' \<longleftrightarrow>
     cp_id q' = cp_id q \<and> cp_payment_ref q' = cp_payment_ref q \<and>
     cp_payer_account_id q' = cp_payer_account_id q \<and> cp_payee_account_id q' = cp_payee_account_id q \<and>
     cp_currency q' = cp_currency q \<and> cp_amount q' = cp_amount q \<and>
     cp_condition_type q' = cp_condition_type q \<and> cp_condition_params q' = cp_condition_params q \<and>
     cp_expires_at q' = cp_expires_at q"

definition payment_tx :: "ConditionalPayment \<Rightarrow> Transaction \<Rightarrow> bool" where
  "payment_tx r t \<longleftrightarrow>
     tx_debit_account_id t = cp_payer_account_id r \<and> tx_credit_account_id t = cp_payee_account_id r \<and>
     tx_currency t = cp_currency r \<and> tx_amount t = cp_amount r \<and> tx_type t = ''conditional_payment''"

abbreviation moved_to_payee :: "ConditionalPayment \<Rightarrow> JournalEntry list \<Rightarrow> JournalEntry list \<Rightarrow> bool" where
  "moved_to_payee r \<equiv> posted (cp_currency r) (cp_amount r)
     (cp_payer_account_id r, ''INSTITUTION_LIABILITY'') (cp_payee_account_id r, ''INSTITUTION_LIABILITY'')"

text \<open>
  The payment was covered by the available balance; its amount moved, under a new transaction, and
  the payment, and no other, is completed by that transaction.
\<close>

definition pays :: "ConditionalPayment \<Rightarrow> world \<Rightarrow> world \<Rightarrow> bool" where
  "pays r s s' \<longleftrightarrow>
     cp_amount r \<le> get_available_balance s (cp_payer_account_id r) (cp_currency r) \<and>
     moved_to_payee r (journal_entries s) (journal_entries s') \<and>
     (\<exists>t. transactions s' = transactions s @ [t] \<and> payment_tx r t \<and>
        (\<forall>x \<in> set (transactions s). tx_id x \<noteq> tx_id t) \<and>
        changed_where (\<lambda>q. cp_id q = cp_id r) (\<lambda>q q'. same_payment q q' \<and> cp_status q' = T_COMPLETED \<and>
            cp_transaction_id q' = Some (tx_id t) \<and> cp_executed_at q' \<noteq> None)
          (conditional_payments s) (conditional_payments s')) \<and>
     (\<exists>h. status_history s' = status_history s @ h \<and> map sh_status h = [''processing'', ''completed'']) \<and>
     same_escrow s s' \<and> accounts s' = accounts s"

lemma available_frame_payment [simp]:
  "get_available_balance (s\<lparr>conditional_payments := p\<rparr>) a c = get_available_balance s a c"
  "get_available_balance (s\<lparr>ticks := n\<rparr>) a c = get_available_balance s a c"
  "get_available_balance (s\<lparr>status_history := h\<rparr>) a c = get_available_balance s a c"
  "get_available_balance (s\<lparr>advisory_locks := l\<rparr>) a c = get_available_balance s a c"
  "get_available_balance (s\<lparr>outbox_events := es\<rparr>) a c = get_available_balance s a c"
  by (simp_all add: get_available_balance_def holds_of_def)

lemma transaction_row_type [simp]: "tx_type (transaction_row i t now ref d c cur v ty k md) = ty"
  by (simp add: transaction_row_def)

lemma wp_execute:
  assumes "numeric 28 8 (cp_amount r) = Inr (cp_amount r)"
  shows "wp (priv_execute_conditional_payment r trig who) s (\<lambda>_ s'. pays r s s') partial"
  using numeric_stored [OF assms]
  by (simp add: priv_execute_conditional_payment_def priv_locked_transfer_def wp_simps Let_def pays_def
        payment_tx_def map_where_twice)
     (auto simp: same_payment_def can_book_def get_available_balance_def holds_of_def
        intro!: changed_map_where)

text \<open>The outcome of a trigger, by the value of the condition at the time of the request.\<close>

definition condition_value :: "world \<Rightarrow> ConditionalPayment \<Rightarrow> dict \<Rightarrow> exn + bool" where
  "condition_value s r trig =
     evaluate_condition (clock s (ticks s + 1)) (cp_condition_type r) (cp_condition_params r) trig"

definition trigger_outcome ::
  "string \<Rightarrow> TriggerConditionalPaymentRequest \<Rightarrow> ConditionalPayment \<Rightarrow> TriggerResult \<Rightarrow> world \<Rightarrow> world \<Rightarrow> bool" where
  "trigger_outcome ref req r res s s' \<longleftrightarrow>
     (condition_value s r (tq_trigger_data req) = Inr True \<and> pays r s s' \<and>
        (\<exists>x t rc. res = executed ref x t rc)) \<or>
     (condition_value s r (tq_trigger_data req) = Inr False \<and> res = condition_not_satisfied ref \<and>
        same_tables (s\<lparr>outbox_events := outbox_events s'\<rparr>) s' \<and>
        (\<exists>e. outbox_events s' = outbox_events s @ [e]))"

lemma pays_frame [simp]:
  "pays r (begin_txn s\<lparr>ticks := n\<rparr>) t = pays r s t" "pays r (begin_txn s) t = pays r s t"
  "pays r s (t\<lparr>advisory_locks := l\<rparr>) = pays r s t" "pays r (s\<lparr>ticks := n\<rparr>) t = pays r s t"
  by (simp_all add: pays_def)

lemma outbox_only:
  "same_tables (s\<lparr>outbox_events := es\<rparr>) (begin_txn s\<lparr>ticks := n, outbox_events := es, advisory_locks := []\<rparr>)"
  by (simp add: same_tables_def begin_txn_def)

lemma ex_triple: "\<exists>a b c. x = (a, b, c)"
  by (cases x) auto

lemma wp_trigger:
  assumes stored: "\<And>r. find_payment s ref = Some r \<Longrightarrow> numeric 28 8 (cp_amount r) = Inr (cp_amount r)"
  shows "wp (trigger_conditional_payment ref req) s (\<lambda>res s'. \<exists>r. find_payment s ref = Some r \<and>
      cp_status r = T_PENDING \<and> trigger_outcome ref req r res s s') (\<lambda>_. same_tables s)"
proof (cases "find_payment s ref")
  case None
  then show ?thesis by (simp add: trigger_conditional_payment_def wp_simps)
next
  case (Some r)
  let ?t = "begin_txn s\<lparr>ticks := Suc (Suc (ticks s))\<rparr>"
  have "wp (priv_execute_conditional_payment r trig who) ?t (\<lambda>_ t. pays r s (t\<lparr>advisory_locks := []\<rparr>)) partial"
    for trig who
    by (rule wp_mono [OF wp_execute [OF stored [OF Some]]]) auto
  note out = this
  show ?thesis
    using Some out
    by (simp add: trigger_conditional_payment_def wp_simps split: sum.splits prod.splits)
       (auto simp: trigger_outcome_def condition_value_def outbox_only ex_triple)
qed

text \<open>A new payment moves nothing and holds nothing.\<close>

definition payment_row ::
  "uuid \<Rightarrow> time \<Rightarrow> string \<Rightarrow> rat \<Rightarrow> CreateConditionalPaymentRequest \<Rightarrow> ConditionalPayment" where
  "payment_row i t ref v req =
     \<lparr>cp_id = i, cp_payment_ref = ref, cp_payer_account_id = cq_payer_account_id req,
       cp_payee_account_id = cq_payee_account_id req, cp_currency = cq_currency req, cp_amount = v,
       cp_condition_type = cq_condition_type req, cp_condition_params = cq_condition_params req,
       cp_status = T_PENDING, cp_trigger_data = None, cp_transaction_id = None, cp_created_at = t,
       cp_executed_at = None, cp_expires_at = cq_expires_at req\<rparr>"

lemma payment_row_simps [simp]:
  "cp_id (payment_row i t ref v req) = i" "cp_payment_ref (payment_row i t ref v req) = ref"
  "cp_status (payment_row i t ref v req) = T_PENDING" "cp_amount (payment_row i t ref v req) = v"
  "cp_transaction_id (payment_row i t ref v req) = None"
  "cp_condition_type (payment_row i t ref v req) = cq_condition_type req"
  "cp_currency (payment_row i t ref v req) = cq_currency req"
  by (simp_all add: payment_row_def)

lemma wp_new_payment [wp_simps]:
  "wp (new_payment ref amt req) s Q partial \<longleftrightarrow>
     (\<forall>v. numeric 28 8 amt = Inr v \<longrightarrow>
        valid_row condpay_constraints (s\<lparr>ticks := Suc (ticks s)\<rparr>) (payment_row (rng s (ticks s)) (txn_now s) ref v req) \<longrightarrow>
        Q (payment_row (rng s (ticks s)) (txn_now s) ref v req)
          (s\<lparr>ticks := Suc (ticks s), conditional_payments := conditional_payments s @
             [payment_row (rng s (ticks s)) (txn_now s) ref v req]\<rparr>))"
  by (simp add: new_payment_def wp_simps Let_def flip: payment_row_def split: sum.splits)

definition payment_shown ::
  "world \<Rightarrow> CreateConditionalPaymentRequest \<Rightarrow> ConditionalPaymentResponse option" where
  "payment_shown s req =
     (if 0 < cq_amount req \<and> truthy (cq_idempotency_key req)
      then map_option payment_response (find_payment s (the (cq_idempotency_key req))) else None)"

lemma wp_create_shown:
  "wp (create_conditional_payment req) s (\<lambda>resp s'. truthy (cq_idempotency_key req) \<longrightarrow>
     payment_shown s' req = Some resp) partial"
  by (simp add: create_conditional_payment_def wp_simps Let_def split: option.splits sum.splits)
     (auto simp: payment_shown_def payment_response_def find_payment_def find_append_new
        dest: quantize_on_grid numeric_exact)

lemma wp_create_replayed:
  assumes "truthy (cq_idempotency_key req)" "payment_shown s req = Some resp"
  shows "wp (create_conditional_payment req) s (\<lambda>r s'. r = resp \<and> same_tables s s') total"
  using assms by (auto simp: create_conditional_payment_def payment_shown_def wp_simps split: if_splits)

interpretation payment_create:
  idempotent_create create_conditional_payment cq_idempotency_key payment_shown same_tables
proof
  show "payment_shown s' req = Some resp"
    if "create_conditional_payment req s = (Inr resp, s')" "truthy (cq_idempotency_key req)" for req s resp s'
    using that wp_Inr [OF wp_create_shown] by blast
  show "\<exists>s'. create_conditional_payment req s = (Inr resp, s') \<and> same_tables s s'"
    if "truthy (cq_idempotency_key req)" "payment_shown s req = Some resp" for req s resp
    using wp_create_replayed [OF that] by (auto simp: wp_total)
qed (auto intro: same_tables_trans simp: payment_shown_def find_payment_def same_tables_eqs)

section \<open>Life cycle\<close>

text \<open>
  A payment is pending without a transaction, failed without one, or completed by a transaction
  between its own parties over its own amount.
\<close>

definition payment_ok :: "Transaction list \<Rightarrow> ConditionalPayment \<Rightarrow> bool" where
  "payment_ok txs r \<longleftrightarrow>
     numeric 28 8 (cp_amount r) = Inr (cp_amount r) \<and>
     (cp_status r \<in> {T_PENDING, T_FAILED} \<and> cp_transaction_id r = None \<or>
      cp_status r = T_COMPLETED \<and>
        (\<exists>t \<in> set txs. cp_transaction_id r = Some (tx_id t) \<and> payment_tx r t))"

definition payments_inv :: "world \<Rightarrow> bool" where
  "payments_inv s \<longleftrightarrow>
     distinct (map cp_id (conditional_payments s)) \<and>
     (\<forall>r \<in> set (conditional_payments s). payment_ok (transactions s) r) \<and>
     (\<forall>p \<in> set (conditional_payments s). \<forall>q \<in> set (conditional_payments s).
        cp_transaction_id p = cp_transaction_id q \<longrightarrow> cp_transaction_id p = None \<or> cp_id p = cp_id q)"

lemma payment_ok_mono: "payment_ok txs r \<Longrightarrow> set txs \<subseteq> set txs' \<Longrightarrow> payment_ok txs' r"
  by (auto simp: payment_ok_def)

lemma payments_inv_frame [simp]:
  "payments_inv (rollback s t) = payments_inv s" "payments_inv (begin_txn s) = payments_inv s"
  "payments_inv (s\<lparr>advisory_locks := l\<rparr>) = payments_inv s" "payments_inv (s\<lparr>ticks := n\<rparr>) = payments_inv s"
  by (simp_all add: payments_inv_def)

lemma payments_inv_tables: "payments_inv s \<Longrightarrow> same_tables s s' \<Longrightarrow> payments_inv s'"
  by (simp add: payments_inv_def same_tables_eqs)

lemma pays_inv:
  assumes inv: "payments_inv s" and r: "r \<in> set (conditional_payments s)" and eff: "pays r s s'"
  shows "payments_inv s'"
proof -
  obtain t where t: "transactions s' = transactions s @ [t]" "payment_tx r t"
      "\<forall>x \<in> set (transactions s). tx_id x \<noteq> tx_id t"
    and ch: "changed_where (\<lambda>q. cp_id q = cp_id r) (\<lambda>q q'. same_payment q q' \<and> cp_status q' = T_COMPLETED \<and>
            cp_transaction_id q' = Some (tx_id t) \<and> cp_executed_at q' \<noteq> None)
          (conditional_payments s) (conditional_payments s')"
    using eff by (auto simp: pays_def)
  have dist: "distinct (map cp_id (conditional_payments s))" using inv by (simp add: payments_inv_def)
  have fresh: "cp_transaction_id q \<noteq> Some (tx_id t)" if "q \<in> set (conditional_payments s)" for q
    using inv that t(3) by (auto simp: payments_inv_def payment_ok_def)
  have only: "q = r" if "q \<in> set (conditional_payments s)" "cp_id q = cp_id r" for q
    using dist that r by (simp add: distinct_map inj_on_def)
  have rows: "(q \<in> set (conditional_payments s) \<and> cp_id q \<noteq> cp_id r) \<or>
      (same_payment r q \<and> cp_status q = T_COMPLETED \<and> cp_transaction_id q = Some (tx_id t))"
    if "q \<in> set (conditional_payments s')" for q
    by (rule changed_where_in [OF ch that]) (use only in \<open>auto split: if_splits\<close>)
  have "distinct (map cp_id (conditional_payments s')) \<and>
      (\<forall>e \<in> set (conditional_payments s'). payment_ok (transactions s') e)"
    using inv r t
    by (intro changed_where_all [OF ch r _ _ dist])
       (auto simp: payments_inv_def payment_ok_def same_payment_def payment_tx_def)
  moreover have "cp_transaction_id p = None \<or> cp_id p = cp_id q"
    if "p \<in> set (conditional_payments s')" "q \<in> set (conditional_payments s')"
      "cp_transaction_id p = cp_transaction_id q" for p q
    using rows [OF that(1)] rows [OF that(2)] that(3) fresh inv
    by (auto simp: payments_inv_def same_payment_def)
  ultimately show ?thesis by (simp add: payments_inv_def)
qed

section \<open>The checker\<close>

definition lapses :: "ConditionalPayment \<Rightarrow> world \<Rightarrow> world \<Rightarrow> bool" where
  "lapses r s s' \<longleftrightarrow>
     changed_where (\<lambda>q. cp_id q = cp_id r) (\<lambda>q q'. same_payment q q' \<and> cp_status q' = T_FAILED \<and>
         cp_transaction_id q' = cp_transaction_id q)
       (conditional_payments s) (conditional_payments s') \<and>
     transactions s' = transactions s \<and> journal_entries s' = journal_entries s"

text \<open>One payment in the checker: it lapses, is paid, or is left alone.\<close>

lemma wp_check_payment:
  assumes "numeric 28 8 (cp_amount r) = Inr (cp_amount r)"
  shows "wp (check_payment now r) s (\<lambda>_ s'. lapses r s s' \<or> pays r s s' \<or> same_tables s s') partial"
proof (cases "case cp_expires_at r of None \<Rightarrow> False | Some t \<Rightarrow> t < now")
  case True
  then show ?thesis
    by (simp add: check_payment_def wp_simps lapses_def)
       (auto simp: same_payment_def intro!: changed_map_where)
next
  case False
  have tick: "same_tables s (s\<lparr>ticks := n\<rparr>)" for n by (simp add: same_tables_def)
  have "wp (priv_execute_conditional_payment r trig who) (s\<lparr>ticks := n\<rparr>) (\<lambda>_ s'. pays r s s') partial" for trig who n
    by (rule wp_mono [OF wp_execute [OF assms]]) auto
  then have pay: "wp (priv_execute_conditional_payment r trig who) (s\<lparr>ticks := n\<rparr>)
      (\<lambda>_ s'. lapses r s s' \<or> pays r s s' \<or> same_tables s s') partial" for trig who n
    by (rule wp_mono) auto
  from False tick pay show ?thesis
    by (simp add: check_payment_def wp_simps split: sum.splits)
qed

lemma lapses_inv:
  assumes inv: "payments_inv s" and r: "r \<in> set (conditional_payments s)" "cp_status r = T_PENDING"
    and eff: "lapses r s s'"
  shows "payments_inv s'"
proof -
  have ch: "changed_where (\<lambda>q. cp_id q = cp_id r) (\<lambda>q q'. same_payment q q' \<and> cp_status q' = T_FAILED \<and>
      cp_transaction_id q' = cp_transaction_id q) (conditional_payments s) (conditional_payments s')"
    and txs: "transactions s' = transactions s" using eff by (auto simp: lapses_def)
  have dist: "distinct (map cp_id (conditional_payments s))" using inv by (simp add: payments_inv_def)
  have rows: "\<exists>p \<in> set (conditional_payments s). cp_id p = cp_id q \<and> cp_transaction_id p = cp_transaction_id q"
    if "q \<in> set (conditional_payments s')" for q
    by (rule changed_where_in [OF ch that]) (auto simp: same_payment_def split: if_splits)
  have "distinct (map cp_id (conditional_payments s')) \<and>
      (\<forall>e \<in> set (conditional_payments s'). payment_ok (transactions s') e)"
    using inv r txs
    by (intro changed_where_all [OF ch r(1) _ _ dist])
       (auto simp: payments_inv_def payment_ok_def same_payment_def)
  moreover have "cp_transaction_id p = None \<or> cp_id p = cp_id q"
    if "p \<in> set (conditional_payments s')" "q \<in> set (conditional_payments s')"
      "cp_transaction_id p = cp_transaction_id q" for p q
    using rows [OF that(1)] rows [OF that(2)] that(3) inv unfolding payments_inv_def by metis
  ultimately show ?thesis by (simp add: payments_inv_def)
qed

lemma check_payment_ok:
  assumes inv: "payments_inv s" and r: "r \<in> set (conditional_payments s)" "cp_status r = T_PENDING"
    and run: "check_payment now r s = (Inr u, s')"
  shows "payments_inv s' \<and>
    (\<forall>q \<in> set (conditional_payments s). cp_id q \<noteq> cp_id r \<longrightarrow> q \<in> set (conditional_payments s'))"
proof -
  have "numeric 28 8 (cp_amount r) = Inr (cp_amount r)" using inv r(1) by (simp add: payments_inv_def payment_ok_def)
  from wp_Inr [OF wp_check_payment [OF this] run] consider
    "lapses r s s'" | "pays r s s'" | "same_tables s s'" by blast
  then show ?thesis
  proof cases
    case 1
    with lapses_inv [OF inv r] show ?thesis by (auto simp: lapses_def dest: changed_where_keeps)
  next
    case 2
    with pays_inv [OF inv r(1)] show ?thesis by (auto simp: pays_def dest: changed_where_keeps)
  next
    case 3
    with inv show ?thesis by (simp add: payments_inv_tables same_tables_eqs)
  qed
qed

interpretation checker: batch_worker "check_payment now" conditional_payments cp_id
  "\<lambda>r. cp_status r = T_PENDING" auto_pending payments_inv "\<lambda>_. payments_inv"
  for now
proof
  show "distinct (map cp_id (auto_pending s)) \<and>
      (\<forall>r \<in> set (auto_pending s). r \<in> set (conditional_payments s) \<and> cp_status r = T_PENDING)"
    if "payments_inv s" for s
    using that by (auto simp: auto_pending_def payments_inv_def distinct_map_filter)
qed (auto dest: check_payment_ok intro: payments_inv_tables)

abbreviation same_payments :: "world \<Rightarrow> world \<Rightarrow> bool" where
  "same_payments s s' \<equiv> conditional_payments s' = conditional_payments s \<and> transactions s' = transactions s"

lemma expire_payments:
  "same_payments s0 s \<Longrightarrow> wp (priv_expire_escrow e) s (\<lambda>_. same_payments s0) partial"
  by (simp add: priv_expire_escrow_def wp_simps Let_def)

lemma payments_inv_same: "payments_inv s \<Longrightarrow> same_payments s s' \<Longrightarrow> payments_inv s'"
  by (simp add: payments_inv_def)

lemma inv_check_pass:
  assumes "payments_inv s"
  shows "wp check_pass s (\<lambda>_. payments_inv) partial"
proof -
  let ?s = "s\<lparr>ticks := Suc (ticks s)\<rparr>" and ?now = "clock s (ticks s)"
  have inv: "payments_inv ?s" using assms by simp
  have "wp (op_for (auto_pending ?s) (check_payment ?now)) ?s (\<lambda>_. payments_inv) partial"
  proof (rule wpI)
    fix x t assume "op_for (auto_pending ?s) (check_payment ?now) ?s = (Inr x, t)"
    then show "payments_inv t" using checker.batch_ok [OF inv] checker.pending_ready [OF inv] by blast
  qed simp
  moreover have "wp (op_for es priv_expire_escrow) t (\<lambda>_. payments_inv) partial" if "payments_inv t" for es t
  proof (rule wp_mono [OF wp_for_inv [where I = "same_payments t"]])
    show "payments_inv t'" if "same_payments t t'" for t' using that \<open>payments_inv t\<close> by (rule payments_inv_same [rotated])
  qed (auto intro: expire_payments)
  ultimately show ?thesis
    unfolding check_pass_def
    by (simp add: wp_bind wp_utcnow wp_get) (rule wp_mono, assumption, auto)
qed

section \<open>Runs\<close>

text \<open>
  The steps that touch conditional payments, each a whole handler or checker pass, and any other
  step of the platform: it leaves the payments alone and only adds transactions.
\<close>

inductive payment_step :: "world \<Rightarrow> world \<Rightarrow> bool" where
  create: "create_conditional_payment req s = (resp, s') \<Longrightarrow> payment_step s s'"
| trigger: "trigger_conditional_payment ref trig s = (res, s') \<Longrightarrow> payment_step s s'"
| check: "payment_step s (check_conditions_cycle s)"
| other: "conditional_payments s' = conditional_payments s \<Longrightarrow>
    set (transactions s) \<subseteq> set (transactions s') \<Longrightarrow> payment_step s s'"

inductive payment_reachable :: "world \<Rightarrow> bool" where
  start: "conditional_payments s = [] \<Longrightarrow> payment_reachable s"
| step: "payment_reachable s \<Longrightarrow> payment_step s s' \<Longrightarrow> payment_reachable s'"

lemma inv_create:
  assumes "payments_inv s"
  shows "wp (create_conditional_payment req) s (\<lambda>_. payments_inv) (\<lambda>_. payments_inv)"
  using assms
  by (simp add: create_conditional_payment_def wp_simps Let_def split: option.splits sum.splits)
     (auto simp: payments_inv_def payment_ok_def numeric_stored valid_row_def condpay_constraints_def)

lemma find_payment_in: "find_payment s ref = Some r \<Longrightarrow> r \<in> set (conditional_payments s)"
  by (auto simp: find_payment_def dest!: find_Some_iff)

lemma stored_payment:
  "payments_inv s \<Longrightarrow> find_payment s ref = Some r \<Longrightarrow> numeric 28 8 (cp_amount r) = Inr (cp_amount r)"
  by (auto simp: payments_inv_def payment_ok_def dest: find_payment_in)

lemma wp_trigger_inv:
  "payments_inv s \<Longrightarrow> wp (trigger_conditional_payment ref req) s (\<lambda>res s'. \<exists>r. find_payment s ref = Some r \<and>
      cp_status r = T_PENDING \<and> trigger_outcome ref req r res s s') (\<lambda>_. same_tables s)"
  by (rule wp_trigger) (rule stored_payment)

lemma inv_trigger:
  assumes inv: "payments_inv s" and run: "trigger_conditional_payment ref req s = (res, s')"
  shows "payments_inv s'"
proof (cases res)
  case (Inl e)
  with run inv wp_Inl [OF wp_trigger_inv [OF inv]] show ?thesis
    by (blast intro: payments_inv_tables)
next
  case (Inr x)
  with run wp_Inr [OF wp_trigger_inv [OF inv]] obtain r where
    r: "r \<in> set (conditional_payments s)" "trigger_outcome ref req r x s s'" by (blast dest: find_payment_in)
  from r(2) consider "pays r s s'" | "same_tables (s\<lparr>outbox_events := outbox_events s'\<rparr>) s'"
    by (auto simp: trigger_outcome_def)
  then show ?thesis
  proof cases
    case 1
    from pays_inv [OF inv r(1) this] show ?thesis .
  next
    case 2
    from same_tables_eqs [OF this] inv show ?thesis by (simp add: payments_inv_def)
  qed
qed

lemma inv_check:
  assumes "payments_inv s"
  shows "payments_inv (check_conditions_cycle s)"
proof -
  have "wp (get_db_session check_pass) s (\<lambda>_. payments_inv) (\<lambda>_. payments_inv)"
    using assms inv_check_pass [of "begin_txn s"] by (simp add: wp_session)
  then show ?thesis
    by (auto simp: check_conditions_cycle_def worker_pass_def wp_def split: prod.splits sum.splits)
qed

lemma payments_inv_step: "payment_step s s' \<Longrightarrow> payments_inv s \<Longrightarrow> payments_inv s'"
proof (induction rule: payment_step.induct)
  case (create req s resp s')
  then show ?case using inv_create [OF create.prems] by (cases resp) (auto dest: wp_Inr wp_Inl)
next
  case (trigger ref trig s res s')
  then show ?case by (blast intro: inv_trigger)
next
  case (check s)
  then show ?case by (rule inv_check)
next
  case (other s' s)
  then show ?case by (auto simp: payments_inv_def intro: payment_ok_mono)
qed

lemma payments_inv_reachable: "payment_reachable s \<Longrightarrow> payments_inv s"
proof (induction rule: payment_reachable.induct)
  case (start s)
  then show ?case by (simp add: payments_inv_def)
next
  case (step s s')
  then show ?case using payments_inv_step by blast
qed

section \<open>Audit tables\<close>

lemma keeps_audit_create_payment [keeps_intros]: "keeps (audit_safe s0) (create_conditional_payment req)"
  unfolding create_conditional_payment_def new_payment_def Let_def
  by (intro keeps_intros keeps_insert_row) (simp_all add: audit_safe_def)

lemma keeps_audit_trigger [keeps_intros]: "keeps (audit_safe s0) (trigger_conditional_payment ref req)"
  unfolding trigger_conditional_payment_def payment_or_404_def by (intro keeps_intros)

section \<open>Properties\<close>

text \<open>
  C11. Triggering a payment: it was pending, and the condition was decided on the trigger data at
  the time of the request. If it holds, the amount was within the payer's available balance and has
  moved to the payee, once, under a new transaction that completes this payment and no other; if it
  does not, only the trigger event is added. A request that is refused changes no table.
\<close>

theorem trigger_effect:
  assumes "payment_reachable s" "trigger_conditional_payment ref req s = (res, s')"
  shows "case res of
      Inl e \<Rightarrow> same_tables s s'
    | Inr out \<Rightarrow> (\<exists>r. find_payment s ref = Some r \<and> cp_status r = T_PENDING \<and>
        trigger_outcome ref req r out s s')"
  using wp_trigger_inv [OF payments_inv_reachable [OF assms(1)], of ref req] assms(2)
  by (cases res) (auto dest: wp_Inr wp_Inl)

text \<open>
  The life cycle of a payment: in every state the platform can reach, a payment is pending or
  failed and has no transaction, or is completed by a transaction between its own parties over its
  own amount; no two payments share a transaction. In particular no payment is ever left in the
  processing state.
\<close>

theorem payments_lifecycle:
  assumes "payment_reachable s"
  shows "distinct (map cp_id (conditional_payments s)) \<and>
    (\<forall>r \<in> set (conditional_payments s). payment_ok (transactions s) r) \<and>
    (\<forall>p \<in> set (conditional_payments s). \<forall>q \<in> set (conditional_payments s).
       cp_transaction_id p = cp_transaction_id q \<longrightarrow> cp_transaction_id p = None \<or> cp_id p = cp_id q)"
  using payments_inv_reachable [OF assms] by (simp add: payments_inv_def)

text \<open>
  Creation is idempotent under a client key: once a request succeeded, every repetition gives
  the same answer and leaves every table as the first left it.
\<close>

theorem create_payment_idempotent:
  assumes "create_conditional_payment req s = (Inr resp, s1)" "truthy (cq_idempotency_key req)"
  shows "\<exists>t. ((\<lambda>u. snd (create_conditional_payment req u)) ^^ n) s1 = t \<and> same_tables s1 t \<and>
    (\<exists>t'. create_conditional_payment req t = (Inr resp, t'))"
  using assms by (rule payment_create.create_many)

lemma check_frame [simp]:
  "auto_pending (begin_txn s) = auto_pending s" "auto_pending (s\<lparr>ticks := n\<rparr>) = auto_pending s"
  "check_trigger (begin_txn s) r = check_trigger s r" "check_trigger (s\<lparr>ticks := n\<rparr>) r = check_trigger s r"
  by (simp_all add: auto_pending_def check_trigger_def get_account_def)

lemma same_clock: "same_tables s t \<Longrightarrow> clock t = clock s"
  by (erule same_tablesE) simp

lemma check_blocked_once:
  assumes "auto_pending s = r # rest" "cp_expires_at r = None"
    and due: "evaluate_condition (clock s (ticks s + 2)) (cp_condition_type r) (cp_condition_params r)
      (check_trigger s r) = Inr True"
    and short: "get_available_balance s (cp_payer_account_id r) (cp_currency r) < cp_amount r"
  shows "same_tables s (check_conditions_cycle s)"
proof -
  have "wp (get_db_session check_pass) s (\<lambda>_ _. False) (\<lambda>_. same_tables s)"
    using assms
    by (simp add: check_pass_def check_payment_def priv_execute_conditional_payment_def
        priv_locked_transfer_def wp_simps)
  then show ?thesis
    by (auto simp: check_conditions_cycle_def worker_pass_def wp_def split: prod.splits sum.splits)
qed

text \<open>
  C37. One payment can stop the checker for good: while the first automatic payment is due and its
  payer lacks the funds, the transfer raises and the whole pass is rolled back, so after any number
  of passes no table has changed: no other payment has been executed and no expired escrow has been
  refunded.
\<close>

theorem checker_blocked:
  assumes pending: "auto_pending s = r # rest" and "cp_expires_at r = None"
    and due: "\<And>k. evaluate_condition (clock s k) (cp_condition_type r) (cp_condition_params r)
      (check_trigger s r) = Inr True"
    and short: "get_available_balance s (cp_payer_account_id r) (cp_currency r) < cp_amount r"
  shows "same_tables s ((check_conditions_cycle ^^ n) s)"
proof (induction n)
  case (Suc n)
  let ?t = "(check_conditions_cycle ^^ n) s"
  have "auto_pending ?t = auto_pending s" "check_trigger ?t r = check_trigger s r" "clock ?t = clock s"
    "get_available_balance ?t a c = get_available_balance s a c" for a c
    using same_tables_eqs [OF Suc] same_tablesE [OF Suc]
    by (simp_all add: auto_pending_def check_trigger_def get_account_def get_available_balance_def
        holds_of_def same_clock [OF Suc])
  then have "same_tables ?t (check_conditions_cycle ?t)"
    using assms by (intro check_blocked_once [of _ r rest]) simp_all
  with Suc show ?case by (auto intro: same_tables_trans)
qed simp

text \<open>What the transfer of a triggered payment needs.\<close>

definition can_pay :: "world \<Rightarrow> ConditionalPayment \<Rightarrow> bool" where
  "can_pay s r \<longleftrightarrow>
     numeric 28 8 (cp_amount r) = Inr (cp_amount r) \<and>
     cp_amount r \<le> get_available_balance s (cp_payer_account_id r) (cp_currency r) \<and>
     can_book (accounts s) (transactions s) (rng s (ticks s + 5))
       (''PE-'' @ hex16_upper (rng s (ticks s + 3)))
       (cp_payer_account_id r) (cp_payee_account_id r) (cp_amount r) None"


section \<open>Examples\<close>

text \<open>A payment to an account that is not cleared, long past its expiry.\<close>

definition sample_payment :: ConditionalPayment where
  "sample_payment =
     \<lparr>cp_id = 70, cp_payment_ref = ''CP-1'', cp_payer_account_id = 2, cp_payee_account_id = 4,
      cp_currency = USD, cp_amount = 100, cp_condition_type = KYC_VERIFIED, cp_condition_params = [],
      cp_status = T_PENDING, cp_trigger_data = None, cp_transaction_id = None, cp_created_at = 0,
      cp_executed_at = None, cp_expires_at = Some (- 1)\<rparr>"

definition sample_trigger :: TriggerConditionalPaymentRequest where
  "sample_trigger = \<lparr>tq_trigger_data = [(''kyc_cleared'', JBool True)], tq_triggered_by = ''ops''\<rparr>"

definition sample_payment_world :: "ConditionalPayment \<Rightarrow> world" where
  "sample_payment_world r = sample_world\<lparr>conditional_payments := [r]\<rparr>"

lemma sample_payment_simps [simp]:
  "conditional_payments (sample_payment_world r) = [r]" "transactions (sample_payment_world r) = []"
  "accounts (sample_payment_world r) = accounts sample_world" "clock (sample_payment_world r) n = int n"
  "get_available_balance (sample_payment_world r) a c = get_available_balance sample_world a c"
  by (simp_all add: sample_payment_world_def)


definition sample_kyc :: ConditionalPayment where
  "sample_kyc = sample_payment\<lparr>cp_payer_account_id := 3, cp_payee_account_id := 2, cp_expires_at := None\<rparr>"

lemma sample_short: "get_available_balance sample_world 3 USD = 0"
  using available_exact [OF sample_columns, of 3 USD] by simp

theorem checker_blocked_witness:
  "same_tables (sample_payment_world sample_kyc)
     ((check_conditions_cycle ^^ 3) (sample_payment_world sample_kyc))"
  by (rule checker_blocked [of _ sample_kyc "[]"])
     (simp_all add: auto_pending_def sample_kyc_def sample_payment_def evaluate_condition_def
       check_trigger_def kyc_cleared_def get_account_def dict_get_def
       sample_short sample_find)

definition sample_payment_request :: CreateConditionalPaymentRequest where
  "sample_payment_request =
     \<lparr>cq_payer_account_id = 2, cq_payee_account_id = 3, cq_currency = USD, cq_amount = 100,
      cq_condition_type = KYC_VERIFIED, cq_condition_params = [], cq_expires_at = None,
      cq_idempotency_key = Some ''CP-9''\<rparr>"

lemma sample_create_payment:
  "wp (create_conditional_payment sample_payment_request) sample_world (\<lambda>_ _. True) total"
  by (simp add: create_conditional_payment_def new_payment_def sample_payment_request_def wp_simps
      find_payment_def truthy_def key_or_fresh_def valid_row_def condpay_constraints_def Let_def)

theorem create_payment_idempotent_witness:
  "\<exists>resp s1 t'. create_conditional_payment sample_payment_request sample_world = (Inr resp, s1) \<and>
     create_conditional_payment sample_payment_request s1 = (Inr resp, t')"
proof -
  obtain resp s1 where run: "create_conditional_payment sample_payment_request sample_world = (Inr resp, s1)"
    using sample_create_payment by (auto simp: wp_total)
  have "truthy (cq_idempotency_key sample_payment_request)" by (simp add: sample_payment_request_def truthy_def)
  from create_payment_idempotent [OF run this, of 0] run show ?thesis by auto
qed

lemma sample_create_trigger:
  "wp (op_bind (create_conditional_payment sample_payment_request)
     (\<lambda>_. trigger_conditional_payment ''CP-9'' sample_trigger)) sample_world
     (\<lambda>res _. \<exists>x t rc. res = executed ''CP-9'' x t rc) total"
  by (simp add: create_conditional_payment_def new_payment_def sample_payment_request_def wp_simps
      find_payment_def truthy_def key_or_fresh_def valid_row_def condpay_constraints_def Let_def
      can_book_def can_post_def chart_of_accounts_def sample_available trigger_conditional_payment_def sample_trigger_def evaluate_condition_def dict_get_def
      priv_execute_conditional_payment_def priv_locked_transfer_def
      wp_transaction_total [OF numeric_100] wp_journal_pair_total [OF numeric_stored(2) [OF numeric_100]])

theorem trigger_effect_witness:
  "\<exists>s1 res s2. payment_reachable s1 \<and> trigger_conditional_payment ''CP-9'' sample_trigger s1 = (Inr res, s2) \<and>
     (\<exists>r. find_payment s1 ''CP-9'' = Some r \<and> trigger_outcome ''CP-9'' sample_trigger r res s1 s2)"
proof -
  obtain u s1 res s2 where run: "create_conditional_payment sample_payment_request sample_world = (u, s1)"
    "trigger_conditional_payment ''CP-9'' sample_trigger s1 = (Inr res, s2)"
    using sample_create_trigger by (auto simp: wp_total op_bind_Inr)
  have "payment_reachable s1"
    using payment_reachable.start [of sample_world] payment_step.create [OF run(1)]
    by (blast intro: payment_reachable.step sample_tables)
  with trigger_effect [OF this run(2)] run(2) show ?thesis by auto
qed

theorem payments_lifecycle_witness:
  "list_all (payment_ok (transactions (check_conditions_cycle (snd (create_conditional_payment sample_payment_request sample_world)))))
     (conditional_payments (check_conditions_cycle (snd (create_conditional_payment sample_payment_request sample_world))))"
proof -
  let ?s = "snd (create_conditional_payment sample_payment_request sample_world)"
  have "payment_step sample_world ?s" by (rule payment_step.create [OF surjective_pairing])
  then have "payment_reachable ?s"
    using payment_reachable.start [of sample_world] by (auto intro: payment_reachable.step)
  then have "payment_reachable (check_conditions_cycle ?s)" by (rule payment_reachable.step [OF _ payment_step.check])
  then show ?thesis using payments_lifecycle by (simp add: list_all_iff)
qed

end
