(* ===== verification/Messaging.thy ===== *)
theory Messaging
  imports Samples
begin

text \<open>
  How events travel: the outbox publisher (\<open>src/services/outbox-publisher/main.py\<close>) and the
  consumer loop with its dead-letter queue (\<open>src/shared/kafka_client.py\<close>). The broker is
  outside the repository: it is a log of messages together with a function that says what becomes
  of the n-th send.
\<close>

section \<open>Publisher\<close>

record message =
  ms_topic :: string
  ms_key :: "string option"
  ms_value :: dict

text \<open>
  \<open>send_and_wait\<close> with \<open>acks=all\<close>: the message is stored and acknowledged, or the call raises,
  and then the message may or may not have been stored.
\<close>

datatype ack = Acked | StoredUnacked | Lost

record broker =
  br_log :: "message list"
  br_sends :: nat
  br_ack :: "nat \<Rightarrow> ack"

definition send_and_wait :: "message \<Rightarrow> broker \<Rightarrow> bool \<times> broker" where
  "send_and_wait m b =
     (let r = br_ack b (br_sends b)
      in (r = Acked,
          b\<lparr>br_log := (if r = Lost then br_log b else br_log b @ [m]), br_sends := Suc (br_sends b)\<rparr>))"

fun send_all :: "message list \<Rightarrow> broker \<Rightarrow> bool \<times> broker" where
  "send_all [] b = (True, b)"
| "send_all (m # ms) b = (case send_and_wait m b of (ok, b') \<Rightarrow> if ok then send_all ms b' else (False, b'))"

definition message_of :: "OutboxEvent \<Rightarrow> message" where
  "message_of row =
     \<lparr>ms_topic = oe_event_type row,
      ms_key = (if oe_aggregate_id row \<noteq> '''' then Some (oe_aggregate_id row) else None),
      ms_value = oe_payload row\<rparr>"

definition BATCH_SIZE :: nat where "BATCH_SIZE = 100"

definition unpublished :: "OutboxEvent list \<Rightarrow> OutboxEvent list" where
  "unpublished rows = sort_key oe_created_at (filter (\<lambda>r. oe_published_at r = None) rows)"

definition fetch_batch :: "world \<Rightarrow> OutboxEvent list" where
  "fetch_batch s = take BATCH_SIZE (unpublished (outbox_events s))"

definition mark_published :: "time \<Rightarrow> uuid list \<Rightarrow> OutboxEvent list \<Rightarrow> OutboxEvent list" where
  "mark_published now ids = map_where (\<lambda>r. oe_id r \<in> set ids) (\<lambda>r. r\<lparr>oe_published_at := Some now\<rparr>)"

text \<open>The number of events published; \<open>None\<close> when a send raised and the transaction is undone.\<close>

definition publish_batch :: "world \<times> broker \<Rightarrow> nat option \<times> world \<times> broker" where
  "publish_batch st =
     (case st of (s, b) \<Rightarrow>
      let rows = fetch_batch s
      in if rows = [] then (Some 0, s, b)
         else case send_all (map message_of rows) b of (ok, b') \<Rightarrow>
           if ok
           then (Some (length rows),
                 s\<lparr>outbox_events := mark_published (clock s (ticks s)) (map oe_id rows) (outbox_events s),
                   ticks := Suc (ticks s)\<rparr>, b')
           else (None, s, b'))"

text \<open>The loop goes on after an error, so a run is a number of batches.\<close>

fun poll_loop :: "nat \<Rightarrow> world \<times> broker \<Rightarrow> world \<times> broker" where
  "poll_loop 0 st = st"
| "poll_loop (Suc n) st = poll_loop n (snd (publish_batch st))"

section \<open>Consumer\<close>

record record_msg =
  rm_topic :: string
  rm_partition :: nat
  rm_offset :: nat
  rm_payload :: "dict option"

text \<open>A payload that is not a JSON object is \<open>None\<close>: the decoding or the handler raises on it.\<close>

datatype poll_result = NoMessage | PartitionEOF | ConsumerError | Polled record_msg

type_synonym slot = "string \<times> nat \<times> nat"

definition slot_of :: "record_msg \<Rightarrow> slot" where
  "slot_of m = (rm_topic m, rm_partition m, rm_offset m)"

record consumer =
  co_committed :: "string \<times> nat \<Rightarrow> nat"
  co_retries :: "slot \<Rightarrow> nat"
  co_dlq :: "(record_msg \<times> nat) list"
  co_errors :: nat
  co_backoff :: "nat list"

definition new_consumer :: consumer where
  "new_consumer =
     \<lparr>co_committed = (\<lambda>_. 0), co_retries = (\<lambda>_. 0), co_dlq = [], co_errors = 0, co_backoff = []\<rparr>"

type_synonym 'w handler = "string \<Rightarrow> dict \<Rightarrow> 'w \<Rightarrow> bool \<times> 'w"

text \<open>The handler says whether it returned; committing a message moves the group past it.\<close>

definition commit_msg :: "record_msg \<Rightarrow> consumer \<Rightarrow> consumer" where
  "commit_msg m c =
     c\<lparr>co_committed := (co_committed c)((rm_topic m, rm_partition m) := Suc (rm_offset m)),
       co_retries := (co_retries c)(slot_of m := 0)\<rparr>"

definition run_handler :: "'w handler \<Rightarrow> record_msg \<Rightarrow> 'w \<Rightarrow> bool \<times> 'w" where
  "run_handler handler m w =
     (case rm_payload m of None \<Rightarrow> (False, w) | Some d \<Rightarrow> handler (rm_topic m) d w)"

definition handle_failure :: "nat \<Rightarrow> record_msg \<Rightarrow> consumer \<Rightarrow> consumer" where
  "handle_failure max_handler_retries m c =
     (let count = Suc (co_retries c (slot_of m)); c = c\<lparr>co_retries := (co_retries c)(slot_of m := count)\<rparr>
      in if max_handler_retries \<le> count
         then commit_msg m (c\<lparr>co_dlq := co_dlq c @ [(m, count)]\<rparr>)
         else c\<lparr>co_backoff := co_backoff c @ [min (2 ^ count) 30]\<rparr>)"

text \<open>
  One round of the loop; \<open>None\<close> when the consumer errors reach the limit and the loop raises.
\<close>

definition consume_step ::
  "'w handler \<Rightarrow> nat \<Rightarrow> nat \<Rightarrow> poll_result \<Rightarrow> consumer \<times> 'w \<Rightarrow> (consumer \<times> 'w) option" where
  "consume_step handler max_errors max_handler_retries p st =
     (case st of (c, w) \<Rightarrow>
      case p of
        NoMessage \<Rightarrow> Some (c, w)
      | PartitionEOF \<Rightarrow> Some (c, w)
      | ConsumerError \<Rightarrow>
          if max_errors \<le> Suc (co_errors c) then None else Some (c\<lparr>co_errors := Suc (co_errors c)\<rparr>, w)
      | Polled m \<Rightarrow>
          (case run_handler handler m w of (ok, w') \<Rightarrow>
             let c = c\<lparr>co_errors := 0\<rparr>
             in Some (if ok then commit_msg m c else handle_failure max_handler_retries m c, w')))"

fun consume_loop ::
  "'w handler \<Rightarrow> nat \<Rightarrow> nat \<Rightarrow> poll_result list \<Rightarrow> consumer \<times> 'w \<Rightarrow> (consumer \<times> 'w) option" where
  "consume_loop h me mr [] st = Some st"
| "consume_loop h me mr (p # ps) st =
     (case consume_step h me mr p st of None \<Rightarrow> None | Some st' \<Rightarrow> consume_loop h me mr ps st')"

section \<open>Deduplication\<close>

definition is_duplicate_event :: "world \<Rightarrow> string \<Rightarrow> bool" where
  "is_duplicate_event s event_id \<longleftrightarrow> event_id \<in> pe_event_id ` set (processed_events s)"

definition mark_event_processed :: "string \<Rightarrow> string \<Rightarrow> unit db_op" where
  "mark_event_processed event_id topic =
     insert_row (\<lambda>s r. [(\<not> is_duplicate_event s (pe_event_id r), ''processed_events_pkey'')])
       processed_events_update \<lparr>pe_event_id = event_id, pe_topic = topic\<rparr>"

section \<open>Batches\<close>

lemma unpublished_marked:
  assumes "distinct (map oe_id rows)"
  shows "unpublished (mark_published now (map oe_id (take n (unpublished rows))) rows) =
    drop n (unpublished rows)"
proof -
  let ?ids = "oe_id ` set (take n (unpublished rows))"
  have dist: "distinct (map oe_id (unpublished rows))"
    using assms by (simp add: unpublished_def distinct_map distinct_sort distinct_map_filter inj_on_def)
  have "unpublished (mark_published now (map oe_id (take n (unpublished rows))) rows) =
      sort_key oe_created_at (filter (\<lambda>r. oe_id r \<notin> ?ids \<and> oe_published_at r = None) rows)"
    unfolding unpublished_def mark_published_def by (subst filter_map_where) auto
  also have "\<dots> = filter (\<lambda>r. oe_id r \<notin> ?ids) (unpublished rows)"
    by (simp add: unpublished_def filter_sort conj_commute)
  also have "\<dots> = drop n (unpublished rows)" using dist by (rule drop_by_keys)
  finally show ?thesis .
qed

lemma marked_ids: "map oe_id (mark_published now ids rows) = map oe_id rows"
  unfolding mark_published_def by (rule map_map_where) simp

lemma send_all_acked:
  "\<forall>n. br_ack b n = Acked \<Longrightarrow>
     send_all ms b = (True, b\<lparr>br_log := br_log b @ ms, br_sends := br_sends b + length ms\<rparr>)"
  by (induction ms arbitrary: b) (simp_all add: send_and_wait_def Let_def)

lemma publish_batch_acked:
  assumes "distinct (map oe_id (outbox_events s))" "\<forall>n. br_ack b n = Acked"
    and run: "publish_batch (s, b) = (r, s', b')"
  shows "r = Some (length (fetch_batch s)) \<and>
    unpublished (outbox_events s') = drop BATCH_SIZE (unpublished (outbox_events s)) \<and>
    br_log b' = br_log b @ map message_of (fetch_batch s) \<and> (\<forall>n. br_ack b' n = Acked) \<and>
    map oe_id (outbox_events s') = map oe_id (outbox_events s)"
  using assms unpublished_marked [OF assms(1), of _ BATCH_SIZE]
  by (auto simp: publish_batch_def send_all_acked fetch_batch_def marked_ids Let_def BATCH_SIZE_def
      split: if_splits)

lemma poll_acked:
  assumes "distinct (map oe_id (outbox_events s))" "\<forall>n. br_ack b n = Acked"
  shows "case poll_loop n (s, b) of (s', b') \<Rightarrow>
    unpublished (outbox_events s') = drop (n * BATCH_SIZE) (unpublished (outbox_events s)) \<and>
    br_log b' = br_log b @ map message_of (take (n * BATCH_SIZE) (unpublished (outbox_events s)))"
  using assms
proof (induction n arbitrary: s b)
  case (Suc n)
  obtain r t c where run: "publish_batch (s, b) = (r, t, c)" by (metis prod_cases3)
  note step = publish_batch_acked [OF Suc.prems run]
  have "case poll_loop n (t, c) of (s', b') \<Rightarrow>
    unpublished (outbox_events s') = drop (n * BATCH_SIZE) (unpublished (outbox_events t)) \<and>
    br_log b' = br_log c @ map message_of (take (n * BATCH_SIZE) (unpublished (outbox_events t)))"
    using step Suc.prems by (intro Suc.IH) auto
  then show ?case
    using step run by (auto simp: fetch_batch_def drop_drop add.commute take_add split: prod.splits)
qed (simp split: prod.splits)

section \<open>No event is lost\<close>

text \<open>
  What a run of the publisher does to the rows under any behaviour of the broker: a row is the same
  up to its publication mark, and a row marked in the run has its message in the log of the run.
\<close>

definition unmarked :: "OutboxEvent \<Rightarrow> OutboxEvent" where
  "unmarked r = r\<lparr>oe_published_at := None\<rparr>"

definition delivered :: "message list \<Rightarrow> OutboxEvent list \<Rightarrow> OutboxEvent list \<Rightarrow> bool" where
  "delivered l rows rows' \<longleftrightarrow>
     list_all2 (\<lambda>r r'. unmarked r' = unmarked r \<and>
       (r' = r \<or> oe_published_at r' \<noteq> None \<and> message_of r' \<in> set l)) rows rows'"

lemma send_all_log:
  "send_all ms b = (ok, b') \<Longrightarrow>
     br_ack b' = br_ack b \<and> (\<exists>l. br_log b' = br_log b @ l \<and> set l \<subseteq> set ms \<and> (ok \<longrightarrow> l = ms))"
proof (induction ms arbitrary: b)
  case (Cons m ms)
  then show ?case
    by (fastforce simp: send_and_wait_def Let_def split: if_splits prod.splits ack.splits)
qed simp

lemma delivered_refl: "delivered l rows rows"
  by (simp add: delivered_def list_all2_refl)

lemma delivered_trans:
  assumes "delivered l rows rows'" "delivered l' rows' rows''"
  shows "delivered (l @ l') rows rows''"
proof -
  have msg: "message_of r' = message_of r" if "unmarked r' = unmarked r" for r r'
    using arg_cong [OF that, of message_of] by (auto simp: unmarked_def message_of_def split: if_splits)
  show ?thesis
    using assms unfolding delivered_def
    by (rule list_all2_trans [rotated]) (auto dest: msg)
qed

lemma publish_batch_delivered:
  assumes ids: "distinct (map oe_id (outbox_events s))" and run: "publish_batch (s, b) = (r, s', b')"
  shows "br_ack b' = br_ack b \<and> map oe_id (outbox_events s') = map oe_id (outbox_events s) \<and>
    (\<exists>l. br_log b' = br_log b @ l \<and> delivered l (outbox_events s) (outbox_events s'))"
proof (cases "fetch_batch s = [] \<or> \<not> fst (send_all (map message_of (fetch_batch s)) b)")
  case True
  with run show ?thesis
    by (auto simp: publish_batch_def Let_def delivered_refl split: prod.splits if_splits dest: send_all_log)
next
  case False
  then obtain c where send: "send_all (map message_of (fetch_batch s)) b = (True, c)" by (metis prod.collapse)
  with run False have s': "b' = c"
    "outbox_events s' = mark_published (clock s (ticks s)) (map oe_id (fetch_batch s)) (outbox_events s)"
    by (auto simp: publish_batch_def Let_def)
  have sub: "set (fetch_batch s) \<subseteq> set (outbox_events s)"
    using set_take_subset by (fastforce simp: fetch_batch_def unpublished_def)
  have only: "r \<in> set (fetch_batch s)"
    if "r \<in> set (outbox_events s)" "oe_id r \<in> oe_id ` set (fetch_batch s)" for r
    using that sub ids by (auto simp: distinct_map inj_on_def)
  have "delivered (map message_of (fetch_batch s)) (outbox_events s) (outbox_events s')"
    unfolding s' mark_published_def delivered_def map_where_def list.rel_map
    by (rule list.rel_refl_strong)
       (auto simp: unmarked_def message_of_def image_iff dest!: only intro: bexI [rotated])
  then show ?thesis using send_all_log [OF send] s' marked_ids by auto
qed

lemma poll_delivered:
  "distinct (map oe_id (outbox_events s)) \<Longrightarrow> poll_loop n (s, b) = (s', b') \<Longrightarrow>
     \<exists>l. br_log b' = br_log b @ l \<and> delivered l (outbox_events s) (outbox_events s')"
proof (induction n arbitrary: s b)
  case (Suc n)
  obtain r t c where run: "publish_batch (s, b) = (r, t, c)" by (metis prod_cases3)
  note step = publish_batch_delivered [OF Suc.prems(1) run]
  from Suc.IH [of t c] step Suc.prems run show ?case by (auto dest: delivered_trans)
qed (auto simp: delivered_refl)

section \<open>The loop and failures\<close>

definition handled :: "'w handler \<Rightarrow> record_msg list \<Rightarrow> 'w \<Rightarrow> 'w" where
  "handled h ms w = fold (\<lambda>m w. snd (run_handler h m w)) ms w"

lemma consume_Polled:
  "consume_step h me mr (Polled m) (c, w) =
     Some (if fst (run_handler h m w) then commit_msg m (c\<lparr>co_errors := 0\<rparr>)
           else handle_failure mr m (c\<lparr>co_errors := 0\<rparr>), snd (run_handler h m w))"
  by (simp add: consume_step_def Let_def split: prod.splits)

lemma failure_effect:
  assumes "co_retries c (slot_of m) = 0" "2 \<le> mr"
  shows "co_dlq (handle_failure mr m c) = co_dlq c" "co_committed (handle_failure mr m c) = co_committed c"
    "k \<noteq> slot_of m \<Longrightarrow> co_retries (handle_failure mr m c) k = co_retries c k"
  using assms by (simp_all add: handle_failure_def Let_def)

lemma consume_run:
  assumes "distinct (map slot_of ms)" "\<forall>m \<in> set ms. co_retries c (slot_of m) = 0" "2 \<le> mr"
  shows "\<exists>c'. consume_loop h me mr (map Polled ms) (c, w) = Some (c', handled h ms w) \<and> co_dlq c' = co_dlq c"
  using assms
proof (induction ms arbitrary: c w)
  case (Cons m ms)
  define c1 where "c1 = (if fst (run_handler h m w) then commit_msg m (c\<lparr>co_errors := 0\<rparr>)
    else handle_failure mr m (c\<lparr>co_errors := 0\<rparr>))"
  have other: "\<forall>q \<in> set ms. slot_of q \<noteq> slot_of m" using Cons.prems(1) by (auto simp: image_iff)
  have "co_dlq c1 = co_dlq c" "\<forall>q \<in> set ms. co_retries c1 (slot_of q) = 0"
    using Cons.prems(2,3) other failure_effect [of "c\<lparr>co_errors := 0\<rparr>" m mr]
    by (auto simp: c1_def commit_msg_def)
  with Cons.IH [of c1 "snd (run_handler h m w)"] Cons.prems show ?case
    by (auto simp: consume_Polled handled_def simp flip: c1_def)
qed (simp add: handled_def)

lemma consume_append:
  "consume_loop h me mr (ps @ qs) st =
     (case consume_loop h me mr ps st of None \<Rightarrow> None | Some st' \<Rightarrow> consume_loop h me mr qs st')"
  by (induction ps arbitrary: st) (simp_all split: option.splits)

section \<open>Properties\<close>

text \<open>
  C18. The publisher empties the outbox: while the broker acknowledges, a number of batches that
  covers the unpublished events leaves none unpublished, and what it added to the log is exactly
  their messages, once each and in the order of their creation.
\<close>

theorem outbox_drained:
  assumes "distinct (map oe_id (outbox_events s))" "\<forall>n. br_ack b n = Acked"
    and "length (unpublished (outbox_events s)) \<le> n * BATCH_SIZE"
    and "poll_loop n (s, b) = (s', b')"
  shows "unpublished (outbox_events s') = [] \<and>
    br_log b' = br_log b @ map message_of (unpublished (outbox_events s))"
  using poll_acked [OF assms(1,2), of n] assms(3,4) by simp

definition sample_outbox :: "world" where
  "sample_outbox = sample_world\<lparr>outbox_events :=
     [\<lparr>oe_id = 1, oe_aggregate_id = ''B'', oe_event_type = ''x'', oe_payload = [], oe_created_at = 7, oe_published_at = None\<rparr>,
      \<lparr>oe_id = 2, oe_aggregate_id = ''A'', oe_event_type = ''y'', oe_payload = [], oe_created_at = 5, oe_published_at = None\<rparr>]\<rparr>"

definition sample_broker :: "(nat \<Rightarrow> ack) \<Rightarrow> broker" where
  "sample_broker f = \<lparr>br_log = [], br_sends = 0, br_ack = f\<rparr>"

theorem outbox_drained_witness:
  "map ms_topic (br_log (snd (poll_loop 1 (sample_outbox, sample_broker (\<lambda>_. Acked))))) = [''y'', ''x''] \<and>
   unpublished (outbox_events (fst (poll_loop 1 (sample_outbox, sample_broker (\<lambda>_. Acked))))) = []"
proof -
  obtain s' b' where run: "poll_loop 1 (sample_outbox, sample_broker (\<lambda>_. Acked)) = (s', b')" by fastforce
  have "unpublished (outbox_events sample_outbox) = rev (outbox_events sample_outbox)"
    by (simp add: unpublished_def sample_outbox_def)
  with outbox_drained [OF _ _ _ run] run show ?thesis
    by (simp add: sample_outbox_def sample_broker_def BATCH_SIZE_def message_of_def)
qed

text \<open>
  C17. No event is lost, whatever the broker does: over any number of batches the rows keep their
  contents, and a row is marked as published only if its message was added to the log. (A send that
  fails undoes the marks of its whole batch, so messages may be repeated, never dropped.)
\<close>

theorem published_delivered:
  assumes "distinct (map oe_id (outbox_events s))" "poll_loop n (s, b) = (s', b')"
  shows "\<exists>l. br_log b' = br_log b @ l \<and> delivered l (outbox_events s) (outbox_events s')"
  using assms by (rule poll_delivered)

theorem published_delivered_witness:
  "\<exists>l. br_log (snd (poll_loop 2 (sample_outbox, sample_broker (\<lambda>n. if n = 1 then Lost else Acked)))) = l \<and>
     delivered l (outbox_events sample_outbox)
       (outbox_events (fst (poll_loop 2 (sample_outbox, sample_broker (\<lambda>n. if n = 1 then Lost else Acked)))))"
  using published_delivered [of sample_outbox 2 "sample_broker (\<lambda>n. if n = 1 then Lost else Acked)"]
  by (cases "poll_loop 2 (sample_outbox, sample_broker (\<lambda>n. if n = 1 then Lost else Acked))")
     (simp add: sample_broker_def, simp add: sample_outbox_def)

text \<open>
  C39. A message whose handler fails is not retried: the next poll delivers the next message. Over
  any sequence of different messages the handler is called once for each, nothing reaches the
  dead-letter queue, and when the last one succeeds its commit covers all before it in the
  partition, the failed ones included.
\<close>

theorem failed_message_skipped:
  assumes "distinct (map slot_of (ms @ [m]))" "\<forall>q \<in> set (ms @ [m]). co_retries c (slot_of q) = 0" "2 \<le> mr"
    and "fst (run_handler h m (handled h ms w))"
  shows "\<exists>c'. consume_loop h me mr (map Polled (ms @ [m])) (c, w) = Some (c', handled h (ms @ [m]) w) \<and>
    co_dlq c' = co_dlq c \<and> co_committed c' (rm_topic m, rm_partition m) = Suc (rm_offset m)"
proof -
  obtain c1 where "consume_loop h me mr (map Polled ms) (c, w) = Some (c1, handled h ms w)" "co_dlq c1 = co_dlq c"
    using consume_run [of ms c mr h me w] assms(1-3) by auto
  then show ?thesis
    using assms(4) by (simp add: consume_append consume_Polled commit_msg_def handled_def)
qed

definition sample_record :: "nat \<Rightarrow> record_msg" where
  "sample_record n = \<lparr>rm_topic = ''t'', rm_partition = 0, rm_offset = n, rm_payload = Some [(''n'', JInt (int n))]\<rparr>"

definition sample_handler :: "nat handler" where
  "sample_handler topic d calls = (d \<noteq> [(''n'', JInt 0)], Suc calls)"

theorem failed_message_skipped_witness:
  "\<exists>c'. consume_loop sample_handler 10 3 (map Polled [sample_record 0, sample_record 1]) (new_consumer, 0) = Some (c', 2) \<and>
     \<not> fst (run_handler sample_handler (sample_record 0) 0) \<and> co_dlq c' = [] \<and> co_committed c' (''t'', 0) = 2"
  using failed_message_skipped [of "[sample_record 0]" "sample_record 1" new_consumer 3 sample_handler 0 10]
  by (simp add: sample_record_def slot_of_def new_consumer_def run_handler_def sample_handler_def handled_def
      numeral_2_eq_2)

end
