(* ===== verification/Compliance.thy ===== *)
theory Compliance
  imports Messaging
begin

text \<open>
  The compliance monitor, \<open>src/services/compliance-monitor/main.py\<close>: the screening rules, the
  record and the event each screening leaves, and the handler of the monitored topics with its
  deduplication. Times are microseconds. The fields of a message have the JSON types of the event
  schemas; a field of another type counts as an error of the handler.
\<close>

section \<open>Rules\<close>

definition large_transaction_usd :: rat where "large_transaction_usd = 1000000"
definition structuring_window_usd :: rat where "structuring_window_usd = 9500"
definition velocity_per_hour :: nat where "velocity_per_hour = 20"

definition sanctions_patterns :: "string list" where
  "sanctions_patterns =
     [''DPRK'', ''IRAN'', ''SUKHOI'', ''SBERBANK'', ''TETHER_FRAUD'', ''LAZARUS'', ''SANCTIONED'',
      ''BLOCKED_ENTITY'']"

definition fx_approx :: "string \<Rightarrow> rat" where
  "fx_approx currency =
     (case map_of [(''EUR'', 109 / 100), (''GBP'', 127 / 100), (''USD'', 1)] currency of
        None \<Rightarrow> 1 | Some x \<Rightarrow> x)"

definition usd_equiv :: "rat \<Rightarrow> string \<Rightarrow> rat" where
  "usd_equiv amount currency = dec_mul amount (fx_approx currency)"

text \<open>The format \<open>:,.0f\<close>: a whole number with commas between the thousands.\<close>

fun group3 :: "string \<Rightarrow> string" where
  "group3 (a # b # c # d # ds) = a # b # c # CHR '','' # group3 (d # ds)"
| "group3 ds = ds"

definition thousands :: "int \<Rightarrow> string" where
  "thousands n = (if n < 0 then ''-'' else '''') @ rev (group3 (rev (nat_str (nat \<bar>n\<bar>))))"

definition priv_check_large_transaction :: "rat \<Rightarrow> string \<Rightarrow> fstr list" where
  "priv_check_large_transaction amount currency =
     (if large_transaction_usd \<le> usd_equiv amount currency
      then [[Txt ''LARGE_TRANSACTION: '', Dec amount, Txt ('' '' @ currency @ '' (~$'' @
             thousands (round_half_even (usd_equiv amount currency)) @ '' USD equivalent)'')]]
      else [])"

definition priv_check_structuring :: "rat \<Rightarrow> string \<Rightarrow> fstr list" where
  "priv_check_structuring amount currency =
     (if structuring_window_usd \<le> usd_equiv amount currency \<and> usd_equiv amount currency < large_transaction_usd
      then [[Txt ''POTENTIAL_STRUCTURING: '', Dec amount, Txt ('' '' @ currency @ '' just below reporting threshold'')]]
      else [])"

definition priv_check_sanctions :: "string \<Rightarrow> fstr list" where
  "priv_check_sanctions entity_name =
     map (\<lambda>pattern. [Txt (''SANCTIONS_HIT: '' @ [CHR 39] @ pattern @ [CHR 39] @
            '' matched in entity name '' @ [CHR 39] @ entity_name @ [CHR 39])])
       (filter (\<lambda>pattern. sublist pattern (upper entity_name)) sanctions_patterns)"

section \<open>The state of the process\<close>

record monitor =
  mo_velocity :: "string \<Rightarrow> time list"
  mo_events_processed :: nat
  mo_alerts_raised :: nat
  mo_passes :: nat
  mo_failures :: nat

type_synonym mstate = "world \<times> monitor"

definition last_n :: "nat \<Rightarrow> 'a list \<Rightarrow> 'a list" where
  "last_n n xs = drop (length xs - n) xs"

text \<open>The call of the hour so far, this one included, and the tracker after it.\<close>

definition priv_check_velocity :: "string \<Rightarrow> time \<Rightarrow> monitor \<Rightarrow> fstr list \<times> monitor" where
  "priv_check_velocity account_id now m =
     (let cutoff = now - 3600 * 1000000;
          recent = filter (\<lambda>t. cutoff < t) (mo_velocity m account_id) @ [now]
      in (if velocity_per_hour < length recent
          then [[Txt ''HIGH_VELOCITY: '', Num (int (length recent)),
                 Txt ('' transactions in 1 hour for '' @ account_id)]]
          else [],
          m\<lparr>mo_velocity := (mo_velocity m)(account_id := last_n 100 recent)\<rparr>))"

section \<open>Screening\<close>

definition priv_resolve_account_name :: "world \<Rightarrow> string \<Rightarrow> string" where
  "priv_resolve_account_name s account_id =
     (case parse_uuid account_id of None \<Rightarrow> ''UNKNOWN''
      | Some a \<Rightarrow> (case get_account s a of None \<Rightarrow> ''UNKNOWN'' | Some r \<Rightarrow> acc_entity_name r))"

text \<open>An identifier of 36 characters must be a UUID; any other is replaced by a random one.\<close>

definition event_entity :: "string \<Rightarrow> uuid db_op" where
  "event_entity entity_id =
     (if length entity_id = 36
      then op_lift (case parse_uuid entity_id of
             None \<Rightarrow> Inl (ValueError [Txt ''badly formed hexadecimal UUID string'']) | Some u \<Rightarrow> Inr u)
      else uuid4)"

definition priv_write_compliance_event ::
  "string \<Rightarrow> string \<Rightarrow> string \<Rightarrow> string \<Rightarrow> rat \<Rightarrow> dict \<Rightarrow> world \<Rightarrow> world" where
  "priv_write_compliance_event entity_type entity_id event_type result score details =
     worker_pass (
       op_bind (event_entity entity_id) (\<lambda>u.
       op_bind uuid4 (\<lambda>i.
       op_bind (op_lift (numeric 5 2 score)) (\<lambda>v.
       op_bind (op_get txn_now) (\<lambda>t.
       insert_row (\<lambda>_ _. []) compliance_events_update
         \<lparr>ce_id = i, ce_entity_type = entity_type, ce_entity_id = u, ce_event_type = event_type,
          ce_result = result, ce_score = v, ce_details = details, ce_checked_at = t\<rparr>)))))"

definition screening_details :: "string \<Rightarrow> string \<Rightarrow> rat \<Rightarrow> string \<Rightarrow> fstr list \<Rightarrow> dict" where
  "screening_details account_id entity_name amount currency all_flags =
     [(''account_id'', JStr account_id), (''entity_name'', JStr entity_name), (''amount'', JDec amount),
      (''currency'', JStr currency), (''flags'', JArr (map j_fstr all_flags))]"

definition verdict :: "fstr list \<Rightarrow> string" where
  "verdict all_flags = (if all_flags \<noteq> [] then ''fail'' else ''pass'')"

definition risk_score :: "fstr list \<Rightarrow> rat" where
  "risk_score all_flags = of_nat (min 100 (length all_flags * 25))"

definition count_screening :: "string \<Rightarrow> monitor \<Rightarrow> monitor" where
  "count_screening result m =
     (if result = ''fail'' then m\<lparr>mo_alerts_raised := Suc (mo_alerts_raised m),
          mo_events_processed := Suc (mo_events_processed m)\<rparr>
      else m\<lparr>mo_passes := Suc (mo_passes m), mo_events_processed := Suc (mo_events_processed m)\<rparr>)"

definition all_flags :: "world \<Rightarrow> monitor \<Rightarrow> string \<Rightarrow> rat \<Rightarrow> string \<Rightarrow> fstr list" where
  "all_flags s m account_id amount currency =
     priv_check_large_transaction amount currency @ priv_check_structuring amount currency @
     fst (priv_check_velocity account_id (clock s (Suc (ticks s))) m) @
     priv_check_sanctions (priv_resolve_account_name s account_id)"

definition priv_run_screening ::
  "string \<Rightarrow> string \<Rightarrow> string \<Rightarrow> rat \<Rightarrow> string \<Rightarrow> string \<Rightarrow> mstate \<Rightarrow> mstate" where
  "priv_run_screening entity_type entity_id account_id amount currency event_type st =
     (case st of (s, m) \<Rightarrow>
      let flags = all_flags s m account_id amount currency;
          m = snd (priv_check_velocity account_id (clock s (Suc (ticks s))) m);
          details = screening_details account_id (priv_resolve_account_name s account_id) amount currency flags;
          s = s\<lparr>ticks := Suc (Suc (ticks s))\<rparr>;
          s = priv_write_compliance_event entity_type entity_id event_type (verdict flags) (risk_score flags) details s;
          s = worker_pass (emit ComplianceSvc entity_id ''compliance.event''
                (ComplianceEventMsg entity_type entity_id event_type (verdict flags) (risk_score flags) details)) s
      in (s, count_screening (verdict flags) m))"

section \<open>Events\<close>

definition str_field :: "dict \<Rightarrow> string \<Rightarrow> string \<Rightarrow> exn + string" where
  "str_field payload k def =
     (case map_of payload k of None \<Rightarrow> Inr def | Some (JStr t) \<Rightarrow> Inr t | Some _ \<Rightarrow> Inl (TypeError k))"

record screening =
  sc_entity_type :: string
  sc_entity_field :: string
  sc_account_field :: string
  sc_amount_field :: string
  sc_currency_field :: string
  sc_event_type :: string

text \<open>The default of the entity is drawn from the random source whether it is needed or not.\<close>

definition screen :: "dict \<Rightarrow> screening \<Rightarrow> mstate \<Rightarrow> (exn + unit) \<times> mstate" where
  "screen payload c st =
     (case st of (s, m) \<Rightarrow>
      let fresh = uuid_str (rng s (ticks s)); s = s\<lparr>ticks := Suc (ticks s)\<rparr>
      in case str_field payload (sc_entity_field c) fresh of Inl e \<Rightarrow> (Inl e, s, m) | Inr entity_id \<Rightarrow>
         case str_field payload (sc_account_field c) '''' of Inl e \<Rightarrow> (Inl e, s, m) | Inr account_id \<Rightarrow>
         case decimal_of (dict_get payload (sc_amount_field c) (JInt 0)) of Inl e \<Rightarrow> (Inl e, s, m) | Inr amount \<Rightarrow>
         case str_field payload (sc_currency_field c) ''USD'' of Inl e \<Rightarrow> (Inl e, s, m) | Inr currency \<Rightarrow>
         (Inr (), priv_run_screening (sc_entity_type c) entity_id account_id amount currency
            (sc_event_type c) (s, m)))"

definition screenings :: "string \<Rightarrow> screening list" where
  "screenings topic =
     (if topic \<in> {''token.issuance.completed'', ''token.redemption.completed''}
      then [\<lparr>sc_entity_type = ''token_issuance'', sc_entity_field = ''event_id'',
              sc_account_field = ''account_id'', sc_amount_field = ''amount'',
              sc_currency_field = ''currency'', sc_event_type = ''issuance_screen''\<rparr>]
      else if topic = ''rtgs.settlement.completed''
      then [\<lparr>sc_entity_type = ''rtgs_settlement'', sc_entity_field = ''settlement_ref'',
              sc_account_field = ''sending_account_id'', sc_amount_field = ''amount'',
              sc_currency_field = ''currency'', sc_event_type = ''rtgs_screen''\<rparr>,
            \<lparr>sc_entity_type = ''rtgs_settlement'', sc_entity_field = ''settlement_ref'',
              sc_account_field = ''receiving_account_id'', sc_amount_field = ''amount'',
              sc_currency_field = ''currency'', sc_event_type = ''rtgs_screen_receiver''\<rparr>]
      else if topic = ''payment.conditional.completed''
      then [\<lparr>sc_entity_type = ''conditional_payment'', sc_entity_field = ''payment_ref'',
              sc_account_field = ''payer_account_id'', sc_amount_field = ''amount'',
              sc_currency_field = ''currency'', sc_event_type = ''conditional_payment_screen''\<rparr>]
      else if topic = ''escrow.released''
      then [\<lparr>sc_entity_type = ''escrow'', sc_entity_field = ''contract_ref'',
              sc_account_field = ''released_to'', sc_amount_field = ''amount'',
              sc_currency_field = ''currency'', sc_event_type = ''escrow_screen''\<rparr>]
      else if topic = ''fx.settlement.completed''
      then [\<lparr>sc_entity_type = ''fx_settlement'', sc_entity_field = ''settlement_ref'',
              sc_account_field = ''sending_account_id'', sc_amount_field = ''sell_amount'',
              sc_currency_field = ''sell_currency'', sc_event_type = ''fx_screen''\<rparr>]
      else [])"

fun screen_all :: "dict \<Rightarrow> screening list \<Rightarrow> mstate \<Rightarrow> mstate" where
  "screen_all payload [] st = st"
| "screen_all payload (c # cs) st =
     (case screen payload c st of
        (Inl e, s, m) \<Rightarrow> (s, m\<lparr>mo_failures := Suc (mo_failures m)\<rparr>)
      | (Inr _, st') \<Rightarrow> screen_all payload cs st')"

text \<open>
  Whether the event is a duplicate, and the tables with it marked. An error in this step is
  swallowed and the event is screened.
\<close>

definition check_duplicate :: "string \<Rightarrow> string \<Rightarrow> bool db_op" where
  "check_duplicate topic event_id =
     get_db_session (
     op_bind (op_get (\<lambda>s. is_duplicate_event s event_id)) (\<lambda>dup.
     if dup then op_return True
     else op_bind (mark_event_processed event_id topic) (\<lambda>_. op_return False)))"

definition deduplicate :: "string \<Rightarrow> dict \<Rightarrow> world \<Rightarrow> bool \<times> world" where
  "deduplicate topic payload s =
     (case dict_get payload ''event_id'' JNull of
        JStr event_id \<Rightarrow>
          if event_id = '''' then (False, s)
          else (case check_duplicate topic event_id s of (r, s') \<Rightarrow> (r = Inr True, s'))
      | _ \<Rightarrow> (False, s))"

definition handle_event :: "string \<Rightarrow> dict \<Rightarrow> mstate \<Rightarrow> mstate" where
  "handle_event topic payload st =
     (case st of (s, m) \<Rightarrow>
      case deduplicate topic payload s of (dup, s') \<Rightarrow>
        if dup then (s', m) else screen_all payload (screenings topic) (s', m))"

definition get_rules :: dict where
  "get_rules =
     [(''large_transaction_threshold_usd'', JDec large_transaction_usd),
      (''structuring_window_usd'', JDec structuring_window_usd),
      (''velocity_limit_per_hour'', JInt (int velocity_per_hour)),
      (''sanctions_patterns_count'', JInt (int (length sanctions_patterns)))]"

section \<open>What a screening leaves\<close>

lemma worker_pass_wp: "wp body (begin_txn s) (\<lambda>_ t. Q (t\<lparr>advisory_locks := []\<rparr>)) (\<lambda>_ t. Q (rollback s t)) \<Longrightarrow> Q (worker_pass body s)"
  by (simp add: worker_pass_def get_db_session_def wp_def split: prod.splits sum.splits)

definition entity_ok :: "string \<Rightarrow> bool" where
  "entity_ok entity_id \<longleftrightarrow> length entity_id \<noteq> 36 \<or> parse_uuid entity_id \<noteq> None"

definition other_tables :: "world \<Rightarrow> world" where
  "other_tables s = s\<lparr>compliance_events := [], outbox_events := [], txn_now := 0, ticks := 0,
     block_counter := (\<lambda>_. 0), advisory_locks := []\<rparr>"

lemma other_tables_processed: "other_tables s' = other_tables s \<Longrightarrow> processed_events s' = processed_events s"
  by (drule arg_cong [of _ _ processed_events]) (simp add: other_tables_def)

lemma numeric_score: "numeric 5 2 (risk_score fs) = Inr (risk_score fs)"
proof -
  define k where "k = min 100 (length fs * 25)"
  have k: "k \<le> 100" by (simp add: k_def)
  have "round_half_up (of_nat k * 10 ^ 2) = int k * 100"
    using round_half_up_int [of "int k * 100"] by simp
  then show ?thesis using k by (simp add: numeric_def risk_score_def flip: k_def)
qed

lemma write_event:
  assumes "entity_ok eid"
  shows "\<exists>r. compliance_events (priv_write_compliance_event et eid ev res (risk_score fs) d s) = compliance_events s @ [r] \<and>
    ce_result r = res \<and> ce_score r = risk_score fs \<and> ce_details r = d \<and> ce_entity_type r = et \<and> ce_event_type r = ev \<and>
    outbox_events (priv_write_compliance_event et eid ev res (risk_score fs) d s) = outbox_events s"
  unfolding priv_write_compliance_event_def
  by (rule worker_pass_wp)
     (use assms in \<open>auto simp: event_entity_def entity_ok_def wp_simps numeric_score valid_row_def\<close>)

lemma write_event_frame:
  "other_tables (priv_write_compliance_event et eid ev res v d s) = other_tables s"
  unfolding priv_write_compliance_event_def
  by (rule worker_pass_wp)
     (auto simp: event_entity_def wp_simps rollback_def begin_txn_def other_tables_def
        split: sum.splits option.splits)

lemma emit_pass:
  "worker_pass (emit svc agg ty b) s =
     (begin_txn s)\<lparr>ticks := Suc (ticks s) + 3, outbox_events := outbox_events s @
        [outbox_row (rng s) (clock s) (clock s (ticks s)) (Suc (ticks s)) svc agg ty b], advisory_locks := []\<rparr>"
  by (rule worker_pass_wp) (simp add: wp_simps begin_txn_def)

lemma run_screening_frame: "other_tables (fst (priv_run_screening et eid acct amt cur ev (s, m))) = other_tables s"
proof -
  have "other_tables (worker_pass (emit svc agg ty b) t) = other_tables t" for t svc agg ty b
    by (simp add: emit_pass other_tables_def begin_txn_def)
  moreover have "other_tables (s\<lparr>ticks := n\<rparr>) = other_tables s" for n by (simp add: other_tables_def)
  ultimately show ?thesis unfolding priv_run_screening_def Let_def by (simp add: write_event_frame)
qed

text \<open>The record and the event of one screening.\<close>

definition screened ::
  "string \<Rightarrow> string \<Rightarrow> rat \<Rightarrow> string \<Rightarrow> string \<Rightarrow> fstr list \<Rightarrow> string \<Rightarrow> world \<Rightarrow> world \<Rightarrow> bool" where
  "screened et acct amt cur ev fs name s s' \<longleftrightarrow>
     (\<exists>r. compliance_events s' = compliance_events s @ [r] \<and> ce_result r = verdict fs \<and>
        ce_score r = risk_score fs \<and> ce_entity_type r = et \<and> ce_event_type r = ev \<and>
        ce_details r = screening_details acct name amt cur fs) \<and>
     (\<exists>e. outbox_events s' = outbox_events s @ [e] \<and> oe_event_type e = ''compliance.event'' \<and>
        dict_get (oe_payload e) ''result'' JNull = JStr (verdict fs) \<and>
        dict_get (oe_payload e) ''score'' JNull = JDec (risk_score fs))"

lemma run_screening_effect:
  assumes "entity_ok eid"
  shows "screened et acct amt cur ev (all_flags s m acct amt cur) (priv_resolve_account_name s acct) s
    (fst (priv_run_screening et eid acct amt cur ev (s, m)))"
proof -
  let ?fs = "all_flags s m acct amt cur"
  let ?d = "screening_details acct (priv_resolve_account_name s acct) amt cur ?fs"
  let ?s = "s\<lparr>ticks := Suc (Suc (ticks s))\<rparr>"
  from write_event [OF assms, of et ev "verdict ?fs" ?fs ?d ?s] obtain r where
    "compliance_events (priv_write_compliance_event et eid ev (verdict ?fs) (risk_score ?fs) ?d ?s) = compliance_events s @ [r]"
    "ce_result r = verdict ?fs" "ce_score r = risk_score ?fs" "ce_details r = ?d" "ce_entity_type r = et" "ce_event_type r = ev"
    "outbox_events (priv_write_compliance_event et eid ev (verdict ?fs) (risk_score ?fs) ?d ?s) = outbox_events s"
    by auto
  then show ?thesis
    unfolding priv_run_screening_def Let_def prod.case fst_conv screened_def emit_pass
    by (auto simp: outbox_row_def model_dump_def dict_get_def)
qed

text \<open>The calls of an account that count towards its velocity, this one included.\<close>

definition hour_count :: "world \<Rightarrow> monitor \<Rightarrow> string \<Rightarrow> nat" where
  "hour_count s m acct =
     Suc (length (filter (\<lambda>t. clock s (Suc (ticks s)) - 3600 * 1000000 < t) (mo_velocity m acct)))"

lemma passes_iff:
  "verdict (all_flags s m acct amt cur) = ''pass'' \<longleftrightarrow>
     usd_equiv amt cur < 9500 \<and> hour_count s m acct \<le> 20 \<and>
     (\<forall>p \<in> set sanctions_patterns. \<not> sublist p (upper (priv_resolve_account_name s acct)))"
  by (auto simp: verdict_def all_flags_def priv_check_large_transaction_def priv_check_structuring_def
      priv_check_velocity_def priv_check_sanctions_def hour_count_def Let_def filter_empty_conv
      large_transaction_usd_def structuring_window_usd_def velocity_per_hour_def)

section \<open>Deduplication\<close>

lemma screen_processed:
  assumes "screen payload c (s, m) = (r, s', m')"
  shows "processed_events s' = processed_events s"
proof -
  have "processed_events (fst (priv_run_screening et eid acct amt cur ev (s\<lparr>ticks := n\<rparr>, m))) = processed_events s"
    for et eid acct amt cur ev n
    using other_tables_processed [OF run_screening_frame [of et eid acct amt cur ev "s\<lparr>ticks := n\<rparr>" m]]
    by simp
  then show ?thesis using assms
    by (auto simp: screen_def Let_def split: sum.splits) (metis fst_conv)+
qed

lemma screen_all_processed: "processed_events (fst (screen_all payload cs st)) = processed_events (fst st)"
proof (induction cs arbitrary: st)
  case (Cons c cs)
  obtain s m where st: "st = (s, m)" by fastforce
  obtain r s' m' where run: "screen payload c (s, m) = (r, s', m')" by (metis prod_cases3)
  from screen_processed [OF run] Cons [of "(s', m')"] show ?case
    by (simp add: st run split: sum.splits)
qed simp

lemma deduplicate_effect:
  assumes "deduplicate topic payload s = (dup, s')"
  shows "set (processed_events s) \<subseteq> set (processed_events s') \<and>
    (\<forall>i. dict_get payload ''event_id'' JNull = JStr i \<longrightarrow> i \<noteq> '''' \<longrightarrow>
       is_duplicate_event s' i \<and> (dup \<longleftrightarrow> is_duplicate_event s i) \<and> (dup \<longrightarrow> same_tables s s'))"
proof -
  have "wp (check_duplicate topic i) s (\<lambda>dup s'. set (processed_events s) \<subseteq> set (processed_events s') \<and>
      is_duplicate_event s' i \<and> (dup \<longleftrightarrow> is_duplicate_event s i) \<and> (dup \<longrightarrow> same_tables s s')) total" for i
    by (auto simp: check_duplicate_def mark_event_processed_def wp_simps is_duplicate_event_def valid_row_def)
  note post = this [unfolded wp_total]
  show ?thesis
  proof (cases "dict_get payload ''event_id'' JNull")
    case (JStr i)
    then show ?thesis using assms post [of i] by (auto simp: deduplicate_def split: if_splits)
  qed (use assms in \<open>simp_all add: deduplicate_def\<close>)
qed

lemma handle_event_processed:
  "set (processed_events (fst st)) \<subseteq> set (processed_events (fst (handle_event topic payload st)))"
proof -
  obtain s m where st: "st = (s, m)" by fastforce
  obtain dup s' where d: "deduplicate topic payload s = (dup, s')" by fastforce
  from deduplicate_effect [OF d] show ?thesis
    using screen_all_processed [of payload "screenings topic" "(s', m)"] by (simp add: st handle_event_def d)
qed

lemma handle_events_processed:
  "set (processed_events (fst st)) \<subseteq> set (processed_events (fst (fold (\<lambda>(t, p). handle_event t p) es st)))"
proof (induction es arbitrary: st)
  case (Cons e es)
  then show ?case using handle_event_processed by (cases e) (simp, blast)
qed simp

lemma screening_outcome:
  assumes "entity_ok eid" "priv_run_screening et eid acct amt cur ev (s, m) = (s', m')"
  shows "\<exists>fs. screened et acct amt cur ev fs (priv_resolve_account_name s acct) s s' \<and>
    0 \<le> risk_score fs \<and> risk_score fs \<le> 100 \<and> (0 < risk_score fs \<longleftrightarrow> verdict fs = ''fail'') \<and>
    (verdict fs = ''pass'' \<longleftrightarrow> usd_equiv amt cur < 9500 \<and> hour_count s m acct \<le> 20 \<and>
       (\<forall>p \<in> set sanctions_patterns. \<not> sublist p (upper (priv_resolve_account_name s acct))))"
proof (intro exI conjI)
  let ?fs = "all_flags s m acct amt cur"
  show "screened et acct amt cur ev ?fs (priv_resolve_account_name s acct) s s'"
    using run_screening_effect [OF assms(1), of et acct amt cur ev s m] assms(2) by simp
  show "0 \<le> risk_score ?fs" "risk_score ?fs \<le> 100" by (simp_all add: risk_score_def)
  show "0 < risk_score ?fs \<longleftrightarrow> verdict ?fs = ''fail''" by (simp add: risk_score_def verdict_def)
qed (rule passes_iff)

text \<open>A first delivery on a topic with one screening is that screening, after the bookkeeping.\<close>

lemma uuid_str_nonempty [simp]: "uuid_str x \<noteq> ''''"
  by (simp add: uuid_str_def Let_def)

lemma event_id_field [simp]: "dict_get (model_dump e) ''event_id'' JNull = JStr (uuid_str (ev_event_id e))"
  by (simp add: model_dump_def dict_get_def j_uuid_def)

lemma first_delivery:
  assumes "\<not> is_duplicate_event s (uuid_str (ev_event_id e))"
    and "handle_event topic (model_dump e) (s, m) = (s', m')"
  shows "\<exists>u. screen_all (model_dump e) (screenings topic) (u, m) = (s', m') \<and>
    compliance_events u = compliance_events s \<and> accounts u = accounts s"
proof -
  obtain dup u where d: "deduplicate topic (model_dump e) s = (dup, u)" by fastforce
  have "\<not> dup" using deduplicate_effect [OF d] event_id_field [of e] assms(1) by (metis uuid_str_nonempty)
  moreover have "compliance_events u = compliance_events s \<and> accounts u = accounts s"
    using d by (auto simp: deduplicate_def check_duplicate_def get_db_session_def mark_event_processed_def
        op_simps split: prod.splits sum.splits if_splits option.splits)
  ultimately show ?thesis using assms(2) d by (auto simp: handle_event_def)
qed

section \<open>Properties\<close>


text \<open>
  C20. An event is screened once however often it is delivered: once an event with an identifier has
  been handled, and whatever events were handled after it, a delivery under the same identifier
  changes no table, no counter and no velocity.
\<close>

theorem screened_once:
  assumes "dict_get payload ''event_id'' JNull = JStr i" "i \<noteq> ''''"
    and "dict_get payload' ''event_id'' JNull = JStr i"
    and "fold (\<lambda>(t, p). handle_event t p) es (handle_event topic payload st) = (s1, m1)"
  shows "case handle_event topic' payload' (s1, m1) of (s2, m2) \<Rightarrow> same_tables s1 s2 \<and> m2 = m1"
proof -
  obtain s m where st: "st = (s, m)" by fastforce
  obtain dup s' where d: "deduplicate topic payload s = (dup, s')" by fastforce
  have "is_duplicate_event s' i" using deduplicate_effect [OF d] assms(1,2) by blast
  moreover have "set (processed_events s') \<subseteq> set (processed_events (fst (handle_event topic payload st)))"
    using screen_all_processed [of payload "screenings topic" "(s', m)"] by (simp add: st handle_event_def d)
  moreover have "set (processed_events (fst (handle_event topic payload st))) \<subseteq> set (processed_events s1)"
    using handle_events_processed [of "handle_event topic payload st" es] assms(4) by simp
  ultimately have "is_duplicate_event s1 i" by (auto simp: is_duplicate_event_def)
  moreover obtain dup2 s2 where d2: "deduplicate topic' payload' s1 = (dup2, s2)" by fastforce
  ultimately show ?thesis
    using deduplicate_effect [OF d2] assms(2,3) by (simp add: handle_event_def d2)
qed

text \<open>
  A completed conditional payment is not screened at its amount: the completion event names
  neither the payer nor the amount, so its record says zero dollars from an unknown account, and it
  passes whatever was paid and by whom, until more than twenty payments of the whole platform fall
  within an hour.
\<close>

theorem payment_screened_as_zero:
  assumes "ev_body e = ConditionalPaymentCompleted ref txn t" "entity_ok ref"
    and "\<not> is_duplicate_event s (uuid_str (ev_event_id e))"
    and "handle_event ''payment.conditional.completed'' (model_dump e) (s, m) = (s', m')"
  shows "\<exists>r. compliance_events s' = compliance_events s @ [r] \<and>
    dict_get (ce_details r) ''amount'' JNull = JDec 0 \<and>
    dict_get (ce_details r) ''entity_name'' JNull = JStr ''UNKNOWN'' \<and>
    ((\<forall>x. length (mo_velocity m x) < 20) \<longrightarrow> ce_result r = ''pass'')"
proof -
  obtain u where all: "screen_all (model_dump e) (screenings ''payment.conditional.completed'') (u, m) = (s', m')"
    and u: "compliance_events u = compliance_events s"
    using first_delivery [OF assms(3,4)] by blast
  let ?u = "u\<lparr>ticks := Suc (ticks u)\<rparr>"
  have run: "priv_run_screening ''conditional_payment'' ref '''' 0 ''USD'' ''conditional_payment_screen'' (?u, m) = (s', m')"
    using all assms(1)
    by (simp add: screenings_def screen_def str_field_def model_dump_def dict_get_def decimal_of_def Let_def)
  have name: "priv_resolve_account_name ?u '''' = ''UNKNOWN''"
    by (simp add: priv_resolve_account_name_def parse_uuid_def Let_def)
  from screening_outcome [OF assms(2) run] obtain fs where
    fs: "screened ''conditional_payment'' '''' 0 ''USD'' ''conditional_payment_screen'' fs ''UNKNOWN'' ?u s'"
    "verdict fs = ''pass'' \<longleftrightarrow> usd_equiv 0 ''USD'' < 9500 \<and> hour_count ?u m '''' \<le> 20 \<and>
       (\<forall>p \<in> set sanctions_patterns. \<not> sublist p (upper ''UNKNOWN''))"
    unfolding name by blast
  have "usd_equiv 0 ''USD'' < 9500" by (simp add: usd_equiv_def dec_mul_def ctx_round_def)
  moreover have "\<forall>p \<in> set sanctions_patterns. \<not> sublist p (upper ''UNKNOWN'')" by code_simp
  moreover have "hour_count ?u m '''' \<le> 20" if "\<forall>x. length (mo_velocity m x) < 20"
    unfolding hour_count_def using that by (intro Suc_leI le_less_trans [OF length_filter_le]) simp
  ultimately show ?thesis
    using fs u by (auto simp: screened_def screening_details_def dict_get_def)
qed

section \<open>Examples\<close>

definition quiet :: monitor where
  "quiet = \<lparr>mo_velocity = (\<lambda>_. []), mo_events_processed = 0, mo_alerts_raised = 0, mo_passes = 0, mo_failures = 0\<rparr>"

lemma usd_whole: "usd_equiv 20000 ''USD'' = 20000"
proof -
  have "dec_sub 20000 0 = 20000" by (simp add: dec_sub_exact on_grid_def)
  then show ?thesis by (simp add: usd_equiv_def fx_approx_def dec_mul_def dec_sub_def)
qed


definition sample_completed :: Event where
  "sample_completed = \<lparr>ev_event_id = 5, ev_event_time = 0, ev_service = ''payment-engine'',
     ev_body = ConditionalPaymentCompleted ''CP-1'' 9 0\<rparr>"

lemma sample_completed_id: "dict_get (model_dump sample_completed) ''event_id'' JNull = JStr (uuid_str 5)"
  by (simp add: sample_completed_def)

theorem screened_once_witness:
  "case handle_event ''payment.conditional.completed'' (model_dump sample_completed)
      (handle_event ''payment.conditional.completed'' (model_dump sample_completed) (sample_world, quiet)) of
     (s2, m2) \<Rightarrow> m2 = snd (handle_event ''payment.conditional.completed'' (model_dump sample_completed) (sample_world, quiet))"
proof -
  let ?st = "handle_event ''payment.conditional.completed'' (model_dump sample_completed) (sample_world, quiet)"
  obtain s1 m1 where run: "?st = (s1, m1)" by fastforce
  have "uuid_str 5 \<noteq> ''''" by (simp add: uuid_str_def Let_def)
  from screened_once [OF sample_completed_id this sample_completed_id, of "[]"
      "''payment.conditional.completed''" "(sample_world, quiet)" s1 m1 "''payment.conditional.completed''"] run
  show ?thesis by (auto split: prod.splits)
qed

theorem payment_screened_as_zero_witness:
  "\<exists>r s' m'. handle_event ''payment.conditional.completed'' (model_dump sample_completed)
      (sample_world\<lparr>processed_events := []\<rparr>, quiet) = (s', m') \<and>
     compliance_events s' = compliance_events sample_world @ [r] \<and> ce_result r = ''pass''"
proof -
  obtain s' m' where run: "handle_event ''payment.conditional.completed'' (model_dump sample_completed)
      (sample_world\<lparr>processed_events := []\<rparr>, quiet) = (s', m')" by fastforce
  from payment_screened_as_zero [OF _ _ _ run, of "''CP-1''" 9 0] run show ?thesis
    by (auto simp: sample_completed_def entity_ok_def is_duplicate_event_def quiet_def)
qed

end
