(* ===== verification/Interleaving.thy ===== *)
theory Interleaving
  imports TokenIssuance Rtgs FxSettlement ConditionalPayments Compliance
begin

text \<open>
  The platform as a whole: the services share one database, and their requests, worker passes,
  published batches and screenings interleave as whole transactions. Each service relies on the
  others to leave its own tables alone and to add transactions only; this theory shows that they do
  (the footprints), and concludes that the invariants proved service by service hold in every state
  of every interleaving, and that the audit tables only ever grow.
\<close>

section \<open>Steps\<close>

inductive system_step :: "world \<Rightarrow> world \<Rightarrow> bool" where
  issue: "issue_tokens iss s = (r1, s') \<Longrightarrow> system_step s s'"
| redeem: "redeem_tokens red s = (r2, s') \<Longrightarrow> system_step s s'"
| onboard: "create_account n ty bic lei s = (r3, s') \<Longrightarrow> system_step s s'"
| submit: "submit_settlement req s = (r4, s') \<Longrightarrow> system_step s s'"
| approve: "approve_settlement ref hdr s = (r5, s') \<Longrightarrow> system_step s s'"
| sign: "sign_settlement ref hdr s = (r6, s') \<Longrightarrow> system_step s s'"
| settle: "system_step s (settlement_cycle s)"
| rate: "system_step s (priv_rate_update_handler topic msg s)"
| initiate: "initiate_fx_settlement fxr s = (r7, s') \<Longrightarrow> system_step s s'"
| swap: "system_step s (fx_cycle gateway s)"
| pay: "create_conditional_payment cpr s = (r8, s') \<Longrightarrow> system_step s s'"
| trigger: "trigger_conditional_payment ref trig s = (r9, s') \<Longrightarrow> system_step s s'"
| escrow: "create_escrow esr s = (r10, s') \<Longrightarrow> system_step s s'"
| release: "release_escrow ref rel s = (r11, s') \<Longrightarrow> system_step s s'"
| check: "system_step s (check_conditions_cycle s)"
| publish: "publish_batch (s, b) = (r12, s', b') \<Longrightarrow> system_step s s'"
| screen: "handle_event topic msg (s, m) = (s', m') \<Longrightarrow> system_step s s'"

text \<open>A deployment starts with accounts and opening entries, and no business on its tables.\<close>

definition deployed :: "world \<Rightarrow> bool" where
  "deployed s \<longleftrightarrow> rtgs_settlements s = [] \<and> fx_settlements s = [] \<and> conditional_payments s = [] \<and>
     escrow_contracts s = [] \<and> escrow_holds s = []"

section \<open>Footprints\<close>

datatype table = RTGS | FX | PAYMENTS | ESCROWS

definition frame :: "table set \<Rightarrow> world \<Rightarrow> world \<Rightarrow> bool" where
  "frame W s0 s \<longleftrightarrow>
     prefix (transactions s0) (transactions s) \<and>
     (RTGS \<in> W \<or> rtgs_settlements s = rtgs_settlements s0) \<and>
     (FX \<in> W \<or> fx_settlements s = fx_settlements s0) \<and>
     (PAYMENTS \<in> W \<or> conditional_payments s = conditional_payments s0) \<and>
     (ESCROWS \<in> W \<or> escrow_contracts s = escrow_contracts s0 \<and> escrow_holds s = escrow_holds s0)"

lemma frame_refl [simp]: "frame W s s"
  by (simp add: frame_def)

lemma table_pred_frame: "table_pred (frame W s0)"
  by (auto simp: table_pred_def frame_def elim!: same_tablesE)

interpretation session_frame: unit_of_work get_db_session begin_txn same_tables "frame W s0"
  for W s0
  by (rule session_unit_of_work [OF table_pred_frame])

lemmas keeps_frame_session [keeps_intros] = session_frame.run_keeps

lemma frame_worker_pass: "keeps (frame W s0) m \<Longrightarrow> frame W s0 s \<Longrightarrow> frame W s0 (worker_pass m s)"
  using keeps_frame_session [of W s0 m] by (simp add: worker_pass_def keeps_def)

lemma frame_insert [keeps_intros]:
  "keeps (frame W s0) (insert_row cs1 transactions_update t)"
  "keeps (frame W s0) (insert_row cs2 token_issuances_update ti)"
  "keeps (frame W s0) (insert_row cs3 accounts_update ac)"
  "keeps (frame W s0) (insert_row cs4 fx_rates_update fr)"
  "keeps (frame W s0) (insert_row cs5 compliance_events_update ce)"
  "RTGS \<in> W \<Longrightarrow> keeps (frame W s0) (insert_row cs6 rtgs_settlements_update rs)"
  "FX \<in> W \<Longrightarrow> keeps (frame W s0) (insert_row cs7 fx_settlements_update fs)"
  "PAYMENTS \<in> W \<Longrightarrow> keeps (frame W s0) (insert_row cs8 conditional_payments_update cp)"
  "ESCROWS \<in> W \<Longrightarrow> keeps (frame W s0) (insert_row cs9 escrow_contracts_update ec)"
  "ESCROWS \<in> W \<Longrightarrow> keeps (frame W s0) (insert_row cs10 escrow_holds_update eh)"
  by (auto simp: frame_def intro!: keeps_insert_row)

lemma frame_update [keeps_intros]:
  "keeps (frame W s0) (update_rows token_issuances_update P1 f1)"
  "keeps (frame W s0) (update_rows fx_rates_update P2 f2)"
  "keeps (frame W s0) (update_rows token_balances_update P3 f3)"
  "RTGS \<in> W \<Longrightarrow> keeps (frame W s0) (update_settlement i g1)"
  "FX \<in> W \<Longrightarrow> keeps (frame W s0) (update_fx i g2)"
  "PAYMENTS \<in> W \<Longrightarrow> keeps (frame W s0) (update_payment i g3)"
  "ESCROWS \<in> W \<Longrightarrow> keeps (frame W s0) (update_escrow i g4)"
  unfolding update_settlement_def update_fx_def update_payment_def update_escrow_def
  by (auto simp: frame_def intro!: keeps_update_rows)

lemma frame_prims [keeps_intros]:
  "keeps (frame W s0) uuid4" "keeps (frame W s0) utcnow" "keeps (frame W s0) (acquire_balance_lock a c)"
  "keeps (frame W s0) (emit svc agg et b)" "keeps (frame W s0) (record_status tbl ent st d x)"
  "keeps (frame W s0) (record_on_chain svc tid oper ex)"
  by (auto intro!: keepsI simp: op_simps frame_def acquire_balance_lock_def record_on_chain_def Let_def)

lemma frame_journal [keeps_intros]:
  "keeps (frame W s0) (record_journal_pair a coa c amt et ref ca ccoa narr)"
proof (rule keepsI)
  fix s r s'
  assume "frame W s0 s" "record_journal_pair a coa c amt et ref ca ccoa narr s = (r, s')"
  then show "frame W s0 s'"
    by (cases r) (auto simp: record_journal_pair_Inr frame_def dest!: record_journal_pair_Inl)
qed

lemma frame_shared [keeps_intros]:
  "keeps (frame W s0) (key_or_fresh k pre)" "keeps (frame W s0) (new_transaction ref d c cur amt ty k md)"
  unfolding key_or_fresh_def new_transaction_def by (intro keeps_intros)+

text \<open>What each service writes.\<close>

lemma frame_tokens:
  "keeps (frame {} s0) (issue_tokens iss)" "keeps (frame {} s0) (redeem_tokens red)"
  "keeps (frame {} s0) (create_account n ty bic lei)"
  unfolding issue_tokens_def redeem_tokens_def priv_issue_tokens_def priv_redeem_tokens_def
    issuance_response_def new_issuance_def token_legs_def complete_issuance_def create_account_def
  by (intro keeps_intros)+

lemma frame_process [keeps_intros]: "keeps (frame {RTGS} s0) (priv_process_one_settlement r)"
  unfolding priv_process_one_settlement_def settle_transfer_def priv_transfer_balances_def
    fail_settlement_def Let_def
  by (intro keeps_intros insertI1)

lemma frame_rtgs:
  "keeps (frame {RTGS} s0) (submit_settlement req)" "keeps (frame {RTGS} s0) (approve_settlement ref hdr)"
  "keeps (frame {RTGS} s0) (sign_settlement ref hdr)"
  unfolding submit_settlement_def new_settlement_def approve_settlement_def sign_settlement_def
    find_or_404_def Let_def
  by (intro keeps_intros insertI1)+

lemma frame_settle: "frame {RTGS} s (settlement_cycle s)"
  unfolding settlement_cycle_def by (intro frame_worker_pass keeps_intros frame_refl)

lemma frame_process_fx [keeps_intros]: "keeps (frame {FX} s0) (priv_process_fx_settlement gw fx)"
  unfolding priv_process_fx_settlement_def sell_leg_def buy_leg_def finalise_fx_def fail_fx_def
    priv_execute_leg_def Let_def
  by (intro keeps_intros insertI1)

lemma frame_initiate: "keeps (frame {FX} s0) (initiate_fx_settlement req)"
  unfolding initiate_fx_settlement_def new_fx_def fx_value_date_def Let_def by (intro keeps_intros insertI1)

lemma frame_swap: "frame {FX} s (fx_cycle gw s)"
  unfolding fx_cycle_def by (intro frame_worker_pass keeps_intros frame_refl)

lemma frame_rate: "frame {} s (priv_rate_update_handler topic p s)"
  unfolding priv_rate_update_handler_def ingest_rate_def by (intro frame_worker_pass keeps_intros frame_refl)

lemma frame_transfer:
  "(rel \<Longrightarrow> ESCROWS \<in> W) \<Longrightarrow> keeps (frame W s0) (priv_locked_transfer d k c v narr ty rel)"
  unfolding priv_locked_transfer_def new_hold_def unreserve_legacy_def Let_def by (intro keeps_intros) simp_all

lemma frame_execute:
  "PAYMENTS \<in> W \<Longrightarrow> keeps (frame W s0) (priv_execute_conditional_payment cp trig who)"
  unfolding priv_execute_conditional_payment_def Let_def by (intro keeps_intros frame_transfer) simp_all

lemma frame_expire: "ESCROWS \<in> W \<Longrightarrow> keeps (frame W s0) (priv_expire_escrow e)"
  unfolding priv_expire_escrow_def new_hold_def unreserve_legacy_def Let_def by (intro keeps_intros)

lemma frame_payments:
  "keeps (frame {PAYMENTS} s0) (create_conditional_payment cpr)"
  "keeps (frame {PAYMENTS} s0) (trigger_conditional_payment ref trig)"
  unfolding create_conditional_payment_def new_payment_def trigger_conditional_payment_def
    payment_or_404_def Let_def
  by (intro keeps_intros frame_execute insertI1)+

lemma frame_escrows:
  "keeps (frame {ESCROWS} s0) (create_escrow esr)" "keeps (frame {ESCROWS} s0) (release_escrow ref rel)"
  unfolding create_escrow_def priv_reserve_funds_def new_hold_def new_escrow_def release_escrow_def
    escrow_or_404_def release_to_beneficiary_def refund_to_depositor_def unreserve_legacy_def Let_def
  by (intro keeps_intros frame_transfer frame_expire insertI1)+

lemma frame_check: "frame {PAYMENTS, ESCROWS} s (check_conditions_cycle s)"
  unfolding check_conditions_cycle_def check_pass_def check_payment_def Let_def
  by (intro frame_worker_pass keeps_intros frame_execute frame_expire frame_refl) simp_all

lemma frame_publish: "publish_batch (s, b) = (r, s', b') \<Longrightarrow> frame {} s s'"
  by (auto simp: publish_batch_def frame_def Let_def split: if_splits prod.splits)

text \<open>
  A screening is a number of small sessions; whatever looks at the tables only and is kept by the
  three inserts of the monitor is kept by the handler.
\<close>

lemma monitor_keeps:
  assumes tp: "table_pred I" and ins: "\<And>r. keeps I (insert_row (\<lambda>_ _. []) compliance_events_update r)"
    and emit: "\<And>agg et b. keeps I (emit ComplianceSvc agg et b)"
    and mark: "\<And>e t. keeps I (mark_event_processed e t)" and I: "I s"
  shows "I (fst (handle_event topic msg (s, m)))"
proof -
  have tick: "I s \<Longrightarrow> I (s\<lparr>ticks := n\<rparr>)" for s n
    by (rule tp [unfolded table_pred_def, rule_format, of s]) (simp_all add: same_tables_def)
  have ids: "keeps I uuid4" by (rule keeps_uuid4) (rule tick)
  note sess = unit_of_work.run_keeps [OF session_unit_of_work [OF tp]]
  have pass: "keeps I body \<Longrightarrow> I s \<Longrightarrow> I (worker_pass body s)" for body s
    using sess [of body] by (simp add: worker_pass_def keeps_def)
  have run: "I s \<Longrightarrow> I (fst (priv_run_screening et eid acc amt cur ev (s, m)))" for et eid acc amt cur ev s m
    unfolding priv_run_screening_def priv_write_compliance_event_def event_entity_def Let_def prod.case fst_conv
    by (intro pass keeps_intros emit ins ids tick)
  have one: "I s \<Longrightarrow> I (fst (snd (screen msg c (s, m))))" for c s m
    using run tick by (simp add: screen_def Let_def split: sum.splits)
  have all: "I s \<Longrightarrow> I (fst (screen_all msg cs (s, m)))" for cs s m
  proof (induction cs arbitrary: s m)
    case (Cons c cs)
    obtain r t m' where c: "screen msg c (s, m) = (r, t, m')" by (metis prod_cases3)
    then have "I t" using one [OF Cons.prems, of c m] by simp
    then show ?case using Cons.IH c by (simp split: sum.split)
  qed simp
  have "keeps I (check_duplicate topic e)" for e
    unfolding check_duplicate_def by (intro sess keeps_intros mark)
  note dup = keepsD [OF this I]
  have "I (snd (deduplicate topic msg s))"
    using I by (auto simp: deduplicate_def split: json.split prod.split dest: dup)
  then show ?thesis using all by (auto simp: handle_event_def split: prod.splits)
qed

lemma frame_screen: "frame {} s (fst (handle_event topic msg (s, m)))"
proof (rule monitor_keeps [OF table_pred_frame])
  show "keeps (frame {} s) (mark_event_processed e t)" for e t
    unfolding mark_event_processed_def by (rule keeps_insert_row) (simp add: frame_def)
qed (intro keeps_intros frame_refl)+

section \<open>Composition\<close>

text \<open>
  A service seen from outside: an invariant, the steps it tolerates (its own and those of the others
  that keep to their footprints), and the steps of the whole platform. If every step of the platform
  is one the service tolerates, its invariant holds along every run.
\<close>

locale tolerant_service =
  fixes inv :: "'s \<Rightarrow> bool"
    and tolerated :: "'s \<Rightarrow> 's \<Rightarrow> bool"
    and platform :: "'s \<Rightarrow> 's \<Rightarrow> bool"
  assumes inv_tolerated: "tolerated s s' \<Longrightarrow> inv s \<Longrightarrow> inv s'"
    and platform_tolerated: "platform s s' \<Longrightarrow> tolerated s s'"
begin

lemma inv_run: "platform\<^sup>*\<^sup>* s s' \<Longrightarrow> inv s \<Longrightarrow> inv s'"
  by (induction rule: rtranclp_induct) (auto dest: platform_tolerated inv_tolerated)

end

lemma prefix_set: "prefix xs ys \<Longrightarrow> set xs \<subseteq> set ys"
  by (auto simp: prefix_def)

lemma frame_others:
  assumes "frame W s s'"
  shows "RTGS \<notin> W \<Longrightarrow> rtgs_step s s'" "FX \<notin> W \<Longrightarrow> fx_step s s'"
    "PAYMENTS \<notin> W \<Longrightarrow> payment_step s s'" "ESCROWS \<notin> W \<Longrightarrow> escrow_step s s'"
  using assms unfolding frame_def
  by (auto intro!: rtgs_step.other fx_step.other payment_step.other escrow_step.other dest: prefix_set)

text \<open>The footprint of every step, and that of its own service when it has one.\<close>

lemma step_footprint:
  assumes "system_step s s'"
  shows "frame {} s s' \<or> frame {RTGS} s s' \<and> rtgs_step s s' \<or> frame {FX} s s' \<and> fx_step s s' \<or>
    frame {PAYMENTS} s s' \<and> payment_step s s' \<or> frame {ESCROWS} s s' \<and> escrow_step s s' \<or>
    frame {PAYMENTS, ESCROWS} s s' \<and> payment_step s s' \<and> escrow_step s s'"
  using assms
proof (induction rule: system_step.induct)
  case issue then show ?case by (blast dest: keepsD [OF frame_tokens(1) frame_refl])
next
  case redeem then show ?case by (blast dest: keepsD [OF frame_tokens(2) frame_refl])
next
  case onboard then show ?case by (blast dest: keepsD [OF frame_tokens(3) frame_refl])
next
  case submit then show ?case by (blast dest: keepsD [OF frame_rtgs(1) frame_refl] intro: rtgs_step.submit)
next
  case approve then show ?case by (blast dest: keepsD [OF frame_rtgs(2) frame_refl] intro: rtgs_step.approve)
next
  case sign then show ?case by (blast dest: keepsD [OF frame_rtgs(3) frame_refl] intro: rtgs_step.sign)
next
  case settle show ?case by (blast intro: frame_settle rtgs_step.cycle)
next
  case rate show ?case by (blast intro: frame_rate)
next
  case initiate then show ?case by (blast dest: keepsD [OF frame_initiate frame_refl] intro: fx_step.initiate)
next
  case swap show ?case by (blast intro: frame_swap fx_step.cycle)
next
  case pay then show ?case by (blast dest: keepsD [OF frame_payments(1) frame_refl] intro: payment_step.create)
next
  case trigger then show ?case by (blast dest: keepsD [OF frame_payments(2) frame_refl] intro: payment_step.trigger)
next
  case escrow then show ?case by (blast dest: keepsD [OF frame_escrows(1) frame_refl] intro: escrow_step.create)
next
  case release then show ?case by (blast dest: keepsD [OF frame_escrows(2) frame_refl] intro: escrow_step.release)
next
  case check show ?case by (blast intro: frame_check payment_step.check escrow_step.check)
next
  case publish then show ?case by (blast dest: frame_publish)
next
  case (screen topic msg s m s' m')
  then show ?case using frame_screen [of s topic msg m] by simp
qed

lemma step_tolerated:
  assumes "system_step s s'"
  shows "rtgs_step s s'" "fx_step s s'" "payment_step s s'" "escrow_step s s'"
  using step_footprint [OF assms] by (auto dest: frame_others)

interpretation rtgs_service: tolerant_service rtgs_inv rtgs_step system_step
  by unfold_locales (simp_all add: rtgs_inv_step step_tolerated)

interpretation fx_service: tolerant_service fx_inv fx_step system_step
  by unfold_locales (simp_all add: fx_inv_step step_tolerated)

interpretation payment_service: tolerant_service payments_inv payment_step system_step
  by unfold_locales (simp_all add: payments_inv_step step_tolerated)

interpretation escrow_service: tolerant_service escrow_inv escrow_step system_step
  by unfold_locales (simp_all add: escrow_inv_step step_tolerated)

lemma deployed_invs:
  assumes "deployed s"
  shows "rtgs_inv s" "fx_inv s" "payments_inv s" "escrow_inv s"
  using assms by (simp_all add: deployed_def rtgs_inv_def fx_inv_def payments_inv_def escrow_inv_def
      net_holds_def active_sum_def)

section \<open>The audit trail\<close>

definition event_core :: "OutboxEvent \<Rightarrow> OutboxEvent" where
  "event_core e = e\<lparr>oe_published_at := None\<rparr>"

text \<open>What no step may do: the audit tables grow, apart from the mark of the publisher.\<close>

definition audit_trail :: "world \<Rightarrow> world \<Rightarrow> bool" where
  "audit_trail s0 s \<longleftrightarrow>
     prefix (journal_entries s0) (journal_entries s) \<and> prefix (transactions s0) (transactions s) \<and>
     prefix (escrow_holds s0) (escrow_holds s) \<and> prefix (status_history s0) (status_history s) \<and>
     prefix (map event_core (outbox_events s0)) (map event_core (outbox_events s)) \<and>
     (\<forall>j c. imbalance (journal_entries s) j c = imbalance (journal_entries s0) j c) \<and>
     (columns_ok s0 \<longrightarrow> columns_ok s)"

lemma audit_trail_trans: "audit_trail s0 s1 \<Longrightarrow> audit_trail s1 s2 \<Longrightarrow> audit_trail s0 s2"
  unfolding audit_trail_def by (auto intro: prefix_order.trans)

lemma frame_transactions: "frame W s0 s \<Longrightarrow> prefix (transactions s0) (transactions s)"
  by (simp add: frame_def)

lemma step_transactions: "system_step s s' \<Longrightarrow> prefix (transactions s) (transactions s')"
  using step_footprint [of s s'] frame_transactions by blast

lemma audit_screen: "audit_safe s (fst (handle_event topic msg (s, m)))"
proof (rule monitor_keeps [OF table_pred_audit_safe])
  show "keeps (audit_safe s) (mark_event_processed e t)" for e t
    unfolding mark_event_processed_def by (rule keeps_insert_row) (simp add: audit_safe_def)
  show "keeps (audit_safe s) (insert_row (\<lambda>_ _. []) compliance_events_update r)" for r
    by (rule keeps_insert_row) (simp add: audit_safe_def)
qed (intro keeps_intros audit_safe_refl)+

lemma event_core_marked: "map event_core (mark_published now ids rows) = map event_core rows"
  by (auto simp: mark_published_def map_where_def event_core_def)

lemma audit_publish:
  assumes "publish_batch (s, b) = (r, s', b')"
  shows "audit_safe s (s'\<lparr>outbox_events := outbox_events s\<rparr>) \<and>
    map event_core (outbox_events s') = map event_core (outbox_events s)"
  using assms
  by (auto simp: publish_batch_def audit_safe_def event_core_marked Let_def split: if_splits prod.splits)

lemma audit_request: "m s = (r, s') \<Longrightarrow> keeps (audit_safe s) m \<Longrightarrow> audit_safe s s'"
  using keepsD [of "audit_safe s" m s r s'] by simp

lemma step_audit:
  assumes "system_step s s'"
  shows "audit_safe s (s'\<lparr>outbox_events := outbox_events s\<rparr>) \<and>
    prefix (map event_core (outbox_events s)) (map event_core (outbox_events s'))"
proof -
  have weaken: ?thesis if "audit_safe s s'"
    using that by (auto simp: audit_safe_def intro: map_mono_prefix)
  from assms show ?thesis
  proof cases
    case publish
    from audit_publish [OF this] show ?thesis by simp
  next
    case (screen topic msg m m')
    with audit_screen [of s topic msg m] show ?thesis by (simp add: weaken)
  qed (rule weaken; (erule audit_request, intro keeps_intros)?;
      simp add: audit_cycle audit_fx_cycle audit_rate_update audit_check_cycle)+
qed

lemma trail_step: "system_step s s' \<Longrightarrow> audit_trail s s'"
  using step_audit [of s s'] step_transactions [of s s'] by (simp add: audit_trail_def audit_safe_def)

lemma trail_run: "system_step\<^sup>*\<^sup>* s s' \<Longrightarrow> audit_trail s s'"
proof (induction rule: rtranclp_induct)
  case base
  show ?case by (simp add: audit_trail_def)
next
  case (step t u)
  then show ?case using trail_step audit_trail_trans by blast
qed

section \<open>Properties\<close>

text \<open>A run of the sample deployment in which three services act.\<close>

definition sample_run :: world where
  "sample_run = check_conditions_cycle (settlement_cycle
     (snd (create_conditional_payment sample_payment_request (snd (create_escrow sample_escrow sample_world)))))"

lemma sample_run_reached: "system_step\<^sup>*\<^sup>* sample_world sample_run"
proof -
  let ?s1 = "snd (create_escrow sample_escrow sample_world)"
  let ?s2 = "snd (create_conditional_payment sample_payment_request ?s1)"
  have "system_step sample_world ?s1" by (rule system_step.escrow [OF surjective_pairing])
  moreover have "system_step ?s1 ?s2" by (rule system_step.pay [OF surjective_pairing])
  moreover have "system_step ?s2 (settlement_cycle ?s2)" by (rule system_step.settle)
  moreover have "system_step (settlement_cycle ?s2) sample_run"
    unfolding sample_run_def by (rule system_step.check)
  ultimately show ?thesis by (meson r_into_rtranclp rtranclp_trans)
qed

lemma sample_deployed: "deployed sample_world"
  by (simp add: deployed_def)

text \<open>
  C1. The services keep each other's invariants: in every state that any interleaving of requests,
  worker passes, published batches and screenings reaches from a fresh deployment, every settlement,
  swap and payment keeps to its life cycle, backed by transactions of its own parties and amounts, no
  transaction completes two payments, and the holds of every account are exactly its active escrow contracts.
\<close>

theorem system_invariants:
  assumes "deployed s0" "system_step\<^sup>*\<^sup>* s0 s"
  shows "(\<forall>r \<in> set (rtgs_settlements s). lifecycle (transactions s) r) \<and>
    (\<forall>f \<in> set (fx_settlements s). fx_lifecycle (transactions s) f) \<and>
    (\<forall>p \<in> set (conditional_payments s). payment_ok (transactions s) p) \<and>
    (\<forall>p \<in> set (conditional_payments s). \<forall>q \<in> set (conditional_payments s).
       cp_transaction_id p = cp_transaction_id q \<longrightarrow> cp_transaction_id p = None \<or> cp_id p = cp_id q) \<and>
    (\<forall>a c. active_holds s a c = active_sum (escrow_contracts s) a c)"
  using rtgs_service.inv_run [OF assms(2)] fx_service.inv_run [OF assms(2)]
    payment_service.inv_run [OF assms(2)] escrow_service.inv_run [OF assms(2)] deployed_invs [OF assms(1)]
  by (simp add: rtgs_inv_def fx_inv_def payments_inv_def escrow_inv_def active_holds_net)

theorem system_invariants_witness:
  "list_all (payment_ok (transactions sample_run)) (conditional_payments sample_run) \<and>
   active_holds sample_run 2 USD = active_sum (escrow_contracts sample_run) 2 USD"
  using system_invariants [OF sample_deployed sample_run_reached] by (simp add: list_all_iff)

text \<open>
  C2. No step rewrites history: whatever the services do, the journal, the transactions, the holds
  and the status history only grow, an outbox event never changes except for its mark of
  publication, and a journal group that balances stays balanced in every currency.
\<close>

theorem system_audit_trail:
  assumes "system_step\<^sup>*\<^sup>* s0 s"
  shows "prefix (journal_entries s0) (journal_entries s) \<and> prefix (transactions s0) (transactions s) \<and>
    prefix (escrow_holds s0) (escrow_holds s) \<and> prefix (status_history s0) (status_history s) \<and>
    prefix (map event_core (outbox_events s0)) (map event_core (outbox_events s)) \<and>
    (\<forall>j c. imbalance (journal_entries s) j c = imbalance (journal_entries s0) j c)"
  using trail_run [OF assms] by (simp add: audit_trail_def)

theorem system_audit_trail_witness:
  "prefix (journal_entries sample_world) (journal_entries sample_run) \<and>
   imbalance (journal_entries sample_run) 1000 USD = 0"
proof -
  have "imbalance (journal_entries sample_world) 1000 USD = 0" by (simp add: imbalance_def sample_defs)
  with system_audit_trail [OF sample_run_reached] show ?thesis by simp
qed



end
