(* ===== verification/LedgerIntegrity.thy ===== *)
theory LedgerIntegrity
  imports Interleaving "HOL-Library.Multiset"
begin

text \<open>
  The offline integrity checker, \<open>src/scripts/ledger_integrity.py\<close>: its twelve checks over the
  tables, the report it collects and how it exits. The legacy table \<open>ledger_entries\<close>, which no
  service writes, is an argument. A query that groups returns its groups in the order of their first
  rows. A balance key is the pair of account and currency, which the script prints with a colon
  between them and splits again.
\<close>

section \<open>Report\<close>

record LedgerEntry =
  le_id :: uuid
  le_txn_ref :: string
  le_entry_type :: string
  le_account_id :: uuid
  le_currency :: CurrencyCode
  le_amount :: rat

record integrity_report =
  checks_ok :: nat
  issues :: "fstr list"
  warnings :: "fstr list"

definition empty_report :: integrity_report where
  "empty_report = \<lparr>checks_ok = 0, issues = [], warnings = []\<rparr>"

definition ok :: "integrity_report \<Rightarrow> integrity_report" where
  "ok r = r\<lparr>checks_ok := Suc (checks_ok r)\<rparr>"

definition fail :: "fstr \<Rightarrow> integrity_report \<Rightarrow> integrity_report" where
  "fail msg r = r\<lparr>issues := issues r @ [msg]\<rparr>"

definition warn :: "fstr \<Rightarrow> integrity_report \<Rightarrow> integrity_report" where
  "warn msg r = r\<lparr>warnings := warnings r @ [msg]\<rparr>"

text \<open>A check that reports each of its findings, or passes.\<close>

definition each_or_ok ::
  "(fstr \<Rightarrow> integrity_report \<Rightarrow> integrity_report) \<Rightarrow> fstr list \<Rightarrow> integrity_report \<Rightarrow> integrity_report" where
  "each_or_ok say msgs r = (if msgs = [] then ok r else fold say msgs r)"

definition drifts :: "rat \<Rightarrow> rat \<Rightarrow> bool" where
  "drifts x y \<longleftrightarrow> 1 / 10 ^ 8 < \<bar>dec_sub x y\<bar>"

definition system_account :: "uuid \<Rightarrow> bool" where
  "system_account a \<longleftrightarrow> prefix ''00000000-0000-0000-0000'' (uuid_str a)"

section \<open>Legacy ledger and balances\<close>

definition side_total :: "LedgerEntry list \<Rightarrow> string \<Rightarrow> string \<Rightarrow> rat" where
  "side_total les ref side =
     (\<Sum>l\<leftarrow>filter (\<lambda>l. le_txn_ref l = ref \<and> le_entry_type l = side) les. le_amount l)"

definition check1 :: "LedgerEntry list \<Rightarrow> integrity_report \<Rightarrow> integrity_report" where
  "check1 les =
     each_or_ok fail (map (\<lambda>ref. let d = side_total les ref ''debit''; c = side_total les ref ''credit''
         in [Txt (''IMBALANCE txn_ref='' @ ref @ ''  debit=''), Dec d, Txt ''  credit='', Dec c,
             Txt ''  diff='', Dec (dec_sub d c)])
       (filter (\<lambda>ref. drifts (side_total les ref ''debit'') (side_total les ref ''credit''))
          (remdups (map le_txn_ref les))))"

definition ledger_net :: "LedgerEntry list \<Rightarrow> uuid \<Rightarrow> CurrencyCode \<Rightarrow> rat" where
  "ledger_net les a c =
     (let rows = filter (\<lambda>l. le_account_id l = a \<and> le_currency l = c) les
      in (\<Sum>l\<leftarrow>rows. if le_entry_type l = ''credit'' then le_amount l else 0) -
         (\<Sum>l\<leftarrow>rows. if le_entry_type l = ''debit'' then le_amount l else 0))"

definition check2 :: "LedgerEntry list \<Rightarrow> TokenBalance list \<Rightarrow> integrity_report \<Rightarrow> integrity_report" where
  "check2 les balances =
     each_or_ok fail (map (\<lambda>b. let computed = ledger_net les (tb_account_id b) (tb_currency b)
         in [Txt (''BALANCE DRIFT  account='' @ uuid_str (tb_account_id b) @ ''  currency='' @
               CurrencyCode_value (tb_currency b) @ ''  ledger=''), Dec computed,
             Txt ''  recorded='', Dec (tb_balance b), Txt ''  diff='', Dec (dec_sub (tb_balance b) computed)])
       (filter (\<lambda>b. \<not> system_account (tb_account_id b) \<and>
            drifts (ledger_net les (tb_account_id b) (tb_currency b)) (tb_balance b)) balances))"

definition check3 :: "TokenBalance list \<Rightarrow> integrity_report \<Rightarrow> integrity_report" where
  "check3 balances =
     each_or_ok fail (map (\<lambda>b. [Txt (''NEGATIVE BALANCE  account='' @ uuid_str (tb_account_id b) @ ''  currency='' @
         CurrencyCode_value (tb_currency b) @ ''  balance=''), Dec (tb_balance b)])
       (filter (\<lambda>b. tb_balance b < 0) balances))"

definition check4 :: "TokenBalance list \<Rightarrow> integrity_report \<Rightarrow> integrity_report" where
  "check4 balances =
     each_or_ok fail (map (\<lambda>b. [Txt (''OVER-RESERVED  account='' @ uuid_str (tb_account_id b) @ ''  currency='' @
         CurrencyCode_value (tb_currency b) @ ''  balance=''), Dec (tb_balance b), Txt ''  reserved='', Dec (tb_reserved b)])
       (filter (\<lambda>b. tb_balance b < tb_reserved b) balances))"

definition orphans :: "LedgerEntry list \<Rightarrow> Transaction list \<Rightarrow> Transaction list" where
  "orphans les txs = filter (\<lambda>t. \<not> list_ex (\<lambda>l. le_txn_ref l = tx_ref t) les \<and> tx_status t = T_COMPLETED) txs"

definition check5 :: "LedgerEntry list \<Rightarrow> Transaction list \<Rightarrow> integrity_report \<Rightarrow> integrity_report" where
  "check5 les txs =
     each_or_ok warn (map (\<lambda>t. [Txt (''ORPHANED TXN  txn_ref='' @ tx_ref t @
         ''  (completed but no ledger entries)'')]) (orphans les txs))"

section \<open>Settlements and escrows\<close>

definition check6 :: "RTGSSettlement list \<Rightarrow> integrity_report \<Rightarrow> integrity_report" where
  "check6 rows =
     each_or_ok fail (map (\<lambda>r. [Txt (''SETTLED WITHOUT TXN  settlement_ref='' @ rs_settlement_ref r)])
       (filter (\<lambda>r. rs_status r = S_SETTLED \<and> rs_transaction_id r = None) rows))"

definition check7 :: "FXSettlement list \<Rightarrow> integrity_report \<Rightarrow> integrity_report" where
  "check7 rows =
     each_or_ok fail (map (\<lambda>r. [Txt (''FX MISSING LEG  settlement_ref='' @ fs_settlement_ref r)])
       (filter (\<lambda>r. fs_status r = S_SETTLED \<and> (fs_sell_txn_id r = None \<or> fs_buy_txn_id r = None)) rows))"

definition escrow_join :: "EscrowContract list \<Rightarrow> TokenBalance list \<Rightarrow> ((uuid \<times> CurrencyCode \<times> rat) \<times> rat) list" where
  "escrow_join es tbs =
     concat (map (\<lambda>e. map (\<lambda>tb. ((ec_depositor_account_id e, ec_currency e, tb_reserved tb), ec_amount e))
       (filter (\<lambda>tb. tb_account_id tb = ec_depositor_account_id e \<and> tb_currency tb = ec_currency e) tbs))
       (filter (\<lambda>e. ec_status e = E_ACTIVE) es))"

definition group_total :: "('k \<times> rat) list \<Rightarrow> 'k \<Rightarrow> rat" where
  "group_total rows k = (\<Sum>r\<leftarrow>filter (\<lambda>r. fst r = k) rows. snd r)"

definition check8 :: "EscrowContract list \<Rightarrow> TokenBalance list \<Rightarrow> integrity_report \<Rightarrow> integrity_report" where
  "check8 es tbs =
     (let rows = escrow_join es tbs
      in each_or_ok fail (map (\<lambda>(a, c, reserved). [Txt (''ESCROW > RESERVED  account='' @ uuid_str a @
             ''  currency='' @ CurrencyCode_value c @ ''  escrow_total=''),
             Dec (group_total rows (a, c, reserved)), Txt ''  reserved='', Dec reserved])
           (filter (\<lambda>(a, c, reserved). dec_add reserved (1 / 10 ^ 8) < group_total rows (a, c, reserved))
              (remdups (map fst rows)))))"

section \<open>Journal\<close>

definition journal_totals :: "JournalEntry list \<Rightarrow> uuid \<Rightarrow> rat \<times> rat" where
  "journal_totals js j =
     (let rows = filter (\<lambda>e. je_journal_id e = j) js in (\<Sum>e\<leftarrow>rows. je_debit e, \<Sum>e\<leftarrow>rows. je_credit e))"

definition check9 :: "JournalEntry list \<Rightarrow> integrity_report \<Rightarrow> integrity_report" where
  "check9 js =
     each_or_ok fail (map (\<lambda>j. case journal_totals js j of (d, c) \<Rightarrow>
         [Txt (''JOURNAL IMBALANCE  journal_id='' @ uuid_str j @ ''  debit=''), Dec d, Txt ''  credit='', Dec c])
       (filter (\<lambda>j. case journal_totals js j of (d, c) \<Rightarrow> 1 / 10 ^ 18 < \<bar>d - c\<bar>)
          (remdups (map je_journal_id js))))"

definition liability_rows :: "JournalEntry list \<Rightarrow> JournalEntry list" where
  "liability_rows js = filter (\<lambda>e. je_coa_code e = ''INSTITUTION_LIABILITY'') js"

definition position_of :: "JournalEntry \<Rightarrow> uuid \<times> CurrencyCode" where
  "position_of e = (je_account_id e, je_currency e)"

definition j_balances :: "JournalEntry list \<Rightarrow> ((uuid \<times> CurrencyCode) \<times> rat) list" where
  "j_balances js =
     map (\<lambda>k. (k, \<Sum>e\<leftarrow>filter (\<lambda>e. position_of e = k) (liability_rows js). je_credit e - je_debit e))
       (remdups (map position_of (liability_rows js)))"

definition recorded_balance :: "TokenBalance list \<Rightarrow> uuid \<times> CurrencyCode \<Rightarrow> rat option" where
  "recorded_balance tbs k =
     map_option tb_balance (List.find (\<lambda>b. (tb_account_id b, tb_currency b) = k) tbs)"

text \<open>The balances of participants that differ from a recorded balance.\<close>

definition drifting ::
  "TokenBalance list \<Rightarrow> ((uuid \<times> CurrencyCode) \<times> rat) list \<Rightarrow> ((uuid \<times> CurrencyCode) \<times> rat) list" where
  "drifting tbs rows =
     filter (\<lambda>(k, v). \<not> system_account (fst k) \<and>
       (case recorded_balance tbs k of None \<Rightarrow> False | Some b \<Rightarrow> drifts v b)) rows"

definition drift_message ::
  "string \<Rightarrow> string \<Rightarrow> TokenBalance list \<Rightarrow> (uuid \<times> CurrencyCode) \<times> rat \<Rightarrow> fstr" where
  "drift_message title source tbs row =
     (case row of ((a, c), v) \<Rightarrow>
       [Txt (title @ ''  account='' @ uuid_str a @ ''  currency='' @ CurrencyCode_value c @ ''  '' @ source @ ''=''),
        Dec v, Txt ''  token_balance='', Dec (the (recorded_balance tbs (a, c)))])"

definition check10 :: "JournalEntry list \<Rightarrow> TokenBalance list \<Rightarrow> integrity_report \<Rightarrow> integrity_report" where
  "check10 js tbs =
     each_or_ok fail (map (drift_message ''JOURNAL/TOKEN DRIFT'' ''journal'' tbs) (drifting tbs (j_balances js)))"

definition orphaned_journals :: "world \<Rightarrow> JournalEntry list" where
  "orphaned_journals s =
     take 20 (filter (\<lambda>e. case je_reference_id e of None \<Rightarrow> False
       | Some i \<Rightarrow> i \<notin> tx_id ` set (transactions s) \<and> i \<notin> ti_id ` set (token_issuances s) \<and>
           i \<notin> rs_id ` set (rtgs_settlements s) \<and> i \<notin> ec_id ` set (escrow_contracts s)) (journal_entries s))"

definition check11 :: "world \<Rightarrow> integrity_report \<Rightarrow> integrity_report" where
  "check11 s =
     each_or_ok warn (map (\<lambda>e. [Txt (''ORPHANED JOURNAL  id='' @ uuid_str (je_id e) @ ''  reference_id='' @
         uuid_str (the (je_reference_id e)) @ ''  type='' @ je_entry_type e)]) (orphaned_journals s))"

text \<open>The replay: entries in the order of their times, added up in a dictionary.\<close>

definition chronological :: "JournalEntry list \<Rightarrow> JournalEntry list" where
  "chronological js = sort_key je_created_at (sort_key je_id (liability_rows js))"

definition add_to :: "'k \<Rightarrow> rat \<Rightarrow> ('k \<times> rat) list \<Rightarrow> ('k \<times> rat) list" where
  "add_to k v d =
     (if k \<in> fst ` set d then map (\<lambda>(k', x). (k', if k' = k then dec_add x v else x)) d
      else d @ [(k, dec_add 0 v)])"

definition replay_balances :: "JournalEntry list \<Rightarrow> ((uuid \<times> CurrencyCode) \<times> rat) list" where
  "replay_balances js =
     fold (\<lambda>e. add_to (position_of e) (dec_sub (je_credit e) (je_debit e))) (chronological js) []"

definition check12 :: "JournalEntry list \<Rightarrow> TokenBalance list \<Rightarrow> integrity_report \<Rightarrow> integrity_report" where
  "check12 js tbs =
     each_or_ok fail (map (drift_message ''REPLAY DRIFT'' ''replay'' tbs) (drifting tbs (replay_balances js)))"

section \<open>The run\<close>

definition run_checks :: "bool \<Rightarrow> LedgerEntry list \<Rightarrow> world \<Rightarrow> integrity_report" where
  "run_checks has_journal les s =
     (let tbs = token_balances s; js = journal_entries s;
          r = empty_report;
          r = check1 les r; r = check2 les tbs r; r = check3 tbs r; r = check4 tbs r;
          r = check5 les (transactions s) r; r = check6 (rtgs_settlements s) r;
          r = check7 (fx_settlements s) r; r = check8 (escrow_contracts s) tbs r
      in if \<not> has_journal then warn [Txt ''journal_entries table not found, skipping checks 9-12.''] r
         else let r = check9 js r; r = check10 js tbs r; r = check11 s r in check12 js tbs r)"

text \<open>What is posted to the webhook, if anything, and the exit code.\<close>

definition report_dict :: "integrity_report \<Rightarrow> dict" where
  "report_dict r =
     [(''checks_passed'', JInt (int (checks_ok r))), (''issues'', JArr (map j_fstr (issues r))),
      (''warnings'', JArr (map j_fstr (warnings r))),
      (''status'', JStr (if issues r \<noteq> [] then ''fail'' else ''ok''))]"

definition integrity_main :: "bool \<Rightarrow> string option \<Rightarrow> integrity_report \<Rightarrow> (string \<times> dict) option \<times> nat" where
  "integrity_main report_only webhook_url r =
     ((if truthy webhook_url \<and> issues r \<noteq> [] then Some (the webhook_url, report_dict r) else None),
      if issues r \<noteq> [] \<and> \<not> report_only then 1 else 0)"

section \<open>What a check leaves\<close>

lemma fold_fail: "issues (fold fail msgs r) = issues r @ msgs" "warnings (fold fail msgs r) = warnings r"
  by (induction msgs arbitrary: r) (simp_all add: fail_def)

lemma fold_warn: "issues (fold warn msgs r) = issues r" "warnings (fold warn msgs r) = warnings r @ msgs"
  by (induction msgs arbitrary: r) (simp_all add: warn_def)

lemma each_or_ok_simps [simp]:
  "issues (each_or_ok fail msgs r) = issues r @ msgs" "warnings (each_or_ok fail msgs r) = warnings r"
  "issues (each_or_ok warn msgs r) = issues r" "warnings (each_or_ok warn msgs r) = warnings r @ msgs"
  by (simp_all add: each_or_ok_def ok_def fold_fail fold_warn)

section \<open>The replay\<close>

definition val :: "('k \<times> rat) list \<Rightarrow> 'k \<Rightarrow> rat" where
  "val d k = (case map_of d k of None \<Rightarrow> 0 | Some x \<Rightarrow> x)"

lemma val_Nil [simp]: "val [] k = 0"
  by (simp add: val_def)

lemma add_to_keys: "fst ` set (add_to k v d) = insert k (fst ` set d)"
  by (force simp: add_to_def)

lemma add_to_distinct: "distinct (map fst d) \<Longrightarrow> distinct (map fst (add_to k v d))"
  by (auto simp: add_to_def comp_def case_prod_unfold image_iff)

lemma map_of_add: "map_of (map (\<lambda>(k', x). (k', if k' = k then g x else x)) d) j =
    (if j = k then map_option g (map_of d j) else map_of d j)"
  by (induction d) auto

lemma add_to_val:
  assumes "dec_add (val d k) v = val d k + v"
  shows "val (add_to k v d) j = val d j + (if j = k then v else 0)"
proof (cases "k \<in> fst ` set d")
  case True
  then obtain x where "map_of d k = Some x" by (metis map_of_eq_None_iff not_None_eq)
  with True assms show ?thesis by (simp add: add_to_def val_def map_of_add)
next
  case False
  then have "map_of d k = None" by (simp add: map_of_eq_None_iff)
  with False assms show ?thesis
    by (auto simp: add_to_def val_def map_add_def split: option.split)
qed

lemma dec_add_exact:
  "on_grid 18 x \<Longrightarrow> on_grid 18 y \<Longrightarrow> \<bar>x + y\<bar> < 10 ^ 10 \<Longrightarrow> dec_add x y = x + y"
  unfolding dec_add_def
  using ctx_round_exact [of 18 "x + y"] by (simp add: decimal_prec_def on_grid_add)

lemma replay_fold:
  assumes "\<forall>x \<in> set xs. on_grid 18 (w x)" "\<forall>k. on_grid 18 (val d k)"
    and "\<forall>k. \<bar>val d k\<bar> + (\<Sum>x\<leftarrow>xs. \<bar>w x\<bar>) < 10 ^ 10" and "distinct (map fst d)"
  shows "let r = fold (\<lambda>x. add_to (f x) (w x)) xs d
    in distinct (map fst r) \<and> fst ` set r = fst ` set d \<union> f ` set xs \<and>
       (\<forall>k. val r k = val d k + (\<Sum>x\<leftarrow>filter (\<lambda>x. f x = k) xs. w x))"
  using assms
proof (induction xs arbitrary: d)
  case (Cons x xs)
  let ?d = "add_to (f x) (w x) d"
  have nonneg: "0 \<le> (\<Sum>x\<leftarrow>xs. \<bar>w x\<bar>)" by (rule sum_list_nonneg) auto
  have sum: "\<bar>val d k\<bar> + (\<bar>w x\<bar> + (\<Sum>x\<leftarrow>xs. \<bar>w x\<bar>)) < 10 ^ 10" for k
    using Cons.prems(3) by simp
  have "\<bar>val d (f x) + w x\<bar> < 10 ^ 10" using sum [of "f x"] nonneg by linarith
  then have step: "val ?d k = val d k + (if k = f x then w x else 0)" for k
    using Cons.prems(1,2) by (intro add_to_val dec_add_exact) auto
  have "\<bar>val ?d k\<bar> + (\<Sum>x\<leftarrow>xs. \<bar>w x\<bar>) < 10 ^ 10" for k
    using sum [of k] unfolding step by (auto split: if_splits)
  moreover have "on_grid 18 (val ?d k)" for k
    using Cons.prems(1,2) unfolding step by (auto intro: on_grid_add)
  ultimately show ?case
    using Cons.IH [of ?d] Cons.prems(1) add_to_distinct [OF Cons.prems(4)]
    by (simp add: add_to_keys step Let_def)
qed simp

lemma sum_filter_mset:
  "mset xs = mset ys \<Longrightarrow> (\<Sum>x\<leftarrow>filter P xs. (w x :: rat)) = (\<Sum>x\<leftarrow>filter P ys. w x)"
  by (metis mset_filter mset_map sum_mset_sum_list)

lemma pairs_by_val:
  assumes "distinct (map fst d)"
  shows "set d = {(k, val d k) |k. k \<in> fst ` set d}"
proof -
  have "val d k = v" if "(k, v) \<in> set d" for k v
    using assms that by (simp add: val_def map_of_is_SomeI)
  then show ?thesis by force
qed

text \<open>As long as the postings to liabilities stay below ten billion in all, the replay adds exactly.\<close>

definition turnover :: "JournalEntry list \<Rightarrow> rat" where
  "turnover js = (\<Sum>e\<leftarrow>liability_rows js. \<bar>je_credit e - je_debit e\<bar>)"

lemma replay_set:
  assumes "columns_ok s" "turnover (journal_entries s) < 10 ^ 10"
  shows "distinct (map fst (replay_balances (journal_entries s))) \<and>
    set (replay_balances (journal_entries s)) = set (j_balances (journal_entries s))"
proof -
  let ?js = "journal_entries s" and ?w = "\<lambda>e. je_credit e - je_debit e"
  let ?xs = "chronological ?js" and ?rows = "liability_rows ?js"
  have perm: "mset ?xs = mset ?rows" by (simp add: chronological_def)
  then have same: "set ?xs = set ?rows" by (rule mset_eq_setD)
  have rows: "on_grid 18 (je_credit e)" "on_grid 18 (je_debit e)" if "e \<in> set ?rows" for e
    using assms(1) that by (auto simp: places_ok_def list_all_iff liability_rows_def)
  have total: "(\<Sum>e\<leftarrow>?xs. \<bar>?w e\<bar>) < 10 ^ 10"
    using assms(2) sum_filter_mset [OF perm, where P = "\<lambda>_. True" and w = "\<lambda>e. \<bar>?w e\<bar>"] by (simp add: turnover_def)
  have each: "\<bar>?w e\<bar> \<le> (\<Sum>e\<leftarrow>?xs. \<bar>?w e\<bar>)" if "e \<in> set ?xs" for e
    using that by (intro member_le_sum_list) (auto simp: image_iff)
  have exact: "dec_sub (je_credit e) (je_debit e) = ?w e" if "e \<in> set ?xs" for e
    using rows each [OF that] total that same by (intro dec_sub_exact) auto
  have "replay_balances ?js = fold (\<lambda>e. add_to (position_of e) (?w e)) ?xs []"
    unfolding replay_balances_def by (rule fold_cong) (simp_all add: exact)
  moreover have "\<forall>e \<in> set ?xs. on_grid 18 (?w e)" using rows same by (auto intro: on_grid_diff)
  note replay_fold [OF this, of "[]" position_of, unfolded Let_def]
  ultimately have r: "distinct (map fst (replay_balances ?js))"
      "fst ` set (replay_balances ?js) = position_of ` set ?xs"
      "val (replay_balances ?js) k = (\<Sum>e\<leftarrow>filter (\<lambda>e. position_of e = k) ?xs. ?w e)" for k
    using total by (simp_all del: split_paired_All)
  have "set (replay_balances ?js) = {(k, val (replay_balances ?js) k) |k. k \<in> position_of ` set ?rows}"
    using pairs_by_val [OF r(1)] r(2) same by simp
  also have "\<dots> = set (j_balances ?js)"
    by (auto simp: j_balances_def r(3) sum_filter_mset [OF perm])
  finally show ?thesis using r(1) by blast
qed

lemma j_balances_liability:
  "(k, v) \<in> set (j_balances (journal_entries s)) \<Longrightarrow> v = liability s (fst k) (snd k)"
proof -
  have rows: "filter (\<lambda>e. position_of e = k) (liability_rows js) =
      filter (on_position (fst k) (snd k) ''INSTITUTION_LIABILITY'') js" for js
    by (auto simp: liability_rows_def position_of_def on_position_def intro!: filter_cong)
  assume "(k, v) \<in> set (j_balances (journal_entries s))"
  then have "v = (\<Sum>e\<leftarrow>filter (\<lambda>e. position_of e = k) (liability_rows (journal_entries s)). je_credit e - je_debit e)"
    unfolding j_balances_def by auto
  then show ?thesis unfolding rows by (simp add: balance_of_def sum_list_subtractf)
qed

section \<open>Groups\<close>

lemma currency_split:
  "(\<Sum>e\<leftarrow>js. w e) = (\<Sum>c\<in>UNIV. \<Sum>e\<leftarrow>filter (\<lambda>e. je_currency e = c) js. (w e :: rat))"
proof (induction js)
  case (Cons e js)
  have "(\<Sum>c\<in>UNIV. \<Sum>e\<leftarrow>filter (\<lambda>e. je_currency e = c) (e # js). w e) =
      (\<Sum>c\<in>UNIV. (if c = je_currency e then w e else 0) + (\<Sum>e\<leftarrow>filter (\<lambda>e. je_currency e = c) js. w e))"
    by (rule sum.cong) auto
  then show ?case using Cons by (simp add: sum.distrib)
qed simp

lemma group_imbalance:
  "(case journal_totals js j of (d, c) \<Rightarrow> d - c) = (\<Sum>c\<in>UNIV. imbalance js j c)"
proof -
  let ?rows = "filter (\<lambda>e. je_journal_id e = j) js" and ?w = "\<lambda>e. je_debit e - je_credit e"
  have "imbalance js j c = (\<Sum>e\<leftarrow>filter (\<lambda>e. je_currency e = c) ?rows. ?w e)" for c
    by (simp add: imbalance_def conj_commute)
  moreover have "(case journal_totals js j of (d, c) \<Rightarrow> d - c) = (\<Sum>e\<leftarrow>?rows. ?w e)"
    by (simp add: journal_totals_def Let_def sum_list_subtractf)
  ultimately show ?thesis by (simp only: currency_split [of ?w ?rows])
qed

text \<open>The groups of the journal that do not balance.\<close>

definition balanced :: "JournalEntry list \<Rightarrow> bool" where
  "balanced js \<longleftrightarrow> (\<forall>j c. imbalance js j c = 0)"

lemma balanced_check9: "balanced js \<Longrightarrow> issues (check9 js r) = issues r"
proof -
  assume "balanced js"
  then have "(case journal_totals js j of (d, c) \<Rightarrow> d - c) = 0" for j
    unfolding group_imbalance by (simp add: balanced_def)
  then have "fst (journal_totals js j) = snd (journal_totals js j)" for j by (simp add: case_prod_unfold)
  then show ?thesis by (simp add: check9_def filter_empty_conv case_prod_unfold)
qed

section \<open>Properties\<close>

text \<open>
  C23. The chronological replay is the running balance: while the postings to liabilities stay below
  ten billion in all, replaying them in the order of their times gives for every account and currency
  the balance the services read, so check 12 finds a drift exactly when check 10 does.
\<close>

theorem replay_is_balance:
  assumes "columns_ok s" "turnover (journal_entries s) < 10 ^ 10"
  shows "(\<forall>(k, v) \<in> set (replay_balances (journal_entries s)). v = liability s (fst k) (snd k)) \<and>
    set (replay_balances (journal_entries s)) = set (j_balances (journal_entries s)) \<and>
    (issues (check12 (journal_entries s) tbs empty_report) = [] \<longleftrightarrow>
     issues (check10 (journal_entries s) tbs empty_report) = [])"
  using replay_set [OF assms] j_balances_liability [of _ _ s]
  by (auto simp: check10_def check12_def empty_report_def drifting_def filter_empty_conv simp del: get_balance_eq)

theorem replay_is_balance_witness:
  "set (replay_balances (journal_entries sample_world)) = {((2, USD), 1000), ((3, EUR), 1000)}"
proof -
  have "turnover (journal_entries sample_world) < 10 ^ 10"
    by (simp add: turnover_def liability_rows_def sample_defs)
  from replay_is_balance [OF sample_columns this] show ?thesis
    by (auto simp: j_balances_def liability_rows_def position_of_def sample_defs)
qed



text \<open>
  The services no longer write the legacy ledger, but check 5 looks for entries there: over an empty
  legacy ledger it warns of every completed transaction.
\<close>

theorem orphans_everywhere:
  "length (warnings (check5 [] txs r)) =
     length (warnings r) + length (filter (\<lambda>t. tx_status t = T_COMPLETED) txs)"
  by (simp add: check5_def orphans_def)

text \<open>
  The opening entries of the schema are single entries, each a journal group of its own, so that
  check 9 reports a fresh deployment.
\<close>

theorem opening_reported:
  assumes "e \<in> set js" "\<forall>e' \<in> set js. je_journal_id e' = je_journal_id e \<longrightarrow> e' = e" "distinct js"
    and "1 / 10 ^ 18 < \<bar>je_debit e - je_credit e\<bar>"
  shows "issues (check9 js empty_report) \<noteq> []"
proof -
  have "filter (\<lambda>e'. je_journal_id e' = je_journal_id e) js = [e]"
    using assms(1-3) by (induction js) (auto simp: filter_empty_conv)
  then have "journal_totals js (je_journal_id e) = (je_debit e, je_credit e)"
    by (simp add: journal_totals_def)
  then show ?thesis using assms(1,4) by (force simp: check9_def empty_report_def filter_empty_conv)
qed

end
