(* ===== verification/Gateway.thy ===== *)
theory Gateway
  imports Samples
begin

text \<open>
  The API gateway, \<open>src/services/api-gateway/main.py\<close>: the sliding-window rate limiter, API-key
  authentication with role checks, the routes and the reverse proxy with the headers it forwards,
  and the audit middleware. The HTTP client and the services behind it are a function argument;
  times of the limiter are seconds of the monotonic clock.
\<close>

section \<open>Rate limiter\<close>

record SimpleRateLimiter =
  rl_window :: rat
  rl_max_req :: nat
  rl_buckets :: "string \<Rightarrow> rat list"

definition new_limiter :: "rat \<Rightarrow> nat \<Rightarrow> SimpleRateLimiter" where
  "new_limiter window_secs max_requests =
     \<lparr>rl_window = window_secs, rl_max_req = max_requests, rl_buckets = (\<lambda>_. [])\<rparr>"

definition limiter :: SimpleRateLimiter where
  "limiter = new_limiter 60 1000"

definition is_allowed :: "string \<Rightarrow> rat \<Rightarrow> SimpleRateLimiter \<Rightarrow> bool \<times> SimpleRateLimiter" where
  "is_allowed key now l =
     (let cutoff = now - rl_window l;
          bucket = filter (\<lambda>t. cutoff < t) (rl_buckets l key)
      in if rl_max_req l \<le> length bucket
         then (False, l\<lparr>rl_buckets := (rl_buckets l)(key := bucket)\<rparr>)
         else (True, l\<lparr>rl_buckets := (rl_buckets l)(key := bucket @ [now])\<rparr>))"

section \<open>Authentication\<close>

record http_request =
  hr_method :: string
  hr_path :: string
  hr_headers :: headers
  hr_query :: "(string \<times> string) list"
  hr_body :: string

text \<open>The state the dependency leaves on the request.\<close>

record actor =
  actor_id :: "string option"
  actor_role :: string
  actor_name :: string

text \<open>A query parameter given twice has its last value.\<close>

definition query_get :: "(string \<times> string) list \<Rightarrow> string \<Rightarrow> string" where
  "query_get q name = (case map_of (rev q) name of None \<Rightarrow> '''' | Some v \<Rightarrow> v)"

definition raw_api_key :: "http_request \<Rightarrow> string" where
  "raw_api_key req =
     (let k = header_get (hr_headers req) ''X-API-Key''
      in if k \<noteq> '''' then k else query_get (hr_query req) ''api_key'')"

definition identify :: "string \<Rightarrow> world \<Rightarrow> string \<Rightarrow> string \<Rightarrow> exn + actor" where
  "identify GATEWAY_API_KEY s path raw_key =
     (case resolve_api_key s raw_key of
        None \<Rightarrow>
          if raw_key \<noteq> GATEWAY_API_KEY then Inl (HTTPException 401 [Txt ''Invalid API key''])
          else Inr \<lparr>actor_id = None, actor_role = ''admin'', actor_name = ''legacy-key''\<rparr>
      | Some api_key \<Rightarrow>
          let role = UserRole_value (ak_role api_key)
          in if (case match_route_role path of None \<Rightarrow> False
                 | Some allowed_roles \<Rightarrow> allowed_roles \<noteq> [] \<and> role \<notin> set allowed_roles)
             then Inl (HTTPException 403 [Txt (''Role '' @ [CHR 39] @ role @ [CHR 39]
               @ '' not authorized for '' @ path)])
             else Inr \<lparr>actor_id = Some (uuid_str (ak_actor_id api_key)), actor_role = role,
               actor_name = ak_actor_name api_key\<rparr>)"

definition require_api_key ::
  "string \<Rightarrow> http_request \<Rightarrow> rat \<Rightarrow> world \<Rightarrow> SimpleRateLimiter \<Rightarrow> (exn + actor) \<times> SimpleRateLimiter" where
  "require_api_key GATEWAY_API_KEY req now s l =
     (let raw_key = raw_api_key req
      in if raw_key = '''' then (Inl (HTTPException 401 [Txt ''Missing API key'']), l)
         else case identify GATEWAY_API_KEY s (hr_path req) raw_key of
           Inl e \<Rightarrow> (Inl e, l)
         | Inr a \<Rightarrow>
             (case is_allowed raw_key now l of (ok, l') \<Rightarrow>
                if ok then (Inr a, l')
                else (Inl (HTTPException 429
                       [Txt ''Rate limit exceeded. Max 1000 requests per 60 seconds.'']), l')))"

section \<open>Proxy\<close>

record http_response =
  resp_status :: int
  resp_headers :: headers
  resp_body :: string

record http_call =
  hc_method :: string
  hc_url :: string
  hc_content :: string
  hc_params :: "(string \<times> string) list"
  hc_headers :: headers

text \<open>
  What the HTTP client makes of a call: the answer of the service, or one of the two transport
  errors the proxy distinguishes.
\<close>

datatype http_outcome = Answer http_response | ConnectError | TimeoutException

type_synonym http_client = "http_call \<Rightarrow> http_outcome"

text \<open>Assignment to a dict of headers: keys are compared exactly, an existing key keeps its place.\<close>

definition hdr_set :: "headers \<Rightarrow> string \<Rightarrow> string \<Rightarrow> headers" where
  "hdr_set h k v =
     (if k \<in> fst ` set h then map (\<lambda>(k', v'). if k' = k then (k, v) else (k', v')) h else h @ [(k, v)])"

definition hdr_dict :: "headers \<Rightarrow> headers" where
  "hdr_dict items = fold (\<lambda>(k, v) h. hdr_set h k v) items []"

definition proxy_headers :: "string \<Rightarrow> actor \<Rightarrow> headers \<Rightarrow> headers" where
  "proxy_headers request_id a items =
     (let h = hdr_dict (filter (\<lambda>(k, v). lower k \<notin> {''host'', ''x-api-key'', ''content-length''}) items);
          h = hdr_set h ''X-Request-ID'' request_id;
          h = hdr_set h ''X-Actor-Service'' ''api-gateway'';
          h = (if truthy (actor_id a) then hdr_set h ''X-Actor-ID'' (the (actor_id a)) else h);
          h = hdr_set h ''X-Actor-Role'' (actor_role a)
      in hdr_set h ''X-Actor-Name'' (actor_name a))"

definition priv_proxy ::
  "http_client \<Rightarrow> string \<Rightarrow> string \<Rightarrow> string \<Rightarrow> actor \<Rightarrow> http_request \<Rightarrow> exn + http_response" where
  "priv_proxy client upstream_base path request_id a req =
     (case client \<lparr>hc_method = hr_method req, hc_url = upstream_base @ path, hc_content = hr_body req,
        hc_params = hdr_dict (hr_query req), hc_headers = proxy_headers request_id a (hr_headers req)\<rparr> of
        ConnectError \<Rightarrow> Inl (HTTPException 503 [Txt (''Upstream unavailable: '' @ upstream_base)])
      | TimeoutException \<Rightarrow> Inl (HTTPException 504 [Txt ''Upstream timeout''])
      | Answer r \<Rightarrow> Inr r)"

section \<open>Routes\<close>

datatype pattern = Exact string | Under string

fun matches :: "pattern \<Rightarrow> string \<Rightarrow> string option" where
  "matches (Exact p) path = (if path = p then Some '''' else None)"
| "matches (Under p) path = (if prefix p path then Some (drop (length p) path) else None)"

record route =
  rt_pattern :: pattern
  rt_methods :: "string list"
  rt_upstream :: string
  rt_target :: string

definition proxy_routes :: "route list" where
  "proxy_routes =
     [\<lparr>rt_pattern = Under ''/v1/tokens/'', rt_methods = [''GET'', ''POST'', ''PUT'', ''DELETE''],
       rt_upstream = ''token'', rt_target = ''/tokens/''\<rparr>,
      \<lparr>rt_pattern = Under ''/v1/accounts/'', rt_methods = [''GET'', ''POST''],
       rt_upstream = ''token'', rt_target = ''/accounts/''\<rparr>,
      \<lparr>rt_pattern = Exact ''/v1/accounts'', rt_methods = [''POST''],
       rt_upstream = ''token'', rt_target = ''/accounts''\<rparr>,
      \<lparr>rt_pattern = Under ''/v1/settlements/'', rt_methods = [''GET'', ''POST''],
       rt_upstream = ''rtgs'', rt_target = ''/settlements/''\<rparr>,
      \<lparr>rt_pattern = Exact ''/v1/settlements'', rt_methods = [''GET'', ''POST''],
       rt_upstream = ''rtgs'', rt_target = ''/settlements''\<rparr>,
      \<lparr>rt_pattern = Under ''/v1/payments/'', rt_methods = [''GET'', ''POST''],
       rt_upstream = ''payment'', rt_target = ''/payments/''\<rparr>,
      \<lparr>rt_pattern = Under ''/v1/fx/'', rt_methods = [''GET'', ''POST''],
       rt_upstream = ''fx'', rt_target = ''/fx/''\<rparr>]"

definition find_route :: "string \<Rightarrow> string \<Rightarrow> exn + route" where
  "find_route verb path =
     (case List.find (\<lambda>r. matches (rt_pattern r) path \<noteq> None \<and> verb \<in> set (rt_methods r)) proxy_routes of
        Some r \<Rightarrow> Inr r
      | None \<Rightarrow>
          if \<exists>r \<in> set proxy_routes. matches (rt_pattern r) path \<noteq> None
          then Inl (HTTPException 405 [Txt ''Method Not Allowed''])
          else Inl (HTTPException 404 [Txt ''Not Found'']))"

text \<open>A request to a proxied route: the key is checked before the call is forwarded.\<close>

definition proxied ::
  "(string \<Rightarrow> string) \<Rightarrow> string \<Rightarrow> http_client \<Rightarrow> string \<Rightarrow> http_request \<Rightarrow> rat \<Rightarrow> world
     \<Rightarrow> SimpleRateLimiter \<Rightarrow> (exn + http_response) \<times> SimpleRateLimiter" where
  "proxied UPSTREAM GATEWAY_API_KEY client request_id req now s l =
     (case find_route (hr_method req) (hr_path req) of
        Inl e \<Rightarrow> (Inl e, l)
      | Inr r \<Rightarrow>
          (case require_api_key GATEWAY_API_KEY req now s l of
             (Inl e, l') \<Rightarrow> (Inl e, l')
           | (Inr a, l') \<Rightarrow>
               (priv_proxy client (UPSTREAM (rt_upstream r))
                  (rt_target r @ the (matches (rt_pattern r) (hr_path req))) request_id a req, l')))"

section \<open>Audit middleware\<close>

definition status_of :: "exn + http_response \<Rightarrow> int" where
  "status_of r = (case r of Inr x \<Rightarrow> resp_status x | Inl (HTTPException c _) \<Rightarrow> c | Inl _ \<Rightarrow> 500)"

definition audit_entry :: "string \<Rightarrow> rat \<Rightarrow> string option \<Rightarrow> time \<Rightarrow> http_request \<Rightarrow> int \<Rightarrow> dict" where
  "audit_entry request_id elapsed_ms host now req code =
     [(''event_id'', JStr request_id), (''actor_service'', JStr ''api-gateway''),
      (''action'', JStr (hr_method req @ '' '' @ hr_path req)), (''entity_type'', JStr ''http_request''),
      (''entity_id'', JStr request_id),
      (''after_state'', JObj [(''status_code'', JInt code), (''elapsed_ms'', JDec elapsed_ms),
         (''path'', JStr (hr_path req)), (''method'', JStr (hr_method req))]),
      (''ip_address'', (case host of None \<Rightarrow> JNull | Some h \<Rightarrow> JStr h)), (''event_time'', JTime now)]"

text \<open>
  Every request gets a fresh identifier and one entry in the audit topic, which is written after the
  answer is known; a failure to publish it is ignored. The result is the answer, the headers that
  are set on it, and the entry.
\<close>

definition audit_middleware ::
  "(string \<Rightarrow> (exn + http_response) \<times> 'l) \<Rightarrow> rat \<Rightarrow> string \<Rightarrow> string option \<Rightarrow> http_request \<Rightarrow> world
     \<Rightarrow> (exn + http_response) \<times> 'l \<times> headers \<times> dict \<times> world" where
  "audit_middleware call_next elapsed_ms elapsed_text host req s =
     (let request_id = uuid_str (rng s (ticks s)); (r, l) = call_next request_id
      in (r, l, [(''X-Request-ID'', request_id), (''X-Response-Time-Ms'', elapsed_text)],
          audit_entry request_id elapsed_ms host (clock s (Suc (ticks s))) req (status_of r),
          s\<lparr>ticks := Suc (Suc (ticks s))\<rparr>))"

text \<open>The health of the services: each answers with a status code or is not reached.\<close>

definition health_text :: "string + int \<Rightarrow> fstr" where
  "health_text r =
     (case r of Inr c \<Rightarrow> if c = 200 then [Txt ''ok''] else [Txt ''degraded ('', Num c, Txt '')'']
      | Inl e \<Rightarrow> [Txt (''unreachable: '' @ e)])"

definition health :: "(string \<Rightarrow> string + int) \<Rightarrow> int \<times> (string \<times> fstr) list" where
  "health probe =
     (let checks = map (\<lambda>n. (n, health_text (probe n)))
            [''token'', ''rtgs'', ''payment'', ''fx'', ''signing'']
      in (if list_all (\<lambda>(_, v). v = [Txt ''ok'']) checks then 200 else 207, checks))"

section \<open>The limiter against its specification\<close>

text \<open>
  The specification keeps every admitted request for ever, and admits a request exactly when fewer
  than the limit were admitted for its key within the window before it.
\<close>

definition recent :: "rat \<Rightarrow> (string \<times> rat) list \<Rightarrow> string \<Rightarrow> rat \<Rightarrow> (string \<times> rat) list" where
  "recent w adm k now = filter (\<lambda>(k', t). k' = k \<and> now - w < t) adm"

fun spec_run :: "rat \<Rightarrow> nat \<Rightarrow> (string \<times> rat) list \<Rightarrow> (string \<times> rat) list \<Rightarrow> bool list" where
  "spec_run w m adm [] = []"
| "spec_run w m adm ((k, now) # reqs) =
     (let ok = length (recent w adm k now) < m
      in ok # spec_run w m (if ok then adm @ [(k, now)] else adm) reqs)"

fun limiter_run :: "SimpleRateLimiter \<Rightarrow> (string \<times> rat) list \<Rightarrow> bool list" where
  "limiter_run l [] = []"
| "limiter_run l ((k, now) # reqs) = (case is_allowed k now l of (ok, l') \<Rightarrow> ok # limiter_run l' reqs)"

text \<open>The requests a run admits.\<close>

fun admitted :: "bool list \<Rightarrow> 'a list \<Rightarrow> 'a list" where
  "admitted (ok # oks) (r # reqs) = (if ok then r # admitted oks reqs else admitted oks reqs)"
| "admitted _ _ = []"

text \<open>A bucket holds the admitted requests of its key after some time no later than the cutoff.\<close>

definition bucket_ok :: "SimpleRateLimiter \<Rightarrow> (string \<times> rat) list \<Rightarrow> rat \<Rightarrow> bool" where
  "bucket_ok l adm t0 \<longleftrightarrow>
     (\<forall>k. \<exists>c \<le> t0 - rl_window l. rl_buckets l k = map snd (filter (\<lambda>(k', t). k' = k \<and> c < t) adm))"

lemma purge_bucket:
  assumes "bucket_ok l adm t0" "t0 \<le> now"
  shows "filter (\<lambda>t. now - rl_window l < t) (rl_buckets l k) = map snd (recent (rl_window l) adm k now)"
proof -
  obtain c where c: "c \<le> t0 - rl_window l" "rl_buckets l k = map snd (filter (\<lambda>(k', t). k' = k \<and> c < t) adm)"
    using assms(1) by (auto simp: bucket_ok_def)
  have "filter (\<lambda>t. now - rl_window l < t) (map snd (filter (\<lambda>(k', t). k' = k \<and> c < t) xs)) =
      map snd (recent (rl_window l) xs k now)" for xs
    using c(1) assms(2) by (induction xs) (auto simp: recent_def)
  with c(2) show ?thesis by simp
qed

lemma is_allowed_step:
  assumes ok: "bucket_ok l adm t0" "t0 \<le> now" and run: "is_allowed k now l = (b, l')"
    and w: "0 < rl_window l"
  shows "b = (length (recent (rl_window l) adm k now) < rl_max_req l) \<and>
    bucket_ok l' (if b then adm @ [(k, now)] else adm) now \<and>
    rl_window l' = rl_window l \<and> rl_max_req l' = rl_max_req l"
proof -
  note p = purge_bucket [OF ok, of k]
  have b: "b = (length (recent (rl_window l) adm k now) < rl_max_req l)"
    and rest: "rl_window l' = rl_window l" "rl_max_req l' = rl_max_req l"
    and bk: "rl_buckets l' = (rl_buckets l)(k := map snd (recent (rl_window l) adm k now) @ (if b then [now] else []))"
    using run p by (auto simp: is_allowed_def Let_def split: if_splits)
  have "\<exists>c \<le> now - rl_window l. rl_buckets l' k' =
      map snd (filter (\<lambda>(k'', t). k'' = k' \<and> c < t) (if b then adm @ [(k, now)] else adm))" for k'
  proof (cases "k' = k")
    case True
    then show ?thesis using bk w by (intro exI [of _ "now - rl_window l"]) (auto simp: recent_def)
  next
    case False
    obtain c where "c \<le> t0 - rl_window l" "rl_buckets l k' = map snd (filter (\<lambda>(k'', t). k'' = k' \<and> c < t) adm)"
      using ok(1) by (auto simp: bucket_ok_def)
    then show ?thesis using bk False ok(2) by (intro exI [of _ c]) auto
  qed
  then show ?thesis using b rest by (auto simp: bucket_ok_def)
qed

lemma limiter_spec:
  assumes "bucket_ok l adm t0" "sorted (t0 # map snd reqs)" "0 < rl_window l"
  shows "limiter_run l reqs = spec_run (rl_window l) (rl_max_req l) adm reqs"
  using assms
proof (induction reqs arbitrary: l adm t0)
  case (Cons r reqs)
  obtain k now where r: "r = (k, now)" by fastforce
  obtain b l' where run: "is_allowed k now l = (b, l')" by fastforce
  have "t0 \<le> now" using Cons.prems(2) r by simp
  from is_allowed_step [OF Cons.prems(1) this run Cons.prems(3)]
  show ?case
    using Cons.IH [of l' "if b then adm @ [(k, now)] else adm" now] Cons.prems(2,3) run
    by (auto simp: r Let_def)
qed simp

text \<open>Within any window of the specification no key exceeds the limit.\<close>

definition in_window :: "rat \<Rightarrow> string \<Rightarrow> rat \<Rightarrow> string \<times> rat \<Rightarrow> bool" where
  "in_window w k t = (\<lambda>(k', t'). k' = k \<and> t - w < t' \<and> t' \<le> t)"

lemma filter_length_mono:
  "(\<And>x. x \<in> set xs \<Longrightarrow> P x \<Longrightarrow> Q x) \<Longrightarrow> length (filter P xs) \<le> length (filter Q xs)"
  by (induction xs) (auto intro: le_SucI)

lemma spec_bound:
  assumes "\<forall>k t. length (filter (in_window w k t) adm) \<le> m" "\<forall>(k, t) \<in> set adm. t \<le> t0"
    and "sorted (t0 # map snd reqs)"
  shows "length (filter (in_window w k t) (adm @ admitted (spec_run w m adm reqs) reqs)) \<le> m"
  using assms
proof (induction reqs arbitrary: adm t0)
  case (Cons r reqs)
  obtain j now where r: "r = (j, now)" by fastforce
  let ?ok = "length (recent w adm j now) < m"
  let ?adm = "if ?ok then adm @ [(j, now)] else adm"
  have le: "\<forall>(k, t) \<in> set ?adm. t \<le> now" using Cons.prems(2,3) r by (auto dest: order_trans)
  have step: "length (filter (in_window w k' t') ?adm) \<le> m" for k' t'
  proof (cases "?ok \<and> in_window w k' t' (j, now)")
    case True
    then have w: "k' = j" "now \<le> t'" "t' - w < now" by (auto simp: in_window_def)
    have "length (filter (in_window w k' t') adm) \<le> length (recent w adm j now)"
      unfolding recent_def using w
      by (intro filter_length_mono) (auto simp: in_window_def)
    then show ?thesis using True by simp
  next
    case False
    then show ?thesis using Cons.prems(1) by auto
  qed
  have "length (filter (in_window w k t) (?adm @ admitted (spec_run w m ?adm reqs) reqs)) \<le> m"
    using step le Cons.prems(3) r by (intro Cons.IH [of "?adm" now]) auto
  then show ?case by (cases ?ok) (simp_all add: r Let_def)
qed simp

section \<open>Refused requests\<close>

lemma no_route_code: "find_route v path = Inl e \<Longrightarrow> \<exists>c d. e = HTTPException c d \<and> c \<in> {404, 405}"
  by (auto simp: find_route_def split: option.splits if_splits)

lemma identify_code: "identify gk s path raw = Inl e \<Longrightarrow> \<exists>c d. e = HTTPException c d \<and> c \<in> {401, 403}"
  by (auto simp: identify_def Let_def split: option.splits if_splits)

lemma refused_code:
  assumes "require_api_key gk req now s l = (r, l1)"
  shows "case r of Inl e \<Rightarrow> \<exists>c d. e = HTTPException c d \<and> c \<in> {401, 403, 429} | Inr _ \<Rightarrow> True"
proof (cases "identify gk s (hr_path req) (raw_api_key req)")
  case (Inl e)
  then obtain c d where e: "e = HTTPException c d" "c \<in> {401, 403}" using identify_code [OF Inl] by blast
  have "r = Inl (HTTPException 401 [Txt ''Missing API key'']) \<or> r = Inl e"
    using assms Inl by (simp add: require_api_key_def Let_def split: if_splits)
  then show ?thesis using e by auto
next
  case (Inr a)
  have "r = Inr a \<or> (\<exists>d. r = Inl (HTTPException 401 d) \<or> r = Inl (HTTPException 429 d))"
    using assms by (auto simp: require_api_key_def Let_def Inr split: if_splits prod.splits)
  then show ?thesis by auto
qed

section \<open>Properties\<close>

text \<open>
  C16. The limiter is exact: over any sequence of requests in the order of the clock, its purged
  buckets decide as the specification does that never forgets a request.
\<close>

theorem rate_limit_exact:
  assumes "sorted (map snd reqs)" "0 < w"
  shows "limiter_run (new_limiter w m) reqs = spec_run w m [] reqs"
proof (cases reqs)
  case (Cons r rs)
  have "bucket_ok (new_limiter w m) [] t" for t
    by (auto simp: bucket_ok_def new_limiter_def)
  from limiter_spec [OF this, of "snd r" reqs] assms Cons show ?thesis by (simp add: new_limiter_def)
qed simp

theorem rate_limit_exact_witness:
  "limiter_run (new_limiter 60 2) [(''k'', 0), (''k'', 1), (''k'', 2), (''j'', 2), (''k'', 61)] =
     spec_run 60 2 [] [(''k'', 0), (''k'', 1), (''k'', 2), (''j'', 2), (''k'', 61)] \<and>
   limiter_run (new_limiter 60 2) [(''k'', 0), (''k'', 1), (''k'', 2), (''j'', 2), (''k'', 61)] =
     [True, True, False, True, True]"
  using rate_limit_exact [of "[(''k'', 0), (''k'', 1), (''k'', 2), (''j'', 2), (''k'', 61)]" 60 2]
  by (simp add: recent_def)

text \<open>
  The limit holds over every window, not only at the times of the requests: among the requests
  that the gateway's limiter admits for a key, no more than 1000 lie in any window of 60 seconds.
\<close>

theorem rate_limit_bound:
  assumes "sorted (map snd reqs)"
  shows "length (filter (in_window 60 k t) (admitted (limiter_run limiter reqs) reqs)) \<le> 1000"
proof (cases reqs)
  case (Cons r rs)
  have "bucket_ok limiter [] t" for t by (auto simp: bucket_ok_def limiter_def new_limiter_def)
  from limiter_spec [OF this, of "snd r" reqs] assms Cons
  have "limiter_run limiter reqs = spec_run 60 1000 [] reqs" by (simp add: limiter_def new_limiter_def)
  then show ?thesis using spec_bound [of 60 "[]" 1000 "snd r" reqs k t] assms Cons by simp
qed simp

theorem rate_limit_bound_witness:
  "length (filter (in_window 60 ''k'' 59) (admitted (limiter_run limiter [(''k'', 0), (''k'', 1)]) [(''k'', 0), (''k'', 1)])) \<le> 1000"
  by (rule rate_limit_bound) simp

text \<open>
  C15. No request reaches a service without a key: if the call is forwarded, or the service is
  not reached, then the key the request carries is an active key of the table whose role is among
  those the path asks for, or it is the legacy key, which acts as an administrator; and the limiter
  admitted the request.
\<close>

theorem forwarded_authenticated:
  assumes "proxied UPSTREAM gk client rid req now s l = (res, l')"
    and "case res of Inl (HTTPException c _) \<Rightarrow> c \<in> {503, 504} | Inr _ \<Rightarrow> True | _ \<Rightarrow> False"
  shows "raw_api_key req \<noteq> '''' \<and> fst (is_allowed (raw_api_key req) now l) \<and>
    (case resolve_api_key s (raw_api_key req) of
       None \<Rightarrow> raw_api_key req = gk
     | Some k \<Rightarrow> ak_is_active k \<and> ak_key_hash k = sha256_hex s (raw_api_key req) \<and>
         (\<forall>roles. match_route_role (hr_path req) = Some roles \<longrightarrow>
            roles = [] \<or> UserRole_value (ak_role k) \<in> set roles))"
proof -
  have 1: "\<exists>a l'. require_api_key gk req now s l = (Inr a, l')"
  proof (cases "require_api_key gk req now s l")
    case (Pair r l1)
    with assms refused_code [OF Pair] show ?thesis
      by (cases r) (auto simp: proxied_def dest: no_route_code split: sum.splits)
  qed
  have 2: "resolve_api_key s raw = Some k \<Longrightarrow> ak_is_active k \<and> ak_key_hash k = sha256_hex s raw" for raw k
    by (auto simp: resolve_api_key_def hash_api_key_def dest!: find_Some_iff)
  from 1 2 show ?thesis
    by (auto simp: require_api_key_def identify_def Let_def
        split: sum.splits prod.splits if_splits option.splits)
qed

lemma header_names [simp]:
  "lower ''X-Request-ID'' = ''x-request-id''" "lower ''X-Actor-Service'' = ''x-actor-service''"
  "lower ''X-Actor-ID'' = ''x-actor-id''" "lower ''X-Actor-Role'' = ''x-actor-role''"
  "lower ''X-Actor-Name'' = ''x-actor-name''" "lower ''X-API-Key'' = ''x-api-key''"
  "lower ''x-api-key'' = ''x-api-key''" "lower ''x-actor-role'' = ''x-actor-role''"
  "lower ''x-actor-id'' = ''x-actor-id''"
  by code_simp+

lemma header_get_Cons [simp]:
  "header_get ((k, v) # h) n = (if lower k = lower n then v else header_get h n)"
  by (simp add: header_get_def)

lemma header_get_Nil [simp]: "header_get [] n = ''''"
  by (simp add: header_get_def)

definition sample_http :: http_request where
  "sample_http =
     \<lparr>hr_method = ''POST'', hr_path = ''/v1/tokens/issue'',
      hr_headers = [(''x-api-key'', ''legacy''), (''x-actor-role'', ''auditor'')], hr_query = [], hr_body = ''''\<rparr>"

definition sample_client :: http_client where
  "sample_client call = Answer \<lparr>resp_status = 201, resp_headers = [], resp_body = hc_url call\<rparr>"

theorem forwarded_authenticated_witness:
  "\<exists>r l'. proxied (\<lambda>_. ''http://up'') ''legacy'' sample_client ''rid'' sample_http 0 (sample_world\<lparr>api_keys := []\<rparr>) limiter =
     (Inr r, l') \<and> resp_body r = ''http://up/tokens/issue'' \<and> raw_api_key sample_http = ''legacy''"
proof -
  let ?run = "proxied (\<lambda>_. ''http://up'') ''legacy'' sample_client ''rid'' sample_http 0 (sample_world\<lparr>api_keys := []\<rparr>) limiter"
  have "fst ?run = Inr \<lparr>resp_status = 201, resp_headers = [], resp_body = ''http://up/tokens/issue''\<rparr>"
    by (simp add: proxied_def find_route_def proxy_routes_def sample_http_def require_api_key_def
        raw_api_key_def query_get_def identify_def resolve_api_key_def Let_def
        is_allowed_def limiter_def new_limiter_def priv_proxy_def sample_client_def)
  then obtain l' where run: "?run = (Inr \<lparr>resp_status = 201, resp_headers = [], resp_body = ''http://up/tokens/issue''\<rparr>, l')"
    by (metis prod.collapse)
  from forwarded_authenticated [OF run]
  have "raw_api_key sample_http = ''legacy''" by (simp add: resolve_api_key_def)
  with run show ?thesis by auto
qed

section \<open>What the services read\<close>

lemma hdr_set_new: "k \<notin> fst ` set h \<Longrightarrow> hdr_set h k v = h @ [(k, v)]"
  by (simp add: hdr_set_def)

lemma hdr_dict_distinct:
  assumes "distinct (map fst items)"
  shows "hdr_dict items = items"
proof -
  have "fold (\<lambda>(k, v) h. hdr_set h k v) items h = h @ items"
    if "distinct (map fst (h @ items))" for h
    using that
  proof (induction items arbitrary: h)
    case (Cons x xs)
    then show ?case by (cases x) (simp add: hdr_set_new)
  qed simp
  from this [of "[]"] assms show ?thesis by (simp add: hdr_dict_def)
qed

lemma header_get_append:
  "header_get (h @ h') n =
     (if \<exists>(k, v) \<in> set h. lower k = lower n then header_get h n else header_get h' n)"
  by (induction h) (auto simp: header_get_def)

lemma header_get_filter:
  "(\<And>k v. (k, v) \<in> set h \<Longrightarrow> lower k = lower n \<Longrightarrow> P (k, v)) \<Longrightarrow>
     header_get (filter P h) n = header_get h n"
  by (induction h) (auto simp: header_get_def)

definition sent :: "headers \<Rightarrow> string \<Rightarrow> bool" where
  "sent items n \<longleftrightarrow> (\<exists>(k, v) \<in> set items. lower k = lower n)"

lemma proxy_headers_list:
  assumes "distinct (map fst items)" "\<forall>(k, v) \<in> set items. lower k = k"
  shows "proxy_headers rid a items =
    filter (\<lambda>(k, v). lower k \<notin> {''host'', ''x-api-key'', ''content-length''}) items @
    [(''X-Request-ID'', rid), (''X-Actor-Service'', ''api-gateway'')] @
    (if truthy (actor_id a) then [(''X-Actor-ID'', the (actor_id a))] else []) @
    [(''X-Actor-Role'', actor_role a), (''X-Actor-Name'', actor_name a)]"
proof -
  let ?f = "filter (\<lambda>(k, v). lower k \<notin> {''host'', ''x-api-key'', ''content-length''}) items"
  have "hdr_dict ?f = ?f" using assms(1) by (intro hdr_dict_distinct) (simp add: distinct_map_filter)
  moreover have "k \<notin> fst ` set ?f" if "lower k \<noteq> k" for k using assms(2) that by force
  moreover have "lower ''X-Request-ID'' \<noteq> ''X-Request-ID''" "lower ''X-Actor-Service'' \<noteq> ''X-Actor-Service''"
    "lower ''X-Actor-ID'' \<noteq> ''X-Actor-ID''" "lower ''X-Actor-Role'' \<noteq> ''X-Actor-Role''"
    "lower ''X-Actor-Name'' \<noteq> ''X-Actor-Name''" by simp_all
  ultimately show ?thesis
    by (simp add: proxy_headers_def Let_def hdr_set_new image_Un)
qed

lemma actor_read:
  assumes "distinct (map fst items)" "\<forall>(k, v) \<in> set items. lower k = k"
  shows "header_get (proxy_headers rid a items) ''X-Actor-Role'' =
      (if sent items ''X-Actor-Role'' then header_get items ''X-Actor-Role'' else actor_role a)"
    and "header_get (proxy_headers rid a items) ''X-Actor-ID'' =
      (if sent items ''X-Actor-ID'' then header_get items ''X-Actor-ID''
       else if truthy (actor_id a) then the (actor_id a) else '''')"
    and "header_get (proxy_headers rid a items) ''X-Request-ID'' =
      (if sent items ''X-Request-ID'' then header_get items ''X-Request-ID'' else rid)"
proof -
  let ?P = "\<lambda>(k, v). lower k \<notin> {''host'', ''x-api-key'', ''content-length''}"
  have keep: "header_get (filter ?P items) n = header_get items n"
      "(\<exists>(k, v) \<in> set (filter ?P items). lower k = lower n) \<longleftrightarrow> sent items n"
    if "lower n \<notin> {''host'', ''x-api-key'', ''content-length''}" for n
    using that by (auto simp: sent_def intro!: header_get_filter)
  show "header_get (proxy_headers rid a items) ''X-Actor-Role'' =
      (if sent items ''X-Actor-Role'' then header_get items ''X-Actor-Role'' else actor_role a)"
    using keep [of "''X-Actor-Role''"] unfolding proxy_headers_list [OF assms] header_get_append
    by simp
  show "header_get (proxy_headers rid a items) ''X-Actor-ID'' =
      (if sent items ''X-Actor-ID'' then header_get items ''X-Actor-ID''
       else if truthy (actor_id a) then the (actor_id a) else '''')"
    using keep [of "''X-Actor-ID''"] unfolding proxy_headers_list [OF assms] header_get_append
    by simp
  show "header_get (proxy_headers rid a items) ''X-Request-ID'' =
      (if sent items ''X-Request-ID'' then header_get items ''X-Request-ID'' else rid)"
    using keep [of "''X-Request-ID''"] unfolding proxy_headers_list [OF assms] header_get_append
    by simp
qed

text \<open>
  C38. Who the services believe the caller to be. Header names reach the gateway in lower case, the
  proxy adds its own under mixed-case keys, and a service reads the first match: so the role, the
  actor and the request identifier a service reads are those of the authenticated key only if the
  client did not send these headers itself; whatever the client sends wins.
\<close>

theorem actor_read_by_service:
  assumes "distinct (map fst items)" "\<forall>(k, v) \<in> set items. lower k = k"
  shows "header_get (proxy_headers rid a items) ''X-Actor-Role'' =
      (if sent items ''X-Actor-Role'' then header_get items ''X-Actor-Role'' else actor_role a) \<and>
    header_get (proxy_headers rid a items) ''X-Actor-ID'' =
      (if sent items ''X-Actor-ID'' then header_get items ''X-Actor-ID''
       else if truthy (actor_id a) then the (actor_id a) else '''') \<and>
    header_get (proxy_headers rid a items) ''X-Request-ID'' =
      (if sent items ''X-Request-ID'' then header_get items ''X-Request-ID'' else rid)"
  using actor_read [OF assms] by simp

text \<open>A trader's key and a client that says it is an administrator: the services accept it as one.\<close>

theorem actor_read_by_service_witness:
  "require_role [''admin'', ''approver''] (proxy_headers ''r''
     \<lparr>actor_id = Some ''t'', actor_role = ''trader'', actor_name = ''tom''\<rparr>
     [(''x-api-key'', ''k''), (''x-actor-role'', ''admin''), (''x-actor-id'', ''someone'')]) =
   Inr (''admin'', ''someone'')"
  using actor_read_by_service [of "[(''x-api-key'', ''k''), (''x-actor-role'', ''admin''), (''x-actor-id'', ''someone'')]"
    "''r''" "\<lparr>actor_id = Some ''t'', actor_role = ''trader'', actor_name = ''tom''\<rparr>"]
  by (simp add: require_role_def sent_def Let_def)

end
