(* ===== verification/Signing.thy ===== *)
theory Signing
  imports Samples "HOL-Library.Multiset"
begin

text \<open>
  Threshold signing: the MPC node (\<open>src/services/mpc-node/main.py\<close>) and the signing gateway
  (\<open>src/services/signing-gateway/main.py\<close>). SHA-256 is a function argument; text is Latin-1. The
  digits of a decimal and of a time in a payload are given by \<open>rend\<close>, since the values of this
  development do not keep them.
\<close>

section \<open>Canonical JSON\<close>

text \<open>\<open>json.dumps\<close> with its default separators and escapes.\<close>

definition hex4 :: "nat \<Rightarrow> string" where
  "hex4 n = hex_digits 4 n"

definition escape_char :: "char \<Rightarrow> string" where
  "escape_char c =
     (let n = of_char c :: nat
      in if n = 34 then [CHR 92, CHR 34] else if n = 92 then [CHR 92, CHR 92]
         else if n = 10 then [CHR 92, CHR ''n''] else if n = 13 then [CHR 92, CHR ''r'']
         else if n = 9 then [CHR 92, CHR ''t''] else if n = 12 then [CHR 92, CHR ''f'']
         else if n = 8 then [CHR 92, CHR ''b'']
         else if 32 \<le> n \<and> n \<le> 126 then [c] else [CHR 92, CHR ''u''] @ hex4 n)"

definition quoted :: "string \<Rightarrow> string" where
  "quoted t = [CHR 34] @ concat (map escape_char t) @ [CHR 34]"

fun join_with :: "string \<Rightarrow> string list \<Rightarrow> string" where
  "join_with sep [] = []"
| "join_with sep [x] = x"
| "join_with sep (x # y # ys) = x @ sep @ join_with sep (y # ys)"

definition object_text :: "(string \<times> string) list \<Rightarrow> string" where
  "object_text members =
     ''{'' @ join_with '', '' (map (\<lambda>(k, t). quoted k @ '': '' @ t) (sort_key fst members)) @ ''}''"

fun dumps :: "(json \<Rightarrow> string) \<Rightarrow> json \<Rightarrow> string" where
  "dumps rend JNull = ''null''"
| "dumps rend (JBool b) = (if b then ''true'' else ''false'')"
| "dumps rend (JInt n) = int_str n"
| "dumps rend (JDec x) = quoted (rend (JDec x))"
| "dumps rend (JStr t) = quoted t"
| "dumps rend (JTime t) = quoted (rend (JTime t))"
| "dumps rend (JArr xs) = ''['' @ join_with '', '' (map (dumps rend) xs) @ '']''"
| "dumps rend (JObj d) = object_text (map (\<lambda>(k, v). (k, dumps rend v)) d)"

section \<open>MPC node\<close>

definition priv_compute_partial_signature ::
  "(string \<Rightarrow> string) \<Rightarrow> (json \<Rightarrow> string) \<Rightarrow> string \<Rightarrow> json \<Rightarrow> string" where
  "priv_compute_partial_signature sha256 rend node_id payload = sha256 (node_id @ dumps rend payload)"

text \<open>A request without a JSON body is \<open>None\<close>.\<close>

definition node_handle_sign ::
  "(string \<Rightarrow> string) \<Rightarrow> (json \<Rightarrow> string) \<Rightarrow> string \<Rightarrow> json option \<Rightarrow> int \<times> dict" where
  "node_handle_sign sha256 rend NODE_ID body =
     (if NODE_ID = '''' then (500, [(''error'', JStr ''NODE_ID env var is not set'')])
      else case body of
        None \<Rightarrow> (400, [(''error'', JStr ''Invalid JSON body'')])
      | Some payload \<Rightarrow>
          (200, [(''node_id'', JStr NODE_ID),
                 (''partial_signature'', JStr (priv_compute_partial_signature sha256 rend NODE_ID payload))]))"

section \<open>Signing gateway\<close>

fun split_comma :: "string \<Rightarrow> string \<Rightarrow> string list" where
  "split_comma acc [] = [rev acc]"
| "split_comma acc (c # cs) = (if c = CHR '','' then rev acc # split_comma [] cs else split_comma (c # acc) cs)"

definition priv_parse_mpc_nodes :: "string \<Rightarrow> string list option" where
  "priv_parse_mpc_nodes MPC_NODES_RAW =
     (let nodes = filter (\<lambda>n. n \<noteq> '''') (map (strip is_space) (split_comma [] MPC_NODES_RAW))
      in if nodes = [] then None else Some nodes)"

definition priv_compute_threshold :: "nat \<Rightarrow> nat" where
  "priv_compute_threshold total_nodes = total_nodes div 2 + 1"

definition priv_combine_signatures :: "(string \<Rightarrow> string) \<Rightarrow> string list \<Rightarrow> string" where
  "priv_combine_signatures sha256 partials = sha256 (concat (sort partials))"

text \<open>
  What a call to a node brings back: nothing when it fails, otherwise the status and the body. A
  partial signature is a string or absent, as the node's handler sends it.
\<close>

type_synonym node_call = "string \<Rightarrow> json \<Rightarrow> (int \<times> dict) option"

definition rstrip_slash :: "string \<Rightarrow> string" where
  "rstrip_slash u = rev (dropWhile (\<lambda>c. c = CHR ''/'') (rev u))"

definition priv_collect_partial :: "node_call \<Rightarrow> json \<Rightarrow> string \<Rightarrow> string option" where
  "priv_collect_partial call payload node_url =
     (case call (rstrip_slash node_url @ ''/sign'') payload of
        None \<Rightarrow> None
      | Some (status, data) \<Rightarrow>
          if status \<noteq> 200 then None
          else (case dict_get data ''partial_signature'' JNull of JStr p \<Rightarrow> Some p | _ \<Rightarrow> None))"

definition collected :: "node_call \<Rightarrow> json \<Rightarrow> string list \<Rightarrow> string list" where
  "collected call payload nodes =
     map the (filter truthy (map (priv_collect_partial call payload) nodes))"

definition priv_fan_out_and_combine ::
  "(string \<Rightarrow> string) \<Rightarrow> node_call \<Rightarrow> string list \<Rightarrow> nat \<Rightarrow> json \<Rightarrow> json \<Rightarrow> int \<times> dict" where
  "priv_fan_out_and_combine sha256 call nodes threshold transaction_id payload =
     (let partials = collected call payload nodes
      in if length partials < threshold
         then (503, [(''error'', JStr ''Signing threshold not met''),
                     (''received'', JInt (int (length partials))), (''threshold'', JInt (int threshold)),
                     (''total_nodes'', JInt (int (length nodes)))])
         else (200, [(''transaction_id'', transaction_id),
                     (''signature'', JStr (priv_combine_signatures sha256 partials)),
                     (''partials_collected'', JInt (int (length partials))),
                     (''threshold'', JInt (int threshold))]))"

text \<open>
  \<open>None\<close> is the error of a gateway that has no nodes; a body that is not a JSON object is refused.
\<close>

definition gateway_handle_sign ::
  "(string \<Rightarrow> string) \<Rightarrow> node_call \<Rightarrow> string \<Rightarrow> dict option \<Rightarrow> (int \<times> dict) option" where
  "gateway_handle_sign sha256 call MPC_NODES_RAW body =
     (case body of
        None \<Rightarrow> Some (400, [(''error'', JStr ''Invalid JSON body'')])
      | Some b \<Rightarrow>
          let transaction_id = dict_get b ''transaction_id'' JNull; payload = dict_get b ''payload'' JNull
          in if \<not> json_truthy transaction_id \<or> payload = JNull
             then Some (400, [(''error'', JStr (''Missing '' @ [CHR 39] @ ''transaction_id'' @ [CHR 39]
                    @ '' or '' @ [CHR 39] @ ''payload'' @ [CHR 39]))])
             else map_option (\<lambda>nodes. priv_fan_out_and_combine sha256 call nodes
                    (priv_compute_threshold (length nodes)) transaction_id payload)
                    (priv_parse_mpc_nodes MPC_NODES_RAW))"

section \<open>Order does not matter\<close>

lemma sort_members:
  fixes d d' :: "(string \<times> 'a) list"
  assumes "distinct (map fst d)" "mset d = mset d'"
  shows "sort_key fst d = sort_key fst d'"
proof (rule sort_key_inj_key_eq)
  show "mset d = mset (sort_key fst d')" using assms(2) by simp
  show "inj_on fst (set d)" using assms(1) by (simp add: distinct_map)
qed simp

lemma object_text_order:
  assumes "distinct (map fst d)" "mset d = mset d'"
  shows "dumps rend (JObj d) = dumps rend (JObj d')"
proof -
  let ?g = "\<lambda>(k, v). (k, dumps rend v)"
  have keys: "distinct (map fst (map ?g d))" using assms(1) by (simp add: case_prod_unfold comp_def)
  have "mset (map ?g d) = mset (map ?g d')" using assms(2) by simp
  then have "sort_key fst (map ?g d) = sort_key fst (map ?g d')"
    by (intro sort_members keys)
  then show ?thesis by (simp add: object_text_def)
qed

lemma collected_mset:
  assumes "mset nodes = mset nodes'"
  shows "mset (collected call payload nodes) = mset (collected call payload nodes')"
proof -
  have "mset (collected call payload xs) =
      image_mset the (filter_mset truthy (image_mset (priv_collect_partial call payload) (mset xs)))" for xs
    by (simp add: collected_def)
  with assms show ?thesis by simp
qed

lemma sort_mset: "mset xs = mset ys \<Longrightarrow> sort xs = sort (ys :: string list)"
  by (rule properties_for_sort) simp_all

text \<open>A network of nodes behind their addresses, each running the node's handler.\<close>

definition mpc_network ::
  "(string \<Rightarrow> string) \<Rightarrow> (json \<Rightarrow> string) \<Rightarrow> (string \<Rightarrow> string option) \<Rightarrow> node_call" where
  "mpc_network sha256 rend node_ids url payload =
     (case node_ids url of None \<Rightarrow> None | Some i \<Rightarrow> Some (node_handle_sign sha256 rend i (Some payload)))"

lemma network_order:
  assumes "distinct (map fst d)" "mset d = mset d'"
  shows "mpc_network sha rend ids url (JObj d) = mpc_network sha rend ids url (JObj d')"
  by (simp only: mpc_network_def node_handle_sign_def option.case priv_compute_partial_signature_def
      object_text_order [OF assms])

section \<open>Quorums\<close>

lemma collected_length: "length (collected call payload nodes) =
    length (filter (\<lambda>n. truthy (priv_collect_partial call payload n)) nodes)"
  by (simp add: collected_def comp_def length_filter_map)

lemma majorities_meet:
  assumes "length xs < 2 * length (filter P xs)" "length xs < 2 * length (filter Q xs)"
  shows "\<exists>x \<in> set xs. P x \<and> Q x"
proof (rule ccontr)
  assume no: "\<not> ?thesis"
  have "length (filter P xs) + length (filter Q xs) \<le> length xs"
    using no by (induction xs) auto
  with assms show False by simp
qed

section \<open>Properties\<close>

text \<open>
  C21. The signature does not depend on order: not on the order of the members of the payload, nor
  on the order in which the nodes are listed and answer. A payload given as the same members in
  another order, to the same nodes in another order, gets the same answer.
\<close>

theorem signature_canonical:
  assumes "distinct (map fst d)" "mset d = mset d'" "mset nodes = mset nodes'"
  shows "priv_fan_out_and_combine sha (mpc_network sha rend ids) nodes (priv_compute_threshold (length nodes)) tid (JObj d) =
    priv_fan_out_and_combine sha (mpc_network sha rend ids) nodes' (priv_compute_threshold (length nodes')) tid (JObj d')"
proof -
  let ?call = "mpc_network sha rend ids"
  have "priv_collect_partial ?call (JObj d) = priv_collect_partial ?call (JObj d')"
    by (rule ext) (simp only: priv_collect_partial_def network_order [OF assms(1,2)])
  then have "collected ?call (JObj d) nodes' = collected ?call (JObj d') nodes'" by (simp add: collected_def)
  with collected_mset [OF assms(3), of ?call "JObj d"]
  have eq: "mset (collected ?call (JObj d) nodes) = mset (collected ?call (JObj d') nodes')" by simp
  have "length nodes = length nodes'" using assms(3) by (rule mset_eq_length)
  with mset_eq_length [OF eq] sort_mset [OF eq] show ?thesis
    by (simp add: priv_fan_out_and_combine_def priv_combine_signatures_def Let_def)
qed

theorem signature_canonical_witness:
  "priv_fan_out_and_combine id (mpc_network id (\<lambda>_. []) (\<lambda>u. Some u)) [''n1'', ''n2''] 2 JNull (JObj [(''a'', JNull), (''b'', JBool True)]) =
   priv_fan_out_and_combine id (mpc_network id (\<lambda>_. []) (\<lambda>u. Some u)) [''n2'', ''n1''] 2 JNull (JObj [(''b'', JBool True), (''a'', JNull)])"
  using signature_canonical [of "[(''a'', JNull), (''b'', JBool True)]" "[(''b'', JBool True), (''a'', JNull)]"
    "[''n1'', ''n2'']" "[''n2'', ''n1'']" id "\<lambda>_. []" "\<lambda>u. Some u" JNull]
  by (simp add: priv_compute_threshold_def add_mset_commute numeral_2_eq_2)

text \<open>
  C22. A signature needs a majority: the gateway answers 200 exactly when more than half of the
  nodes answered with a partial signature, whatever the others did, and any two answered requests
  were therefore signed by some node in common.
\<close>

theorem signing_quorum:
  assumes "nodes \<noteq> []"
  shows "(fst (priv_fan_out_and_combine sha call nodes (priv_compute_threshold (length nodes)) tid payload) = 200 \<longleftrightarrow>
      length nodes < 2 * length (filter (\<lambda>n. truthy (priv_collect_partial call payload n)) nodes)) \<and>
    (fst (priv_fan_out_and_combine sha call nodes (priv_compute_threshold (length nodes)) tid payload) = 200 \<longrightarrow>
     fst (priv_fan_out_and_combine sha call' nodes (priv_compute_threshold (length nodes)) tid' payload') = 200 \<longrightarrow>
      (\<exists>n \<in> set nodes. truthy (priv_collect_partial call payload n) \<and> truthy (priv_collect_partial call' payload' n)))"
proof -
  have "fst (priv_fan_out_and_combine sha c nodes (priv_compute_threshold (length nodes)) t p) = 200 \<longleftrightarrow>
      length nodes < 2 * length (filter (\<lambda>n. truthy (priv_collect_partial c p n)) nodes)" for c t p
    by (auto simp: priv_fan_out_and_combine_def priv_compute_threshold_def collected_length Let_def)
  then show ?thesis using majorities_meet by blast
qed

theorem signing_quorum_witness:
  "fst (priv_fan_out_and_combine id (mpc_network id (\<lambda>_. []) (\<lambda>u. if u = ''n3/sign'' then None else Some u))
     [''n1'', ''n2'', ''n3''] 2 JNull JNull) = 200 \<and>
   fst (priv_fan_out_and_combine id (\<lambda>_ _. None) [''n1'', ''n2'', ''n3''] 2 JNull JNull) \<noteq> 200"
proof -
  have two: "priv_compute_threshold (length [''n1'', ''n2'', ''n3'']) = 2"
    by (simp add: priv_compute_threshold_def)
  show ?thesis
    using signing_quorum [of "[''n1'', ''n2'', ''n3'']" id
        "mpc_network id (\<lambda>_. []) (\<lambda>u. if u = ''n3/sign'' then None else Some u)" JNull JNull]
      signing_quorum [of "[''n1'', ''n2'', ''n3'']" id "\<lambda>_ _. None" JNull JNull]
    unfolding two
    by (simp add: priv_collect_partial_def mpc_network_def node_handle_sign_def
        rstrip_slash_def dict_get_def truthy_def priv_compute_partial_signature_def)
qed

end
