(* ===== verification/Migrations.thy ===== *)
theory Migrations
  imports Samples
begin

text \<open>
  The migration runner, \<open>src/scripts/migrate.py\<close>. The database is outside the repository: a function
  says what executing the text of a file makes of it, namely whether it raises and what it leaves
  committed in that case (a file may hold a \<open>COMMIT\<close> of its own). The table of applied migrations is
  a list of file names in the order they were recorded.
\<close>

section \<open>The runner\<close>

type_synonym sql_file = "string \<times> string"
type_synonym 'd executor = "string \<Rightarrow> 'd \<Rightarrow> bool \<times> 'd"

definition sql_files :: "sql_file list \<Rightarrow> sql_file list" where
  "sql_files dir = sort_key fst (filter (\<lambda>(n, _). suffix ''.sql'' n) dir)"

definition pending_files :: "string list \<Rightarrow> sql_file list \<Rightarrow> sql_file list" where
  "pending_files applied files = filter (\<lambda>(n, _). n \<notin> set applied) files"

text \<open>The files one by one, each committed with its record; the first that raises ends the run.\<close>

fun apply_files :: "'d executor \<Rightarrow> sql_file list \<Rightarrow> string list \<times> 'd \<Rightarrow> bool \<times> string list \<times> 'd" where
  "apply_files exec [] st = (True, st)"
| "apply_files exec ((n, sql) # fs) (applied, d) =
     (case exec sql d of
        (False, d') \<Rightarrow> (False, applied, d')
      | (True, d') \<Rightarrow> apply_files exec fs (applied @ [n], d'))"

text \<open>The exit code of a run and the database after it.\<close>

definition migrate_run ::
  "'d executor \<Rightarrow> bool \<Rightarrow> sql_file list \<Rightarrow> string list \<times> 'd \<Rightarrow> nat \<times> string list \<times> 'd" where
  "migrate_run exec dry_run dir st =
     (let files = sql_files dir; pending = pending_files (fst st) files
      in if files = [] \<or> pending = [] \<or> dry_run then (0, st)
         else case apply_files exec pending st of (done_all, st') \<Rightarrow> (if done_all then 0 else 1, st'))"

section \<open>Runs\<close>

text \<open>The state in which the first \<open>k\<close> files are applied, each once and in the order of their names.\<close>

fun execute_all :: "'d executor \<Rightarrow> sql_file list \<Rightarrow> 'd \<Rightarrow> 'd" where
  "execute_all exec [] d = d"
| "execute_all exec ((_, sql) # fs) d = execute_all exec fs (snd (exec sql d))"

lemma execute_all_append: "execute_all exec (xs @ ys) d = execute_all exec ys (execute_all exec xs d)"
  by (induction exec xs d rule: execute_all.induct) auto

definition atomic :: "'d executor \<Rightarrow> bool" where
  "atomic exec \<longleftrightarrow> (\<forall>sql d. \<not> fst (exec sql d) \<longrightarrow> snd (exec sql d) = d)"

lemma apply_files_prefix:
  assumes "atomic exec" "apply_files exec fs (applied, d) = (b, applied', d')"
  shows "\<exists>k \<le> length fs. applied' = applied @ map fst (take k fs) \<and> d' = execute_all exec (take k fs) d \<and>
    (b \<longleftrightarrow> k = length fs)"
  using assms(2)
proof (induction fs arbitrary: applied d)
  case (Cons f fs)
  obtain n sql where f: "f = (n, sql)" by fastforce
  obtain ok d1 where e: "exec sql d = (ok, d1)" by fastforce
  show ?case
  proof (cases ok)
    case True
    with Cons e f obtain k where "k \<le> length fs" "applied' = applied @ [n] @ map fst (take k fs)"
      "d' = execute_all exec (take k fs) d1" "b \<longleftrightarrow> k = length fs" by fastforce
    then show ?thesis using e f by (intro exI [of _ "Suc k"]) simp
  next
    case False
    then have "d1 = d" using assms(1) e unfolding atomic_def by (metis fst_conv snd_conv)
    with False show ?thesis using Cons.prems e f by (intro exI [of _ 0]) auto
  qed
qed simp

lemma sql_files_distinct: "distinct (map fst dir) \<Longrightarrow> distinct (map fst (sql_files dir))"
proof -
  assume "distinct (map fst dir)"
  then have "inj_on fst (set dir)" "distinct dir" by (simp_all add: distinct_map)
  then show ?thesis by (auto simp: sql_files_def distinct_map intro: inj_on_subset)
qed

lemma pending_take:
  assumes "distinct (map fst files)"
  shows "pending_files (map fst (take k files)) files = drop k files"
  using drop_by_keys [OF assms, of k] by (simp add: pending_files_def case_prod_unfold)

text \<open>The first \<open>k\<close> files, each executed once and recorded.\<close>

definition migrated :: "'d executor \<Rightarrow> sql_file list \<Rightarrow> 'd \<Rightarrow> nat \<Rightarrow> string list \<times> 'd \<Rightarrow> bool" where
  "migrated exec files d0 k st \<longleftrightarrow>
     k \<le> length files \<and> fst st = map fst (take k files) \<and> snd st = execute_all exec (take k files) d0"



text \<open>A dry run changes nothing.\<close>

lemma dry_run_harmless: "migrate_run exec True dir st = (0, st)"
  by (simp add: migrate_run_def Let_def)

end
