(* ===== verification/SchemaStatements.thy ===== *)
theory SchemaStatements
  imports Prelude
begin

text \<open>
  The statements of the schema migrations under \<open>src/migrations/versions\<close> and what they make of a
  schema. A statement may be refused: an object exists already or does not exist, or another object
  still depends on one to be dropped. Everything that belongs to a table, its columns, constraints,
  indexes, triggers and rows, is part of it and goes with it.
\<close>

section \<open>Schemas\<close>

datatype sqltype = UUID | String nat | Text | Boolean | SmallInteger | BigInteger
  | Numeric nat nat | JSONB | DateTime | Date | Enum string "string list"

record column =
  c_name :: string
  c_type :: sqltype
  c_primary_key :: bool
  c_nullable :: bool
  c_unique :: bool
  c_default :: "string option"
  c_references :: "(string \<times> string) option"

text \<open>A column as \<open>sa.Column\<close> makes it, and the arguments that change it.\<close>

definition Column :: "string \<Rightarrow> sqltype \<Rightarrow> column" where
  "Column n t = \<lparr>c_name = n, c_type = t, c_primary_key = False, c_nullable = True, c_unique = False,
     c_default = None, c_references = None\<rparr>"

definition not_null :: "column \<Rightarrow> column" where "not_null c = c\<lparr>c_nullable := False\<rparr>"
definition unique :: "column \<Rightarrow> column" where "unique c = c\<lparr>c_unique := True\<rparr>"
definition primary_key :: "column \<Rightarrow> column" where
  "primary_key c = c\<lparr>c_primary_key := True, c_nullable := False\<rparr>"
definition server_default :: "string \<Rightarrow> column \<Rightarrow> column" where
  "server_default d c = c\<lparr>c_default := Some d\<rparr>"
definition ForeignKey :: "string \<Rightarrow> string \<Rightarrow> column \<Rightarrow> column" where
  "ForeignKey t k c = c\<lparr>c_references := Some (t, k)\<rparr>"

datatype table_constraint = UniqueConstraint "string list" | CheckConstraint string string

text \<open>The condition of a partial index.\<close>

datatype predicate = IsNull string | IsNotNull string | Equals string string | Both predicate predicate

type_synonym index_def = "string \<times> string list \<times> predicate option"

datatype trigger_time = BeforeUpdateOrDelete | AfterInsert

type_synonym trigger = "string \<times> trigger_time \<times> string"
type_synonym row = "(string \<times> string) list"

record table =
  t_name :: string
  t_columns :: "column list"
  t_constraints :: "table_constraint list"
  t_indexes :: "index_def list"
  t_triggers :: "trigger list"
  t_rows :: "row list"

text \<open>
  The bodies of the trigger functions: raising for every row, the guard of the outbox, and copying
  the status of the inserted row to the parent that a column of the row names.
\<close>

datatype plpgsql = RaiseException string | OutboxGuard | SyncStatus string string

text \<open>A view with the relations and columns it reads.\<close>

type_synonym view = "string \<times> (string \<times> string list) list"

record schema =
  extensions :: "string list"
  enums :: "(string \<times> string list) list"
  tables :: "table list"
  routines :: "(string \<times> plpgsql) list"
  views :: "view list"

definition empty_schema :: schema where
  "empty_schema = \<lparr>extensions = [], enums = [], tables = [], routines = [], views = []\<rparr>"

section \<open>Statements\<close>

datatype ddl_error = DuplicateObject string | UndefinedObject string | DependentObjects string
  | Violation string

datatype stmt =
    CREATE_EXTENSION string
  | CREATE_TYPE string "string list"
  | ALTER_TYPE_ADD_VALUE string string
  | DROP_TYPE string
  | create_table string "column list" "table_constraint list"
  | drop_table string
  | create_index string string "string list" "predicate option"
  | drop_index string string
  | add_column string column
  | drop_column string string
  | INSERT_INTO string "row list"
  | CREATE_FUNCTION string plpgsql
  | DROP_FUNCTION string
  | CREATE_TRIGGER string trigger_time string string
  | DROP_TRIGGER string string
  | CREATE_VIEW string "(string \<times> string list) list"
  | DROP_VIEW string

definition find_table :: "schema \<Rightarrow> string \<Rightarrow> table option" where
  "find_table s n = List.find (\<lambda>t. t_name t = n) (tables s)"

text \<open>What the columns of a table name: themselves, other tables, enumerations.\<close>

definition column_names :: "column list \<Rightarrow> string list" where
  "column_names cs = map c_name cs"

definition column_references :: "column list \<Rightarrow> (string \<times> string) list" where
  "column_references cs = List.map_filter c_references cs"

definition enum_of :: "column \<Rightarrow> (string \<times> string list) option" where
  "enum_of c = (case c_type c of Enum n ls \<Rightarrow> Some (n, ls) | _ \<Rightarrow> None)"

definition column_enums :: "column list \<Rightarrow> (string \<times> string list) list" where
  "column_enums cs = List.map_filter enum_of cs"

definition has_column :: "table \<Rightarrow> string \<Rightarrow> bool" where
  "has_column t k \<longleftrightarrow> k \<in> set (column_names (t_columns t))"

definition drop_key :: "'k \<Rightarrow> ('k \<times> 'v) list \<Rightarrow> ('k \<times> 'v) list" where
  "drop_key k xs = filter (\<lambda>p. fst p \<noteq> k) xs"

definition edit_table :: "string \<Rightarrow> (table \<Rightarrow> table) \<Rightarrow> schema \<Rightarrow> schema" where
  "edit_table n f s = s\<lparr>tables := map (\<lambda>t. if t_name t = n then f t else t) (tables s)\<rparr>"

text \<open>Tables, views and indexes share one name space.\<close>

definition relation_names :: "schema \<Rightarrow> string list" where
  "relation_names s =
     map t_name (tables s) @ map fst (views s) @ concat (map (\<lambda>t. map fst (t_indexes t)) (tables s))"

definition reference_ok :: "schema \<Rightarrow> string \<Rightarrow> string list \<Rightarrow> string \<times> string \<Rightarrow> bool" where
  "reference_ok s n ks = (\<lambda>(t, k). (t = n \<and> k \<in> set ks) \<or>
     (case find_table s t of None \<Rightarrow> False | Some r \<Rightarrow> has_column r k))"

text \<open>
  The named enumerations of the columns of a new table: \<open>CREATE TYPE\<close> is emitted for each of them,
  after looking the type up or without.
\<close>

fun inline_types :: "bool \<Rightarrow> (string \<times> string list) list \<Rightarrow> (string \<times> string list) list
    \<Rightarrow> ddl_error + (string \<times> string list) list" where
  "inline_types checkfirst [] es = Inr es"
| "inline_types checkfirst ((n, ls) # ts) es =
     (if n \<in> set (map fst es)
      then if checkfirst then inline_types checkfirst ts es else Inl (DuplicateObject n)
      else inline_types checkfirst ts (es @ [(n, ls)]))"

text \<open>The first constraint of its table a row violates, if any.\<close>

definition null_violation :: "table \<Rightarrow> row \<Rightarrow> bool" where
  "null_violation t r \<longleftrightarrow> list_ex (\<lambda>c. \<not> c_nullable c \<and> c_default c = None \<and>
     map_of r (c_name c) = None) (t_columns t)"

definition key_violation :: "table \<Rightarrow> row \<Rightarrow> bool" where
  "key_violation t r \<longleftrightarrow> list_ex (\<lambda>c. (c_primary_key c \<or> c_unique c) \<and>
     map_of r (c_name c) \<noteq> None \<and>
     list_ex (\<lambda>q. map_of q (c_name c) = map_of r (c_name c)) (t_rows t)) (t_columns t)"

fun insert_rows :: "row list \<Rightarrow> table \<Rightarrow> ddl_error + table" where
  "insert_rows [] t = Inr t"
| "insert_rows (r # rs) t =
     (if \<not> list_all (has_column t) (map fst r) then Inl (UndefinedObject (t_name t))
      else if null_violation t r \<or> key_violation t r then Inl (Violation (t_name t))
      else insert_rows rs (t\<lparr>t_rows := t_rows t @ [r]\<rparr>))"

definition without_column :: "string \<Rightarrow> table \<Rightarrow> table" where
  "without_column k t = t\<lparr>
     t_columns := filter (\<lambda>c. c_name c \<noteq> k) (t_columns t),
     t_constraints := filter (\<lambda>c. case c of UniqueConstraint ks \<Rightarrow> k \<notin> set ks
        | CheckConstraint j _ \<Rightarrow> j \<noteq> k) (t_constraints t),
     t_indexes := filter (\<lambda>(_, ks, _). k \<notin> set ks) (t_indexes t),
     t_rows := map (drop_key k) (t_rows t)\<rparr>"

fun exec :: "bool \<Rightarrow> stmt \<Rightarrow> schema \<Rightarrow> ddl_error + schema" where
  "exec _ (CREATE_EXTENSION e) s =
     Inr (if e \<in> set (extensions s) then s else s\<lparr>extensions := extensions s @ [e]\<rparr>)"
| "exec _ (CREATE_TYPE n ls) s =
     Inr (if n \<in> set (map fst (enums s)) then s else s\<lparr>enums := enums s @ [(n, ls)]\<rparr>)"
| "exec _ (ALTER_TYPE_ADD_VALUE n l) s =
     (case map_of (enums s) n of
        None \<Rightarrow> Inl (UndefinedObject n)
      | Some ls \<Rightarrow> Inr (if l \<in> set ls then s
          else s\<lparr>enums := map (\<lambda>(m, ks). (m, if m = n then ks @ [l] else ks)) (enums s)\<rparr>))"
| "exec _ (DROP_TYPE n) s =
     (if list_ex (\<lambda>t. n \<in> set (map fst (column_enums (t_columns t)))) (tables s)
      then Inl (DependentObjects n) else Inr (s\<lparr>enums := drop_key n (enums s)\<rparr>))"
| "exec checkfirst (create_table n cs ks) s =
     (if n \<in> set (relation_names s) then Inl (DuplicateObject n)
      else if \<not> distinct (column_names cs) then Inl (DuplicateObject n)
      else if \<not> list_all (reference_ok s n (column_names cs)) (column_references cs) then Inl (UndefinedObject n)
      else case inline_types checkfirst (column_enums cs) (enums s) of
        Inl e \<Rightarrow> Inl e
      | Inr es \<Rightarrow> Inr (s\<lparr>enums := es, tables := tables s @ [\<lparr>t_name = n, t_columns = cs,
          t_constraints = ks, t_indexes = [], t_triggers = [], t_rows = []\<rparr>]\<rparr>))"
| "exec _ (drop_table n) s =
     (if find_table s n = None then Inl (UndefinedObject n)
      else if list_ex (\<lambda>t. t_name t \<noteq> n \<and> n \<in> set (map fst (column_references (t_columns t)))) (tables s) \<or>
        list_ex (\<lambda>(_, ds). n \<in> set (map fst ds)) (views s)
      then Inl (DependentObjects n)
      else Inr (s\<lparr>tables := filter (\<lambda>t. t_name t \<noteq> n) (tables s)\<rparr>))"
| "exec _ (create_index i n ks w) s =
     (case find_table s n of
        None \<Rightarrow> Inl (UndefinedObject n)
      | Some t \<Rightarrow>
          if i \<in> set (relation_names s) then Inl (DuplicateObject i)
          else if \<not> list_all (has_column t) ks then Inl (UndefinedObject i)
          else Inr (edit_table n (\<lambda>t. t\<lparr>t_indexes := t_indexes t @ [(i, ks, w)]\<rparr>) s))"
| "exec _ (drop_index i n) s =
     (case find_table s n of
        None \<Rightarrow> Inl (UndefinedObject n)
      | Some t \<Rightarrow> if i \<notin> set (map fst (t_indexes t)) then Inl (UndefinedObject i)
          else Inr (edit_table n (\<lambda>t. t\<lparr>t_indexes := drop_key i (t_indexes t)\<rparr>) s))"
| "exec checkfirst (add_column n c) s =
     (case find_table s n of
        None \<Rightarrow> Inl (UndefinedObject n)
      | Some t \<Rightarrow>
          if has_column t (c_name c) then Inl (DuplicateObject (c_name c))
          else if \<not> list_all (reference_ok s n (column_names (t_columns t))) (column_references [c]) then Inl (UndefinedObject n)
          else if list_ex (\<lambda>e. fst e \<notin> set (map fst (enums s))) (column_enums [c])
          then Inl (UndefinedObject (c_name c))
          else if \<not> c_nullable c \<and> c_default c = None \<and> t_rows t \<noteq> [] then Inl (Violation n)
          else Inr (edit_table n (\<lambda>t. t\<lparr>t_columns := t_columns t @ [c]\<rparr>) s))"
| "exec _ (drop_column n k) s =
     (case find_table s n of
        None \<Rightarrow> Inl (UndefinedObject n)
      | Some t \<Rightarrow>
          if \<not> has_column t k then Inl (UndefinedObject k)
          else if list_ex (\<lambda>t. list_ex (\<lambda>c. c_references c = Some (n, k) \<and> (t_name t, c_name c) \<noteq> (n, k))
                   (t_columns t)) (tables s) \<or>
                 list_ex (\<lambda>(_, ds). list_ex (\<lambda>(m, ks). m = n \<and> k \<in> set ks) ds) (views s)
          then Inl (DependentObjects k)
          else Inr (edit_table n (without_column k) s))"
| "exec _ (INSERT_INTO n rs) s =
     (case find_table s n of
        None \<Rightarrow> Inl (UndefinedObject n)
      | Some t \<Rightarrow> (case insert_rows rs t of Inl e \<Rightarrow> Inl e | Inr t' \<Rightarrow> Inr (edit_table n (\<lambda>_. t') s)))"
| "exec _ (CREATE_FUNCTION f b) s = Inr (s\<lparr>routines := drop_key f (routines s) @ [(f, b)]\<rparr>)"
| "exec _ (DROP_FUNCTION f) s =
     (if list_ex (\<lambda>t. list_ex (\<lambda>(_, _, g). g = f) (t_triggers t)) (tables s)
      then Inl (DependentObjects f) else Inr (s\<lparr>routines := drop_key f (routines s)\<rparr>))"
| "exec _ (CREATE_TRIGGER g w n f) s =
     (case find_table s n of
        None \<Rightarrow> Inl (UndefinedObject n)
      | Some t \<Rightarrow>
          if f \<notin> set (map fst (routines s)) then Inl (UndefinedObject f)
          else if g \<in> set (map fst (t_triggers t)) then Inl (DuplicateObject g)
          else Inr (edit_table n (\<lambda>t. t\<lparr>t_triggers := t_triggers t @ [(g, w, f)]\<rparr>) s))"
| "exec _ (DROP_TRIGGER g n) s =
     Inr (edit_table n (\<lambda>t. t\<lparr>t_triggers := drop_key g (t_triggers t)\<rparr>) s)"
| "exec _ (CREATE_VIEW v ds) s =
     (if v \<in> set (relation_names s) then Inl (DuplicateObject v)
      else if \<not> list_all (\<lambda>(n, _). n \<in> set (map t_name (tables s)) \<or> n \<in> set (map fst (views s))) ds
      then Inl (UndefinedObject v) else Inr (s\<lparr>views := views s @ [(v, ds)]\<rparr>))"
| "exec _ (DROP_VIEW v) s =
     (if list_ex (\<lambda>(_, ds). v \<in> set (map fst ds)) (views s) then Inl (DependentObjects v)
      else Inr (s\<lparr>views := drop_key v (views s)\<rparr>))"

text \<open>A script, up to the statement that is refused.\<close>

fun exec_all :: "bool \<Rightarrow> stmt list \<Rightarrow> schema \<Rightarrow> ddl_error + schema" where
  "exec_all checkfirst [] s = Inr s"
| "exec_all checkfirst (x # xs) s =
     (case exec checkfirst x s of Inl e \<Rightarrow> Inl e | Inr s' \<Rightarrow> exec_all checkfirst xs s')"

end
