(* ===== verification/Revisions.thy ===== *)
theory Revisions
  imports SchemaStatements
begin

text \<open>
  The four scripts under \<open>src/migrations/versions\<close>, each with its upgrade and its downgrade, as lists
  of the statements they execute. The descriptive texts of the exceptions are kept in plain letters.
\<close>

section \<open>0001: the initial schema\<close>

definition id_column :: column where
  "id_column = server_default ''uuid_generate_v4()'' (primary_key (Column ''id'' UUID))"

definition now_default :: "column \<Rightarrow> column" where
  "now_default = server_default ''now()''"

definition account_type_enum :: sqltype where
  "account_type_enum =
     Enum ''account_type'' [''institutional'', ''bank'', ''correspondent'', ''central_bank'']"

definition token_status_enum :: sqltype where
  "token_status_enum =
     Enum ''token_status'' [''active'', ''suspended'', ''redeemed'']"

definition txn_status_enum :: sqltype where
  "txn_status_enum =
     Enum ''txn_status'' [''pending'', ''processing'', ''completed'', ''failed'', ''reversed'']"

definition settlement_status_enum :: sqltype where
  "settlement_status_enum =
     Enum ''settlement_status'' [''queued'', ''processing'', ''settled'', ''failed'',
      ''cancelled'']"

definition escrow_status_enum :: sqltype where
  "escrow_status_enum =
     Enum ''escrow_status'' [''pending'', ''active'', ''released'', ''refunded'', ''expired'']"

definition currency_code_enum :: sqltype where
  "currency_code_enum =
     Enum ''currency_code'' [''USD'', ''EUR'', ''GBP'', ''JPY'', ''SGD'', ''CHF'', ''HKD'']"

definition settlement_rails_enum :: sqltype where
  "settlement_rails_enum =
     Enum ''settlement_rails'' [''blockchain'', ''swift'', ''internal'', ''fedwire'', ''target2'']"

definition condition_type_enum :: sqltype where
  "condition_type_enum =
     Enum ''condition_type'' [''time_lock'', ''oracle_trigger'', ''multi_sig'',
      ''delivery_confirmation'', ''kyc_verified'']"

definition accounts_columns :: "column list" where
  "accounts_columns =
     [id_column,
      not_null (Column ''entity_name'' (String 255)),
      not_null (Column ''account_type'' account_type_enum),
      Column ''bic_code'' (String 11),
      unique (Column ''legal_entity_identifier'' (String 20)),
      server_default ''true'' (not_null (Column ''is_active'' Boolean)),
      server_default ''false'' (not_null (Column ''kyc_verified'' Boolean)),
      server_default ''false'' (not_null (Column ''aml_cleared'' Boolean)),
      server_default ''3'' (not_null (Column ''risk_tier'' SmallInteger)),
      server_default ''{}'' (not_null (Column ''metadata'' JSONB)),
      now_default (Column ''created_at'' DateTime),
      Column ''updated_at'' DateTime]"

definition create_accounts :: stmt where
  "create_accounts =
     create_table ''accounts'' accounts_columns []"

definition token_balances_columns :: "column list" where
  "token_balances_columns =
     [id_column,
      not_null (ForeignKey ''accounts'' ''id'' (Column ''account_id'' UUID)),
      not_null (Column ''currency'' currency_code_enum),
      server_default ''0'' (not_null (Column ''balance'' (Numeric 28 8))),
      server_default ''0'' (not_null (Column ''reserved'' (Numeric 28 8))),
      server_default ''active'' (not_null (Column ''token_status'' token_status_enum)),
      server_default ''0'' (not_null (Column ''version'' BigInteger)),
      now_default (Column ''last_updated'' DateTime)]"

definition create_token_balances :: stmt where
  "create_token_balances =
     create_table ''token_balances'' token_balances_columns
       [UniqueConstraint [''account_id'', ''currency''], CheckConstraint ''balance'' ''>= 0'',
        CheckConstraint ''reserved'' ''>= 0'']"

definition ledger_entries_columns :: "column list" where
  "ledger_entries_columns =
     [id_column,
      not_null (Column ''txn_ref'' (String 64)),
      not_null (Column ''entry_type'' (String 20)),
      not_null (ForeignKey ''accounts'' ''id'' (Column ''account_id'' UUID)),
      not_null (Column ''currency'' currency_code_enum),
      not_null (Column ''amount'' (Numeric 28 8)),
      not_null (Column ''balance_after'' (Numeric 28 8)),
      Column ''narrative'' Text,
      now_default (Column ''created_at'' DateTime)]"

definition create_ledger_entries :: stmt where
  "create_ledger_entries =
     create_table ''ledger_entries'' ledger_entries_columns []"

definition transactions_columns :: "column list" where
  "transactions_columns =
     [id_column,
      not_null (unique (Column ''txn_ref'' (String 64))),
      not_null (ForeignKey ''accounts'' ''id'' (Column ''debit_account_id'' UUID)),
      not_null (ForeignKey ''accounts'' ''id'' (Column ''credit_account_id'' UUID)),
      not_null (Column ''currency'' currency_code_enum),
      not_null (Column ''amount'' (Numeric 28 8)),
      not_null (Column ''txn_type'' (String 50)),
      server_default ''pending'' (not_null (Column ''status'' txn_status_enum)),
      unique (Column ''idempotency_key'' (String 128)),
      ForeignKey ''transactions'' ''id'' (Column ''parent_txn_id'' UUID),
      server_default ''{}'' (not_null (Column ''metadata'' JSONB)),
      now_default (Column ''created_at'' DateTime),
      Column ''settled_at'' DateTime]"

definition create_transactions :: stmt where
  "create_transactions =
     create_table ''transactions'' transactions_columns []"

definition token_issuances_columns :: "column list" where
  "token_issuances_columns =
     [id_column,
      not_null (unique (Column ''issuance_ref'' (String 64))),
      not_null (ForeignKey ''accounts'' ''id'' (Column ''account_id'' UUID)),
      not_null (Column ''currency'' currency_code_enum),
      not_null (Column ''amount'' (Numeric 28 8)),
      Column ''backing_ref'' (String 255),
      Column ''custodian'' (String 100),
      not_null (Column ''issuance_type'' (String 20)),
      server_default ''pending'' (not_null (Column ''status'' txn_status_enum)),
      Column ''compliance_check_id'' UUID,
      Column ''issued_at'' DateTime,
      Column ''redeemed_at'' DateTime,
      now_default (Column ''created_at'' DateTime)]"

definition create_token_issuances :: stmt where
  "create_token_issuances =
     create_table ''token_issuances'' token_issuances_columns []"

definition rtgs_settlements_columns :: "column list" where
  "rtgs_settlements_columns =
     [id_column,
      not_null (unique (Column ''settlement_ref'' (String 64))),
      not_null (ForeignKey ''accounts'' ''id'' (Column ''sending_account_id'' UUID)),
      not_null (ForeignKey ''accounts'' ''id'' (Column ''receiving_account_id'' UUID)),
      not_null (Column ''currency'' currency_code_enum),
      not_null (Column ''amount'' (Numeric 28 8)),
      server_default ''normal'' (not_null (Column ''priority'' (String 10))),
      server_default ''queued'' (not_null (Column ''status'' settlement_status_enum)),
      ForeignKey ''transactions'' ''id'' (Column ''transaction_id'' UUID),
      Column ''scheduled_at'' DateTime,
      now_default (Column ''queued_at'' DateTime),
      Column ''processing_started'' DateTime,
      Column ''settled_at'' DateTime,
      Column ''failure_reason'' Text,
      server_default ''0'' (not_null (Column ''retry_count'' SmallInteger)),
      server_default ''{}'' (not_null (Column ''metadata'' JSONB))]"

definition create_rtgs_settlements :: stmt where
  "create_rtgs_settlements =
     create_table ''rtgs_settlements'' rtgs_settlements_columns []"

definition escrow_contracts_columns :: "column list" where
  "escrow_contracts_columns =
     [id_column,
      not_null (unique (Column ''contract_ref'' (String 64))),
      not_null (ForeignKey ''accounts'' ''id'' (Column ''depositor_account_id'' UUID)),
      not_null (ForeignKey ''accounts'' ''id'' (Column ''beneficiary_account_id'' UUID)),
      not_null (Column ''currency'' currency_code_enum),
      not_null (Column ''amount'' (Numeric 28 8)),
      not_null (Column ''conditions'' JSONB),
      server_default ''pending'' (not_null (Column ''status'' escrow_status_enum)),
      ForeignKey ''transactions'' ''id'' (Column ''lock_txn_id'' UUID),
      ForeignKey ''transactions'' ''id'' (Column ''release_txn_id'' UUID),
      ForeignKey ''accounts'' ''id'' (Column ''arbiter_account_id'' UUID),
      not_null (Column ''expires_at'' DateTime),
      Column ''released_at'' DateTime,
      Column ''release_triggered_by'' (String 100),
      server_default ''{}'' (not_null (Column ''metadata'' JSONB)),
      now_default (Column ''created_at'' DateTime)]"

definition create_escrow_contracts :: stmt where
  "create_escrow_contracts =
     create_table ''escrow_contracts'' escrow_contracts_columns []"

definition conditional_payments_columns :: "column list" where
  "conditional_payments_columns =
     [id_column,
      not_null (unique (Column ''payment_ref'' (String 64))),
      not_null (ForeignKey ''accounts'' ''id'' (Column ''payer_account_id'' UUID)),
      not_null (ForeignKey ''accounts'' ''id'' (Column ''payee_account_id'' UUID)),
      not_null (Column ''currency'' currency_code_enum),
      not_null (Column ''amount'' (Numeric 28 8)),
      not_null (Column ''condition_type'' condition_type_enum),
      not_null (Column ''condition_params'' JSONB),
      server_default ''pending'' (not_null (Column ''status'' txn_status_enum)),
      Column ''trigger_data'' JSONB,
      ForeignKey ''transactions'' ''id'' (Column ''transaction_id'' UUID),
      now_default (Column ''created_at'' DateTime),
      Column ''executed_at'' DateTime,
      Column ''expires_at'' DateTime]"

definition create_conditional_payments :: stmt where
  "create_conditional_payments =
     create_table ''conditional_payments'' conditional_payments_columns []"

definition fx_rates_columns :: "column list" where
  "fx_rates_columns =
     [id_column,
      not_null (Column ''base_currency'' currency_code_enum),
      not_null (Column ''quote_currency'' currency_code_enum),
      not_null (Column ''mid_rate'' (Numeric 18 8)),
      Column ''bid_rate'' (Numeric 18 8),
      Column ''ask_rate'' (Numeric 18 8),
      Column ''spread_bps'' (Numeric 8 4),
      server_default ''internal'' (not_null (Column ''source'' (String 50))),
      server_default ''true'' (not_null (Column ''is_active'' Boolean)),
      now_default (Column ''valid_from'' DateTime),
      Column ''valid_until'' DateTime]"

definition create_fx_rates :: stmt where
  "create_fx_rates =
     create_table ''fx_rates'' fx_rates_columns []"

definition fx_settlements_columns :: "column list" where
  "fx_settlements_columns =
     [id_column,
      not_null (unique (Column ''settlement_ref'' (String 64))),
      not_null (ForeignKey ''accounts'' ''id'' (Column ''sending_account_id'' UUID)),
      not_null (ForeignKey ''accounts'' ''id'' (Column ''receiving_account_id'' UUID)),
      not_null (Column ''sell_currency'' currency_code_enum),
      not_null (Column ''sell_amount'' (Numeric 28 8)),
      not_null (Column ''buy_currency'' currency_code_enum),
      not_null (Column ''buy_amount'' (Numeric 28 8)),
      not_null (Column ''applied_rate'' (Numeric 18 8)),
      ForeignKey ''fx_rates'' ''id'' (Column ''fx_rate_id'' UUID),
      server_default ''blockchain'' (not_null (Column ''rails'' settlement_rails_enum)),
      server_default ''queued'' (not_null (Column ''status'' settlement_status_enum)),
      ForeignKey ''transactions'' ''id'' (Column ''sell_txn_id'' UUID),
      ForeignKey ''transactions'' ''id'' (Column ''buy_txn_id'' UUID),
      Column ''blockchain_tx_hash'' (String 255),
      Column ''value_date'' Date,
      now_default (Column ''created_at'' DateTime),
      Column ''settled_at'' DateTime,
      server_default ''{}'' (not_null (Column ''metadata'' JSONB))]"

definition create_fx_settlements :: stmt where
  "create_fx_settlements =
     create_table ''fx_settlements'' fx_settlements_columns []"

definition compliance_events_columns :: "column list" where
  "compliance_events_columns =
     [id_column,
      not_null (Column ''entity_type'' (String 50)),
      not_null (Column ''entity_id'' UUID),
      not_null (Column ''event_type'' (String 50)),
      not_null (Column ''result'' (String 20)),
      Column ''score'' (Numeric 5 2),
      server_default ''{}'' (not_null (Column ''details'' JSONB)),
      now_default (Column ''checked_at'' DateTime)]"

definition create_compliance_events :: stmt where
  "create_compliance_events =
     create_table ''compliance_events'' compliance_events_columns []"

definition initial_indexes :: "stmt list" where
  "initial_indexes =
     [create_index ''idx_accounts_lei'' ''accounts''
        [''legal_entity_identifier''] (Some (IsNotNull ''legal_entity_identifier'')),
      create_index ''idx_token_balances_account'' ''token_balances'' [''account_id''] None,
      create_index ''idx_ledger_txn_ref'' ''ledger_entries'' [''txn_ref''] None,
      create_index ''idx_ledger_account'' ''ledger_entries''
        [''account_id'', ''created_at''] None,
      create_index ''idx_txn_debit'' ''transactions'' [''debit_account_id'', ''created_at''] None,
      create_index ''idx_txn_credit'' ''transactions''
        [''credit_account_id'', ''created_at''] None,
      create_index ''idx_txn_status'' ''transactions'' [''status''] None,
      create_index ''idx_rtgs_status'' ''rtgs_settlements''
        [''status'', ''priority'', ''queued_at''] None,
      create_index ''idx_escrow_status'' ''escrow_contracts'' [''status''] None,
      create_index ''idx_escrow_expires'' ''escrow_contracts''
        [''expires_at''] (Some (Equals ''status'' ''active'')),
      create_index ''idx_condpay_status'' ''conditional_payments'' [''status''] None,
      create_index ''idx_fx_pair_active'' ''fx_rates''
        [''base_currency'', ''quote_currency'', ''is_active''] None,
      create_index ''idx_fx_settle_status'' ''fx_settlements'' [''status''] None,
      create_index ''idx_compliance_entity'' ''compliance_events''
        [''entity_type'', ''entity_id''] None]"

definition initial_enums :: "sqltype list" where
  "initial_enums =
     [account_type_enum, token_status_enum, txn_status_enum, settlement_status_enum,
      escrow_status_enum, currency_code_enum, settlement_rails_enum, condition_type_enum]"

fun create_enum :: "sqltype \<Rightarrow> stmt list" where
  "create_enum (Enum n ls) = [CREATE_TYPE n ls]"
| "create_enum _ = []"

definition upgrade_0001 :: "stmt list" where
  "upgrade_0001 =
     [CREATE_EXTENSION ''uuid-ossp'', CREATE_EXTENSION ''pgcrypto''] @
     concat (map create_enum initial_enums) @
     [create_accounts, create_token_balances, create_ledger_entries, create_transactions,
      create_token_issuances, create_rtgs_settlements, create_escrow_contracts,
      create_conditional_payments, create_fx_rates, create_fx_settlements,
      create_compliance_events] @
     initial_indexes"

definition downgrade_0001 :: "stmt list" where
  "downgrade_0001 =
     map drop_table
       [''compliance_events'', ''fx_settlements'', ''fx_rates'', ''conditional_payments'',
        ''escrow_contracts'', ''rtgs_settlements'', ''token_issuances'', ''transactions'',
        ''ledger_entries'', ''token_balances'', ''accounts''] @
     map DROP_TYPE
       [''condition_type'', ''settlement_rails'', ''currency_code'', ''escrow_status'',
        ''settlement_status'', ''txn_status'', ''token_status'', ''account_type'']"

section \<open>0002: indexes\<close>

definition upgrade_0002 :: "stmt list" where
  "upgrade_0002 =
     [create_index ''idx_rtgs_sending_status'' ''rtgs_settlements''
        [''sending_account_id'', ''status''] None,
      create_index ''idx_rtgs_receiving_status'' ''rtgs_settlements''
        [''receiving_account_id'', ''status''] None,
      create_index ''idx_fx_sender'' ''fx_settlements''
        [''sending_account_id'', ''created_at''] None,
      create_index ''idx_compliance_entity_time'' ''compliance_events''
        [''entity_type'', ''entity_id'', ''checked_at''] None,
      create_index ''idx_condpay_expires'' ''conditional_payments''
        [''expires_at''] (Some (Both (Equals ''status'' ''pending'') (IsNotNull ''expires_at''))),
      create_index ''idx_ledger_account_ccy'' ''ledger_entries''
        [''account_id'', ''currency'', ''created_at''] None,
      create_index ''idx_issuance_custodian'' ''token_issuances''
        [''custodian'', ''status''] (Some (IsNotNull ''custodian''))]"

definition downgrade_0002 :: "stmt list" where
  "downgrade_0002 =
     [drop_index ''idx_issuance_custodian'' ''token_issuances'',
      drop_index ''idx_ledger_account_ccy'' ''ledger_entries'',
      drop_index ''idx_condpay_expires'' ''conditional_payments'',
      drop_index ''idx_compliance_entity_time'' ''compliance_events'',
      drop_index ''idx_fx_sender'' ''fx_settlements'',
      drop_index ''idx_rtgs_receiving_status'' ''rtgs_settlements'',
      drop_index ''idx_rtgs_sending_status'' ''rtgs_settlements'']"

section \<open>0003: journal, outbox, holds, status history, triggers and views\<close>

definition STATUS_HISTORY_TABLES :: "(string \<times> string \<times> string) list" where
  "STATUS_HISTORY_TABLES =
     [(''transaction_status_history'', ''transaction_id'', ''transactions''),
      (''rtgs_settlement_status_history'', ''settlement_id'', ''rtgs_settlements''),
      (''fx_settlement_status_history'', ''settlement_id'', ''fx_settlements''),
      (''escrow_status_history'', ''escrow_id'', ''escrow_contracts''),
      (''conditional_payment_status_history'', ''payment_id'', ''conditional_payments''),
      (''token_issuance_status_history'', ''issuance_id'', ''token_issuances'')]"

definition chart_of_accounts_columns :: "column list" where
  "chart_of_accounts_columns =
     [primary_key (Column ''code'' (String 30)),
      not_null (Column ''name'' (String 255)),
      not_null (Column ''account_type'' (String 20)),
      not_null (Column ''normal_balance'' (String 10))]"

definition create_chart_of_accounts :: stmt where
  "create_chart_of_accounts =
     create_table ''chart_of_accounts'' chart_of_accounts_columns []"

definition chart_row :: "string \<times> string \<times> string \<times> string \<Rightarrow> row" where
  "chart_row = (\<lambda>(code, name, account_type, normal_balance).
     [(''code'', code), (''name'', name), (''account_type'', account_type),
      (''normal_balance'', normal_balance)])"

definition chart_rows :: "row list" where
  "chart_rows = map chart_row
     [(''OMNIBUS_RESERVE'', ''Omnibus Reserve Account'', ''asset'', ''debit''),
      (''INSTITUTION_LIABILITY'', ''Institution Token Liability'', ''liability'', ''credit''),
      (''FX_NOSTRO_USD'', ''FX Nostro USD Account'', ''asset'', ''debit''),
      (''FX_NOSTRO_EUR'', ''FX Nostro EUR Account'', ''asset'', ''debit''),
      (''FX_NOSTRO_GBP'', ''FX Nostro GBP Account'', ''asset'', ''debit''),
      (''ESCROW_HOLDING'', ''Escrow Holding Account'', ''liability'', ''credit''),
      (''SETTLEMENT_PENDING'', ''Pending Settlement Account'', ''liability'', ''credit''),
      (''FEE_REVENUE'', ''Fee Revenue Account'', ''revenue'', ''credit'')]"

definition journal_entries_columns :: "column list" where
  "journal_entries_columns =
     [id_column,
      not_null (Column ''journal_id'' UUID),
      ForeignKey ''accounts'' ''id'' (Column ''account_id'' UUID),
      ForeignKey ''chart_of_accounts'' ''code'' (Column ''coa_code'' (String 30)),
      Column ''currency'' (String 10),
      server_default ''0'' (not_null (Column ''debit'' (Numeric 38 18))),
      server_default ''0'' (not_null (Column ''credit'' (Numeric 38 18))),
      Column ''entry_type'' (String 50),
      Column ''reference_id'' UUID,
      Column ''narrative'' Text,
      now_default (Column ''created_at'' DateTime)]"

definition create_journal_entries :: stmt where
  "create_journal_entries =
     create_table ''journal_entries'' journal_entries_columns []"

definition journal_indexes :: "stmt list" where
  "journal_indexes =
     [create_index ''idx_je_journal_id'' ''journal_entries'' [''journal_id''] None,
      create_index ''idx_je_account_id'' ''journal_entries'' [''account_id''] None,
      create_index ''idx_je_reference_id'' ''journal_entries'' [''reference_id''] None,
      create_index ''idx_je_account_coa_ccy'' ''journal_entries''
        [''account_id'', ''coa_code'', ''currency''] None]"

definition outbox_events_columns :: "column list" where
  "outbox_events_columns =
     [id_column,
      Column ''aggregate_id'' (String 255),
      Column ''event_type'' (String 255),
      Column ''payload'' JSONB,
      now_default (Column ''created_at'' DateTime),
      Column ''published_at'' DateTime]"

definition create_outbox_events :: stmt where
  "create_outbox_events =
     create_table ''outbox_events'' outbox_events_columns []"

definition outbox_index :: stmt where
  "outbox_index = create_index ''idx_outbox_unpublished'' ''outbox_events'' [''published_at'']
     (Some (IsNull ''published_at''))"

definition escrow_holds_columns :: "column list" where
  "escrow_holds_columns =
     [id_column,
      Column ''hold_ref'' (String 64),
      ForeignKey ''accounts'' ''id'' (Column ''account_id'' UUID),
      Column ''currency'' (String 10),
      Column ''amount'' (Numeric 38 18),
      Column ''hold_type'' (String 10),
      Column ''related_entity_type'' (String 50),
      Column ''related_entity_id'' UUID,
      now_default (Column ''created_at'' DateTime)]"

definition create_escrow_holds :: stmt where
  "create_escrow_holds =
     create_table ''escrow_holds'' escrow_holds_columns []"

definition hold_indexes :: "stmt list" where
  "hold_indexes =
     [create_index ''idx_eh_hold_ref'' ''escrow_holds'' [''hold_ref''] None,
      create_index ''idx_eh_account_ccy_type'' ''escrow_holds''
        [''account_id'', ''currency'', ''hold_type''] None]"

definition history_columns :: "string \<Rightarrow> string \<Rightarrow> string \<Rightarrow> column list" where
  "history_columns table_name fk_col parent_table =
     [id_column,
      not_null (ForeignKey parent_table ''id'' (Column fk_col UUID)),
      not_null (Column ''status'' (String 20)),
      Column ''detail'' JSONB] @
     (if table_name = ''transaction_status_history''
      then [Column ''tx_hash'' (String 255), Column ''block_number'' BigInteger] else []) @
     [now_default (Column ''created_at'' DateTime)]"

definition create_history :: "string \<times> string \<times> string \<Rightarrow> stmt list" where
  "create_history = (\<lambda>(table_name, fk_col, parent_table).
     [create_table table_name (history_columns table_name fk_col parent_table) [],
      create_index (''idx_'' @ table_name @ ''_'' @ fk_col) table_name [fk_col] None])"

definition journal_immutable :: "stmt list" where
  "journal_immutable =
     [CREATE_FUNCTION ''reject_journal_entry_mutation''
        (RaiseException ''journal_entries rows are immutable -- UPDATE and DELETE are forbidden''),
      CREATE_TRIGGER ''trg_journal_entries_immutable'' BeforeUpdateOrDelete ''journal_entries''
        ''reject_journal_entry_mutation'']"

definition outbox_immutable :: "stmt list" where
  "outbox_immutable =
     [CREATE_FUNCTION ''reject_outbox_event_mutation'' OutboxGuard,
      CREATE_TRIGGER ''trg_outbox_events_immutable'' BeforeUpdateOrDelete ''outbox_events''
        ''reject_outbox_event_mutation'']"

definition holds_immutable :: "stmt list" where
  "holds_immutable =
     [CREATE_FUNCTION ''reject_escrow_hold_mutation''
        (RaiseException ''escrow_holds rows are immutable -- UPDATE and DELETE are forbidden''),
      CREATE_TRIGGER ''trg_escrow_holds_immutable'' BeforeUpdateOrDelete ''escrow_holds''
        ''reject_escrow_hold_mutation'']"

definition history_immutable :: "string \<times> string \<times> string \<Rightarrow> stmt list" where
  "history_immutable = (\<lambda>(table_name, _, _).
     let fn_name = ''reject_'' @ table_name @ ''_mutation'';
         trg_name = ''trg_'' @ table_name @ ''_immutable''
     in [CREATE_FUNCTION fn_name
           (RaiseException (table_name @ '' rows are immutable -- UPDATE and DELETE are forbidden'')),
         CREATE_TRIGGER trg_name BeforeUpdateOrDelete table_name fn_name])"

definition SYNC_CONFIGS :: "(string \<times> string \<times> string) list" where
  "SYNC_CONFIGS =
     [(''transaction_status_history'', ''transaction_id'', ''transactions''),
      (''rtgs_settlement_status_history'', ''settlement_id'', ''rtgs_settlements''),
      (''fx_settlement_status_history'', ''settlement_id'', ''fx_settlements''),
      (''escrow_status_history'', ''escrow_id'', ''escrow_contracts''),
      (''conditional_payment_status_history'', ''payment_id'', ''conditional_payments''),
      (''token_issuance_status_history'', ''issuance_id'', ''token_issuances'')]"

definition sync_status :: "string \<times> string \<times> string \<Rightarrow> stmt list" where
  "sync_status = (\<lambda>(history_table, fk_col, parent_table).
     let fn_name = ''sync_'' @ parent_table @ ''_status'';
         trg_name = ''trg_'' @ history_table @ ''_sync''
     in [CREATE_FUNCTION fn_name (SyncStatus parent_table fk_col),
         CREATE_TRIGGER trg_name AfterInsert history_table fn_name])"

definition create_views :: "stmt list" where
  "create_views =
     [CREATE_VIEW ''account_balances''
        [(''journal_entries'', [''account_id'', ''currency'', ''credit'', ''debit'', ''coa_code''])],
      CREATE_VIEW ''account_active_holds''
        [(''escrow_holds'', [''account_id'', ''currency'', ''hold_type'', ''amount''])],
      CREATE_VIEW ''account_available_balances''
        [(''account_balances'', [''account_id'', ''currency'', ''balance'']),
         (''account_active_holds'', [''held'', ''account_id'', ''currency''])]]"

definition upgrade_0003 :: "stmt list" where
  "upgrade_0003 =
     [create_chart_of_accounts, INSERT_INTO ''chart_of_accounts'' chart_rows] @
     create_journal_entries # journal_indexes @
     [create_outbox_events, outbox_index] @
     create_escrow_holds # hold_indexes @
     concat (map create_history STATUS_HISTORY_TABLES) @
     journal_immutable @ outbox_immutable @ holds_immutable @
     concat (map history_immutable STATUS_HISTORY_TABLES) @
     concat (map sync_status SYNC_CONFIGS) @
     create_views"

definition drop_views :: "stmt list" where
  "drop_views =
     [DROP_VIEW ''account_available_balances'', DROP_VIEW ''account_active_holds'',
      DROP_VIEW ''account_balances'']"

definition drop_sync :: "string \<times> string \<Rightarrow> stmt list" where
  "drop_sync = (\<lambda>(history_table, parent_table).
     let trg_name = ''trg_'' @ history_table @ ''_sync'';
         fn_name = ''sync_'' @ parent_table @ ''_status''
     in [DROP_TRIGGER trg_name history_table, DROP_FUNCTION fn_name])"

definition DROP_SYNC_CONFIGS :: "(string \<times> string) list" where
  "DROP_SYNC_CONFIGS =
     [(''token_issuance_status_history'', ''token_issuances''),
      (''conditional_payment_status_history'', ''conditional_payments''),
      (''escrow_status_history'', ''escrow_contracts''),
      (''fx_settlement_status_history'', ''fx_settlements''),
      (''rtgs_settlement_status_history'', ''rtgs_settlements''),
      (''transaction_status_history'', ''transactions'')]"

definition drop_history_immutable :: "string \<times> string \<times> string \<Rightarrow> stmt list" where
  "drop_history_immutable = (\<lambda>(table_name, _, _).
     let trg_name = ''trg_'' @ table_name @ ''_immutable'';
         fn_name = ''reject_'' @ table_name @ ''_mutation''
     in [DROP_TRIGGER trg_name table_name, DROP_FUNCTION fn_name])"

definition drop_guards :: "stmt list" where
  "drop_guards =
     [DROP_TRIGGER ''trg_escrow_holds_immutable'' ''escrow_holds'',
      DROP_FUNCTION ''reject_escrow_hold_mutation'',
      DROP_TRIGGER ''trg_outbox_events_immutable'' ''outbox_events'',
      DROP_FUNCTION ''reject_outbox_event_mutation'',
      DROP_TRIGGER ''trg_journal_entries_immutable'' ''journal_entries'',
      DROP_FUNCTION ''reject_journal_entry_mutation'']"

definition downgrade_0003 :: "stmt list" where
  "downgrade_0003 =
     drop_views @
     concat (map drop_sync DROP_SYNC_CONFIGS) @
     concat (map drop_history_immutable (rev STATUS_HISTORY_TABLES)) @
     drop_guards @
     map (\<lambda>(table_name, _, _). drop_table table_name) (rev STATUS_HISTORY_TABLES) @
     [drop_table ''escrow_holds'', drop_table ''outbox_events'', drop_table ''journal_entries'',
      drop_table ''chart_of_accounts'']"

section \<open>0004: roles, audit trail, idempotency\<close>

text \<open>
  The identifiers of the seeded keys come from \<open>uuid.uuid4\<close> and their hashes from \<open>hashlib\<close>; both
  are arguments.
\<close>

definition DEMO_KEYS :: "(string \<times> string \<times> string) list" where
  "DEMO_KEYS =
     [(''admin-key-demo-001'', ''Platform Admin'', ''admin''),
      (''approver-key-demo-001'', ''Settlement Approver'', ''approver''),
      (''signer-key-demo-001'', ''Settlement Signer'', ''signer''),
      (''trader-key-demo-001'', ''Institutional Trader'', ''trader''),
      (''auditor-key-demo-001'', ''Compliance Auditor'', ''auditor'')]"

definition user_role_enum :: sqltype where
  "user_role_enum =
     Enum ''user_role'' [''admin'', ''approver'', ''signer'', ''trader'', ''auditor'']"

definition api_keys_columns :: "column list" where
  "api_keys_columns =
     [primary_key (Column ''id'' UUID),
      not_null (unique (Column ''key_hash'' (String 64))),
      not_null (Column ''actor_id'' UUID),
      not_null (Column ''actor_name'' (String 255)),
      not_null (Column ''role'' user_role_enum),
      not_null (Column ''is_active'' Boolean),
      now_default (Column ''created_at'' DateTime),
      Column ''expires_at'' DateTime]"

definition create_api_keys :: stmt where
  "create_api_keys =
     create_table ''api_keys'' api_keys_columns []"

definition processed_events_columns :: "column list" where
  "processed_events_columns =
     [primary_key (Column ''event_id'' (String 255)),
      not_null (Column ''topic'' (String 255)),
      now_default (Column ''processed_at'' DateTime)]"

definition create_processed_events :: stmt where
  "create_processed_events =
     create_table ''processed_events'' processed_events_columns []"

definition api_key_indexes :: "stmt list" where
  "api_key_indexes =
     [create_index ''ix_api_keys_key_hash'' ''api_keys'' [''key_hash''] None,
      create_index ''ix_api_keys_actor_id'' ''api_keys'' [''actor_id''] None]"

definition new_statuses :: "stmt list" where
  "new_statuses =
     [ALTER_TYPE_ADD_VALUE ''settlement_status'' ''pending'',
      ALTER_TYPE_ADD_VALUE ''settlement_status'' ''approved'',
      ALTER_TYPE_ADD_VALUE ''settlement_status'' ''signed'',
      ALTER_TYPE_ADD_VALUE ''settlement_status'' ''broadcasted'',
      ALTER_TYPE_ADD_VALUE ''settlement_status'' ''confirmed'']"

definition approval_columns :: "stmt list" where
  "approval_columns =
     [add_column ''rtgs_settlements'' (Column ''approved_by'' UUID),
      add_column ''rtgs_settlements'' (Column ''approved_at'' DateTime),
      add_column ''rtgs_settlements'' (Column ''signed_by'' UUID),
      add_column ''rtgs_settlements'' (Column ''signed_at'' DateTime)]"

definition audit_tables :: "string list" where
  "audit_tables =
     [''token_issuances'', ''transactions'', ''rtgs_settlements'', ''fx_settlements'',
      ''escrow_contracts'', ''conditional_payments'', ''compliance_events'',
      ''transaction_status_history'', ''rtgs_settlement_status_history'',
      ''fx_settlement_status_history'', ''escrow_status_history'',
      ''conditional_payment_status_history'', ''token_issuance_status_history'']"

definition audit_columns :: "string \<Rightarrow> stmt list" where
  "audit_columns t =
     [add_column t (Column ''request_id'' UUID), add_column t (Column ''actor_id'' UUID),
      add_column t (Column ''actor_service'' (String 100))]"

definition seed_key ::
  "(nat \<Rightarrow> string) \<Rightarrow> (string \<Rightarrow> string) \<Rightarrow> nat \<times> string \<times> string \<times> string \<Rightarrow> stmt" where
  "seed_key uuid4 sha256 = (\<lambda>(i, raw_key, name, role).
     INSERT_INTO ''api_keys''
       [[(''id'', uuid4 (2 * i)), (''key_hash'', sha256 raw_key), (''actor_id'', uuid4 (2 * i + 1)),
         (''actor_name'', name), (''role'', role), (''is_active'', ''true'')]])"

definition seed_keys :: "(nat \<Rightarrow> string) \<Rightarrow> (string \<Rightarrow> string) \<Rightarrow> stmt list" where
  "seed_keys uuid4 sha256 = map (seed_key uuid4 sha256) (enumerate 0 DEMO_KEYS)"

definition structure_0004 :: "stmt list" where
  "structure_0004 =
     create_enum user_role_enum @
     create_api_keys # api_key_indexes @
     [create_processed_events] @
     new_statuses @
     approval_columns @
     concat (map audit_columns audit_tables)"

definition upgrade_0004 :: "(nat \<Rightarrow> string) \<Rightarrow> (string \<Rightarrow> string) \<Rightarrow> stmt list" where
  "upgrade_0004 uuid4 sha256 = structure_0004 @ seed_keys uuid4 sha256"

definition downgrade_0004 :: "stmt list" where
  "downgrade_0004 =
     concat (map (\<lambda>t. [drop_column t ''actor_service'', drop_column t ''actor_id'',
       drop_column t ''request_id'']) audit_tables) @
     [drop_column ''rtgs_settlements'' ''signed_at'', drop_column ''rtgs_settlements'' ''signed_by'',
      drop_column ''rtgs_settlements'' ''approved_at'', drop_column ''rtgs_settlements'' ''approved_by'',
      drop_table ''processed_events'',
      drop_index ''ix_api_keys_actor_id'' ''api_keys'', drop_index ''ix_api_keys_key_hash'' ''api_keys'',
      drop_table ''api_keys'',
      DROP_TYPE ''user_role'']"

section \<open>The chain of revisions\<close>

text \<open>
  Each script names itself and the revision it follows. A revision is reached by applying, from the
  base on, the scripts that this chain leads through; a name that no script bears ends it.
\<close>

record revision =
  revision_id :: string
  down_revision :: "string option"
  upgrade_script :: "stmt list"
  downgrade_script :: "stmt list"

definition revision_0001 :: revision where
  "revision_0001 = \<lparr>revision_id = ''0001_initial'', down_revision = None,
     upgrade_script = upgrade_0001, downgrade_script = downgrade_0001\<rparr>"

definition revision_0002 :: revision where
  "revision_0002 = \<lparr>revision_id = ''0002_perf_indexes'', down_revision = Some ''0001_initial'',
     upgrade_script = upgrade_0002, downgrade_script = downgrade_0002\<rparr>"

definition revision_0003 :: revision where
  "revision_0003 = \<lparr>revision_id = ''0003_blockchain_grade'', down_revision = Some ''0002_perf_indexes'',
     upgrade_script = upgrade_0003, downgrade_script = downgrade_0003\<rparr>"

definition revision_0004 :: "(nat \<Rightarrow> string) \<Rightarrow> (string \<Rightarrow> string) \<Rightarrow> revision" where
  "revision_0004 uuid4 sha256 = \<lparr>revision_id = ''0004'', down_revision = Some ''0003'',
     upgrade_script = upgrade_0004 uuid4 sha256, downgrade_script = downgrade_0004\<rparr>"

definition revisions :: "(nat \<Rightarrow> string) \<Rightarrow> (string \<Rightarrow> string) \<Rightarrow> revision list" where
  "revisions uuid4 sha256 = [revision_0001, revision_0002, revision_0003, revision_0004 uuid4 sha256]"

text \<open>The scripts from the base to a revision; the bound is on their number.\<close>

fun lineage :: "nat \<Rightarrow> revision list \<Rightarrow> string \<Rightarrow> revision list option" where
  "lineage 0 rs r = None"
| "lineage (Suc k) rs r =
     (case List.find (\<lambda>x. revision_id x = r) rs of
        None \<Rightarrow> None
      | Some x \<Rightarrow> (case down_revision x of
          None \<Rightarrow> Some [x]
        | Some d \<Rightarrow> map_option (\<lambda>xs. xs @ [x]) (lineage k rs d)))"

lemmas revision_defs = revisions_def revision_0001_def revision_0002_def revision_0003_def revision_0004_def

text \<open>
  The chain leads to revision 0003 through the first three scripts. Revision 0004 says that it follows
  a revision \<open>0003\<close>, and the third script calls itself \<open>0003_blockchain_grade\<close>: no chain, however long,
  leads from the base to 0004.
\<close>

theorem revision_0004_unreachable:
  "lineage (Suc (Suc (Suc k))) (revisions ids sha) ''0003_blockchain_grade'' =
     Some [revision_0001, revision_0002, revision_0003]"
  "lineage k (revisions ids sha) ''0004'' = None"
  subgoal by (simp add: revision_defs)
  subgoal
  proof (cases k)
    case (Suc j)
    then show ?thesis by (cases j) (simp_all add: revision_defs)
  qed simp
  done

end
