(* ===== verification/Reversal.thy ===== *)
theory Reversal
  imports Revisions
begin

text \<open>
  That the downgrades of revisions 0002 and 0003 lead back to the schema their upgrades started from,
  whatever else the database holds. A script is taken apart into pieces, each undone by a piece of
  the downgrade: an index by its removal, a function with its trigger by the removal of both, a view,
  and a table with everything that belongs to it.
\<close>

section \<open>Columns\<close>

lemma column_simps [simp]:
  "c_name (Column n t) = n" "c_name (not_null c) = c_name c" "c_name (unique c) = c_name c"
  "c_name (primary_key c) = c_name c" "c_name (server_default d c) = c_name c"
  "c_name (ForeignKey p k c) = c_name c" "c_name (now_default c) = c_name c" "c_name id_column = ''id''"
  "c_references (Column n t) = None" "c_references (not_null c) = c_references c"
  "c_references (unique c) = c_references c" "c_references (primary_key c) = c_references c"
  "c_references (server_default d c) = c_references c" "c_references (ForeignKey p k c) = Some (p, k)"
  "c_references (now_default c) = c_references c" "c_references id_column = None"
  "c_type (Column n t) = t" "c_type (not_null c) = c_type c" "c_type (unique c) = c_type c"
  "c_type (primary_key c) = c_type c" "c_type (server_default d c) = c_type c"
  "c_type (ForeignKey p k c) = c_type c" "c_type (now_default c) = c_type c" "c_type id_column = UUID"
  by (simp_all add: id_column_def now_default_def server_default_def primary_key_def not_null_def
      unique_def ForeignKey_def Column_def)

lemmas table_columns_defs = accounts_columns_def token_balances_columns_def ledger_entries_columns_def
  transactions_columns_def token_issuances_columns_def rtgs_settlements_columns_def
  escrow_contracts_columns_def conditional_payments_columns_def fx_rates_columns_def
  fx_settlements_columns_def compliance_events_columns_def chart_of_accounts_columns_def
  journal_entries_columns_def outbox_events_columns_def escrow_holds_columns_def
  api_keys_columns_def processed_events_columns_def

lemma column_projections:
  "column_names [] = []" "column_names (c # cs) = c_name c # column_names cs"
  "column_names (cs @ ds) = column_names cs @ column_names ds"
  "column_references [] = []" "column_references (cs @ ds) = column_references cs @ column_references ds"
  "column_references (c # cs) = (case c_references c of None \<Rightarrow> column_references cs | Some r \<Rightarrow> r # column_references cs)"
  "column_enums [] = []" "column_enums (cs @ ds) = column_enums cs @ column_enums ds"
  "column_enums (c # cs) = (case enum_of c of None \<Rightarrow> column_enums cs | Some r \<Rightarrow> r # column_enums cs)"
  by (simp_all add: column_names_def column_references_def column_enums_def List.map_filter_def split: option.splits)

lemma history_columns_eval:
  "column_names (history_columns t fk p) = [''id'', fk, ''status'', ''detail''] @
     (if t = ''transaction_status_history'' then [''tx_hash'', ''block_number''] else []) @ [''created_at'']"
  "column_references (history_columns t fk p) = [(p, ''id'')]"
  "column_enums (history_columns t fk p) = []"
  by (simp_all add: history_columns_def column_projections enum_of_def)

section \<open>Undoing\<close>

text \<open>
  Schemas in which every reference has its target: foreign keys, the relations a view reads, the
  functions of triggers.
\<close>

definition table_names :: "schema \<Rightarrow> string set" where "table_names s = t_name ` set (tables s)"
definition view_names :: "schema \<Rightarrow> string set" where "view_names s = fst ` set (views s)"
definition routine_names :: "schema \<Rightarrow> string set" where "routine_names s = fst ` set (routines s)"

definition trigger_functions :: "table \<Rightarrow> string set" where
  "trigger_functions t = (\<lambda>(_, _, f). f) ` set (t_triggers t)"

definition coherent :: "schema \<Rightarrow> bool" where
  "coherent s \<longleftrightarrow> distinct (map t_name (tables s)) \<and>
     (\<forall>t \<in> set (tables s). fst ` set (column_references (t_columns t)) \<subseteq> table_names s \<and>
        trigger_functions t \<subseteq> routine_names s) \<and>
     (\<forall>v \<in> set (views s). fst ` set (snd v) \<subseteq> table_names s \<union> view_names s)"

lemmas names_defs = table_names_def view_names_def routine_names_def

lemma calls_function: "list_ex (\<lambda>(_, _, h). h = f) (t_triggers t) \<longleftrightarrow> f \<in> trigger_functions t"
  by (force simp: list_ex_iff trigger_functions_def image_iff)

lemma relation_names_set:
  "set (relation_names s) = table_names s \<union> view_names s \<union> (\<Union>t \<in> set (tables s). fst ` set (t_indexes t))"
  by (auto simp: relation_names_def names_defs)

lemma drop_key_absent [simp]: "k \<notin> fst ` set xs \<Longrightarrow> drop_key k xs = xs"
  by (force simp: drop_key_def intro: filter_True)

lemma drop_key_append [simp]: "drop_key k (xs @ ys) = drop_key k xs @ drop_key k ys"
  by (simp add: drop_key_def)

lemma drop_key_Cons [simp]: "drop_key k [p] = (if fst p = k then [] else [p])"
  by (simp add: drop_key_def)

lemma find_table_None: "find_table s n = None \<longleftrightarrow> n \<notin> table_names s"
  by (auto simp: find_table_def find_None_iff names_defs)

lemma find_table_Some: "find_table s n = Some t \<Longrightarrow> t \<in> set (tables s) \<and> t_name t = n"
  by (auto simp: find_table_def dest: find_Some_iff)

lemma find_table_unique:
  "distinct (map t_name (tables s)) \<Longrightarrow> find_table s n = Some t \<Longrightarrow> r \<in> set (tables s) \<Longrightarrow> t_name r = n \<Longrightarrow> r = t"
  using find_table_Some by (fastforce simp: distinct_map inj_on_def)

lemma exec_all_append:
  "exec_all cf (xs @ ys) s = (case exec_all cf xs s of Inl e \<Rightarrow> Inl e | Inr s' \<Rightarrow> exec_all cf ys s')"
  by (induction xs arbitrary: s) (auto split: sum.splits)

lemma edit_simps [simp]:
  "enums (edit_table n f s) = enums s" "routines (edit_table n f s) = routines s"
  "views (edit_table n f s) = views s" "extensions (edit_table n f s) = extensions s"
  "view_names (edit_table n f s) = view_names s" "routine_names (edit_table n f s) = routine_names s"
  by (simp_all add: edit_table_def names_defs)

lemma edit_edit:
  "(\<And>t. t_name (f t) = t_name t) \<Longrightarrow>
     edit_table n g (edit_table n f s) = edit_table n (g \<circ> f) s"
  by (auto simp: edit_table_def)

lemma edit_same: "(\<And>t. t \<in> set (tables s) \<Longrightarrow> t_name t = n \<Longrightarrow> f t = t) \<Longrightarrow> edit_table n f s = s"
  by (cases s) (auto simp: edit_table_def intro: map_idI)

text \<open>
  One script undoes another when it leads back to the very schema the other started from. The names
  are those of the functions the other creates, which must not exist before.
\<close>

definition undoes :: "bool \<Rightarrow> string set \<Rightarrow> stmt list \<Rightarrow> stmt list \<Rightarrow> bool" where
  "undoes cf N d u \<longleftrightarrow> (\<forall>s s'. coherent s \<longrightarrow> N \<inter> routine_names s = {} \<longrightarrow> exec_all cf u s = Inr s' \<longrightarrow>
     coherent s' \<and> routine_names s' = routine_names s \<union> N \<and> exec_all cf d s' = Inr s)"

lemma undoesI:
  "(\<And>s s'. coherent s \<Longrightarrow> N \<inter> routine_names s = {} \<Longrightarrow> exec_all cf u s = Inr s' \<Longrightarrow>
     coherent s' \<and> routine_names s' = routine_names s \<union> N \<and> exec_all cf d s' = Inr s) \<Longrightarrow> undoes cf N d u"
  unfolding undoes_def by blast

lemma undoes_Nil: "undoes cf {} [] []"
  by (simp add: undoes_def)

lemma undoes_append:
  assumes "undoes cf N d u" "undoes cf M e v" "N \<inter> M = {}"
  shows "undoes cf (N \<union> M) (e @ d) (u @ v)"
proof (rule undoesI)
  fix s s' assume s: "coherent s" "(N \<union> M) \<inter> routine_names s = {}" "exec_all cf (u @ v) s = Inr s'"
  then obtain t where t: "exec_all cf u s = Inr t" "exec_all cf v t = Inr s'"
    by (auto simp: exec_all_append split: sum.splits)
  then have one: "coherent t" "routine_names t = routine_names s \<union> N" "exec_all cf d t = Inr s"
    using assms(1) s unfolding undoes_def by (blast+)
  then have "M \<inter> routine_names t = {}" using s(2) assms(3) by auto
  then have "coherent s'" "routine_names s' = routine_names t \<union> M" "exec_all cf e s' = Inr t"
    using assms(2) one(1) t(2) unfolding undoes_def by (blast+)
  then show "coherent s' \<and> routine_names s' = routine_names s \<union> (N \<union> M) \<and> exec_all cf (e @ d) s' = Inr s"
    using one by (auto simp: exec_all_append)
qed

lemma undoes_concat:
  assumes "\<And>x. x \<in> set xs \<Longrightarrow> undoes cf (N x) (d x) (u x)"
    and "pairwise (\<lambda>x y. N x \<inter> N y = {}) (set xs)" "distinct xs"
  shows "undoes cf (\<Union> (N ` set xs)) (concat (map d (rev xs))) (concat (map u xs))"
  using assms
proof (induction xs)
  case Nil then show ?case by (simp add: undoes_Nil)
next
  case (Cons x xs)
  have "undoes cf (\<Union> (N ` set xs)) (concat (map d (rev xs))) (concat (map u xs))"
    using Cons.prems by (intro Cons.IH) (auto simp: pairwise_def)
  moreover have "N x \<inter> \<Union> (N ` set xs) = {}"
    using Cons.prems(2,3) by (auto simp: pairwise_def)
  ultimately show ?case using Cons.prems(1) [of x] undoes_append by fastforce
qed

lemma undoes_named:
  assumes "distinct (map f xs)" "\<And>x. undoes cf {f x} (d x) (u x)"
  shows "undoes cf (f ` set xs) (concat (map d (rev xs))) (concat (map u xs))"
proof -
  have "undoes cf (\<Union>x \<in> set xs. {f x}) (concat (map d (rev xs))) (concat (map u xs))"
    using assms by (intro undoes_concat) (auto simp: pairwise_def distinct_map inj_on_def)
  moreover have "(\<Union>x \<in> set xs. {f x}) = f ` set xs" by blast
  ultimately show ?thesis by simp
qed

lemma undoes_plain: "undoes cf {} d u \<Longrightarrow> undoes cf M e v \<Longrightarrow> undoes cf M (e @ d) (u @ v)"
  using undoes_append [of cf "{}"] by simp

section \<open>Statements and what undoes them\<close>

lemma coherentD:
  assumes "coherent s"
  shows "distinct (map t_name (tables s))"
    and "t \<in> set (tables s) \<Longrightarrow> fst ` set (column_references (t_columns t)) \<subseteq> table_names s"
    and "t \<in> set (tables s) \<Longrightarrow> trigger_functions t \<subseteq> routine_names s"
    and "v \<in> set (views s) \<Longrightarrow> fst ` set (snd v) \<subseteq> table_names s \<union> view_names s"
  using assms unfolding coherent_def by blast+

lemma coherentI:
  assumes "distinct (map t_name (tables s))"
    and "\<And>t. t \<in> set (tables s) \<Longrightarrow> fst ` set (column_references (t_columns t)) \<subseteq> table_names s"
    and "\<And>t. t \<in> set (tables s) \<Longrightarrow> trigger_functions t \<subseteq> routine_names s"
    and "\<And>v. v \<in> set (views s) \<Longrightarrow> fst ` set (snd v) \<subseteq> table_names s \<union> view_names s"
  shows "coherent s"
  using assms unfolding coherent_def by blast+

lemma tables_edit: "r \<in> set (tables (edit_table n f s)) \<longleftrightarrow>
    (\<exists>t \<in> set (tables s). r = (if t_name t = n then f t else t))"
  by (force simp: edit_table_def image_iff)

lemma edit_names:
  assumes "\<And>t. t_name (f t) = t_name t"
  shows "map t_name (tables (edit_table n f s)) = map t_name (tables s)"
    and "table_names (edit_table n f s) = table_names s"
proof -
  show eq: "map t_name (tables (edit_table n f s)) = map t_name (tables s)"
    using assms by (simp add: edit_table_def comp_def if_distrib cong: if_cong)
  show "table_names (edit_table n f s) = table_names s"
    using arg_cong [OF eq, of set] by (simp add: table_names_def)
qed

lemma coherent_edit:
  assumes "coherent s" "\<And>t. t_name (f t) = t_name t" "\<And>t. t_columns (f t) = t_columns t"
    "\<And>t. t \<in> set (tables s) \<Longrightarrow> trigger_functions (f t) \<subseteq> routine_names s"
  shows "coherent (edit_table n f s)"
proof (rule coherentI)
  fix t assume "t \<in> set (tables (edit_table n f s))"
  then show "fst ` set (column_references (t_columns t)) \<subseteq> table_names (edit_table n f s)"
    unfolding edit_names(2) [OF assms(2)] tables_edit
    using coherentD(2) [OF assms(1)] assms(3) by (metis (no_types, lifting))
next
  fix t assume "t \<in> set (tables (edit_table n f s))"
  then show "trigger_functions t \<subseteq> routine_names (edit_table n f s)"
    using coherentD(3) [OF assms(1)] assms(4) by (auto simp: tables_edit split: if_splits)
qed (use assms coherentD(1,4) [OF assms(1)] in \<open>auto simp: edit_names [OF assms(2)]\<close>)

lemma undoes_index: "undoes cf {} [drop_index i n] [create_index i n ks w]"
proof (rule undoesI)
  fix s s' assume s: "coherent s" "exec_all cf [create_index i n ks w] s = Inr s'"
  let ?f = "\<lambda>t. t\<lparr>t_indexes := t_indexes t @ [(i, ks, w)]\<rparr>"
  have s': "s' = edit_table n ?f s" and fresh: "i \<notin> set (relation_names s)" and n: "n \<in> table_names s"
    using s(2) find_table_None [of s n] by (auto split: option.splits if_splits)
  have names: "table_names s' = table_names s" unfolding s' by (rule edit_names) simp
  have coh: "coherent s'" unfolding s' 
    using s(1) coherentD(3) [OF s(1)] by (intro coherent_edit) (simp_all add: trigger_functions_def)
  obtain t where t: "find_table s' n = Some t"
    using n names find_table_None [of s' n] by (cases "find_table s' n") simp_all
  have "i \<in> fst ` set (t_indexes t)"
  proof -
    have "t \<in> set (tables s')" "t_name t = n" using find_table_Some [OF t] by simp_all
    then obtain r where "t = (if t_name r = n then ?f r else r)" "t_name t = n"
      unfolding s' tables_edit by blast
    then have "t = ?f r" by (simp split: if_splits)
    then show ?thesis by simp
  qed
  moreover have "edit_table n (\<lambda>t. t\<lparr>t_indexes := drop_key i (t_indexes t)\<rparr>) s' = s"
    unfolding s' using fresh by (subst edit_edit) (auto intro!: edit_same simp: relation_names_set)
  ultimately show "coherent s' \<and> routine_names s' = routine_names s \<union> {} \<and> exec_all cf [drop_index i n] s' = Inr s"
    using coh t by (simp add: s')
qed

lemma undoes_view: "undoes cf {} [DROP_VIEW v] [CREATE_VIEW v ds]"
proof (rule undoesI)
  fix s s' assume s: "coherent s" "exec_all cf [CREATE_VIEW v ds] s = Inr s'"
  then have s': "s' = s\<lparr>views := views s @ [(v, ds)]\<rparr>" and fresh: "v \<notin> table_names s" "v \<notin> view_names s"
    and ds: "fst ` set ds \<subseteq> table_names s \<union> view_names s"
    by (auto simp: relation_names_set names_defs list_all_iff split: if_splits)
  have "v \<notin> fst ` set (snd w)" if "w \<in> set (views s)" for w
    using coherentD(4) [OF s(1) that] fresh by blast
  moreover have "v \<notin> fst ` set ds" using ds fresh by blast
  ultimately have "exec_all cf [DROP_VIEW v] s' = Inr s"
    using fresh by (auto simp: s' list_ex_iff names_defs split_beta)
  moreover have "coherent s'"
  proof (rule coherentI)
    fix x assume "x \<in> set (views s')"
    then have "fst ` set (snd x) \<subseteq> table_names s \<union> view_names s"
      using coherentD(4) [OF s(1), of x] ds unfolding s' by (cases "x = (v, ds)") simp_all
    then show "fst ` set (snd x) \<subseteq> table_names s' \<union> view_names s'"
      by (auto simp: s' names_defs)
  qed (use coherentD(1-3) [OF s(1)] in \<open>simp_all add: s' table_names_def routine_names_def\<close>)
  ultimately show "coherent s' \<and> routine_names s' = routine_names s \<union> {} \<and> exec_all cf [DROP_VIEW v] s' = Inr s"
    by (simp add: s' names_defs)
qed

lemma undoes_trigger:
  "undoes cf {f} [DROP_TRIGGER g n, DROP_FUNCTION f] [CREATE_FUNCTION f b, CREATE_TRIGGER g w n f]"
proof (rule undoesI)
  fix s s' assume s: "coherent s" "{f} \<inter> routine_names s = {}"
    "exec_all cf [CREATE_FUNCTION f b, CREATE_TRIGGER g w n f] s = Inr s'"
  let ?s = "s\<lparr>routines := routines s @ [(f, b)]\<rparr>" and ?f = "\<lambda>t. t\<lparr>t_triggers := t_triggers t @ [(g, w, f)]\<rparr>"
  have f: "f \<notin> fst ` set (routines s)" using s(2) by (simp add: routine_names_def)
  have find: "find_table ?s n = find_table s n" by (simp add: find_table_def)
  from s(3) f obtain t where t: "find_table s n = Some t" and g: "g \<notin> fst ` set (t_triggers t)"
    and s': "s' = edit_table n ?f ?s"
    by (auto simp: find split: option.splits if_splits)
  have coh: "coherent ?s"
  proof (rule coherentI)
    fix t assume "t \<in> set (tables ?s)"
    then show "trigger_functions t \<subseteq> routine_names ?s"
      using coherentD(3) [OF s(1), of t] by (auto simp: routine_names_def)
  qed (use coherentD(1,2,4) [OF s(1)] in \<open>simp_all add: table_names_def view_names_def\<close>)
  have "coherent s'"
    unfolding s' using coh coherentD(3) [OF coh]
    by (intro coherent_edit) (simp_all add: trigger_functions_def routine_names_def)
  moreover have "edit_table n (\<lambda>t. t\<lparr>t_triggers := drop_key g (t_triggers t)\<rparr>) s' = ?s"
    unfolding s'
  proof (subst edit_edit)
    show "edit_table n ((\<lambda>t. t\<lparr>t_triggers := drop_key g (t_triggers t)\<rparr>) \<circ> ?f) ?s = ?s"
    proof (rule edit_same)
      fix r assume "r \<in> set (tables ?s)" "t_name r = n"
      then have "r = t" using find_table_unique [OF coherentD(1) [OF s(1)] t] by simp
      then show "((\<lambda>t. t\<lparr>t_triggers := drop_key g (t_triggers t)\<rparr>) \<circ> ?f) r = r" using g by simp
    qed
  qed simp
  moreover have "\<not> list_ex (\<lambda>t. list_ex (\<lambda>(_, _, h). h = f) (t_triggers t)) (tables s)"
    unfolding calls_function unfolding list_ex_iff using coherentD(3) [OF s(1)] f unfolding routine_names_def by blast
  ultimately show "coherent s' \<and> routine_names s' = routine_names s \<union> {f} \<and>
      exec_all cf [DROP_TRIGGER g n, DROP_FUNCTION f] s' = Inr s"
    using f by (simp add: s' routine_names_def)
qed

text \<open>The statements that follow a new table and concern only it.\<close>

fun owned :: "string \<Rightarrow> stmt \<Rightarrow> bool" where
  "owned n (create_index _ m _ _) \<longleftrightarrow> m = n"
| "owned n (INSERT_INTO m _) \<longleftrightarrow> m = n"
| "owned n _ \<longleftrightarrow> False"

definition with_table :: "schema \<Rightarrow> table \<Rightarrow> schema" where
  "with_table s t = s\<lparr>tables := tables s @ [t]\<rparr>"

lemma with_table_simps [simp]:
  "views (with_table s t) = views s" "routines (with_table s t) = routines s"
  "tables (with_table s t) = tables s @ [t]"
  "view_names (with_table s t) = view_names s" "routine_names (with_table s t) = routine_names s"
  "table_names (with_table s t) = insert (t_name t) (table_names s)"
  by (simp_all add: with_table_def names_defs)

lemma find_with_table: "t_name t \<notin> table_names s \<Longrightarrow> find_table (with_table s t) (t_name t) = Some t"
proof -
  have "List.find (\<lambda>r. t_name r = t_name t) (xs @ [t]) = Some t" if "t_name t \<notin> t_name ` set xs" for xs
    using that by (induction xs) auto
  then show "t_name t \<notin> table_names s \<Longrightarrow> find_table (with_table s t) (t_name t) = Some t"
    by (simp add: find_table_def table_names_def)
qed

lemma edit_with_table:
  "t_name t \<notin> table_names s \<Longrightarrow> edit_table (t_name t) f (with_table s t) = with_table s (f t)"
proof -
  assume "t_name t \<notin> table_names s"
  then have "map (\<lambda>r. if t_name r = t_name t then f r else r) (tables s) = tables s"
    by (intro map_idI) (metis image_eqI table_names_def)
  then show ?thesis by (simp add: edit_table_def with_table_def)
qed

definition same_shape :: "table \<Rightarrow> table \<Rightarrow> bool" where
  "same_shape t r \<longleftrightarrow> t_name r = t_name t \<and> t_columns r = t_columns t \<and> t_triggers r = t_triggers t"

lemma insert_rows_shape: "insert_rows rs t = Inr r \<Longrightarrow> same_shape t r"
  by (induction rs t rule: insert_rows.induct) (auto simp: same_shape_def split: if_splits)

lemma owned_exec:
  assumes "owned (t_name t) x" "t_name t \<notin> table_names s" "exec cf x (with_table s t) = Inr s'"
  shows "\<exists>r. s' = with_table s r \<and> same_shape t r"
  using assms
  by (cases x) (auto simp: find_with_table edit_with_table same_shape_def
      dest!: insert_rows_shape split: if_splits sum.splits)

lemma owned_exec_all:
  assumes "list_all (owned (t_name t)) us" "t_name t \<notin> table_names s" "exec_all cf us (with_table s t) = Inr s'"
  shows "\<exists>r. s' = with_table s r \<and> same_shape t r"
  using assms
proof (induction us arbitrary: t)
  case Nil then show ?case by (auto simp: same_shape_def)
next
  case (Cons x us)
  then obtain s1 where x: "exec cf x (with_table s t) = Inr s1" "exec_all cf us s1 = Inr s'"
    by (auto split: sum.splits)
  then obtain r where r: "s1 = with_table s r" "same_shape t r" using Cons.prems owned_exec by fastforce
  then obtain q where "s' = with_table s q" "same_shape r q"
    using Cons.IH [of r] Cons.prems x(2) by (auto simp: same_shape_def)
  then show ?case using r by (auto simp: same_shape_def)
qed

lemma undoes_table:
  assumes plain: "column_enums cs = []" and own: "list_all (owned n) us"
  shows "undoes cf {} [drop_table n] (create_table n cs ks # us)"
proof (rule undoesI)
  fix s s' assume s: "coherent s" "exec_all cf (create_table n cs ks # us) s = Inr s'"
  let ?t = "\<lparr>t_name = n, t_columns = cs, t_constraints = ks, t_indexes = [], t_triggers = [], t_rows = []\<rparr>"
  from s(2) have fresh: "n \<notin> table_names s" "n \<notin> view_names s"
    and refs: "list_all (reference_ok s n (column_names cs)) (column_references cs)"
    and run: "exec_all cf us (with_table s ?t) = Inr s'"
    by (auto simp: plain relation_names_set with_table_def split: if_splits)
  then obtain r where s': "s' = with_table s r" and r: "t_name r = n" "t_columns r = cs" "t_triggers r = []"
    using owned_exec_all [of ?t us s cf s'] own by (auto simp: same_shape_def)
  have ref: "fst ` set (column_references cs) \<subseteq> insert n (table_names s)"
    using refs find_table_None [of s]
    by (fastforce simp: list_all_iff reference_ok_def split: option.splits)
  have old: "n \<notin> fst ` set (column_references (t_columns t))" if "t \<in> set (tables s)" for t
    using coherentD(2) [OF s(1) that] fresh(1) by blast
  have unread: "n \<notin> fst ` set (snd v)" if "v \<in> set (views s)" for v
    using coherentD(4) [OF s(1) that] fresh by blast
  have "tables s = filter (\<lambda>t. t_name t \<noteq> n) (tables s)"
    using fresh(1) by (auto simp: names_defs intro!: filter_True [symmetric])
  then have "exec_all cf [drop_table n] s' = Inr s"
    using find_with_table [of r s] fresh(1) r old unread
    by (auto simp: s' list_ex_iff split_beta with_table_def)
  moreover have "coherent s'"
  proof (rule coherentI)
    show "distinct (map t_name (tables s'))"
      using coherentD(1) [OF s(1)] fresh(1) by (simp add: s' r names_defs)
    fix t assume t: "t \<in> set (tables s')"
    show "trigger_functions t \<subseteq> routine_names s'"
    proof (cases "t = r")
      case True
      then show ?thesis using r(3) by (simp add: trigger_functions_def)
    next
      case False
      then show ?thesis using t coherentD(3) [OF s(1), of t] by (simp add: s')
    qed
    show "fst ` set (column_references (t_columns t)) \<subseteq> table_names s'"
      using t ref coherentD(2) [OF s(1), of t] r by (cases "t = r") (simp_all add: s' subset_insertI2)
  next
    fix v assume "v \<in> set (views s')"
    then show "fst ` set (snd v) \<subseteq> table_names s' \<union> view_names s'"
      using coherentD(4) [OF s(1), of v] by (auto simp: s')
  qed
  ultimately show "coherent s' \<and> routine_names s' = routine_names s \<union> {} \<and> exec_all cf [drop_table n] s' = Inr s"
    by (simp add: s')
qed

section \<open>Reversible revisions\<close>

text \<open>A revision whose downgrade undoes its upgrade, whatever else the database holds.\<close>

locale reversible =
  fixes cf :: bool and N :: "string set" and up down :: "stmt list"
  assumes undoing: "undoes cf N down up"
begin

lemma downgrade_restores:
  "coherent s \<Longrightarrow> N \<inter> routine_names s = {} \<Longrightarrow> exec_all cf up s = Inr s' \<Longrightarrow> exec_all cf down s' = Inr s"
  using undoing unfolding undoes_def by blast

lemma upgrade_coherent:
  "coherent s \<Longrightarrow> N \<inter> routine_names s = {} \<Longrightarrow> exec_all cf up s = Inr s' \<Longrightarrow> coherent s'"
  using undoing unfolding undoes_def by blast

lemma upgrade_again:
  assumes "coherent s" "N \<inter> routine_names s = {}" "exec_all cf up s = Inr s'"
  shows "exec_all cf (down @ up) s' = Inr s'"
  using downgrade_restores [OF assms] assms(3) by (simp add: exec_all_append)

end

fun index_undo :: "stmt \<Rightarrow> stmt list" where
  "index_undo (create_index i n _ _) = [drop_index i n]"
| "index_undo _ = []"

lemma undoes_indexes:
  "list_all (\<lambda>u. index_undo u \<noteq> []) us \<Longrightarrow> undoes cf {} (concat (map index_undo (rev us))) us"
proof (induction us)
  case Nil then show ?case by (simp add: undoes_Nil)
next
  case (Cons u us)
  then obtain i n ks w where "u = create_index i n ks w" by (cases u) auto
  then show ?case using undoes_append [OF undoes_index Cons.IH, of i n ks w] Cons.prems by simp
qed

interpretation rev2: reversible cf "{}" upgrade_0002 downgrade_0002
proof
  have "downgrade_0002 = concat (map index_undo (rev upgrade_0002))"
    by (simp add: upgrade_0002_def downgrade_0002_def)
  then show "undoes cf {} downgrade_0002 upgrade_0002"
    using undoes_indexes [of upgrade_0002] by (simp add: upgrade_0002_def)
qed

text \<open>The functions that revision 0003 creates.\<close>

definition guard_names :: "string set" where
  "guard_names = {''reject_journal_entry_mutation'', ''reject_outbox_event_mutation'',
     ''reject_escrow_hold_mutation''}"

definition functions_0003 :: "string set" where
  "functions_0003 = guard_names \<union> (\<lambda>(t, _, _). ''reject_'' @ t @ ''_mutation'') ` set STATUS_HISTORY_TABLES \<union>
     (\<lambda>(_, _, p). ''sync_'' @ p @ ''_status'') ` set SYNC_CONFIGS"

lemma undoes_history:
  "undoes cf {} [drop_table (fst h)] (create_history h)"
  by (cases h) (auto simp: create_history_def history_columns_eval intro!: undoes_table)

lemma undoes_histories:
  "undoes cf {} (map (\<lambda>(t, _, _). drop_table t) (rev STATUS_HISTORY_TABLES))
     (concat (map create_history STATUS_HISTORY_TABLES))"
  using undoes_concat [of STATUS_HISTORY_TABLES cf "\<lambda>_. {}" "\<lambda>h. [drop_table (fst h)]" create_history]
    undoes_history
  by (simp add: STATUS_HISTORY_TABLES_def pairwise_def)

lemma undoes_history_guards:
  "undoes cf ((\<lambda>(t, _, _). ''reject_'' @ t @ ''_mutation'') ` set STATUS_HISTORY_TABLES)
     (concat (map drop_history_immutable (rev STATUS_HISTORY_TABLES)))
     (concat (map history_immutable STATUS_HISTORY_TABLES))"
proof (rule undoes_named)
  show "distinct (map (\<lambda>(t, _, _). ''reject_'' @ t @ ''_mutation'') STATUS_HISTORY_TABLES)"
    by (simp add: STATUS_HISTORY_TABLES_def)
  fix x show "undoes cf {(\<lambda>(t, _, _). ''reject_'' @ t @ ''_mutation'') x} (drop_history_immutable x) (history_immutable x)"
    unfolding drop_history_immutable_def history_immutable_def Let_def split_beta by (rule undoes_trigger)
qed

lemma undoes_syncs:
  "undoes cf ((\<lambda>(_, _, p). ''sync_'' @ p @ ''_status'') ` set SYNC_CONFIGS)
     (concat (map drop_sync DROP_SYNC_CONFIGS)) (concat (map sync_status SYNC_CONFIGS))"
proof -
  have "undoes cf ((\<lambda>(_, _, p). ''sync_'' @ p @ ''_status'') ` set SYNC_CONFIGS)
     (concat (map (\<lambda>(h, _, p). drop_sync (h, p)) (rev SYNC_CONFIGS))) (concat (map sync_status SYNC_CONFIGS))"
  proof (rule undoes_named)
    show "distinct (map (\<lambda>(_, _, p). ''sync_'' @ p @ ''_status'') SYNC_CONFIGS)"
      by (simp add: SYNC_CONFIGS_def)
    fix x show "undoes cf {(\<lambda>(_, _, p). ''sync_'' @ p @ ''_status'') x} ((\<lambda>(h, _, p). drop_sync (h, p)) x) (sync_status x)"
      unfolding drop_sync_def sync_status_def Let_def split_beta fst_conv snd_conv by (rule undoes_trigger)
  qed
  then show ?thesis by (simp add: SYNC_CONFIGS_def DROP_SYNC_CONFIGS_def)
qed

lemma undoes_guards:
  "undoes cf guard_names drop_guards (journal_immutable @ outbox_immutable @ holds_immutable)"
proof -
  have "undoes cf ({''reject_journal_entry_mutation''} \<union>
      ({''reject_outbox_event_mutation''} \<union> {''reject_escrow_hold_mutation''}))
    (([DROP_TRIGGER ''trg_escrow_holds_immutable'' ''escrow_holds'',
       DROP_FUNCTION ''reject_escrow_hold_mutation''] @
      [DROP_TRIGGER ''trg_outbox_events_immutable'' ''outbox_events'',
       DROP_FUNCTION ''reject_outbox_event_mutation'']) @
     [DROP_TRIGGER ''trg_journal_entries_immutable'' ''journal_entries'',
      DROP_FUNCTION ''reject_journal_entry_mutation''])
    (journal_immutable @ (outbox_immutable @ holds_immutable))"
    unfolding journal_immutable_def outbox_immutable_def holds_immutable_def
    by (intro undoes_append undoes_trigger) simp_all
  then show ?thesis by (simp add: guard_names_def drop_guards_def insert_commute)
qed

lemma undoes_views: "undoes cf {} drop_views create_views"
  using undoes_append [OF undoes_view undoes_append [OF undoes_view undoes_view]]
  by (simp add: drop_views_def create_views_def)

lemma undoes_new_tables:
  "undoes cf {} [drop_table ''chart_of_accounts''] [create_chart_of_accounts, INSERT_INTO ''chart_of_accounts'' chart_rows]"
  "undoes cf {} [drop_table ''journal_entries''] (create_journal_entries # journal_indexes)"
  "undoes cf {} [drop_table ''outbox_events''] [create_outbox_events, outbox_index]"
  "undoes cf {} [drop_table ''escrow_holds''] (create_escrow_holds # hold_indexes)"
  unfolding create_chart_of_accounts_def create_journal_entries_def create_outbox_events_def
    create_escrow_holds_def journal_indexes_def outbox_index_def hold_indexes_def
  by (rule undoes_table; simp add: table_columns_defs column_projections enum_of_def)+

lemma undoes_all_tables:
  "undoes cf {}
     (map (\<lambda>(t, _, _). drop_table t) (rev STATUS_HISTORY_TABLES) @
      [drop_table ''escrow_holds'', drop_table ''outbox_events'', drop_table ''journal_entries'',
       drop_table ''chart_of_accounts''])
     ([create_chart_of_accounts, INSERT_INTO ''chart_of_accounts'' chart_rows] @
      create_journal_entries # journal_indexes @ [create_outbox_events, outbox_index] @
      create_escrow_holds # hold_indexes @ concat (map create_history STATUS_HISTORY_TABLES))"
  using undoes_plain [OF undoes_new_tables(1) undoes_plain [OF undoes_new_tables(2)
      undoes_plain [OF undoes_new_tables(3) undoes_plain [OF undoes_new_tables(4) undoes_histories]]]]
  by simp

interpretation rev3: reversible cf functions_0003 upgrade_0003 downgrade_0003
proof
  let ?R = "(\<lambda>(t, _, _). ''reject_'' @ t @ ''_mutation'') ` set STATUS_HISTORY_TABLES"
    and ?S = "(\<lambda>(_, _, p). ''sync_'' @ p @ ''_status'') ` set SYNC_CONFIGS"
  have "guard_names \<inter> ?R = {}" "(guard_names \<union> ?R) \<inter> ?S = {}"
    by (auto simp: guard_names_def STATUS_HISTORY_TABLES_def SYNC_CONFIGS_def)
  note guards = undoes_append [OF undoes_append [OF undoes_guards undoes_history_guards this(1)] undoes_syncs this(2)]
  from undoes_append [OF undoes_plain [OF undoes_all_tables guards] undoes_views Int_empty_right]
  show "undoes cf functions_0003 downgrade_0003 upgrade_0003"
    unfolding functions_0003_def downgrade_0003_def upgrade_0003_def by (simp only: append_assoc append_Cons append_Nil Un_empty_right)
qed

section \<open>Properties\<close>

text \<open>
  C28. The downgrades of revisions 0003 and 0002 undo their upgrades: whenever both upgrades run
  through, on any schema whose references have their targets and that has none of the trigger
  functions yet, the two downgrades run through as well and leave the very schema the upgrades
  started from, with all its tables, rows, indexes, triggers, views and functions.
\<close>

theorem revisions_reversible:
  assumes "coherent s" "functions_0003 \<inter> routine_names s = {}"
    and "exec_all cf (upgrade_0002 @ upgrade_0003) s = Inr s'"
  shows "exec_all cf (downgrade_0003 @ downgrade_0002) s' = Inr s"
proof -
  obtain t where t: "exec_all cf upgrade_0002 s = Inr t" "exec_all cf upgrade_0003 t = Inr s'"
    using assms(3) by (auto simp: exec_all_append split: sum.splits)
  have "coherent t" "routine_names t = routine_names s"
    using rev2.undoing [of cf] assms(1) t(1) unfolding undoes_def by auto
  then have "exec_all cf downgrade_0003 s' = Inr t"
    using rev3.downgrade_restores [OF _ _ t(2)] assms(2) by simp
  moreover have "exec_all cf downgrade_0002 t = Inr s"
    using rev2.downgrade_restores [OF assms(1) _ t(1)] by simp
  ultimately show ?thesis by (simp add: exec_all_append)
qed

text \<open>A small schema with the columns the two scripts refer to.\<close>

definition bare_table :: "string \<Rightarrow> string list \<Rightarrow> table" where
  "bare_table n ks = \<lparr>t_name = n, t_columns = map (\<lambda>k. Column k Text) ks, t_constraints = [],
     t_indexes = [], t_triggers = [], t_rows = []\<rparr>"

definition bare_schema :: schema where
  "bare_schema = empty_schema\<lparr>tables :=
     [bare_table ''accounts'' [''id''], bare_table ''transactions'' [''id''],
      bare_table ''escrow_contracts'' [''id''],
      bare_table ''rtgs_settlements'' [''id'', ''sending_account_id'', ''receiving_account_id'', ''status''],
      bare_table ''fx_settlements'' [''id'', ''sending_account_id'', ''created_at''],
      bare_table ''compliance_events'' [''entity_type'', ''entity_id'', ''checked_at''],
      bare_table ''conditional_payments'' [''id'', ''expires_at''],
      bare_table ''ledger_entries'' [''account_id'', ''currency'', ''created_at''],
      bare_table ''token_issuances'' [''id'', ''custodian'', ''status'']]\<rparr>"

definition succeeds :: "ddl_error + schema \<Rightarrow> bool" where
  "succeeds r \<longleftrightarrow> (case r of Inl _ \<Rightarrow> False | Inr _ \<Rightarrow> True)"

lemma succeeds_Inr: "succeeds r \<Longrightarrow> \<exists>s. r = Inr s"
  by (cases r) (simp_all add: succeeds_def)

lemma bare_schema_upgrades: "succeeds (exec_all True (upgrade_0002 @ upgrade_0003) bare_schema)"
  by code_simp

lemma bare_schema_coherent: "coherent bare_schema \<and> functions_0003 \<inter> routine_names bare_schema = {}"
  by code_simp

theorem revisions_reversible_witness:
  "\<exists>s'. exec_all True (upgrade_0002 @ upgrade_0003) bare_schema = Inr s' \<and>
     exec_all True (downgrade_0003 @ downgrade_0002) s' = Inr bare_schema"
proof -
  obtain s' where s': "exec_all True (upgrade_0002 @ upgrade_0003) bare_schema = Inr s'"
    using succeeds_Inr [OF bare_schema_upgrades] by blast
  moreover have "exec_all True (downgrade_0003 @ downgrade_0002) s' = Inr bare_schema"
    using bare_schema_coherent by (intro revisions_reversible [OF _ _ s']) simp_all
  ultimately show ?thesis by blast
qed

text \<open>
  On an empty database the initial upgrade runs through and its downgrade leaves nothing but the two
  extensions, provided the types of the columns are looked up before they are created. Without that
  look-up the upgrade is refused at its first table, since it has created the types itself.
\<close>

theorem initial_revision:
  "exec_all True (upgrade_0001 @ downgrade_0001) empty_schema =
     Inr (empty_schema\<lparr>extensions := [''uuid-ossp'', ''pgcrypto'']\<rparr>) \<and>
   exec_all False upgrade_0001 empty_schema = Inl (DuplicateObject ''account_type'')"
  by code_simp

end
