(* ===== verification/Catalogue.thy ===== *)
theory Catalogue
  imports Reversal
begin

text \<open>
  What the migrations leave, read off the scripts: the columns of every table and the labels of every
  enumeration. Following one table or one enumeration through a script is a small abstract account of
  the execution, which carries the whole schema; the two are proved to agree.
\<close>

section \<open>What a script makes of one table and of one enumeration\<close>

fun columns_step :: "string \<Rightarrow> stmt \<Rightarrow> column list option \<Rightarrow> column list option" where
  "columns_step n (create_table m cs _) c = (if m = n then Some cs else c)"
| "columns_step n (drop_table m) c = (if m = n then None else c)"
| "columns_step n (add_column m d) c = (if m = n then map_option (\<lambda>cs. cs @ [d]) c else c)"
| "columns_step n (drop_column m k) c =
     (if m = n then map_option (filter (\<lambda>d. c_name d \<noteq> k)) c else c)"
| "columns_step n _ c = c"

fun labels_step :: "string \<Rightarrow> stmt \<Rightarrow> string list option \<Rightarrow> string list option" where
  "labels_step e (CREATE_TYPE m ls) l = (if m = e \<and> l = None then Some ls else l)"
| "labels_step e (ALTER_TYPE_ADD_VALUE m v) l =
     (if m = e then map_option (\<lambda>ls. if v \<in> set ls then ls else ls @ [v]) l else l)"
| "labels_step e (DROP_TYPE m) l = (if m = e then None else l)"
| "labels_step e (create_table _ cs _) l = (if l = None then map_of (column_enums cs) e else l)"
| "labels_step e _ l = l"

definition columns_after :: "string \<Rightarrow> stmt list \<Rightarrow> column list option \<Rightarrow> column list option" where
  "columns_after n p = fold (columns_step n) p"

definition labels_after :: "string \<Rightarrow> stmt list \<Rightarrow> string list option \<Rightarrow> string list option" where
  "labels_after e p = fold (labels_step e) p"

definition columns_of :: "schema \<Rightarrow> string \<Rightarrow> column list option" where
  "columns_of s n = map_option t_columns (find_table s n)"

definition labels_of :: "schema \<Rightarrow> string \<Rightarrow> string list option" where
  "labels_of s e = map_of (enums s) e"

lemma find_edit:
  assumes "\<And>t. t \<in> set (tables s) \<Longrightarrow> t_name t = m \<Longrightarrow> t_name (f t) = m"
  shows "find_table (edit_table m f s) n = (if n = m then map_option f (find_table s n) else find_table s n)"
proof -
  have "List.find (\<lambda>t. t_name t = n) (map (\<lambda>t. if t_name t = m then f t else t) ts) =
      (if n = m then map_option f (List.find (\<lambda>t. t_name t = n) ts) else List.find (\<lambda>t. t_name t = n) ts)"
    if "\<forall>t \<in> set ts. t_name t = m \<longrightarrow> t_name (f t) = m" for ts
    using that by (induction ts) auto
  then show ?thesis using assms by (simp add: find_table_def edit_table_def)
qed

lemma columns_edit:
  assumes "\<And>t. t_name (f t) = t_name t"
  shows "columns_of (edit_table m f s) n =
    (if n = m then map_option (\<lambda>t. t_columns (f t)) (find_table s n) else columns_of s n)"
  using assms by (simp add: columns_of_def find_edit option.map_comp comp_def)

lemma columns_edit_same:
  assumes "\<And>t. t_name (f t) = t_name t" "\<And>t. t_columns (f t) = t_columns t"
  shows "columns_of (edit_table m f s) n = columns_of s n"
  using columns_edit [OF assms(1), where m = m] assms(2) by (simp add: columns_of_def)

lemma columns_with_table:
  "t_name t \<notin> table_names s \<Longrightarrow>
     columns_of (with_table s t) n = (if n = t_name t then Some (t_columns t) else columns_of s n)"
proof -
  have "List.find (\<lambda>r. t_name r = n) (ts @ [t]) =
      (if n = t_name t then Some t else List.find (\<lambda>r. t_name r = n) ts)" if "t_name t \<notin> t_name ` set ts" for ts
    using that by (induction ts) auto
  then show "t_name t \<notin> table_names s \<Longrightarrow> ?thesis" by (simp add: columns_of_def find_table_def table_names_def)
qed

lemma columns_filter:
  "columns_of (s\<lparr>tables := filter (\<lambda>t. t_name t \<noteq> m) (tables s)\<rparr>) n = (if n = m then None else columns_of s n)"
proof -
  have "List.find (\<lambda>t. t_name t = n) (filter (\<lambda>t. t_name t \<noteq> m) ts) =
      (if n = m then None else List.find (\<lambda>t. t_name t = n) ts)" for ts
    by (induction ts) auto
  from this [of "tables s"] show ?thesis by (cases "n = m") (simp_all add: columns_of_def find_table_def)
qed

lemma columns_cong [simp]:
  "columns_of (s\<lparr>extensions := x\<rparr>) n = columns_of s n" "columns_of (s\<lparr>enums := y\<rparr>) n = columns_of s n"
  "columns_of (s\<lparr>routines := z\<rparr>) n = columns_of s n" "columns_of (s\<lparr>views := v\<rparr>) n = columns_of s n"
  by (simp_all add: columns_of_def find_table_def)

lemma columns_create:
  assumes "t_name t \<notin> table_names s"
  shows "columns_of (s\<lparr>enums := es, tables := tables s @ [t]\<rparr>) m =
    (if m = t_name t then Some (t_columns t) else columns_of s m)"
  using columns_with_table [of t "s\<lparr>enums := es\<rparr>" m] assms
  by (simp add: with_table_def table_names_def)

lemma columns_insert:
  assumes "find_table s m = Some t" "insert_rows rs t = Inr r"
  shows "columns_of (edit_table m (\<lambda>_. r) s) n = columns_of s n"
proof -
  have "t_name r = m" "t_columns r = t_columns t"
    using insert_rows_shape [OF assms(2)] find_table_Some [OF assms(1)] by (auto simp: same_shape_def)
  then show ?thesis using assms(1) by (simp add: columns_of_def find_edit)
qed

lemma exec_columns:
  assumes "exec cf x s = Inr s'"
  shows "columns_of s' n = columns_step n x (columns_of s n)"
  using assms
proof (cases x)
  case (create_table m cs ks)
  with assms show ?thesis
    by (auto simp: columns_create relation_names_set split: if_splits sum.splits)
next
  case (drop_table m)
  with assms show ?thesis by (auto simp: columns_filter split: if_splits)
next
  case (add_column m d)
  with assms show ?thesis
    by (auto simp: find_edit columns_of_def split: if_splits option.splits)
next
  case (drop_column m k)
  with assms show ?thesis
    by (auto simp: find_edit without_column_def columns_of_def split: if_splits option.splits)
next
  case (INSERT_INTO m rs)
  with assms show ?thesis by (auto simp: columns_insert split: option.splits sum.splits)
qed (auto simp: columns_edit_same split: if_splits option.splits)

lemma keys_map_of: "n \<in> fst ` set es \<longleftrightarrow> (\<exists>v. map_of es n = Some v)"
  using map_of_eq_None_iff [of es n] by auto

lemma inline_types_labels:
  "inline_types cf ts es = Inr es' \<Longrightarrow>
     map_of es' e = (case map_of es e of None \<Rightarrow> map_of ts e | Some ls \<Rightarrow> Some ls)"
  by (induction cf ts es rule: inline_types.induct)
    (auto simp: keys_map_of map_add_def split: if_splits option.splits)

lemma labels_drop_key: "map_of (drop_key k xs) e = (if e = k then None else map_of xs e)"
  by (induction xs) (auto simp: drop_key_def)

lemma labels_add:
  "map_of (map (\<lambda>(m, ks). (m, if m = n then ks @ [l] else ks)) es) e =
     (if e = n then map_option (\<lambda>ks. ks @ [l]) (map_of es e) else map_of es e)"
  by (induction es) auto

lemma exec_labels:
  assumes "exec cf x s = Inr s'"
  shows "labels_of s' e = labels_step e x (labels_of s e)"
  using assms
proof (cases x)
  case (create_table m cs ks)
  with assms show ?thesis
    by (auto simp: labels_of_def inline_types_labels split: if_splits sum.splits option.splits)
next
  case (CREATE_TYPE m ls)
  with assms show ?thesis
    by (auto simp: labels_of_def keys_map_of map_add_def split: if_splits option.splits)
next
  case (ALTER_TYPE_ADD_VALUE m l)
  with assms show ?thesis by (auto simp: labels_of_def labels_add split: if_splits option.splits)
qed (auto simp: labels_of_def labels_drop_key split: if_splits option.splits sum.splits)

lemma exec_all_catalogue:
  assumes "exec_all cf p s = Inr s'"
  shows "columns_of s' n = columns_after n p (columns_of s n)"
    and "labels_of s' e = labels_after e p (labels_of s e)"
  using assms
proof (induction p arbitrary: s)
  case Nil
  { case 1 then show ?case by (simp add: columns_after_def) next
    case 2 then show ?case by (simp add: labels_after_def) }
next
  case (Cons x p)
  { case 1 then show ?case using Cons.IH(1) exec_columns
      by (fastforce simp: columns_after_def split: sum.splits) next
    case 2 then show ?case using Cons.IH(2) exec_labels
      by (fastforce simp: labels_after_def split: sum.splits) }
qed

definition upgrades :: "(nat \<Rightarrow> string) \<Rightarrow> (string \<Rightarrow> string) \<Rightarrow> stmt list" where
  "upgrades ids sha = upgrade_0001 @ upgrade_0002 @ upgrade_0003 @ upgrade_0004 ids sha"

section \<open>The migrated tables\<close>

definition audited :: "column list" where
  "audited = [Column ''request_id'' UUID, Column ''actor_id'' UUID, Column ''actor_service'' (String 100)]"

lemma after_append [simp]:
  "columns_after n (p @ q) c = columns_after n q (columns_after n p c)"
  "labels_after e (p @ q) l = labels_after e q (labels_after e p l)"
  by (simp_all add: columns_after_def labels_after_def)

lemma after_Cons [simp]:
  "columns_after n [] c = c" "columns_after n (x # p) c = columns_after n p (columns_step n x c)"
  "labels_after e [] l = l" "labels_after e (x # p) l = labels_after e p (labels_step e x l)"
  by (simp_all add: columns_after_def labels_after_def)

lemmas create_defs = create_accounts_def create_token_balances_def create_ledger_entries_def
  create_transactions_def create_token_issuances_def create_rtgs_settlements_def
  create_escrow_contracts_def create_conditional_payments_def create_fx_rates_def
  create_fx_settlements_def create_compliance_events_def create_chart_of_accounts_def
  create_journal_entries_def create_outbox_events_def create_escrow_holds_def
  create_api_keys_def create_processed_events_def outbox_index_def

text \<open>Most statements concern neither columns nor labels.\<close>

fun inert :: "stmt \<Rightarrow> bool" where
  "inert (create_table _ _ _) = False" | "inert (drop_table _) = False"
| "inert (add_column _ _) = False" | "inert (drop_column _ _) = False"
| "inert (CREATE_TYPE _ _) = False" | "inert (ALTER_TYPE_ADD_VALUE _ _) = False"
| "inert (DROP_TYPE _) = False" | "inert _ = True"

lemma inert_step: "inert x \<Longrightarrow> columns_step n x c = c \<and> labels_step e x l = l"
  by (cases x) auto

lemma inert_after:
  assumes "list_all inert p"
  shows "columns_after n p c = c" "labels_after e p l = l"
  using assms by (induction p arbitrary: c l) (simp_all add: inert_step)

lemma inert_segments:
  "list_all inert initial_indexes" "list_all inert upgrade_0002" "list_all inert journal_indexes"
  "list_all inert hold_indexes" "list_all inert journal_immutable" "list_all inert outbox_immutable"
  "list_all inert holds_immutable" "list_all inert create_views" "list_all inert api_key_indexes"
  "list_all inert (history_immutable h)" "list_all inert (sync_status h)"
  "list_all inert (seed_keys ids sha)"
  by (simp_all add: initial_indexes_def upgrade_0002_def journal_indexes_def hold_indexes_def
      journal_immutable_def outbox_immutable_def holds_immutable_def create_views_def
      api_key_indexes_def history_immutable_def sync_status_def seed_keys_def seed_key_def
      list.pred_map list.pred_True comp_def split_beta Let_def)

lemma inert_concat: "(\<And>x. list_all inert (f x)) \<Longrightarrow> list_all inert (concat (map f xs))"
  by (induction xs) simp_all

lemmas inert_simps = inert_segments [THEN inert_after(1)] inert_segments [THEN inert_after(2)]
  inert_after(1) [OF inert_concat, OF inert_segments(10)] inert_after(2) [OF inert_concat, OF inert_segments(10)]
  inert_after(1) [OF inert_concat, OF inert_segments(11)] inert_after(2) [OF inert_concat, OF inert_segments(11)]

lemmas enum_defs = account_type_enum_def token_status_enum_def txn_status_enum_def
  settlement_status_enum_def escrow_status_enum_def currency_code_enum_def
  settlement_rails_enum_def condition_type_enum_def user_role_enum_def

definition approval :: "column list" where
  "approval = [Column ''approved_by'' UUID, Column ''approved_at'' DateTime,
     Column ''signed_by'' UUID, Column ''signed_at'' DateTime]"

lemmas upgrade_defs = upgrades_def upgrade_0001_def upgrade_0003_def upgrade_0004_def structure_0004_def
  create_defs approval_columns_def audit_columns_def audit_tables_def create_history_def
  STATUS_HISTORY_TABLES_def SYNC_CONFIGS_def initial_enums_def new_statuses_def enum_defs

lemma migrated_columns:
  "columns_after ''accounts'' (upgrades ids sha) None = Some accounts_columns"
  "columns_after ''api_keys'' (upgrades ids sha) None = Some api_keys_columns"
  "columns_after ''processed_events'' (upgrades ids sha) None = Some processed_events_columns"
  "columns_after ''token_balances'' (upgrades ids sha) None = Some token_balances_columns"
  "columns_after ''ledger_entries'' (upgrades ids sha) None = Some ledger_entries_columns"
  "columns_after ''chart_of_accounts'' (upgrades ids sha) None = Some chart_of_accounts_columns"
  "columns_after ''journal_entries'' (upgrades ids sha) None = Some journal_entries_columns"
  "columns_after ''outbox_events'' (upgrades ids sha) None = Some outbox_events_columns"
  "columns_after ''escrow_holds'' (upgrades ids sha) None = Some escrow_holds_columns"
  "columns_after ''fx_rates'' (upgrades ids sha) None = Some fx_rates_columns"
  "columns_after ''token_issuances'' (upgrades ids sha) None =
     Some (token_issuances_columns @ audited)"
  "columns_after ''transactions'' (upgrades ids sha) None =
     Some (transactions_columns @ audited)"
  "columns_after ''rtgs_settlements'' (upgrades ids sha) None =
     Some (rtgs_settlements_columns @ approval @ audited)"
  "columns_after ''fx_settlements'' (upgrades ids sha) None =
     Some (fx_settlements_columns @ audited)"
  "columns_after ''escrow_contracts'' (upgrades ids sha) None =
     Some (escrow_contracts_columns @ audited)"
  "columns_after ''conditional_payments'' (upgrades ids sha) None =
     Some (conditional_payments_columns @ audited)"
  "columns_after ''compliance_events'' (upgrades ids sha) None =
     Some (compliance_events_columns @ audited)"
  "columns_after ''transaction_status_history'' (upgrades ids sha) None =
     Some (history_columns ''transaction_status_history'' ''transaction_id'' ''transactions'' @ audited)"
  "columns_after ''rtgs_settlement_status_history'' (upgrades ids sha) None =
     Some (history_columns ''rtgs_settlement_status_history'' ''settlement_id'' ''rtgs_settlements'' @ audited)"
  "columns_after ''fx_settlement_status_history'' (upgrades ids sha) None =
     Some (history_columns ''fx_settlement_status_history'' ''settlement_id'' ''fx_settlements'' @ audited)"
  "columns_after ''escrow_status_history'' (upgrades ids sha) None =
     Some (history_columns ''escrow_status_history'' ''escrow_id'' ''escrow_contracts'' @ audited)"
  "columns_after ''conditional_payment_status_history'' (upgrades ids sha) None =
     Some (history_columns ''conditional_payment_status_history'' ''payment_id'' ''conditional_payments'' @ audited)"
  "columns_after ''token_issuance_status_history'' (upgrades ids sha) None =
     Some (history_columns ''token_issuance_status_history'' ''issuance_id'' ''token_issuances'' @ audited)"
  by (simp_all add: upgrade_defs inert_simps audited_def approval_def)

lemma migrated_labels:
  "labels_after ''account_type'' (upgrades ids sha) None =
     Some [''institutional'', ''bank'', ''correspondent'', ''central_bank'']"
  "labels_after ''token_status'' (upgrades ids sha) None = Some [''active'', ''suspended'', ''redeemed'']"
  "labels_after ''txn_status'' (upgrades ids sha) None =
     Some [''pending'', ''processing'', ''completed'', ''failed'', ''reversed'']"
  "labels_after ''settlement_status'' (upgrades ids sha) None =
     Some [''queued'', ''processing'', ''settled'', ''failed'', ''cancelled'', ''pending'', ''approved'',
       ''signed'', ''broadcasted'', ''confirmed'']"
  "labels_after ''escrow_status'' (upgrades ids sha) None =
     Some [''pending'', ''active'', ''released'', ''refunded'', ''expired'']"
  "labels_after ''currency_code'' (upgrades ids sha) None =
     Some [''USD'', ''EUR'', ''GBP'', ''JPY'', ''SGD'', ''CHF'', ''HKD'']"
  "labels_after ''settlement_rails'' (upgrades ids sha) None =
     Some [''blockchain'', ''swift'', ''internal'', ''fedwire'', ''target2'']"
  "labels_after ''condition_type'' (upgrades ids sha) None =
     Some [''time_lock'', ''oracle_trigger'', ''multi_sig'', ''delivery_confirmation'', ''kyc_verified'']"
  "labels_after ''user_role'' (upgrades ids sha) None =
     Some [''admin'', ''approver'', ''signer'', ''trader'', ''auditor'']"
  by (simp_all add: upgrade_defs inert_simps table_columns_defs column_projections history_columns_eval enum_of_def)


section \<open>Properties\<close>

text \<open>
  The account by tables is a refinement: whatever schema a script starts from, and whether or not
  it looks types up first, when it runs through, the columns of every table and the labels of every
  enumeration are those that following that table or enumeration alone through the script gives.
\<close>

theorem catalogue_refined:
  assumes "exec_all cf p s = Inr s'"
  shows "columns_of s' n = columns_after n p (columns_of s n) \<and> labels_of s' e = labels_after e p (labels_of s e)"
  using exec_all_catalogue [OF assms] by blast

theorem catalogue_refined_witness:
  "\<exists>s'. exec_all True (upgrade_0002 @ upgrade_0003) bare_schema = Inr s' \<and>
     columns_of s' ''escrow_holds'' = Some escrow_holds_columns"
proof -
  obtain s' where s': "exec_all True (upgrade_0002 @ upgrade_0003) bare_schema = Inr s'"
    using succeeds_Inr [OF bare_schema_upgrades] by blast
  have "columns_after ''escrow_holds'' (upgrade_0002 @ upgrade_0003) (columns_of bare_schema ''escrow_holds'') =
      Some escrow_holds_columns"
    by (simp add: upgrade_defs inert_simps)
  then show ?thesis using catalogue_refined [OF s', of "''escrow_holds''"] s' by simp
qed

text \<open>
  The status that a synchronising trigger copies: a column of an enumeration takes values of that
  enumeration only, there is no assignment from a character type without a cast.
\<close>

definition assignable :: "sqltype \<Rightarrow> sqltype \<Rightarrow> bool" where
  "assignable source target =
     (case target of Enum n _ \<Rightarrow> (case source of Enum m _ \<Rightarrow> m = n | _ \<Rightarrow> False) | _ \<Rightarrow> True)"

definition status_type :: "column list option \<Rightarrow> sqltype option" where
  "status_type cs = (case cs of None \<Rightarrow> None
     | Some ds \<Rightarrow> map_option c_type (List.find (\<lambda>d. c_name d = ''status'') ds))"

text \<open>
  Every one of the six triggers of revision 0003 assigns the character column of a history row to an
  enumeration of the parent without a cast, so that the insertion it fires on is refused.
\<close>

theorem sync_not_assignable:
  "list_all (\<lambda>(history, _, parent).
      (case (status_type (columns_after history (upgrades ids sha) None),
             status_type (columns_after parent (upgrades ids sha) None)) of
         (Some source, Some target) \<Rightarrow> \<not> assignable source target | _ \<Rightarrow> False)) SYNC_CONFIGS"
  by (simp add: SYNC_CONFIGS_def migrated_columns status_type_def assignable_def history_columns_def
      table_columns_defs enum_defs)

end
