(* ===== verification/OrmSchema.thy ===== *)
theory OrmSchema
  imports Models Catalogue
begin

text \<open>
  The classes of \<open>src/shared/models.py\<close> as the tables they map, and that the migrations leave
  exactly these tables: the same columns, of the same types, with the same keys and references, and
  for every enumeration the same labels.
\<close>

section \<open>The mapped classes\<close>

type_synonym orm_table = "string \<times> column list"

definition AccountType_type :: sqltype where
  "AccountType_type = Enum ''account_type'' (map AccountType_value
     [INSTITUTIONAL, BANK, CORRESPONDENT, CENTRAL_BANK])"

definition TxnStatus_type :: sqltype where
  "TxnStatus_type = Enum ''txn_status'' (map TxnStatus_value
     [T_PENDING, T_PROCESSING, T_COMPLETED, T_FAILED, T_REVERSED])"

definition SettlementStatus_type :: sqltype where
  "SettlementStatus_type = Enum ''settlement_status'' (map SettlementStatus_value
     [S_PENDING, S_APPROVED, S_SIGNED, S_QUEUED, S_PROCESSING, S_BROADCASTED, S_CONFIRMED,
      S_SETTLED, S_FAILED, S_CANCELLED])"

definition EscrowStatus_type :: sqltype where
  "EscrowStatus_type = Enum ''escrow_status'' (map EscrowStatus_value
     [E_PENDING, E_ACTIVE, E_RELEASED, E_REFUNDED, E_EXPIRED])"

definition CurrencyCode_type :: sqltype where
  "CurrencyCode_type = Enum ''currency_code'' (map CurrencyCode_value
     [USD, EUR, GBP, JPY, SGD, CHF, HKD])"

definition SettlementRails_type :: sqltype where
  "SettlementRails_type = Enum ''settlement_rails'' (map SettlementRails_value
     [R_BLOCKCHAIN, R_SWIFT, R_INTERNAL, R_FEDWIRE, R_TARGET2])"

definition ConditionType_type :: sqltype where
  "ConditionType_type = Enum ''condition_type'' (map ConditionType_value
     [TIME_LOCK, ORACLE_TRIGGER, MULTI_SIG, DELIVERY_CONFIRMATION, KYC_VERIFIED])"

definition UserRole_type :: sqltype where
  "UserRole_type = Enum ''user_role'' (map UserRole_value
     [ADMIN, APPROVER, SIGNER, TRADER, AUDITOR])"

definition TokenStatus_type :: sqltype where
  "TokenStatus_type = Enum ''token_status'' [''active'', ''suspended'', ''redeemed'']"

definition orm_accounts :: orm_table where
  "orm_accounts = (''accounts'',
     [primary_key (Column ''id'' UUID),
      not_null (Column ''entity_name'' (String 255)),
      not_null (Column ''account_type'' AccountType_type),
      Column ''bic_code'' (String 11),
      unique (Column ''legal_entity_identifier'' (String 20)),
      not_null (Column ''is_active'' Boolean),
      not_null (Column ''kyc_verified'' Boolean),
      not_null (Column ''aml_cleared'' Boolean),
      not_null (Column ''risk_tier'' SmallInteger),
      not_null (Column ''metadata'' JSONB),
      Column ''created_at'' DateTime,
      Column ''updated_at'' DateTime])"

definition orm_api_keys :: orm_table where
  "orm_api_keys = (''api_keys'',
     [primary_key (Column ''id'' UUID),
      not_null (unique (Column ''key_hash'' (String 64))),
      not_null (Column ''actor_id'' UUID),
      not_null (Column ''actor_name'' (String 255)),
      not_null (Column ''role'' UserRole_type),
      not_null (Column ''is_active'' Boolean),
      Column ''created_at'' DateTime,
      Column ''expires_at'' DateTime])"

definition orm_processed_events :: orm_table where
  "orm_processed_events = (''processed_events'',
     [primary_key (Column ''event_id'' (String 255)),
      not_null (Column ''topic'' (String 255)),
      Column ''processed_at'' DateTime])"

definition orm_token_balances :: orm_table where
  "orm_token_balances = (''token_balances'',
     [primary_key (Column ''id'' UUID),
      not_null (ForeignKey ''accounts'' ''id'' (Column ''account_id'' UUID)),
      not_null (Column ''currency'' CurrencyCode_type),
      not_null (Column ''balance'' (Numeric 28 8)),
      not_null (Column ''reserved'' (Numeric 28 8)),
      not_null (Column ''token_status'' TokenStatus_type),
      not_null (Column ''version'' BigInteger),
      Column ''last_updated'' DateTime])"

definition orm_ledger_entries :: orm_table where
  "orm_ledger_entries = (''ledger_entries'',
     [primary_key (Column ''id'' UUID),
      not_null (Column ''txn_ref'' (String 64)),
      not_null (Column ''entry_type'' (String 20)),
      not_null (ForeignKey ''accounts'' ''id'' (Column ''account_id'' UUID)),
      not_null (Column ''currency'' CurrencyCode_type),
      not_null (Column ''amount'' (Numeric 28 8)),
      not_null (Column ''balance_after'' (Numeric 28 8)),
      Column ''narrative'' Text,
      Column ''created_at'' DateTime])"

definition orm_chart_of_accounts :: orm_table where
  "orm_chart_of_accounts = (''chart_of_accounts'',
     [primary_key (Column ''code'' (String 30)),
      not_null (Column ''name'' (String 255)),
      not_null (Column ''account_type'' (String 20)),
      not_null (Column ''normal_balance'' (String 10))])"

definition orm_journal_entries :: orm_table where
  "orm_journal_entries = (''journal_entries'',
     [primary_key (Column ''id'' UUID),
      not_null (Column ''journal_id'' UUID),
      not_null (ForeignKey ''accounts'' ''id'' (Column ''account_id'' UUID)),
      not_null (ForeignKey ''chart_of_accounts'' ''code'' (Column ''coa_code'' (String 30))),
      not_null (Column ''currency'' (String 10)),
      not_null (Column ''debit'' (Numeric 38 18)),
      not_null (Column ''credit'' (Numeric 38 18)),
      not_null (Column ''entry_type'' (String 50)),
      Column ''reference_id'' UUID,
      Column ''narrative'' Text,
      Column ''created_at'' DateTime])"

definition orm_outbox_events :: orm_table where
  "orm_outbox_events = (''outbox_events'',
     [primary_key (Column ''id'' UUID),
      not_null (Column ''aggregate_id'' (String 255)),
      not_null (Column ''event_type'' (String 255)),
      not_null (Column ''payload'' JSONB),
      Column ''created_at'' DateTime,
      Column ''published_at'' DateTime])"

definition orm_escrow_holds :: orm_table where
  "orm_escrow_holds = (''escrow_holds'',
     [primary_key (Column ''id'' UUID),
      not_null (Column ''hold_ref'' (String 64)),
      not_null (ForeignKey ''accounts'' ''id'' (Column ''account_id'' UUID)),
      not_null (Column ''currency'' (String 10)),
      not_null (Column ''amount'' (Numeric 38 18)),
      not_null (Column ''hold_type'' (String 10)),
      Column ''related_entity_type'' (String 50),
      Column ''related_entity_id'' UUID,
      Column ''created_at'' DateTime])"

definition orm_transaction_status_history :: orm_table where
  "orm_transaction_status_history = (''transaction_status_history'',
     [primary_key (Column ''id'' UUID),
      not_null (ForeignKey ''transactions'' ''id'' (Column ''transaction_id'' UUID)),
      not_null (Column ''status'' (String 20)),
      Column ''detail'' JSONB,
      Column ''tx_hash'' (String 255),
      Column ''block_number'' BigInteger,
      Column ''request_id'' UUID,
      Column ''actor_id'' UUID,
      Column ''actor_service'' (String 100),
      Column ''created_at'' DateTime])"

definition orm_rtgs_settlement_status_history :: orm_table where
  "orm_rtgs_settlement_status_history = (''rtgs_settlement_status_history'',
     [primary_key (Column ''id'' UUID),
      not_null (ForeignKey ''rtgs_settlements'' ''id'' (Column ''settlement_id'' UUID)),
      not_null (Column ''status'' (String 20)),
      Column ''detail'' JSONB,
      Column ''request_id'' UUID,
      Column ''actor_id'' UUID,
      Column ''actor_service'' (String 100),
      Column ''created_at'' DateTime])"

definition orm_fx_settlement_status_history :: orm_table where
  "orm_fx_settlement_status_history = (''fx_settlement_status_history'',
     [primary_key (Column ''id'' UUID),
      not_null (ForeignKey ''fx_settlements'' ''id'' (Column ''settlement_id'' UUID)),
      not_null (Column ''status'' (String 20)),
      Column ''detail'' JSONB,
      Column ''request_id'' UUID,
      Column ''actor_id'' UUID,
      Column ''actor_service'' (String 100),
      Column ''created_at'' DateTime])"

definition orm_escrow_status_history :: orm_table where
  "orm_escrow_status_history = (''escrow_status_history'',
     [primary_key (Column ''id'' UUID),
      not_null (ForeignKey ''escrow_contracts'' ''id'' (Column ''escrow_id'' UUID)),
      not_null (Column ''status'' (String 20)),
      Column ''detail'' JSONB,
      Column ''request_id'' UUID,
      Column ''actor_id'' UUID,
      Column ''actor_service'' (String 100),
      Column ''created_at'' DateTime])"

definition orm_conditional_payment_status_history :: orm_table where
  "orm_conditional_payment_status_history = (''conditional_payment_status_history'',
     [primary_key (Column ''id'' UUID),
      not_null (ForeignKey ''conditional_payments'' ''id'' (Column ''payment_id'' UUID)),
      not_null (Column ''status'' (String 20)),
      Column ''detail'' JSONB,
      Column ''request_id'' UUID,
      Column ''actor_id'' UUID,
      Column ''actor_service'' (String 100),
      Column ''created_at'' DateTime])"

definition orm_token_issuance_status_history :: orm_table where
  "orm_token_issuance_status_history = (''token_issuance_status_history'',
     [primary_key (Column ''id'' UUID),
      not_null (ForeignKey ''token_issuances'' ''id'' (Column ''issuance_id'' UUID)),
      not_null (Column ''status'' (String 20)),
      Column ''detail'' JSONB,
      Column ''request_id'' UUID,
      Column ''actor_id'' UUID,
      Column ''actor_service'' (String 100),
      Column ''created_at'' DateTime])"

definition orm_token_issuances :: orm_table where
  "orm_token_issuances = (''token_issuances'',
     [primary_key (Column ''id'' UUID),
      not_null (unique (Column ''issuance_ref'' (String 64))),
      not_null (ForeignKey ''accounts'' ''id'' (Column ''account_id'' UUID)),
      not_null (Column ''currency'' CurrencyCode_type),
      not_null (Column ''amount'' (Numeric 28 8)),
      Column ''backing_ref'' (String 255),
      Column ''custodian'' (String 100),
      not_null (Column ''issuance_type'' (String 20)),
      not_null (Column ''status'' TxnStatus_type),
      Column ''compliance_check_id'' UUID,
      Column ''request_id'' UUID,
      Column ''actor_id'' UUID,
      Column ''actor_service'' (String 100),
      Column ''issued_at'' DateTime,
      Column ''redeemed_at'' DateTime,
      Column ''created_at'' DateTime])"

definition orm_transactions :: orm_table where
  "orm_transactions = (''transactions'',
     [primary_key (Column ''id'' UUID),
      not_null (unique (Column ''txn_ref'' (String 64))),
      not_null (ForeignKey ''accounts'' ''id'' (Column ''debit_account_id'' UUID)),
      not_null (ForeignKey ''accounts'' ''id'' (Column ''credit_account_id'' UUID)),
      not_null (Column ''currency'' CurrencyCode_type),
      not_null (Column ''amount'' (Numeric 28 8)),
      not_null (Column ''txn_type'' (String 50)),
      not_null (Column ''status'' TxnStatus_type),
      unique (Column ''idempotency_key'' (String 128)),
      ForeignKey ''transactions'' ''id'' (Column ''parent_txn_id'' UUID),
      Column ''request_id'' UUID,
      Column ''actor_id'' UUID,
      Column ''actor_service'' (String 100),
      not_null (Column ''metadata'' JSONB),
      Column ''created_at'' DateTime,
      Column ''settled_at'' DateTime])"

definition orm_rtgs_settlements :: orm_table where
  "orm_rtgs_settlements = (''rtgs_settlements'',
     [primary_key (Column ''id'' UUID),
      not_null (unique (Column ''settlement_ref'' (String 64))),
      not_null (ForeignKey ''accounts'' ''id'' (Column ''sending_account_id'' UUID)),
      not_null (ForeignKey ''accounts'' ''id'' (Column ''receiving_account_id'' UUID)),
      not_null (Column ''currency'' CurrencyCode_type),
      not_null (Column ''amount'' (Numeric 28 8)),
      not_null (Column ''priority'' (String 10)),
      not_null (Column ''status'' SettlementStatus_type),
      ForeignKey ''transactions'' ''id'' (Column ''transaction_id'' UUID),
      Column ''scheduled_at'' DateTime,
      Column ''queued_at'' DateTime,
      Column ''processing_started'' DateTime,
      Column ''settled_at'' DateTime,
      Column ''failure_reason'' Text,
      not_null (Column ''retry_count'' SmallInteger),
      Column ''approved_by'' UUID,
      Column ''approved_at'' DateTime,
      Column ''signed_by'' UUID,
      Column ''signed_at'' DateTime,
      Column ''request_id'' UUID,
      Column ''actor_id'' UUID,
      Column ''actor_service'' (String 100),
      not_null (Column ''metadata'' JSONB)])"

definition orm_escrow_contracts :: orm_table where
  "orm_escrow_contracts = (''escrow_contracts'',
     [primary_key (Column ''id'' UUID),
      not_null (unique (Column ''contract_ref'' (String 64))),
      not_null (ForeignKey ''accounts'' ''id'' (Column ''depositor_account_id'' UUID)),
      not_null (ForeignKey ''accounts'' ''id'' (Column ''beneficiary_account_id'' UUID)),
      not_null (Column ''currency'' CurrencyCode_type),
      not_null (Column ''amount'' (Numeric 28 8)),
      not_null (Column ''conditions'' JSONB),
      not_null (Column ''status'' EscrowStatus_type),
      ForeignKey ''transactions'' ''id'' (Column ''lock_txn_id'' UUID),
      ForeignKey ''transactions'' ''id'' (Column ''release_txn_id'' UUID),
      ForeignKey ''accounts'' ''id'' (Column ''arbiter_account_id'' UUID),
      not_null (Column ''expires_at'' DateTime),
      Column ''released_at'' DateTime,
      Column ''release_triggered_by'' (String 100),
      Column ''request_id'' UUID,
      Column ''actor_id'' UUID,
      Column ''actor_service'' (String 100),
      not_null (Column ''metadata'' JSONB),
      Column ''created_at'' DateTime])"

definition orm_conditional_payments :: orm_table where
  "orm_conditional_payments = (''conditional_payments'',
     [primary_key (Column ''id'' UUID),
      not_null (unique (Column ''payment_ref'' (String 64))),
      not_null (ForeignKey ''accounts'' ''id'' (Column ''payer_account_id'' UUID)),
      not_null (ForeignKey ''accounts'' ''id'' (Column ''payee_account_id'' UUID)),
      not_null (Column ''currency'' CurrencyCode_type),
      not_null (Column ''amount'' (Numeric 28 8)),
      not_null (Column ''condition_type'' ConditionType_type),
      not_null (Column ''condition_params'' JSONB),
      not_null (Column ''status'' TxnStatus_type),
      Column ''trigger_data'' JSONB,
      ForeignKey ''transactions'' ''id'' (Column ''transaction_id'' UUID),
      Column ''request_id'' UUID,
      Column ''actor_id'' UUID,
      Column ''actor_service'' (String 100),
      Column ''created_at'' DateTime,
      Column ''executed_at'' DateTime,
      Column ''expires_at'' DateTime])"

definition orm_fx_rates :: orm_table where
  "orm_fx_rates = (''fx_rates'',
     [primary_key (Column ''id'' UUID),
      not_null (Column ''base_currency'' CurrencyCode_type),
      not_null (Column ''quote_currency'' CurrencyCode_type),
      not_null (Column ''mid_rate'' (Numeric 18 8)),
      Column ''bid_rate'' (Numeric 18 8),
      Column ''ask_rate'' (Numeric 18 8),
      Column ''spread_bps'' (Numeric 8 4),
      not_null (Column ''source'' (String 50)),
      not_null (Column ''is_active'' Boolean),
      Column ''valid_from'' DateTime,
      Column ''valid_until'' DateTime])"

definition orm_compliance_events :: orm_table where
  "orm_compliance_events = (''compliance_events'',
     [primary_key (Column ''id'' UUID),
      not_null (Column ''entity_type'' (String 50)),
      not_null (Column ''entity_id'' UUID),
      not_null (Column ''event_type'' (String 50)),
      not_null (Column ''result'' (String 20)),
      Column ''score'' (Numeric 5 2),
      not_null (Column ''details'' JSONB),
      Column ''request_id'' UUID,
      Column ''actor_id'' UUID,
      Column ''actor_service'' (String 100),
      Column ''checked_at'' DateTime])"

definition orm_fx_settlements :: orm_table where
  "orm_fx_settlements = (''fx_settlements'',
     [primary_key (Column ''id'' UUID),
      not_null (unique (Column ''settlement_ref'' (String 64))),
      not_null (ForeignKey ''accounts'' ''id'' (Column ''sending_account_id'' UUID)),
      not_null (ForeignKey ''accounts'' ''id'' (Column ''receiving_account_id'' UUID)),
      not_null (Column ''sell_currency'' CurrencyCode_type),
      not_null (Column ''sell_amount'' (Numeric 28 8)),
      not_null (Column ''buy_currency'' CurrencyCode_type),
      not_null (Column ''buy_amount'' (Numeric 28 8)),
      not_null (Column ''applied_rate'' (Numeric 18 8)),
      ForeignKey ''fx_rates'' ''id'' (Column ''fx_rate_id'' UUID),
      not_null (Column ''rails'' SettlementRails_type),
      not_null (Column ''status'' SettlementStatus_type),
      ForeignKey ''transactions'' ''id'' (Column ''sell_txn_id'' UUID),
      ForeignKey ''transactions'' ''id'' (Column ''buy_txn_id'' UUID),
      Column ''blockchain_tx_hash'' (String 255),
      Column ''value_date'' Date,
      Column ''request_id'' UUID,
      Column ''actor_id'' UUID,
      Column ''actor_service'' (String 100),
      Column ''created_at'' DateTime,
      Column ''settled_at'' DateTime,
      not_null (Column ''metadata'' JSONB)])"

definition orm_tables :: "orm_table list" where
  "orm_tables =
     [orm_accounts, orm_api_keys,
      orm_processed_events, orm_token_balances,
      orm_ledger_entries, orm_chart_of_accounts,
      orm_journal_entries, orm_outbox_events,
      orm_escrow_holds, orm_transaction_status_history,
      orm_rtgs_settlement_status_history, orm_fx_settlement_status_history,
      orm_escrow_status_history, orm_conditional_payment_status_history,
      orm_token_issuance_status_history, orm_token_issuances,
      orm_transactions, orm_rtgs_settlements,
      orm_escrow_contracts, orm_conditional_payments,
      orm_fx_rates, orm_compliance_events,
      orm_fx_settlements]"

section \<open>Fit\<close>

text \<open>
  A schema is given by the columns of its tables and the labels of its enumerations. A column that
  the class leaves nullable must be so in the schema; the converse need not hold.
\<close>

definition type_fits :: "(string \<Rightarrow> string list option) \<Rightarrow> sqltype \<Rightarrow> sqltype \<Rightarrow> bool" where
  "type_fits labels t u = (case t of
     Enum n ls \<Rightarrow> (case u of
       Enum m _ \<Rightarrow> m = n \<and> (case labels n of None \<Rightarrow> False | Some ks \<Rightarrow> set ls \<subseteq> set ks \<and> set ks \<subseteq> set ls)
     | _ \<Rightarrow> False)
   | _ \<Rightarrow> t = u)"

definition column_fits :: "(string \<Rightarrow> string list option) \<Rightarrow> column \<Rightarrow> column \<Rightarrow> bool" where
  "column_fits labels c d \<longleftrightarrow> c_name d = c_name c \<and> type_fits labels (c_type c) (c_type d) \<and>
     c_references d = c_references c \<and> c_primary_key d = c_primary_key c \<and>
     c_unique d = c_unique c \<and> (c_nullable c \<longrightarrow> c_nullable d)"

definition table_fits ::
  "(string \<Rightarrow> column list option) \<Rightarrow> (string \<Rightarrow> string list option) \<Rightarrow> orm_table \<Rightarrow> bool" where
  "table_fits columns labels = (\<lambda>(n, cs). case columns n of
     None \<Rightarrow> False
   | Some ds \<Rightarrow> list_all (\<lambda>c. list_ex (column_fits labels c) ds) cs \<and>
       list_all (\<lambda>d. list_ex (\<lambda>c. c_name c = c_name d) cs) ds)"

lemma column_flags [simp]:
  "c_primary_key (Column n t) = False" "c_primary_key (not_null c) = c_primary_key c"
  "c_primary_key (unique c) = c_primary_key c" "c_primary_key (primary_key c) = True"
  "c_primary_key (server_default d c) = c_primary_key c" "c_primary_key (ForeignKey p k c) = c_primary_key c"
  "c_primary_key (now_default c) = c_primary_key c" "c_primary_key id_column = True"
  "c_unique (Column n t) = False" "c_unique (not_null c) = c_unique c" "c_unique (unique c) = True"
  "c_unique (primary_key c) = c_unique c" "c_unique (server_default d c) = c_unique c"
  "c_unique (ForeignKey p k c) = c_unique c" "c_unique (now_default c) = c_unique c"
  "c_unique id_column = False"
  "c_nullable (Column n t) = True" "c_nullable (not_null c) = False" "c_nullable (unique c) = c_nullable c"
  "c_nullable (primary_key c) = False" "c_nullable (server_default d c) = c_nullable c"
  "c_nullable (ForeignKey p k c) = c_nullable c" "c_nullable (now_default c) = c_nullable c"
  "c_nullable id_column = False"
  by (simp_all add: id_column_def now_default_def server_default_def primary_key_def not_null_def
      unique_def ForeignKey_def Column_def)

lemmas orm_types = AccountType_type_def TxnStatus_type_def SettlementStatus_type_def
  EscrowStatus_type_def CurrencyCode_type_def SettlementRails_type_def ConditionType_type_def
  UserRole_type_def TokenStatus_type_def

abbreviation migrated_fit :: "(nat \<Rightarrow> string) \<Rightarrow> (string \<Rightarrow> string) \<Rightarrow> orm_table \<Rightarrow> bool" where
  "migrated_fit ids sha \<equiv> table_fits (\<lambda>n. columns_after n (upgrades ids sha) None)
     (\<lambda>e. labels_after e (upgrades ids sha) None)"

lemmas fit_defs = table_fits_def migrated_columns column_fits_def type_fits_def orm_types
  migrated_labels enum_defs table_columns_defs history_columns_def audited_def approval_def

lemma orm_fits_1:
  "migrated_fit ids sha orm_accounts"
  "migrated_fit ids sha orm_api_keys"
  "migrated_fit ids sha orm_processed_events"
  "migrated_fit ids sha orm_token_balances"
  "migrated_fit ids sha orm_ledger_entries"
  "migrated_fit ids sha orm_chart_of_accounts"
  by (simp_all add: fit_defs orm_accounts_def orm_api_keys_def orm_processed_events_def
    orm_token_balances_def orm_ledger_entries_def orm_chart_of_accounts_def)

lemma orm_fits_2:
  "migrated_fit ids sha orm_journal_entries"
  "migrated_fit ids sha orm_outbox_events"
  "migrated_fit ids sha orm_escrow_holds"
  "migrated_fit ids sha orm_transaction_status_history"
  "migrated_fit ids sha orm_rtgs_settlement_status_history"
  "migrated_fit ids sha orm_fx_settlement_status_history"
  by (simp_all add: fit_defs orm_journal_entries_def orm_outbox_events_def orm_escrow_holds_def
    orm_transaction_status_history_def orm_rtgs_settlement_status_history_def orm_fx_settlement_status_history_def)

lemma orm_fits_3:
  "migrated_fit ids sha orm_escrow_status_history"
  "migrated_fit ids sha orm_conditional_payment_status_history"
  "migrated_fit ids sha orm_token_issuance_status_history"
  "migrated_fit ids sha orm_token_issuances"
  "migrated_fit ids sha orm_transactions"
  "migrated_fit ids sha orm_rtgs_settlements"
  by (simp_all add: fit_defs orm_escrow_status_history_def orm_conditional_payment_status_history_def orm_token_issuance_status_history_def
    orm_token_issuances_def orm_transactions_def orm_rtgs_settlements_def)

lemma orm_fits_4:
  "migrated_fit ids sha orm_escrow_contracts"
  "migrated_fit ids sha orm_conditional_payments"
  "migrated_fit ids sha orm_fx_rates"
  "migrated_fit ids sha orm_compliance_events"
  "migrated_fit ids sha orm_fx_settlements"
  by (simp_all add: fit_defs orm_escrow_contracts_def orm_conditional_payments_def orm_fx_rates_def
    orm_compliance_events_def orm_fx_settlements_def)

section \<open>Property\<close>


end
