(* ===== verification/DatabaseRules.thy ===== *)
theory DatabaseRules
  imports Interleaving
begin

text \<open>
  The part of revision 0003 that acts on rows: the three views on balances and the triggers that make
  the journal, the outbox, the holds and the status history immutable. The views are compared with
  the reading routines of \<open>src/shared/journal.py\<close>, the triggers with what the services do.
\<close>

section \<open>Views\<close>

text \<open>The rows of a view for one account and currency.\<close>

definition for_position :: "uuid \<Rightarrow> CurrencyCode \<Rightarrow> uuid \<times> CurrencyCode \<times> 'r \<Rightarrow> bool" where
  "for_position a c row \<longleftrightarrow> fst row = a \<and> fst (snd row) = c"

definition group_keys :: "('r \<Rightarrow> uuid) \<Rightarrow> ('r \<Rightarrow> CurrencyCode) \<Rightarrow> 'r list \<Rightarrow> (uuid \<times> CurrencyCode) list" where
  "group_keys account currency rows = remdups (map (\<lambda>r. (account r, currency r)) rows)"

definition account_balances :: "world \<Rightarrow> (uuid \<times> CurrencyCode \<times> rat) list" where
  "account_balances s =
     (let rows = filter (\<lambda>e. je_coa_code e = ''INSTITUTION_LIABILITY'') (journal_entries s)
      in map (\<lambda>(a, c). let g = filter (\<lambda>e. je_account_id e = a \<and> je_currency e = c) rows
                 in (a, c, (\<Sum>e\<leftarrow>g. je_credit e) - (\<Sum>e\<leftarrow>g. je_debit e)))
           (group_keys je_account_id je_currency rows))"

definition account_active_holds :: "world \<Rightarrow> (uuid \<times> CurrencyCode \<times> rat) list" where
  "account_active_holds s =
     map (\<lambda>(a, c). (a, c,
         \<Sum>h\<leftarrow>filter (\<lambda>h. eh_account_id h = a \<and> eh_currency h = c) (escrow_holds s).
           if eh_hold_type h = RESERVE then eh_amount h else - eh_amount h))
       (group_keys eh_account_id eh_currency (escrow_holds s))"

definition account_available_balances :: "world \<Rightarrow> (uuid \<times> CurrencyCode \<times> rat \<times> rat \<times> rat) list" where
  "account_available_balances s =
     concat (map (\<lambda>(a, c, balance).
       (case filter (for_position a c) (account_active_holds s) of
          [] \<Rightarrow> [(a, c, balance, 0, balance - 0)]
        | hs \<Rightarrow> map (\<lambda>(_, _, held). (a, c, balance, held, balance - held)) hs))
       (account_balances s))"

text \<open>A position is in the views once a liability entry was posted on it.\<close>

definition listed :: "world \<Rightarrow> uuid \<Rightarrow> CurrencyCode \<Rightarrow> bool" where
  "listed s a c \<longleftrightarrow> list_ex (on_position a c ''INSTITUTION_LIABILITY'') (journal_entries s)"

lemma filter_keyed:
  assumes "distinct xs" "\<And>x. key (f x) = x"
  shows "filter (\<lambda>r. key r = k) (map f xs) = (if k \<in> set xs then [f k] else [])"
  using assms(1) by (induction xs) (auto simp: assms(2))

lemma set_group_keys: "(a, c) \<in> set (group_keys account currency rows) \<longleftrightarrow>
    (\<exists>r \<in> set rows. account r = a \<and> currency r = c)"
  by (auto simp: group_keys_def)

lemma distinct_group_keys [simp]: "distinct (group_keys account currency rows)"
  by (simp add: group_keys_def)

lemma balances_of_key:
  "filter (for_position a c) (account_balances s) =
     (if listed s a c then [(a, c, liability s a c)] else [])"
proof -
  let ?rows = "filter (\<lambda>e. je_coa_code e = ''INSTITUTION_LIABILITY'') (journal_entries s)"
  let ?f = "\<lambda>(a, c). let g = filter (\<lambda>e. je_account_id e = a \<and> je_currency e = c) ?rows
                 in (a, c, (\<Sum>e\<leftarrow>g. je_credit e) - (\<Sum>e\<leftarrow>g. je_debit e))"
  have "filter (\<lambda>r. (\<lambda>(a, c, _). (a, c)) r = (a, c)) (map ?f (group_keys je_account_id je_currency ?rows)) =
      (if (a, c) \<in> set (group_keys je_account_id je_currency ?rows) then [?f (a, c)] else [])"
    by (rule filter_keyed) (auto simp: Let_def)
  moreover have "for_position a c = (\<lambda>r. (\<lambda>(a, c, _ :: rat). (a, c)) r = (a, c))"
    by (auto simp: for_position_def)
  moreover have "(a, c) \<in> set (group_keys je_account_id je_currency ?rows) \<longleftrightarrow> listed s a c"
    by (auto simp: set_group_keys listed_def list_ex_iff on_position_def)
  moreover have "?f (a, c) = (a, c, liability s a c)"
  proof -
    have "filter (\<lambda>e. je_account_id e = a \<and> je_currency e = c) ?rows =
        filter (on_position a c ''INSTITUTION_LIABILITY'') (journal_entries s)"
      by (auto simp: on_position_def intro: filter_cong)
    then show ?thesis
      by (simp add: balance_of_def coa_sign_def asset_codes_def Let_def sum_list_subtractf)
  qed
  ultimately show ?thesis by (simp add: account_balances_def Let_def)
qed

lemma holds_of_key:
  "filter (for_position a c) (account_active_holds s) =
     (if list_ex (\<lambda>h. eh_account_id h = a \<and> eh_currency h = c) (escrow_holds s)
      then [(a, c, active_holds s a c)] else [])"
proof -
  let ?f = "\<lambda>(a, c). (a, c,
         \<Sum>h\<leftarrow>filter (\<lambda>h. eh_account_id h = a \<and> eh_currency h = c) (escrow_holds s).
           if eh_hold_type h = RESERVE then eh_amount h else - eh_amount h)"
  have "filter (\<lambda>r. (\<lambda>(a, c, _). (a, c)) r = (a, c)) (map ?f (group_keys eh_account_id eh_currency (escrow_holds s))) =
      (if (a, c) \<in> set (group_keys eh_account_id eh_currency (escrow_holds s)) then [?f (a, c)] else [])"
    by (rule filter_keyed) auto
  moreover have "for_position a c = (\<lambda>r. (\<lambda>(a, c, _ :: rat). (a, c)) r = (a, c))"
    by (auto simp: for_position_def)
  moreover have "(\<Sum>h\<leftarrow>filter (\<lambda>h. eh_account_id h = a \<and> eh_currency h = c) hs.
         if eh_hold_type h = RESERVE then eh_amount h else - eh_amount h) =
      (\<Sum>h\<leftarrow>filter (\<lambda>h. eh_account_id h = a \<and> eh_currency h = c \<and> eh_hold_type h = RESERVE) hs. eh_amount h) -
      (\<Sum>h\<leftarrow>filter (\<lambda>h. eh_account_id h = a \<and> eh_currency h = c \<and> eh_hold_type h = RELEASE) hs. eh_amount h)" for hs
    by (induction hs) (auto intro: HoldType.exhaust)
  ultimately show ?thesis
    by (auto simp: account_active_holds_def set_group_keys list_ex_iff active_holds_def holds_of_def)
qed

lemma no_holds:
  assumes "\<not> list_ex (\<lambda>h. eh_account_id h = a \<and> eh_currency h = c) (escrow_holds s)"
  shows "active_holds s a c = 0"
proof -
  have "filter (\<lambda>h. eh_account_id h = a \<and> eh_currency h = c \<and> eh_hold_type h = ht) (escrow_holds s) = []" for ht
    using assms by (auto simp: list_ex_iff filter_empty_conv)
  then show ?thesis by (simp add: active_holds_def holds_of_def)
qed

lemma available_rows:
  "account_available_balances s =
     map (\<lambda>(a, c, b). (a, c, b, active_holds s a c, b - active_holds s a c)) (account_balances s)"
proof -
  have "(case filter (for_position a c) (account_active_holds s) of
          [] \<Rightarrow> [(a, c, b, 0, b - 0)]
        | hs \<Rightarrow> map (\<lambda>(_, _, held). (a, c, b, held, b - held)) hs) =
      [(a, c, b, active_holds s a c, b - active_holds s a c)]" for a c b
    using no_holds [of a c s] by (simp add: holds_of_key)
  then have "account_available_balances s =
      concat (map (\<lambda>(a, c, b). [(a, c, b, active_holds s a c, b - active_holds s a c)]) (account_balances s))"
    by (simp add: account_available_balances_def)
  moreover have "concat (map (\<lambda>(a, c, b). [(a, c, b, active_holds s a c, b - active_holds s a c)]) xs) =
      map (\<lambda>(a, c, b). (a, c, b, active_holds s a c, b - active_holds s a c)) xs" for xs
    by (induction xs) auto
  ultimately show ?thesis by simp
qed

lemma available_of_key:
  "filter (for_position a c) (account_available_balances s) =
     (if listed s a c
      then [(a, c, liability s a c, active_holds s a c, liability s a c - active_holds s a c)] else [])"
proof -
  have "for_position a c \<circ> (\<lambda>(a, c, b). (a, c, b, active_holds s a c, b - active_holds s a c)) = for_position a c"
    by (auto simp: for_position_def)
  then have "filter (for_position a c) (account_available_balances s) =
      map (\<lambda>(a, c, b). (a, c, b, active_holds s a c, b - active_holds s a c))
        (filter (for_position a c) (account_balances s))"
    by (simp add: available_rows filter_map)
  then show ?thesis by (simp add: balances_of_key del: get_balance_eq)
qed

lemma unlisted_balance: "\<not> listed s a c \<Longrightarrow> liability s a c = 0"
  by (simp add: listed_def list_ex_iff balance_of_def filter_False)

text \<open>
  C26. The view of available balances says what the services compute: for every account and currency
  with a liability entry it has exactly one row, with the balance, the active holds and the available
  balance that the services read, while amounts stay below ten billion; for any other it has no row,
  and the balance is zero.
\<close>

theorem available_view:
  assumes "columns_ok s" "\<bar>active_holds s a c\<bar> < 10 ^ 10"
    and "\<bar>liability s a c - active_holds s a c\<bar> < 10 ^ 10"
  shows "filter (for_position a c) (account_available_balances s) =
      (if listed s a c
       then [(a, c, liability s a c, active_holds s a c, get_available_balance s a c)] else []) \<and>
    (\<not> listed s a c \<longrightarrow> liability s a c = 0)"
  using available_exact [OF assms] available_of_key [of a c s] unlisted_balance [of s a c] by simp

theorem available_view_witness:
  "filter (for_position 2 USD) (account_available_balances sample_world) =
     [(2, USD, 1000, 0, 1000)] \<and> get_available_balance sample_world 2 USD = 1000"
proof -
  have cols: "columns_ok sample_world" by (simp add: places_ok_def sample_defs on_grid_def)
  have holds: "active_holds sample_world 2 USD = 0" by (simp add: active_holds_def holds_of_def sample_defs)
  moreover have "liability sample_world 2 USD = 1000" by simp
  moreover have "listed sample_world 2 USD" by (simp add: listed_def on_position_def sample_defs)
  moreover have "get_available_balance sample_world 2 USD = 1000"
    using available_exact [OF cols, of 2 USD] holds by simp
  ultimately show ?thesis using available_view [OF cols, of 2 USD] by simp
qed

section \<open>Triggers\<close>

datatype 'r row_change = Update 'r 'r | Delete 'r

definition reject_journal_entry_mutation :: "JournalEntry row_change \<Rightarrow> string option" where
  "reject_journal_entry_mutation ch =
     Some ''journal_entries rows are immutable -- UPDATE and DELETE are forbidden''"

definition reject_escrow_hold_mutation :: "EscrowHold row_change \<Rightarrow> string option" where
  "reject_escrow_hold_mutation ch =
     Some ''escrow_holds rows are immutable -- UPDATE and DELETE are forbidden''"

text \<open>The rows of the six history tables are kept together, each with the table it belongs to.\<close>

fun old_row :: "'r row_change \<Rightarrow> 'r" where
  "old_row (Update old new) = old"
| "old_row (Delete old) = old"

primrec table_name :: "history_table \<Rightarrow> string" where
  "table_name TransactionStatusHistory = ''transaction_status_history''"
| "table_name RTGSSettlementStatusHistory = ''rtgs_settlement_status_history''"
| "table_name FXSettlementStatusHistory = ''fx_settlement_status_history''"
| "table_name EscrowStatusHistory = ''escrow_status_history''"
| "table_name ConditionalPaymentStatusHistory = ''conditional_payment_status_history''"
| "table_name TokenIssuanceStatusHistory = ''token_issuance_status_history''"

definition reject_history_mutation :: "StatusHistory row_change \<Rightarrow> string option" where
  "reject_history_mutation ch =
     Some (table_name (sh_table (old_row ch)) @ '' rows are immutable -- UPDATE and DELETE are forbidden'')"

fun reject_outbox_event_mutation :: "OutboxEvent row_change \<Rightarrow> string option" where
  "reject_outbox_event_mutation (Delete old) = Some ''outbox_events rows cannot be deleted''"
| "reject_outbox_event_mutation (Update old new) =
     (if oe_id old \<noteq> oe_id new \<or> oe_aggregate_id old \<noteq> oe_aggregate_id new \<or>
         oe_event_type old \<noteq> oe_event_type new \<or> oe_payload old \<noteq> oe_payload new \<or>
         oe_created_at old \<noteq> oe_created_at new
      then Some ''outbox_events -- only published_at may be updated'' else None)"

text \<open>The updates and deletions that lead from one content of a table to another, row by row.\<close>

definition row_changes :: "('r \<Rightarrow> 'k) \<Rightarrow> 'r list \<Rightarrow> 'r list \<Rightarrow> 'r row_change list" where
  "row_changes key old new = concat (map (\<lambda>r. case List.find (\<lambda>q. key q = key r) new of
     None \<Rightarrow> [Delete r] | Some q \<Rightarrow> if q = r then [] else [Update r q]) old)"

text \<open>The exceptions the triggers raise when one state of the database is taken to another.\<close>

definition raised :: "world \<Rightarrow> world \<Rightarrow> string list" where
  "raised s s' =
     List.map_filter reject_journal_entry_mutation (row_changes je_id (journal_entries s) (journal_entries s')) @
     List.map_filter reject_outbox_event_mutation (row_changes oe_id (outbox_events s) (outbox_events s')) @
     List.map_filter reject_escrow_hold_mutation (row_changes eh_id (escrow_holds s) (escrow_holds s')) @
     List.map_filter reject_history_mutation (row_changes sh_id (status_history s) (status_history s'))"

text \<open>Primary keys.\<close>

definition keyed :: "world \<Rightarrow> bool" where
  "keyed s \<longleftrightarrow> distinct (map je_id (journal_entries s)) \<and> distinct (map oe_id (outbox_events s)) \<and>
     distinct (map eh_id (escrow_holds s)) \<and> distinct (map sh_id (status_history s))"

lemma find_distinct:
  "distinct (map key rows) \<Longrightarrow> r \<in> set rows \<Longrightarrow> List.find (\<lambda>q. key q = key r) (rows @ rest) = Some r"
  by (induction rows) (auto simp: image_iff)

lemma row_changes_prefix:
  assumes "distinct (map key old)" "prefix old new"
  shows "row_changes key old new = []"
proof -
  obtain rest where "new = old @ rest" using assms(2) by (auto simp: prefix_def)
  then show ?thesis using find_distinct [OF assms(1)] by (auto simp: row_changes_def)
qed

lemma find_image: "List.find P (map f xs) = map_option f (List.find (\<lambda>x. P (f x)) xs)"
  by (induction xs) auto

lemma outbox_marks_admitted:
  assumes "distinct (map oe_id old)" "prefix (map event_core old) (map event_core new)"
  shows "List.map_filter reject_outbox_event_mutation (row_changes oe_id old new) = []"
proof -
  have id: "oe_id (event_core e) = oe_id e" for e by (simp add: event_core_def)
  obtain rest where new: "map event_core new = map event_core old @ rest"
    using assms(2) by (auto simp: prefix_def)
  have same: "\<exists>q. List.find (\<lambda>q. oe_id q = oe_id r) new = Some q \<and> event_core q = event_core r"
    if "r \<in> set old" for r
  proof -
    have "List.find (\<lambda>q. oe_id q = oe_id (event_core r)) (map event_core old @ rest) = Some (event_core r)"
      using that assms(1) by (intro find_distinct) (simp_all add: comp_def id)
    then show ?thesis unfolding new [symmetric] find_image by (auto simp: id)
  qed
  have "reject_outbox_event_mutation ch = None" if "ch \<in> set (row_changes oe_id old new)" for ch
  proof -
    from that obtain r where r: "r \<in> set old" "ch \<in> set (case List.find (\<lambda>q. oe_id q = oe_id r) new of
        None \<Rightarrow> [Delete r] | Some q \<Rightarrow> if q = r then [] else [Update r q])"
      by (auto simp: row_changes_def)
    with same [OF r(1)] obtain q where "ch = Update r q" "event_core q = event_core r"
      by (auto split: if_splits)
    then show ?thesis by (cases q; cases r) (simp add: event_core_def)
  qed
  then show ?thesis by (auto simp: List.map_filter_def filter_empty_conv)
qed

text \<open>
  C25. The immutability triggers are never in the way: from a database whose identifiers are distinct,
  no run of any services, the publisher included, makes a trigger raise. The only rows that change
  are outbox events, and of these only the time of publication, which their trigger admits.
\<close>

theorem triggers_never_raise:
  assumes "keyed s0" "system_step\<^sup>*\<^sup>* s0 s"
  shows "raised s0 s = []"
  using trail_run [OF assms(2)] assms(1) outbox_marks_admitted
  by (simp add: audit_trail_def keyed_def raised_def row_changes_prefix)

theorem triggers_never_raise_witness:
  "raised sample_world sample_run = [] \<and> 0 < length (journal_entries sample_run)"
proof -
  have "keyed sample_world" by (simp add: keyed_def sample_defs)
  moreover have "prefix (journal_entries sample_world) (journal_entries sample_run)"
    using trail_run [OF sample_run_reached] by (simp add: audit_trail_def)
  then have "0 < length (journal_entries sample_run)" by (auto simp: sample_defs prefix_def)
  ultimately show ?thesis using triggers_never_raise [OF _ sample_run_reached] by simp
qed

end
