(* ===== verification/Metrics.thy ===== *)
theory Metrics
  imports Platform
begin

text \<open>
  The instrumentation of \<open>src/shared/metrics.py\<close>: the declared metrics, the middleware around every
  request, and the registration on an application. The client library is outside the repository: what
  the module does to its metrics is the sequence of calls it makes, with their labels. An application
  is the list of its routes, in which the first that matches a path answers.
\<close>

section \<open>Declared metrics\<close>

datatype metric_kind = Counter | Gauge | Histogram

text \<open>The name in the module, the kind, the exported name and the names of the labels.\<close>

definition METRICS :: "(string \<times> metric_kind \<times> string \<times> string list) list" where
  "METRICS =
     [(''HTTP_REQUESTS_TOTAL'', Counter, ''http_requests_total'',
         [''service'', ''method'', ''path'', ''status_code'']),
      (''HTTP_REQUEST_DURATION'', Histogram, ''http_request_duration_seconds'',
         [''service'', ''method'', ''path'']),
      (''HTTP_REQUESTS_IN_FLIGHT'', Gauge, ''http_requests_in_flight'', [''service'']),
      (''TOKENS_ISSUED'', Counter, ''tokens_issued_total'', [''service'', ''currency'', ''direction'']),
      (''TOKEN_AMOUNT_ISSUED'', Counter, ''token_amount_issued_total'', [''service'', ''currency'']),
      (''SETTLEMENTS_PROCESSED'', Counter, ''settlements_processed_total'',
         [''service'', ''status'', ''priority'']),
      (''SETTLEMENT_AMOUNT'', Counter, ''settlement_amount_total'', [''service'', ''currency'']),
      (''SETTLEMENT_QUEUE_DEPTH'', Gauge, ''settlement_queue_depth'', [''service'']),
      (''CONDITIONAL_PAYMENTS'', Counter, ''conditional_payments_total'',
         [''service'', ''condition_type'', ''event'']),
      (''ESCROW_CONTRACTS'', Counter, ''escrow_contracts_total'', [''service'', ''event'']),
      (''FX_SETTLEMENTS'', Counter, ''fx_settlements_total'', [''service'', ''rails'', ''status'']),
      (''FX_VOLUME'', Counter, ''fx_settlement_volume_total'', [''service'', ''currency'']),
      (''COMPLIANCE_EVENTS'', Counter, ''compliance_events_total'', [''service'', ''result'', ''event_type'']),
      (''KAFKA_PUBLISHES'', Counter, ''kafka_publishes_total'', [''service'', ''topic'', ''status'']),
      (''KAFKA_PUBLISH_LATENCY'', Histogram, ''kafka_publish_duration_seconds'', [''service'', ''topic''])]"

type_synonym label_set = "(string \<times> string) list"

datatype metric_call = Inc string label_set rat | Dec string label_set rat | Observe string label_set rat

fun call_labels :: "metric_call \<Rightarrow> string \<times> label_set" where
  "call_labels (Inc m ls _) = (m, ls)"
| "call_labels (Dec m ls _) = (m, ls)"
| "call_labels (Observe m ls _) = (m, ls)"

text \<open>The client library takes exactly the declared labels.\<close>

definition declared :: "string \<Rightarrow> label_set \<Rightarrow> bool" where
  "declared m ls = (case map_of METRICS m of
     None \<Rightarrow> False | Some (_, _, names) \<Rightarrow>
       list_all (\<lambda>n. n \<in> set (map fst ls)) names \<and> length names = length ls \<and> distinct (map fst ls))"

section \<open>Business events\<close>

text \<open>
  A name is looked up among the globals of the module: one of the metrics, the object that takes its
  place when the client library is not installed, one of the classes, whose methods miss their object,
  or anything else the module defines, which has no labels. A counter of
  the library refuses a negative amount, a histogram has no increment.
\<close>

datatype module_global = MetricObject | NoopObject | ClassObject | OtherObject

definition record_business_event ::
  "(string \<Rightarrow> module_global option) \<Rightarrow> string \<Rightarrow> label_set \<Rightarrow> rat \<Rightarrow> metric_call list
     \<Rightarrow> string + metric_call list" where
  "record_business_event globals metric_name labels v calls =
     (case globals metric_name of
        None \<Rightarrow> Inr calls
      | Some NoopObject \<Rightarrow> Inr calls
      | Some ClassObject \<Rightarrow> Inl ''TypeError''
      | Some OtherObject \<Rightarrow> Inl ''AttributeError''
      | Some MetricObject \<Rightarrow>
          if \<not> declared metric_name labels then Inl ''ValueError''
          else (case map_of METRICS metric_name of
            Some (Histogram, _) \<Rightarrow> Inl ''AttributeError''
          | Some (Counter, _) \<Rightarrow> if v < 0 then Inl ''ValueError'' else Inr (calls @ [Inc metric_name labels v])
          | _ \<Rightarrow> Inr (calls @ [Inc metric_name labels v])))"

section \<open>The middleware\<close>

text \<open>
  The rest of the application is a function of the calls made so far: it answers with a status or
  raises, and may make calls of its own.
\<close>

definition dispatch ::
  "string \<Rightarrow> string \<Rightarrow> string \<Rightarrow> rat \<Rightarrow> (metric_call list \<Rightarrow> (exn + nat) \<times> metric_call list)
     \<Rightarrow> metric_call list \<Rightarrow> (exn + nat) \<times> metric_call list" where
  "dispatch service meth path elapsed call_next calls =
     (if path = ''/metrics'' then call_next calls
      else (case call_next (calls @ [Inc ''HTTP_REQUESTS_IN_FLIGHT'' [(''service'', service)] 1]) of
        (outcome, calls') \<Rightarrow>
          (let status = (case outcome of Inl _ \<Rightarrow> ''500'' | Inr code \<Rightarrow> nat_str code)
           in (outcome, calls' @
                [Dec ''HTTP_REQUESTS_IN_FLIGHT'' [(''service'', service)] 1,
                 Inc ''HTTP_REQUESTS_TOTAL'' [(''service'', service), (''method'', meth),
                   (''path'', path), (''status_code'', status)] 1,
                 Observe ''HTTP_REQUEST_DURATION'' [(''service'', service), (''method'', meth),
                   (''path'', path)] elapsed]))))"

section \<open>Registration\<close>

record app =
  routes :: "(string \<times> string) list"
  instrumented :: bool

definition add_route :: "string \<Rightarrow> string \<Rightarrow> app \<Rightarrow> app" where
  "add_route path handler a = a\<lparr>routes := routes a @ [(path, handler)]\<rparr>"

definition register_metrics :: "bool \<Rightarrow> app \<Rightarrow> app" where
  "register_metrics prom_available a =
     (if \<not> prom_available then add_route ''/metrics'' ''_stub'' a
      else add_route ''/metrics'' ''metrics_endpoint'' (a\<lparr>instrumented := True\<rparr>))"

definition instrument_app :: "bool \<Rightarrow> string \<Rightarrow> app \<times> string \<Rightarrow> app \<times> string" where
  "instrument_app prom_available name = (\<lambda>(a, current).
     (register_metrics prom_available a, if name \<noteq> [] then name else current))"

definition answers :: "app \<Rightarrow> string \<Rightarrow> string option" where
  "answers a path = map_option snd (List.find (\<lambda>r. fst r = path) (routes a))"

text \<open>The application of the compliance monitor, with the routes of \<open>FastAPI()\<close> as an argument.\<close>

definition compliance_app :: "bool \<Rightarrow> app \<Rightarrow> string \<Rightarrow> app" where
  "compliance_app prom_available fresh current =
     add_route ''/rules'' ''get_rules'' (add_route ''/metrics'' ''metrics''
       (add_route ''/health'' ''health'' (fst (instrument_app prom_available ''compliance-monitor'' (fresh, current)))))"

section \<open>What is counted\<close>

definition gauge_level :: "string \<Rightarrow> label_set \<Rightarrow> metric_call list \<Rightarrow> rat" where
  "gauge_level m ls calls = (\<Sum>c\<leftarrow>calls. case c of
     Inc m' ls' v \<Rightarrow> if m' = m \<and> ls' = ls then v else 0
   | Dec m' ls' v \<Rightarrow> if m' = m \<and> ls' = ls then - v else 0
   | Observe _ _ _ \<Rightarrow> 0)"

lemma gauge_level_append: "gauge_level m ls (xs @ ys) = gauge_level m ls xs + gauge_level m ls ys"
  by (simp add: gauge_level_def)

lemma gauge_level_Nil [simp]: "gauge_level m ls [] = 0"
  by (simp add: gauge_level_def)

lemma gauge_level_Cons [simp]:
  "gauge_level m ls (Inc m' ls' v # xs) = (if m' = m \<and> ls' = ls then v else 0) + gauge_level m ls xs"
  "gauge_level m ls (Dec m' ls' v # xs) = (if m' = m \<and> ls' = ls then - v else 0) + gauge_level m ls xs"
  "gauge_level m ls (Observe m' ls' v # xs) = gauge_level m ls xs"
  by (simp_all add: gauge_level_def)

text \<open>
  A request leaves the gauge of requests in flight where it was, whether the application answers or
  raises, provided what the application does for itself does.
\<close>

theorem in_flight_restored:
  assumes "\<And>l. gauge_level ''HTTP_REQUESTS_IN_FLIGHT'' ls (snd (call_next l)) =
    gauge_level ''HTTP_REQUESTS_IN_FLIGHT'' ls l"
  shows "gauge_level ''HTTP_REQUESTS_IN_FLIGHT'' ls (snd (dispatch service meth path elapsed call_next calls)) =
    gauge_level ''HTTP_REQUESTS_IN_FLIGHT'' ls calls"
proof (cases "path = ''/metrics''")
  case True
  then show ?thesis using assms by (simp add: dispatch_def)
next
  case False
  let ?l = "calls @ [Inc ''HTTP_REQUESTS_IN_FLIGHT'' [(''service'', service)] 1]"
  obtain outcome calls' where next_call: "call_next ?l = (outcome, calls')" by (cases "call_next ?l")
  with assms [of ?l] have "gauge_level ''HTTP_REQUESTS_IN_FLIGHT'' ls calls' =
      gauge_level ''HTTP_REQUESTS_IN_FLIGHT'' ls ?l" by simp
  then show ?thesis using False next_call by (simp add: dispatch_def Let_def gauge_level_append)
qed

text \<open>
  Every other request is counted once, under the status it was answered with or 500 when it raised,
  and the outcome is passed on unchanged.
\<close>

theorem request_counted:
  assumes "path \<noteq> ''/metrics''" "call_next (calls @ [Inc ''HTTP_REQUESTS_IN_FLIGHT'' [(''service'', service)] 1]) = (outcome, calls')"
  shows "dispatch service meth path elapsed call_next calls = (outcome, calls' @
      [Dec ''HTTP_REQUESTS_IN_FLIGHT'' [(''service'', service)] 1,
       Inc ''HTTP_REQUESTS_TOTAL'' [(''service'', service), (''method'', meth), (''path'', path),
         (''status_code'', case outcome of Inl _ \<Rightarrow> ''500'' | Inr code \<Rightarrow> nat_str code)] 1,
       Observe ''HTTP_REQUEST_DURATION'' [(''service'', service), (''method'', meth), (''path'', path)] elapsed])"
  using assms by (simp add: dispatch_def Let_def)

text \<open>The middleware uses the labels its metrics are declared with; the usage note of the module does not.\<close>

theorem middleware_labels_declared:
  "declared ''HTTP_REQUESTS_IN_FLIGHT'' [(''service'', a)]"
  "declared ''HTTP_REQUESTS_TOTAL'' [(''service'', a), (''method'', b), (''path'', c), (''status_code'', d)]"
  "declared ''HTTP_REQUEST_DURATION'' [(''service'', a), (''method'', b), (''path'', c)]"
  by (simp_all add: declared_def METRICS_def)

theorem usage_note_refused:
  "record_business_event globals ''TOKENS_ISSUED'' [(''currency'', ''USD''), (''direction'', ''issue'')] 1 calls =
     (case globals ''TOKENS_ISSUED'' of Some MetricObject \<Rightarrow> Inl ''ValueError''
      | Some ClassObject \<Rightarrow> Inl ''TypeError'' | Some OtherObject \<Rightarrow> Inl ''AttributeError''
      | _ \<Rightarrow> Inr calls)"
proof -
  have "\<not> declared ''TOKENS_ISSUED'' [(''currency'', ''USD''), (''direction'', ''issue'')]"
    by (simp add: declared_def METRICS_def)
  then have undeclared: "record_business_event globals ''TOKENS_ISSUED''
      [(''currency'', ''USD''), (''direction'', ''issue'')] 1 calls = Inl ''ValueError''"
    if "globals ''TOKENS_ISSUED'' = Some MetricObject"
    using that unfolding record_business_event_def by (simp only: option.case module_global.case if_True simp_thms)
  show ?thesis
  proof (cases "globals ''TOKENS_ISSUED''")
    case None
    then show ?thesis unfolding record_business_event_def by (simp only: option.case)
  next
    case (Some g)
    then show ?thesis using undeclared
      by (cases g) (simp_all only: record_business_event_def option.case module_global.case)
  qed
qed

text \<open>
  The compliance monitor registers the instrumentation before its own statistics on the same path:
  the statistics are never answered.
\<close>

theorem compliance_statistics_shadowed:
  assumes "answers fresh ''/metrics'' = None"
  shows "answers (compliance_app prom_available fresh current) ''/metrics'' =
    Some (if prom_available then ''metrics_endpoint'' else ''_stub'')"
proof -
  have "List.find (\<lambda>r. fst r = p) (xs @ ys) = (case List.find (\<lambda>r. fst r = p) xs of
      None \<Rightarrow> List.find (\<lambda>r. fst r = p) ys | Some r \<Rightarrow> Some r)" for p :: string and xs ys :: "(string \<times> string) list"
    by (induction xs) auto
  with assms show ?thesis
    by (simp add: answers_def compliance_app_def add_route_def instrument_app_def register_metrics_def)
qed

end
