(* ===== verification/Diagnostics.thy ===== *)
theory Diagnostics
  imports Compliance Signing "HOL-Library.Multiset"
begin

text \<open>
  The two operator tools that compute something of their own. \<open>src/scripts/kafka_tail.py\<close> prints the
  messages of the topics of the platform: the text of a value, the time stamp and the JSON encoder are
  arguments. \<open>src/scripts/load_test.py\<close> collects latencies from concurrent workers and reports
  percentiles: the answers of the gateway and the elapsed times are arguments, and the threads are the
  order in which the lock lets them record. A report is its rows; latencies are rational numbers.
\<close>

section \<open>The topic tail\<close>

definition ALL_TOPICS :: "string list" where
  "ALL_TOPICS =
     [''token.issuance.requested'', ''token.issuance.completed'', ''token.redemption.requested'',
      ''token.redemption.completed'', ''token.balance.updated'', ''rtgs.settlement.submitted'',
      ''rtgs.settlement.processing'', ''rtgs.settlement.completed'', ''rtgs.settlement.failed'',
      ''rtgs.queue.urgent'', ''payment.conditional.created'', ''payment.conditional.triggered'',
      ''payment.conditional.completed'', ''escrow.created'', ''escrow.released'', ''escrow.expired'',
      ''fx.rate.updated'', ''fx.settlement.initiated'', ''fx.settlement.leg.completed'',
      ''fx.settlement.completed'', ''fx.settlement.failed'', ''compliance.event'', ''audit.trail'']"

definition ansi :: "string \<Rightarrow> string" where
  "ansi code = CHR 0x1B # ''['' @ code @ ''m''"

definition TOPIC_COLOURS :: "(string \<times> string) list" where
  "TOPIC_COLOURS =
     [(''token'', ansi ''36''), (''rtgs'', ansi ''33''), (''payment'', ansi ''35''),
      (''escrow'', ansi ''35''), (''fx'', ansi ''34''), (''compliance'', ansi ''31''),
      (''audit'', ansi ''90'')]"

definition RESET :: string where "RESET = ansi ''0''"

definition BOLD :: string where "BOLD = ansi ''1''"

definition topic_colour :: "string \<Rightarrow> string" where
  "topic_colour topic =
     (case List.find (\<lambda>(pre, _). prefix pre topic) TOPIC_COLOURS of None \<Rightarrow> [] | Some (_, colour) \<Rightarrow> colour)"

definition highlight_keys :: "string list" where
  "highlight_keys =
     [''settlement_ref'', ''payment_ref'', ''contract_ref'', ''issuance_ref'', ''event_id'', ''amount'',
      ''currency'', ''status'', ''result'', ''sell_amount'', ''buy_amount'']"

definition highlights :: "(json \<Rightarrow> string) \<Rightarrow> dict \<Rightarrow> string list" where
  "highlights str payload = concat (map (\<lambda>key.
     case map_of payload key of None \<Rightarrow> [] | Some v \<Rightarrow> [key @ ''='' @ str v]) highlight_keys)"

definition is_dict :: "json \<Rightarrow> bool" where
  "is_dict v = (case v of JObj _ \<Rightarrow> True | _ \<Rightarrow> False)"

definition extras :: "(json \<Rightarrow> string) \<Rightarrow> dict \<Rightarrow> dict" where
  "extras str payload =
     (let skip = take 6 (highlights str payload) @ [''event_id'', ''event_time'', ''service'']
      in filter (\<lambda>(k, v). k \<notin> set skip \<and> \<not> is_dict v \<and> v \<noteq> JNull) payload)"

text \<open>
  A payload that is not an object: testing for a key is an error on a number, a truth value or null,
  and looking up a key that a list or a text contains is one as well; otherwise it has no items.
\<close>

fun not_an_object :: "json \<Rightarrow> string" where
  "not_an_object (JArr xs) = (if list_ex (\<lambda>k. JStr k \<in> set xs) highlight_keys then ''TypeError'' else ''AttributeError'')"
| "not_an_object (JStr t) = (if list_ex (\<lambda>k. sublist k t) highlight_keys then ''TypeError'' else ''AttributeError'')"
| "not_an_object _ = ''TypeError''"

definition format_event ::
  "string \<Rightarrow> (json \<Rightarrow> string) \<Rightarrow> (json \<Rightarrow> string) \<Rightarrow> string \<Rightarrow> json \<Rightarrow> bool \<Rightarrow> string + string" where
  "format_event ts json_dumps str topic payload raw =
     (let col = topic_colour topic
      in if raw then Inr (col @ ''['' @ ts @ ''] '' @ topic @ RESET @ ''\<newline>'' @ json_dumps payload @ ''\<newline>'')
         else (case payload of
           JObj d \<Rightarrow>
             Inr (join_with ''\<newline>''
               ([col @ BOLD @ ''['' @ ts @ ''] '' @ topic @ RESET,
                 ''  '' @ join_with ''  '' (take 6 (highlights str d))] @
                map (\<lambda>(k, v). ''  '' @ k @ '': '' @ str v) (take 4 (extras str d))))
         | _ \<Rightarrow> Inl (not_an_object payload)))"

text \<open>The value of a message: decoded, or the text its bytes are replaced by.\<close>

datatype tail_value = Decoded json | Undecodable string

record tail_msg =
  tm_topic :: string
  tm_time :: string
  tm_value :: tail_value

datatype tail_poll = TailNothing | TailEOF | TailError string | TailMessage tail_msg

record tail =
  tl_count :: nat
  tl_stdout :: "string list"
  tl_stderr :: "string list"
  tl_committed :: "tail_msg list"

definition tail_payload :: "tail_value \<Rightarrow> json" where
  "tail_payload v = (case v of Decoded j \<Rightarrow> j | Undecodable t \<Rightarrow> JObj [(''_raw'', JStr t)])"

definition tail_step ::
  "(json \<Rightarrow> string) \<Rightarrow> (json \<Rightarrow> string) \<Rightarrow> bool \<Rightarrow> tail_poll \<Rightarrow> tail \<Rightarrow> string + tail" where
  "tail_step json_dumps str raw msg t =
     (case msg of
        TailNothing \<Rightarrow> Inr t
      | TailEOF \<Rightarrow> Inr t
      | TailError e \<Rightarrow> Inr (t\<lparr>tl_stderr := tl_stderr t @ [''Error: '' @ e]\<rparr>)
      | TailMessage m \<Rightarrow>
          (case format_event (tm_time m) json_dumps str (tm_topic m) (tail_payload (tm_value m)) raw of
             Inl e \<Rightarrow> Inl e
           | Inr out \<Rightarrow> Inr (t\<lparr>tl_count := Suc (tl_count t), tl_stdout := tl_stdout t @ [out, []],
                tl_committed := tl_committed t @ [m]\<rparr>)))"

fun tail_loop ::
  "(json \<Rightarrow> string) \<Rightarrow> (json \<Rightarrow> string) \<Rightarrow> bool \<Rightarrow> tail_poll list \<Rightarrow> tail \<Rightarrow> string + tail" where
  "tail_loop json_dumps str raw [] t = Inr t"
| "tail_loop json_dumps str raw (p # ps) t =
     (case tail_step json_dumps str raw p t of
        Inl e \<Rightarrow> Inl e | Inr t' \<Rightarrow> tail_loop json_dumps str raw ps t')"

section \<open>The load test\<close>

type_synonym sample = "rat \<times> nat"

definition record_result :: "string \<Rightarrow> sample \<Rightarrow> (string \<times> sample list) list \<Rightarrow> (string \<times> sample list) list" where
  "record_result opn x results =
     (if opn \<in> fst ` set results
      then map (\<lambda>(k, xs). (k, if k = opn then xs @ [x] else xs)) results
      else results @ [(opn, [x])])"

text \<open>The name under which an operation records, its method, its path and its body.\<close>

type_synonym load_op = "string \<times> string \<times> string \<times> dict"

definition do_fx_quote :: load_op where
  "do_fx_quote = (''fx_quote'', ''POST'', ''/v1/fx/quote'',
     [(''sell_currency'', JStr ''USD''), (''sell_amount'', JStr ''1000000.00''), (''buy_currency'', JStr ''EUR'')])"

definition do_get_rates :: load_op where "do_get_rates = (''fx_rates'', ''GET'', ''/v1/fx/rates'', [])"

definition do_health :: load_op where "do_health = (''health'', ''GET'', ''/health'', [])"

definition do_list_settlements :: load_op where
  "do_list_settlements = (''list_settlements'', ''GET'', ''/v1/settlements?limit=20'', [])"

definition OPERATIONS :: "load_op list" where
  "OPERATIONS = [do_fx_quote, do_get_rates, do_health, do_list_settlements]"

definition run_op ::
  "(string \<Rightarrow> string \<Rightarrow> dict \<Rightarrow> string + nat) \<Rightarrow> rat \<Rightarrow> load_op
     \<Rightarrow> (string \<times> sample list) list \<Rightarrow> (string \<times> sample list) list" where
  "run_op client elapsed_ms = (\<lambda>(opn, meth, path, body).
     record_result opn (elapsed_ms, case client meth path body of Inl _ \<Rightarrow> 0 | Inr status \<Rightarrow> status))"

text \<open>The operations of a worker in its first rounds.\<close>

definition worker_ops :: "nat \<Rightarrow> nat \<Rightarrow> load_op list" where
  "worker_ops worker_id rounds =
     map (\<lambda>i. OPERATIONS ! ((worker_id mod length OPERATIONS + i) mod length OPERATIONS)) [0..<rounds]"

definition percentile :: "rat list \<Rightarrow> nat \<Rightarrow> string + rat" where
  "percentile data pct =
     (if data = [] then Inr 0
      else let sorted_data = sort data; idx = length sorted_data * pct div 100 - 1
           in if idx < length sorted_data then Inr (sorted_data ! idx) else Inl ''IndexError'')"

record report_row =
  rr_op :: string
  rr_count :: nat
  rr_err_pct :: rat
  rr_p50 :: rat
  rr_p95 :: rat
  rr_p99 :: rat
  rr_rps :: rat

definition errors_of :: "sample list \<Rightarrow> nat" where
  "errors_of data = length (filter (\<lambda>d. snd d \<notin> {200, 201, 202}) data)"

definition row_of :: "rat \<Rightarrow> string \<times> sample list \<Rightarrow> string + report_row" where
  "row_of duration_s = (\<lambda>(opn, data).
     let latencies = map fst data; errors = errors_of data; cnt = length data;
         err_pct = (if cnt \<noteq> 0 then of_nat errors / of_nat cnt * 100 else 0)
     in if duration_s = 0 then Inl ''ZeroDivisionError''
        else case percentile latencies 50 of Inl e \<Rightarrow> Inl e | Inr p50 \<Rightarrow>
        case percentile latencies 95 of Inl e \<Rightarrow> Inl e | Inr p95 \<Rightarrow>
        case percentile latencies 99 of Inl e \<Rightarrow> Inl e | Inr p99 \<Rightarrow>
        Inr \<lparr>rr_op = opn, rr_count = cnt, rr_err_pct = err_pct, rr_p50 = p50, rr_p95 = p95, rr_p99 = p99,
          rr_rps = of_nat cnt / duration_s\<rparr>)"

fun rows_of :: "rat \<Rightarrow> (string \<times> sample list) list \<Rightarrow> string + report_row list" where
  "rows_of duration_s [] = Inr []"
| "rows_of duration_s (r # rs) =
     (case row_of duration_s r of Inl e \<Rightarrow> Inl e
      | Inr row \<Rightarrow> map_sum id ((#) row) (rows_of duration_s rs))"

text \<open>The rows in the order of the operations, then the totals: requests, share of errors, rate.\<close>

definition report :: "rat \<Rightarrow> (string \<times> sample list) list \<Rightarrow> string + report_row list \<times> nat \<times> rat \<times> rat" where
  "report duration_s results =
     (case rows_of duration_s (sort_key fst results) of
        Inl e \<Rightarrow> Inl e
      | Inr rows \<Rightarrow>
          (let total_reqs = (\<Sum>r\<leftarrow>results. length (snd r)); total_errs = (\<Sum>r\<leftarrow>results. errors_of (snd r))
           in if duration_s = 0 then Inl ''ZeroDivisionError''
              else Inr (rows, total_reqs,
                if total_reqs \<noteq> 0 then of_nat total_errs / of_nat total_reqs * 100 else 0,
                of_nat total_reqs / duration_s)))"

text \<open>The records in the order of the lock.\<close>

definition collect :: "(string \<times> sample) list \<Rightarrow> (string \<times> sample list) list" where
  "collect records = fold (\<lambda>(opn, x). record_result opn x) records []"

datatype load_exit = LoadExit nat | LoadReport "string + report_row list \<times> nat \<times> rat \<times> rat"

definition load_main :: "string + nat \<Rightarrow> nat \<Rightarrow> (string \<times> sample) list \<Rightarrow> load_exit" where
  "load_main health_check duration records =
     (case health_check of
        Inl _ \<Rightarrow> LoadExit 1
      | Inr status_code \<Rightarrow>
          if status_code \<noteq> 200 then LoadExit 1 else LoadReport (report (of_nat duration) (collect records)))"

section \<open>What the tail shows\<close>

text \<open>
  The set of fields to skip holds the highlighted texts and not their keys: as long as no key has an
  equals sign in it, the fields that are highlighted are not skipped, and are shown again among the
  first four others.
\<close>

lemma highlight_has_sign: "h \<in> set (highlights str payload) \<Longrightarrow> CHR ''='' \<in> set h"
  by (auto simp: highlights_def split: option.splits)

theorem extras_ignore_highlights:
  assumes "list_all (\<lambda>(k, _). CHR ''='' \<notin> set k) payload"
  shows "extras str payload =
    filter (\<lambda>(k, v). k \<notin> {''event_id'', ''event_time'', ''service''} \<and> \<not> is_dict v \<and> v \<noteq> JNull) payload"
proof -
  have "k \<notin> set (take 6 (highlights str payload))" if "(k, v) \<in> set payload" for k v
    using that assms highlight_has_sign in_set_takeD by (fastforce simp: list_all_iff)
  then show ?thesis unfolding extras_def Let_def by (intro filter_cong) auto
qed

text \<open>Every message is printed and then committed, in order, until one that is not an object is met.\<close>

definition messages_in :: "tail_poll list \<Rightarrow> tail_msg list" where
  "messages_in ps = List.map_filter (\<lambda>p. case p of TailMessage m \<Rightarrow> Some m | _ \<Rightarrow> None) ps"

definition shows_object :: "tail_msg \<Rightarrow> bool" where
  "shows_object m = is_dict (tail_payload (tm_value m))"

lemma messages_in_simps [simp]:
  "messages_in [] = []" "messages_in (TailMessage m # ps) = m # messages_in ps"
  "messages_in (TailNothing # ps) = messages_in ps" "messages_in (TailEOF # ps) = messages_in ps"
  "messages_in (TailError e # ps) = messages_in ps"
  by (simp_all add: messages_in_def List.map_filter_simps)

lemma format_event_returns:
  "raw \<or> is_dict payload \<Longrightarrow> \<exists>out. format_event ts json_dumps str topic payload raw = Inr out"
  by (auto simp: format_event_def is_dict_def Let_def split: json.splits)

theorem tail_commits_all:
  assumes "raw \<or> list_all shows_object (messages_in ps)"
  shows "\<exists>t'. tail_loop json_dumps str raw ps t = Inr t' \<and>
    tl_committed t' = tl_committed t @ messages_in ps \<and> tl_count t' = tl_count t + length (messages_in ps)"
  using assms
proof (induction ps arbitrary: t)
  case (Cons p ps)
  show ?case
  proof (cases p)
    case (TailMessage m)
    then obtain out where out:
        "format_event (tm_time m) json_dumps str (tm_topic m) (tail_payload (tm_value m)) raw = Inr out"
      using Cons.prems format_event_returns by (force simp: shows_object_def)
    let ?t = "t\<lparr>tl_count := Suc (tl_count t), tl_stdout := tl_stdout t @ [out, []],
      tl_committed := tl_committed t @ [m]\<rparr>"
    have "tail_step json_dumps str raw p t = Inr ?t" using out TailMessage by (simp add: tail_step_def)
    with Cons.IH [of ?t] TailMessage Cons.prems show ?thesis by auto
  next
    case (TailError e)
    then have "tail_step json_dumps str raw p t = Inr (t\<lparr>tl_stderr := tl_stderr t @ [''Error: '' @ e]\<rparr>)"
      by (simp add: tail_step_def)
    with Cons.IH [of "t\<lparr>tl_stderr := tl_stderr t @ [''Error: '' @ e]\<rparr>"] TailError Cons.prems show ?thesis by simp
  qed (use Cons in \<open>simp_all add: tail_step_def\<close>)
qed simp

theorem tail_stops_at_non_object:
  assumes "\<not> shows_object m"
  shows "tail_loop json_dumps str False (TailMessage m # ps) t = Inl (not_an_object (tail_payload (tm_value m)))"
  using assms by (auto simp: tail_step_def shows_object_def is_dict_def format_event_def Let_def split: json.splits)

text \<open>The tail subscribes to every topic the compliance monitor screens.\<close>

theorem screened_topics_tailed: "screenings topic \<noteq> [] \<Longrightarrow> topic \<in> set ALL_TOPICS"
  by (auto simp: screenings_def ALL_TOPICS_def split: if_splits)

section \<open>What the load test reports\<close>

text \<open>
  The percentile of a list is one of its values; at least the given share of the values, rounded
  down, is at most that value, and fewer are below it.
\<close>

lemma sorted_rank:
  fixes xs :: "'a :: linorder list"
  assumes "sorted xs" "i < length xs"
  shows "Suc i \<le> length (filter (\<lambda>x. x \<le> xs ! i) xs)" "length (filter (\<lambda>x. x < xs ! i) xs) \<le> i"
proof -
  have parts: "xs = take (Suc i) xs @ drop (Suc i) xs" "xs = take i xs @ drop i xs" by simp_all
  have "filter (\<lambda>x. x \<le> xs ! i) (take (Suc i) xs) = take (Suc i) xs"
    using assms by (auto simp: filter_id_conv in_set_conv_nth sorted_nth_mono less_Suc_eq_le)
  then have "filter (\<lambda>x. x \<le> xs ! i) xs = take (Suc i) xs @ filter (\<lambda>x. x \<le> xs ! i) (drop (Suc i) xs)"
    by (metis filter_append parts(1))
  then show "Suc i \<le> length (filter (\<lambda>x. x \<le> xs ! i) xs)" using assms(2) by simp
  have "filter (\<lambda>x. x < xs ! i) (drop i xs) = []"
    using assms by (auto simp: filter_empty_conv in_set_conv_nth not_less intro!: sorted_nth_mono)
  then have "filter (\<lambda>x. x < xs ! i) xs = filter (\<lambda>x. x < xs ! i) (take i xs)"
    by (metis append_Nil2 filter_append parts(2))
  then show "length (filter (\<lambda>x. x < xs ! i) xs) \<le> i"
    by (metis le_trans length_filter_le length_take min.cobounded2)
qed

lemma filter_length_sort: "length (filter P (sort xs)) = length (filter P xs)"
  by (metis mset_filter mset_sort size_mset)

theorem percentile_rank:
  assumes "data \<noteq> []" "pct \<le> 100"
  shows "\<exists>x \<in> set data. percentile data pct = Inr x \<and>
    length data * pct div 100 \<le> length (filter (\<lambda>y. y \<le> x) data) \<and>
    length (filter (\<lambda>y. y < x) data) < max 1 (length data * pct div 100)"
proof -
  let ?k = "length data * pct div 100"
  have "length data * pct \<le> length data * 100" using assms(2) by simp
  then have "?k \<le> length data" by (metis div_le_mono nonzero_mult_div_cancel_right zero_neq_numeral)
  then have i: "?k - 1 < length (sort data)" using assms(1) by (cases data) auto
  then have "percentile data pct = Inr (sort data ! (?k - 1))"
    using assms(1) by (simp add: percentile_def Let_def)
  moreover have "sort data ! (?k - 1) \<in> set data" using nth_mem [OF i] by simp
  moreover have "?k \<le> length (filter (\<lambda>y. y \<le> sort data ! (?k - 1)) data)"
    using sorted_rank(1) [OF sorted_sort i] by (simp add: filter_length_sort)
  moreover have "length (filter (\<lambda>y. y < sort data ! (?k - 1)) data) < max 1 ?k"
    using sorted_rank(2) [OF sorted_sort i] by (simp add: filter_length_sort)
  ultimately show ?thesis by blast
qed

text \<open>A worker takes the four operations in turn: in any four rounds it runs each once.\<close>

lemma four_operations:
  assumes "j < 4"
  shows "mset [OPERATIONS ! j, OPERATIONS ! ((j + 1) mod 4), OPERATIONS ! ((j + 2) mod 4),
    OPERATIONS ! ((j + 3) mod 4)] = mset OPERATIONS"
proof -
  from assms consider "j = 0" | "j = 1" | "j = 2" | "j = 3" by linarith
  then show ?thesis by cases (simp_all add: OPERATIONS_def)
qed

theorem worker_takes_turns: "mset (drop r (worker_ops worker_id (r + 4))) = mset OPERATIONS"
proof -
  define j where "j = (worker_id mod 4 + r) mod 4"
  have four: "length OPERATIONS = 4" by (simp add: OPERATIONS_def)
  have upt: "[r..<r + 4] = [r, r + 1, r + 2, r + 3]" by (simp add: upt_rec)
  have shift: "(worker_id mod 4 + (r + d)) mod 4 = (j + d) mod 4" for d
    unfolding j_def by (metis add.assoc mod_add_left_eq)
  have "drop r (worker_ops worker_id (r + 4)) =
      map (\<lambda>i. OPERATIONS ! ((worker_id mod 4 + i) mod 4)) [r, r + 1, r + 2, r + 3]"
    by (simp only: worker_ops_def drop_map drop_upt four add_0 upt)
  also have "\<dots> = [OPERATIONS ! j, OPERATIONS ! ((j + 1) mod 4), OPERATIONS ! ((j + 2) mod 4),
      OPERATIONS ! ((j + 3) mod 4)]"
    by (simp only: list.map shift j_def [symmetric])
  finally show ?thesis using four_operations [of j] by (simp only: j_def mod_less_divisor zero_less_numeral)
qed

text \<open>
  The report does not depend on the order in which the threads got the lock: two orders of the same
  records give the same report.
\<close>

definition samples :: "string \<Rightarrow> (string \<times> sample) list \<Rightarrow> sample list" where
  "samples opn rs = map snd (filter (\<lambda>r. fst r = opn) rs)"

lemma collect_snoc: "collect (rs @ [(opn, x)]) = record_result opn x (collect rs)"
  by (simp add: collect_def)

lemma collect_groups:
  "\<exists>ks. distinct ks \<and> set ks = fst ` set rs \<and> collect rs = map (\<lambda>k. (k, samples k rs)) ks"
proof (induction rs rule: rev_induct)
  case Nil
  then show ?case by (simp add: collect_def)
next
  case (snoc r rs)
  obtain opn x where r: "r = (opn, x)" by (cases r)
  obtain ks where ks: "distinct ks" "set ks = fst ` set rs" "collect rs = map (\<lambda>k. (k, samples k rs)) ks"
    using snoc.IH by blast
  show ?case
  proof (cases "opn \<in> set ks")
    case True
    then have "collect (rs @ [r]) = map (\<lambda>k. (k, samples k (rs @ [r]))) ks"
      by (auto simp: r collect_snoc ks(3) record_result_def samples_def image_iff)
    with ks True show ?thesis by (intro exI [of _ ks]) (auto simp: r insert_absorb)
  next
    case False
    then have "samples opn rs = []" using ks(2) by (auto simp: samples_def filter_empty_conv)
    moreover have "samples k (rs @ [r]) = samples k rs" if "k \<in> set ks" for k
      using that False by (auto simp: samples_def r)
    ultimately have "collect (rs @ [r]) = map (\<lambda>k. (k, samples k (rs @ [r]))) (ks @ [opn])"
      using False by (auto simp: r collect_snoc ks(3) record_result_def image_iff) (auto simp: samples_def)
    with ks False show ?thesis by (intro exI [of _ "ks @ [opn]"]) (auto simp: r)
  qed
qed

lemma sort_key_tagged: "sort_key fst (map (\<lambda>k. (k, f k)) ks) = map (\<lambda>k. (k, f k)) (sort ks)"
  for ks :: "'a :: linorder list"
proof -
  have "insort_key fst (k, f k) (map (\<lambda>k. (k, f k)) xs) = map (\<lambda>k. (k, f k)) (insort k xs)" for k xs
    by (induction xs) auto
  then show ?thesis by (induction ks) simp_all
qed

lemma collect_sorted:
  "sort_key fst (collect rs) = map (\<lambda>k. (k, samples k rs)) (sorted_list_of_set (fst ` set rs))"
proof -
  obtain ks where "distinct ks" "set ks = fst ` set rs" "collect rs = map (\<lambda>k. (k, samples k rs)) ks"
    using collect_groups by blast
  then show ?thesis using sort_key_tagged [of "\<lambda>k. samples k rs" ks] sorted_list_of_set_sort_remdups [of ks]
    by (simp add: distinct_remdups_id)
qed

lemma mset_samples: "mset (samples k rs) = image_mset snd (filter_mset (\<lambda>r. fst r = k) (mset rs))"
  by (simp add: samples_def)

lemma row_of_mset:
  assumes "mset xs = mset ys"
  shows "row_of duration_s (k, xs) = row_of duration_s (k, ys)"
proof -
  have "mset (map fst xs) = mset (map fst ys)" using assms by simp
  then have "sort (map fst xs) = sort (map fst ys)" "map fst xs = [] \<longleftrightarrow> map fst ys = []"
    by (metis properties_for_sort sorted_sort mset_sort, metis mset_zero_iff)
  then have "percentile (map fst xs) p = percentile (map fst ys) p" for p by (simp add: percentile_def)
  moreover have "errors_of xs = errors_of ys" using assms unfolding errors_of_def by (metis mset_filter size_mset)
  moreover have "length xs = length ys" using assms by (rule mset_eq_length)
  ultimately show ?thesis by (simp only: row_of_def prod.case Let_def)
qed

lemma total_of_sorted:
  fixes f :: "string \<times> sample list \<Rightarrow> nat"
  shows "(\<Sum>r\<leftarrow>xs. f r) = (\<Sum>r\<leftarrow>sort_key fst xs. f r)"
  by (metis mset_map mset_sort sum_mset_sum_list)

theorem report_order_irrelevant:
  assumes "mset rs = mset rs'"
  shows "report duration_s (collect rs) = report duration_s (collect rs')"
proof -
  have keys: "fst ` set rs = fst ` set rs'" using assms mset_eq_setD by blast
  have same: "mset (samples k rs) = mset (samples k rs')" for k using assms by (simp add: mset_samples)
  have rows: "rows_of duration_s (map (\<lambda>k. (k, samples k rs)) ks) = rows_of duration_s (map (\<lambda>k. (k, samples k rs')) ks)"
    for ks using row_of_mset [OF same] by (induction ks) (simp_all split: sum.splits)
  have "length (samples k rs) = length (samples k rs')" "errors_of (samples k rs) = errors_of (samples k rs')" for k
    using same [of k] unfolding errors_of_def by (metis mset_eq_length, metis mset_filter size_mset)
  then have totals: "(\<Sum>r\<leftarrow>collect rs. length (snd r)) = (\<Sum>r\<leftarrow>collect rs'. length (snd r))"
    "(\<Sum>r\<leftarrow>collect rs. errors_of (snd r)) = (\<Sum>r\<leftarrow>collect rs'. errors_of (snd r))"
    unfolding total_of_sorted [of _ "collect rs"] total_of_sorted [of _ "collect rs'"]
    by (simp_all add: collect_sorted keys comp_def)
  show ?thesis by (simp only: report_def collect_sorted keys rows totals)
qed

end
