(* ===== verification/Spec2Isabelle.thy ===== *)
theory Spec2Isabelle
  imports LedgerIntegrity Gateway Signing Migrations OrmSchema DatabaseRules Metrics Diagnostics
begin

text \<open>
  A verification library for the stablecoin settlement platform, a set of Python services over one
  PostgreSQL database and one Kafka broker (\<open>src/services\<close>, \<open>src/shared\<close>).

  \<^bold>\<open>The program.\<close> A participant calls the API gateway, which authenticates the key, limits the
  rate and forwards the request with the actor's headers to one of four services. Token issuance
  mints and redeems deposits against an omnibus reserve; RTGS takes settlements through submission,
  approval and signature to a worker that moves the money; the payment engine holds conditional
  payments and escrows and has a worker that checks conditions and expiries; FX settlement quotes
  rates and swaps two currencies in a worker. They share the double-entry journal, from which every
  balance is derived, the holds, the status history and the outbox. The outbox publisher moves
  events to the broker; the compliance monitor consumes and screens them. FX asks the signing
  gateway for a threshold signature of the MPC nodes. An offline script checks the integrity of the
  whole ledger.

  \<^bold>\<open>The theories.\<close>
  \<^item> \<open>Prelude\<close>: operations on a state with exceptions (\<open>op_bind\<close> and its calculus \<open>wp\<close>, \<open>keeps\<close>),
    the decimal arithmetic of Python (28 digits, half-even) and of PostgreSQL's \<open>numeric\<close>, strings,
    JSON, tables as lists.
  \<^item> \<open>Models\<close> (\<open>shared/models.py\<close> and the deployed schema): enumerations, rows, the record \<open>world\<close>
    of all tables and the environment, inserts guarded by the constraints of the schema.
  \<^item> \<open>Journal\<close> (\<open>shared/journal.py\<close>): postings, balances, holds, locks; the locale \<open>ledger\<close>.
  \<^item> \<open>Events\<close> (\<open>shared/events.py\<close>, \<open>shared/outbox.py\<close>); \<open>Platform\<close> (\<open>shared/database.py\<close>,
    \<open>status.py\<close>, \<open>blockchain_sim.py\<close>): sessions, history rows, receipts; the locales \<open>unit_of_work\<close>,
    \<open>batch_worker\<close>, \<open>idempotent_create\<close>. \<open>Access\<close> (\<open>shared/state_machine.py\<close>, \<open>context.py\<close>,
    \<open>rbac.py\<close>): transitions, actors, roles, keys. \<open>Samples\<close>: a concrete state for examples.
  \<^item> \<open>TokenIssuance\<close>, \<open>Rtgs\<close>, \<open>FxSettlement\<close>, \<open>Conditions\<close>, \<open>PaymentEngine\<close>, \<open>Escrow\<close> and
    \<open>ConditionalPayments\<close>: the four services, one definition per handler and per worker pass, named
    as in the source (a leading underscore is written \<open>priv_\<close>).
  \<^item> \<open>Gateway\<close>, \<open>Messaging\<close> (outbox publisher and \<open>shared/kafka_client.py\<close>), \<open>Compliance\<close>,
    \<open>Signing\<close> (MPC node and signing gateway).
  \<^item> \<open>Interleaving\<close>: all services together, as one step relation; \<open>LedgerIntegrity\<close>:
    \<open>scripts/ledger_integrity.py\<close>; \<open>Migrations\<close>: \<open>scripts/migrate.py\<close>; this theory: properties across components.
  \<^item> The schema: \<open>SchemaStatements\<close> gives the statements the scripts under \<open>migrations/versions\<close>
    send a meaning on a catalogue of types, tables, columns, indexes, routines, triggers and views;
    \<open>Revisions\<close> holds the four scripts, one definition per table, loop and helper; \<open>Reversal\<close> (with
    the locale \<open>reversible\<close>) and \<open>Catalogue\<close> reason about them; \<open>OrmSchema\<close> sets the tables the
    classes of \<open>shared/models.py\<close> declare against what the scripts build; \<open>DatabaseRules\<close> gives the
    views and the trigger functions of the third script their meaning on the rows of \<open>world\<close>.
  \<^item> \<open>Metrics\<close> (\<open>shared/metrics.py\<close>): the declared metrics, the request middleware as a trace of calls
    to the client library, and the order of routes. \<open>Diagnostics\<close> (\<open>scripts/kafka_tail.py\<close>,
    \<open>scripts/load_test.py\<close>): what the tail prints and commits, percentiles and report.

  \<^bold>\<open>What is shown.\<close> For each handler, what it does on success (the exact movement of money, the
  rows and the events it leaves), which error it answers otherwise, and that a refused request
  changes no table. For each worker, that it settles what is covered, conserves money and overdraws
  nobody. Invariants by induction over runs: life cycles of settlements, swaps and payments backed by
  transactions; dual control; holds equal to active escrows (a refinement of the holds table by the
  contracts). Each service is proved against steps of the others that leave its tables alone;
  \<open>Interleaving\<close> shows that the others do, so that the invariants hold in every interleaving, and
  that the audit tables only grow. The limiter equals a specification that forgets nothing; the
  publisher loses nothing and drains the outbox; an event is screened once; a signature does not
  depend on order and needs a majority; the replay of the integrity checker is the balance. Each
  downgrade undoes its upgrade; the columns of the ORM are those the scripts leave; the views are
  the balances the services compute; no trigger refuses a write of any service. Where
  the code does not do what it means to, a theorem states what it does.

  \<^bold>\<open>Modelling.\<close> Transactions are atomic steps: a handler or worker pass runs in one session, which
  commits or rolls back; the advisory locks taken are recorded in the state. \<open>created_at\<close> is the start
  of the transaction. Random identifiers, the clock, SHA-256 and MD5 are functions in the state, read
  at a running index; the broker's acknowledgements, the HTTP client, the calls to the nodes and the
  answer of the signing gateway are parameters, quantified over in the theorems; so are the
  identifiers of the seeded keys and whether the driver checks for a type before it creates it. An ORM row is a
  snapshot that is updated by its identifier. \<open>ORDER BY\<close> is a stable sort. Messages are lists of
  fragments, in which decimals are kept as numbers. Loops over rows are structural recursion; the
  endless loops (workers, publisher, consumer) are modelled by their passes, and a run is a number
  of passes or a sequence of polls, so that no fuel is needed.

  \<^bold>\<open>Not modelled.\<close> Primary-key collisions of the append-only tables, the lengths of text columns,
  the effect of the triggers that repeat the status rows (they are built by the model of the script,
  and their assignments are ill-typed, \<open>Catalogue\<close>), JSON floating-point numbers, other forms of ISO
  times than the extended calendar form, transport errors other than the two the proxy names, commit
  failures of the consumer, the values inside a counter or histogram of the metrics library, the
  connection set-up of \<open>migrations/env.py\<close>, process start-up and health endpoints of the single
  services, and the demo script, which only calls the platform and prints.
\<close>

section \<open>From an issuance to its screening\<close>

text \<open>The completion event an issuance leaves in the outbox.\<close>

definition completion_event ::
  "IssueTokensRequest \<Rightarrow> IssuanceResponse \<Rightarrow> world \<Rightarrow> OutboxEvent \<Rightarrow> Event \<Rightarrow> bool" where
  "completion_event req resp s row e \<longleftrightarrow>
     oe_event_type row = ''token.issuance.completed'' \<and> oe_published_at row = None \<and>
     oe_payload row = model_dump e \<and> ev_event_id e \<in> range (rng s) \<and>
     (\<exists>nb. ev_body e = TokenIssuanceCompleted (ir_issuance_ref resp) (iq_account_id req) (iq_currency req)
        (ir_amount resp) nb)"

lemma completion_row:
  assumes "ir_issuance_ref resp = ref" "ir_amount resp = v"
  shows "\<exists>e. completion_event req resp s (outbox_row (rng s) clk now n svc agg ''token.issuance.completed''
    (TokenIssuanceCompleted ref (iq_account_id req) (iq_currency req) v nb)) e"
  using assms by (auto simp: completion_event_def outbox_row_def intro!: exI)

lemma wp_issue_event:
  "wp (issue_tokens req) s
     (\<lambda>resp s'. \<exists>row \<in> set (outbox_events s'). \<exists>e. completion_event req resp s row e) partial"
  by (simp add: issue_tokens_def priv_issue_tokens_def wp_simps completion_row split: option.splits sum.splits)

lemma completion_fields:
  assumes "completion_event req resp s row e"
  shows "str_field (model_dump e) ''event_id'' d = Inr (uuid_str (ev_event_id e))"
    "str_field (model_dump e) ''account_id'' d = Inr (uuid_str (iq_account_id req))"
    "decimal_of (dict_get (model_dump e) ''amount'' j) = Inr (ir_amount resp)"
    "str_field (model_dump e) ''currency'' d = Inr (CurrencyCode_value (iq_currency req))"
  using assms
  by (auto simp: completion_event_def str_field_def model_dump_def dict_get_def decimal_of_def j_uuid_def j_cur_def)

text \<open>A first delivery of the completion event is screened with the account and the amount it names.\<close>

lemma issuance_delivered:
  assumes ev: "completion_event req resp s row e" and ids: "\<forall>n. rng s n < 2 ^ 128"
    and new: "\<not> is_duplicate_event t (uuid_str (ev_event_id e))"
    and run: "handle_event ''token.issuance.completed'' (model_dump e) (t, mon) = (t', mon')"
  shows "\<exists>r. compliance_events t' = compliance_events t @ [r] \<and>
    dict_get (ce_details r) ''account_id'' JNull = JStr (uuid_str (iq_account_id req)) \<and>
    dict_get (ce_details r) ''amount'' JNull = JDec (ir_amount resp) \<and>
    (9500 \<le> usd_equiv (ir_amount resp) (CurrencyCode_value (iq_currency req)) \<longrightarrow> ce_result r = ''fail'')"
proof -
  let ?acct = "uuid_str (iq_account_id req)" and ?cur = "CurrencyCode_value (iq_currency req)"
  obtain u where all: "screen_all (model_dump e) (screenings ''token.issuance.completed'') (u, mon) = (t', mon')"
    and u: "compliance_events u = compliance_events t"
    using first_delivery [OF new run] by blast
  have "ev_event_id e < 2 ^ 128" using ev ids by (auto simp: completion_event_def)
  then have ok: "entity_ok (uuid_str (ev_event_id e))" using parse_uuid_str by (simp add: entity_ok_def)
  have "priv_run_screening ''token_issuance'' (uuid_str (ev_event_id e)) ?acct (ir_amount resp) ?cur ''issuance_screen''
      (u\<lparr>ticks := Suc (ticks u)\<rparr>, mon) = (t', mon')"
    using all by (simp add: screenings_def screen_def completion_fields [OF ev] Let_def)
  from screening_outcome [OF ok this] obtain fs name where
    "screened ''token_issuance'' ?acct (ir_amount resp) ?cur ''issuance_screen'' fs name (u\<lparr>ticks := Suc (ticks u)\<rparr>) t'"
    "verdict fs = ''pass'' \<longrightarrow> usd_equiv (ir_amount resp) ?cur < 9500" by blast
  then show ?thesis using u by (auto simp: screened_def screening_details_def dict_get_def verdict_def split: if_splits)
qed


definition sample_live :: world where
  "sample_live = sample_world\<lparr>rng := (\<lambda>n. 1000 + min n 50)\<rparr>"

lemma sample_live_simps [simp]:
  "rng sample_live n = 1000 + min n 50" "ticks sample_live = 0" "outbox_events sample_live = []"
  "accounts sample_live = accounts sample_world" "journal_entries sample_live = journal_entries sample_world"
  "token_issuances sample_live = []" "transactions sample_live = []"
  by (simp_all add: sample_live_def, simp_all add: sample_world_def)

lemma sample_live_ids: "rng sample_live n < 2 ^ 128"
proof -
  have "rng sample_live n \<le> 1050" by simp
  also have "(1050 :: nat) < 2 ^ 128" by simp
  finally show ?thesis .
qed

lemma sample_live_account [simp]: "get_account sample_live a = get_account sample_world a"
  by (simp add: get_account_def)

lemma sample_live_outbox:
  "wp (issue_tokens sample_issue) sample_live
     (\<lambda>_ s'. distinct (map oe_id (outbox_events s')) \<and> length (outbox_events s') \<le> 100) partial"
  by (simp add: issue_tokens_def priv_issue_tokens_def wp_simps split: option.splits sum.splits)
     (auto simp: sample_issue_def outbox_row_def fresh_ticks_def truthy_def)

lemma sample_live_issues: "\<exists>resp s1. issue_tokens sample_issue sample_live = (Inr resp, s1)"
proof -
  have "issue_refusal sample_live sample_issue = None" "can_issue sample_live (iq_account_id sample_issue) ''ISS-A'' 100"
    by (simp_all add: issue_refusal_def sample_issue_def normalize_def existing_issuance_def
        OMNIBUS_ACCOUNT_ID_def can_issue_def)
  moreover have "iq_idempotency_key sample_issue = Some ''ISS-A''" by (simp add: sample_issue_def)
  ultimately show ?thesis using wp_issue_accepted [OF _ sample_issue_ok(2)] by (simp add: wp_total)
qed


end
